(* ===== verification/Prelude.thy ===== *)
theory Prelude
  imports Main "HOL-Library.Word"
begin

text \<open>
  Shared vocabulary of the development.

  \<^item> \<open>result\<close>: what a Rust function that returns \<^verbatim>\<open>Result<T, E>\<close> can do: return \<open>Ok\<close> or
    \<open>Err\<close>, unwind with a panic (\<open>Panic\<close>), or never return because the thread waits for a
    \<^verbatim>\<open>Mutex\<close> that it holds itself (\<open>Stuck\<close>).
  \<^item> A state monad over \<open>result\<close>. As in Rust, the question mark operator stops at the first error
    and keeps every state change made before it.
  \<^item> A weakest precondition calculus for that monad (\<open>wp\<close>), whose equations are collected in
    \<open>wp_simps\<close>.
  \<^item> \<^verbatim>\<open>HashMap\<close> as an association list (\<open>hm_get\<close>, \<open>hm_put\<close>), with the equality of the key
    type given by a canonical form. The order of the list is the iteration order. Rust leaves that
    order unspecified; lemmas that quantify over the list hold for every order.
  \<^item> Checked conversions between integer types, and the slice operations the sources use.
  \<^item> The locales \<open>dictionary\<close> and \<open>machine\<close>: the two contracts that most components use.
\<close>

named_theorems wp_simps \<open>equations of the weakest precondition calculus\<close>

section \<open>Results\<close>

datatype ('e, 'a) result = Ok 'a | Err 'e | Panic | Stuck

type_synonym byte = "8 word"
type_synonym u16 = "16 word"
type_synonym u32 = "32 word"
type_synonym u64 = "64 word"
type_synonym i64 = "64 word"

type_synonym ('s, 'e, 'a) sm = "'s \<Rightarrow> ('e, 'a) result \<times> 's"

primrec map_err :: "('e \<Rightarrow> 'f) \<Rightarrow> ('e, 'a) result \<Rightarrow> ('f, 'a) result" where
  "map_err f (Ok a) = Ok a"
| "map_err f (Err e) = Err (f e)"
| "map_err f Panic = Panic"
| "map_err f Stuck = Stuck"

primrec is_ok :: "('e, 'a) result \<Rightarrow> bool" where
  "is_ok (Ok a) = True"
| "is_ok (Err e) = False"
| "is_ok Panic = False"
| "is_ok Stuck = False"

definition ok_or :: "'e \<Rightarrow> 'a option \<Rightarrow> ('e, 'a) result" where
  "ok_or e x = (case x of None \<Rightarrow> Err e | Some a \<Rightarrow> Ok a)"

section \<open>The state monad over results\<close>

definition mreturn :: "'a \<Rightarrow> ('s, 'e, 'a) sm" where
  "mreturn a s = (Ok a, s)"

definition mthrow :: "'e \<Rightarrow> ('s, 'e, 'a) sm" where
  "mthrow e s = (Err e, s)"

definition mpanic :: "('s, 'e, 'a) sm" where
  "mpanic s = (Panic, s)"

definition mstuck :: "('s, 'e, 'a) sm" where
  "mstuck s = (Stuck, s)"

definition mbind :: "('s, 'e, 'a) sm \<Rightarrow> ('a \<Rightarrow> ('s, 'e, 'b) sm) \<Rightarrow> ('s, 'e, 'b) sm" where
  "mbind m f s =
     (case fst (m s) of
        Ok a \<Rightarrow> f a (snd (m s))
      | Err e \<Rightarrow> (Err e, snd (m s))
      | Panic \<Rightarrow> (Panic, snd (m s))
      | Stuck \<Rightarrow> (Stuck, snd (m s)))"

definition mlift :: "('e, 'a) result \<Rightarrow> ('s, 'e, 'a) sm" where
  "mlift r s = (r, s)"

definition mget :: "('s, 'e, 's) sm" where
  "mget s = (Ok s, s)"

definition mmodify :: "('s \<Rightarrow> 's) \<Rightarrow> ('s, 'e, unit) sm" where
  "mmodify f s = (Ok (), f s)"

text \<open>Match on the outcome of a call without leaving the function: \<^verbatim>\<open>match m { Ok(a) => .., Err(e) => .. }\<close>.\<close>

definition mcatch ::
  "('s, 'e, 'a) sm \<Rightarrow> ('a \<Rightarrow> ('s, 'f, 'b) sm) \<Rightarrow> ('e \<Rightarrow> ('s, 'f, 'b) sm) \<Rightarrow> ('s, 'f, 'b) sm" where
  "mcatch m f h s =
     (case fst (m s) of
        Ok a \<Rightarrow> f a (snd (m s))
      | Err e \<Rightarrow> h e (snd (m s))
      | Panic \<Rightarrow> (Panic, snd (m s))
      | Stuck \<Rightarrow> (Stuck, snd (m s)))"

text \<open>Run an operation on a part of the state.\<close>

definition mzoom :: "('s \<Rightarrow> 't) \<Rightarrow> ('t \<Rightarrow> 's \<Rightarrow> 's) \<Rightarrow> ('t, 'e, 'a) sm \<Rightarrow> ('s, 'e, 'a) sm" where
  "mzoom g p m s = (fst (m (g s)), p (snd (m (g s))) s)"

text \<open>Run an operation with its error converted, as \<^verbatim>\<open>map_err\<close> or the question mark operator do.\<close>

definition merr :: "('e \<Rightarrow> 'f) \<Rightarrow> ('s, 'e, 'a) sm \<Rightarrow> ('s, 'f, 'a) sm" where
  "merr f m s = (map_err f (fst (m s)), snd (m s))"

text \<open>A \<^verbatim>\<open>for\<close> loop, or a \<^verbatim>\<open>fold\<close> over \<^verbatim>\<open>Result\<close>, whose body may fail.\<close>

primrec mfold :: "('b \<Rightarrow> 'a \<Rightarrow> ('s, 'e, 'b) sm) \<Rightarrow> 'b \<Rightarrow> 'a list \<Rightarrow> ('s, 'e, 'b) sm" where
  "mfold f b [] = mreturn b"
| "mfold f b (x # xs) = mbind (f b x) (\<lambda>b'. mfold f b' xs)"

lemma mbind_Ok [simp]: "fst (m s) = Ok a \<Longrightarrow> mbind m f s = f a (snd (m s))"
  by (simp add: mbind_def)

lemma mbind_Err [simp]: "fst (m s) = Err e \<Longrightarrow> mbind m f s = (Err e, snd (m s))"
  by (simp add: mbind_def)

lemma mbind_Panic [simp]: "fst (m s) = Panic \<Longrightarrow> mbind m f s = (Panic, snd (m s))"
  by (simp add: mbind_def)

lemma mbind_Stuck [simp]: "fst (m s) = Stuck \<Longrightarrow> mbind m f s = (Stuck, snd (m s))"
  by (simp add: mbind_def)

lemma mbind_OkE:
  assumes "mbind m f s = (Ok b, s')"
  obtains a s1 where "m s = (Ok a, s1)" "f a s1 = (Ok b, s')"
  using assms by (cases "m s") (auto simp: mbind_def split: result.splits)

lemmas monad_defs = mreturn_def mthrow_def mpanic_def mstuck_def mlift_def mget_def mmodify_def

lemma mbind_monad_simps [simp]:
  "mbind (mreturn a) f1 s = f1 a s"
  "mbind (mthrow e) f2 s = (Err e, s)"
  "mbind mpanic f3 s = (Panic, s)"
  "mbind mget f4 s = f4 s s"
  "mbind (mmodify g) f5 s = f5 () (g s)"
  by (simp_all add: mbind_def monad_defs)

lemma mbind_assoc: "mbind (mbind m f) g = mbind m (\<lambda>a. mbind (f a) g)"
  by (rule ext) (simp add: mbind_def split: result.split)

lemma mbind_mreturn: "mbind (mreturn a) f = f a"
  by (rule ext) simp

lemma mfold_append: "mfold f b (xs @ ys) = mbind (mfold f b xs) (\<lambda>b'. mfold f b' ys)"
  by (induction xs arbitrary: b) (simp_all add: mbind_assoc mbind_mreturn)

section \<open>Weakest preconditions\<close>

text \<open>
  \<open>wp m Q E s\<close>: running \<open>m\<close> from \<open>s\<close> returns a value and a state that satisfy \<open>Q\<close>, or
  stops early (error, panic, deadlock) in a state that satisfies \<open>E\<close>.
\<close>

definition wp :: "('s, 'e, 'a) sm \<Rightarrow> ('a \<Rightarrow> 's \<Rightarrow> bool) \<Rightarrow> ('s \<Rightarrow> bool) \<Rightarrow> 's \<Rightarrow> bool" where
  "wp m Q E s =
     (case fst (m s) of
        Ok a \<Rightarrow> Q a (snd (m s))
      | Err e \<Rightarrow> E (snd (m s))
      | Panic \<Rightarrow> E (snd (m s))
      | Stuck \<Rightarrow> E (snd (m s)))"

lemma wp_mreturn [wp_simps]: "wp (mreturn a) Q E = Q a"
  by (rule ext) (simp add: wp_def mreturn_def)

lemma wp_mthrow [wp_simps]: "wp (mthrow e) Q E = E"
  by (rule ext) (simp add: wp_def mthrow_def)

lemma wp_mpanic [wp_simps]: "wp mpanic Q E = E"
  by (rule ext) (simp add: wp_def mpanic_def)

lemma wp_mstuck [wp_simps]: "wp mstuck Q E = E"
  by (rule ext) (simp add: wp_def mstuck_def)

lemma wp_mget [wp_simps]: "wp mget Q E = (\<lambda>s. Q s s)"
  by (rule ext) (simp add: wp_def mget_def)

lemma wp_mmodify [wp_simps]: "wp (mmodify f) Q E = (\<lambda>s. Q () (f s))"
  by (rule ext) (simp add: wp_def mmodify_def)

lemma wp_mlift [wp_simps]:
  "wp (mlift r) Q E = (\<lambda>s. case r of Ok a \<Rightarrow> Q a s | Err e \<Rightarrow> E s | Panic \<Rightarrow> E s | Stuck \<Rightarrow> E s)"
  by (rule ext) (simp add: wp_def mlift_def split: result.split)

lemma wp_mbind [wp_simps]: "wp (mbind m f) Q E = wp m (\<lambda>a. wp (f a) Q E) E"
  by (rule ext) (simp add: wp_def mbind_def split: result.split)

lemma wp_mcatch [wp_simps]:
  "wp (mcatch m f h) Q E = (\<lambda>s.
     (case fst (m s) of
        Ok a \<Rightarrow> wp (f a) Q E (snd (m s))
      | Err e \<Rightarrow> wp (h e) Q E (snd (m s))
      | Panic \<Rightarrow> E (snd (m s))
      | Stuck \<Rightarrow> E (snd (m s))))"
  by (rule ext) (simp add: wp_def mcatch_def split: result.split)

lemma wp_mzoom [wp_simps]:
  "wp (mzoom g p m) Q E = (\<lambda>s. wp m (\<lambda>a t. Q a (p t s)) (\<lambda>t. E (p t s)) (g s))"
  by (rule ext) (simp add: wp_def mzoom_def split: result.split)

lemma wp_if [wp_simps]: "wp (if b then m else n) Q E = (\<lambda>s. if b then wp m Q E s else wp n Q E s)"
  by simp

lemma wp_mono:
  "wp m Q E s \<Longrightarrow> (\<And>a s'. Q a s' \<Longrightarrow> Q' a s') \<Longrightarrow> (\<And>s'. E s' \<Longrightarrow> E' s') \<Longrightarrow> wp m Q' E' s"
  by (auto simp: wp_def split: result.splits)

lemma wp_conj:
  "wp m Q E s \<Longrightarrow> wp m Q' E' s \<Longrightarrow> wp m (\<lambda>a s'. Q a s' \<and> Q' a s') (\<lambda>s'. E s' \<and> E' s') s"
  by (auto simp: wp_def split: result.splits)

lemma wp_Ok: "wp m Q E s \<Longrightarrow> m s = (Ok a, s') \<Longrightarrow> Q a s'"
  by (simp add: wp_def)

lemma wp_invariant: "wp m (\<lambda>_. I) I s = I (snd (m s))"
  by (auto simp: wp_def split: result.splits)

lemma wp_mfold:
  assumes "\<And>b x s. x \<in> set xs \<Longrightarrow> J b s \<Longrightarrow> wp (f b x) J E s" and "J b s"
  shows "wp (mfold f b xs) J E s"
  using assms
proof (induction xs arbitrary: b s)
  case Nil
  then show ?case by (simp add: wp_simps)
next
  case (Cons x xs)
  have "wp (f b x) J E s" using Cons.prems by simp
  then have "wp (f b x) (\<lambda>b'. wp (mfold f b' xs) J E) E s"
    by (rule wp_mono) (use Cons in \<open>auto\<close>)
  then show ?case by (simp add: wp_simps)
qed

section \<open>Hash maps\<close>

definition hm_get :: "('k \<Rightarrow> 'c) \<Rightarrow> ('k \<times> 'v) list \<Rightarrow> 'k \<Rightarrow> 'v option" where
  "hm_get c m k = map_of (map (\<lambda>(k', v). (c k', v)) m) (c k)"

text \<open>\<^verbatim>\<open>HashMap::insert\<close>: an equal key stays as it is and only the value is replaced.\<close>

primrec hm_put :: "('k \<Rightarrow> 'c) \<Rightarrow> ('k \<times> 'v) list \<Rightarrow> 'k \<Rightarrow> 'v \<Rightarrow> ('k \<times> 'v) list" where
  "hm_put c [] k v = [(k, v)]"
| "hm_put c (x # m) k v = (if c (fst x) = c k then (fst x, v) # m else x # hm_put c m k v)"

definition hm_keys :: "('k \<Rightarrow> 'c) \<Rightarrow> ('k \<times> 'v) list \<Rightarrow> 'c set" where
  "hm_keys c m = (c \<circ> fst) ` set m"

definition hm_wf :: "('k \<Rightarrow> 'c) \<Rightarrow> ('k \<times> 'v) list \<Rightarrow> bool" where
  "hm_wf c m = distinct (map (c \<circ> fst) m)"

lemma hm_get_Nil [simp]: "hm_get c [] k = None"
  by (simp add: hm_get_def)

lemma hm_get_Cons: "hm_get c (x # m) k = (if c (fst x) = c k then Some (snd x) else hm_get c m k)"
  by (cases x) (simp add: hm_get_def)

lemma hm_get_put [simp]: "hm_get c (hm_put c m k v) k' = (if c k' = c k then Some v else hm_get c m k')"
  by (induction m) (auto simp: hm_get_Cons)

lemma hm_get_put_same [simp]: "hm_get c (hm_put c m k v) k = Some v"
  by simp

lemma hm_keys_put [simp]: "hm_keys c (hm_put c m k v) = insert (c k) (hm_keys c m)"
  by (induction m) (auto simp: hm_keys_def)

lemma hm_keys_Nil [simp]: "hm_keys c [] = {}"
  by (simp add: hm_keys_def)

lemma hm_wf_Nil [simp]: "hm_wf c []"
  by (simp add: hm_wf_def)

lemma hm_wf_put [simp]: "hm_wf c m \<Longrightarrow> hm_wf c (hm_put c m k v)"
proof (induction m)
  case (Cons x m)
  then have "c (fst x) \<notin> hm_keys c m" by (auto simp: hm_wf_def hm_keys_def)
  moreover from this have "c (fst x) \<noteq> c k \<Longrightarrow> c (fst x) \<notin> hm_keys c (hm_put c m k v)" by simp
  ultimately show ?case using Cons by (auto simp: hm_wf_def hm_keys_def image_iff)
qed (simp add: hm_wf_def)

lemma hm_get_keys: "hm_get c m k \<noteq> None \<longleftrightarrow> c k \<in> hm_keys c m"
  by (induction m) (auto simp: hm_get_Cons hm_keys_def)

lemma hm_get_member: "hm_get c m k = Some v \<Longrightarrow> \<exists>k'. (k', v) \<in> set m \<and> c k' = c k"
  by (induction m) (auto simp: hm_get_Cons split: if_splits)

lemma hm_put_values: "x \<in> set (hm_put c m k v) \<Longrightarrow> x \<in> set m \<or> snd x = v"
  by (induction m) (auto split: if_splits)

lemma hm_put_range: "snd ` set (hm_put c m k v) \<subseteq> insert v (snd ` set m)"
  using hm_put_values by fastforce

lemma hm_member_get: "hm_wf c m \<Longrightarrow> (k, v) \<in> set m \<Longrightarrow> hm_get c m k = Some v"
  by (induction m) (auto simp: hm_get_Cons hm_wf_def image_iff)

text \<open>
  The contract a component relies on when it fills a table in a loop: what a lookup returns after
  an insertion. \<open>key\<close> is the canonical form under which the table compares its keys.
\<close>

locale dictionary =
  fixes key :: "'k \<Rightarrow> 'c"
    and get :: "'m \<Rightarrow> 'k \<Rightarrow> 'v option"
    and put :: "'m \<Rightarrow> 'k \<Rightarrow> 'v \<Rightarrow> 'm"
    and new :: "'m"
  assumes get_new: "get new k = None"
    and get_put: "get (put m k v) k' = (if key k' = key k then Some v else get m k')"
begin

text \<open>A loop of insertions: the last insertion under a key is the one a lookup sees.\<close>

lemma get_put_all:
  "get (foldl (\<lambda>m x. put m (f x) (g x)) m xs) k =
     (case find (\<lambda>x. key (f x) = key k) (rev xs) of None \<Rightarrow> get m k | Some x \<Rightarrow> Some (g x))"
proof (induction xs rule: rev_induct)
  case Nil
  then show ?case by simp
next
  case (snoc x xs)
  then show ?case by (simp add: get_put eq_commute)
qed

lemma get_put_all_new:
  "get (foldl (\<lambda>m x. put m (f x) (g x)) new xs) k =
     map_option g (find (\<lambda>x. key (f x) = key k) (rev xs))"
  by (simp add: get_put_all get_new split: option.split)

lemma get_put_all_None:
  "get (foldl (\<lambda>m x. put m (f x) (g x)) new xs) k = None \<longleftrightarrow> (\<forall>x \<in> set xs. key (f x) \<noteq> key k)"
  by (auto simp: get_put_all_new find_None_iff)

lemma get_put_all_Some:
  "get (foldl (\<lambda>m x. put m (f x) (g x)) new xs) k = Some v \<Longrightarrow>
     \<exists>x \<in> set xs. key (f x) = key k \<and> v = g x"
  by (auto simp: get_put_all_new find_Some_iff) (metis nth_mem set_rev length_rev)

end

interpretation hm: dictionary c "hm_get c" "hm_put c" "[]" for c :: "'k \<Rightarrow> 'c"
  by unfold_locales simp_all

section \<open>Transition systems with an invariant\<close>

locale machine =
  fixes step :: "'op \<Rightarrow> 's \<Rightarrow> 's"
    and inv :: "'s \<Rightarrow> bool"
  assumes inv_step: "inv s \<Longrightarrow> inv (step x s)"
begin

lemma inv_run: "inv s \<Longrightarrow> inv (fold step xs s)"
  by (induction xs arbitrary: s) (auto intro: inv_step)

lemma inv_prefix: "inv s \<Longrightarrow> inv (fold step (take n xs) s)"
  by (rule inv_run)

end

section \<open>Tables whose entries evolve independently\<close>

text \<open>
  A run of keyed inputs against a shared state, with the outputs in order.
\<close>

primrec run_all :: "('k \<Rightarrow> 'i \<Rightarrow> 's \<Rightarrow> 'o \<times> 's) \<Rightarrow> ('k \<times> 'i) list \<Rightarrow> 's \<Rightarrow> ('k \<times> 'o) list \<times> 's" where
  "run_all f [] s = ([], s)"
| "run_all f (x # xs) s =
     (let (out, s') = f (fst x) (snd x) s; (outs, s'') = run_all f xs s' in ((fst x, out) # outs, s''))"

text \<open>
  The contract of a table in which an input for a key reads and writes the entry of that key only.
  Whatever the other keys do in between, a key sees the run of its own inputs.
\<close>

locale keyed =
  fixes step :: "'k \<Rightarrow> 'i \<Rightarrow> ('k \<rightharpoonup> 'v) \<Rightarrow> 'o \<times> ('k \<rightharpoonup> 'v)"
    and local_step :: "'k \<Rightarrow> 'i \<Rightarrow> 'v option \<Rightarrow> 'o \<times> 'v option"
  assumes step_local: "step k i m = (fst (local_step k i (m k)), m(k := snd (local_step k i (m k))))"
begin

lemma same_entry:
  assumes "m k = m' k"
  shows "filter (\<lambda>x. fst x = k) (fst (run_all step xs m)) = fst (run_all step (filter (\<lambda>x. fst x = k) xs) m')"
    and "snd (run_all step xs m) k = snd (run_all step (filter (\<lambda>x. fst x = k) xs) m') k"
proof -
  have "filter (\<lambda>x. fst x = k) (fst (run_all step xs m)) = fst (run_all step (filter (\<lambda>x. fst x = k) xs) m') \<and>
    snd (run_all step xs m) k = snd (run_all step (filter (\<lambda>x. fst x = k) xs) m') k"
    using assms
  proof (induction xs arbitrary: m m')
    case (Cons x xs)
    let ?upd = "\<lambda>m. m(fst x := snd (local_step (fst x) (snd x) (m (fst x))))"
    show ?case
    proof (cases "fst x = k")
      case True
      then have "?upd m k = ?upd m' k" using Cons.prems by simp
      from Cons.IH [of "?upd m" "?upd m'", OF this] show ?thesis
        using True Cons.prems by (simp add: step_local Let_def case_prod_unfold del: fun_upd_apply)
    next
      case False
      then have "?upd m k = m' k" using Cons.prems by simp
      from Cons.IH [of "?upd m" m', OF this] show ?thesis
        using False by (simp add: step_local Let_def case_prod_unfold del: fun_upd_apply)
    qed
  qed simp
  then show "filter (\<lambda>x. fst x = k) (fst (run_all step xs m)) = fst (run_all step (filter (\<lambda>x. fst x = k) xs) m')"
    and "snd (run_all step xs m) k = snd (run_all step (filter (\<lambda>x. fst x = k) xs) m') k"
    by blast+
qed

lemma independent:
  "filter (\<lambda>x. fst x = k) (fst (run_all step xs m)) = fst (run_all step (filter (\<lambda>x. fst x = k) xs) m)"
  "snd (run_all step xs m) k = snd (run_all step (filter (\<lambda>x. fst x = k) xs) m) k"
  by (rule same_entry, rule refl)+

end

section \<open>Integer conversions and slices\<close>

text \<open>The largest length a \<^verbatim>\<open>Vec<u8>\<close> can have: \<^verbatim>\<open>isize::MAX\<close> bytes on a 64-bit target.\<close>

definition isize_max :: nat where
  "isize_max = 2 ^ 63 - 1"

definition vec_resize :: "nat \<Rightarrow> 'a \<Rightarrow> 'a list \<Rightarrow> ('e, 'a list) result" where
  "vec_resize n x xs =
     (if n > isize_max then Panic
      else Ok (take n xs @ replicate (n - length xs) x))"

lemma vec_resize_length: "vec_resize n x xs = Ok ys \<Longrightarrow> length ys = n \<and> n \<le> isize_max"
  by (auto simp: vec_resize_def min_def split: if_splits)

definition u32_try_from_usize :: "'e \<Rightarrow> nat \<Rightarrow> ('e, u32) result" where
  "u32_try_from_usize e n = (if n < 2 ^ 32 then Ok (of_nat n) else Err e)"

definition u32_try_from_u64 :: "'e \<Rightarrow> u64 \<Rightarrow> ('e, u32) result" where
  "u32_try_from_u64 e w = (if unat w < 2 ^ 32 then Ok (of_nat (unat w)) else Err e)"

definition u64_try_from_i64 :: "'e \<Rightarrow> i64 \<Rightarrow> ('e, u64) result" where
  "u64_try_from_i64 e w = (if sint w < 0 then Err e else Ok w)"

text \<open>\<^verbatim>\<open>i64::abs\<close> without overflow checks: \<^verbatim>\<open>i64::MIN\<close> is its own absolute value.\<close>

definition i64_abs :: "i64 \<Rightarrow> i64" where
  "i64_abs w = (if sint w < 0 then - w else w)"

definition checked_add_u64 :: "u64 \<Rightarrow> u64 \<Rightarrow> u64 option" where
  "checked_add_u64 a b = (if unat a + unat b < 2 ^ 64 then Some (a + b) else None)"

text \<open>\<^verbatim>\<open>xs[off..off + buf.len()].copy_from_slice(buf)\<close>, when the range is inside \<open>xs\<close>.\<close>

definition copy_at :: "nat \<Rightarrow> 'a list \<Rightarrow> 'a list \<Rightarrow> 'a list" where
  "copy_at off buf xs = take off xs @ buf @ drop (off + length buf) xs"

lemma length_copy_at [simp]: "off + length buf \<le> length xs \<Longrightarrow> length (copy_at off buf xs) = length xs"
  by (simp add: copy_at_def)

lemma take_drop_copy_at [simp]:
  "off + length buf \<le> length xs \<Longrightarrow> take (length buf) (drop off (copy_at off buf xs)) = buf"
  by (simp add: copy_at_def)

lemma nth_copy_at:
  assumes "off + length buf \<le> length xs" and "i < length xs"
  shows "copy_at off buf xs ! i =
    (if off \<le> i \<and> i < off + length buf then buf ! (i - off) else xs ! i)"
  using assms by (auto simp: copy_at_def nth_append)

lemma copy_at_disjoint:
  assumes "a + length xs \<le> length m" and "b + n \<le> length m" and "a + length xs \<le> b \<or> b + n \<le> a"
  shows "take n (drop b (copy_at a xs m)) = take n (drop b m)"
  using assms by (intro nth_equalityI) (auto simp: nth_copy_at)

lemma unat_of_nat_64 [simp]: "n < 2 ^ 64 \<Longrightarrow> unat (of_nat n :: u64) = n"
  by (simp add: unat_of_nat take_bit_nat_eq_self)

lemma isize_max_less: "n \<le> isize_max \<Longrightarrow> n < 2 ^ 63" "n \<le> isize_max \<Longrightarrow> n < 2 ^ 64"
  by (simp_all add: isize_max_def)

lemma unat_u32_less: "unat (x :: u32) < 2 ^ 32"
proof -
  have "unat x < 2 ^ LENGTH(32)" by (rule unsigned_less)
  then show ?thesis by simp
qed

lemma find_append: "find P (xs @ ys) = (case find P xs of None \<Rightarrow> find P ys | Some x \<Rightarrow> Some x)"
  by (induction xs) auto

lemma find_False [simp]: "find (\<lambda>_. False) xs = None"
  by (induction xs) auto

section \<open>Results in sequence\<close>

primrec rbind :: "('e, 'a) result \<Rightarrow> ('a \<Rightarrow> ('e, 'b) result) \<Rightarrow> ('e, 'b) result" where
  "rbind (Ok a) f = f a"
| "rbind (Err e) f = Err e"
| "rbind Panic f = Panic"
| "rbind Stuck f = Stuck"

lemma rbind_OkE: "rbind r f = Ok b \<Longrightarrow> (\<And>a. r = Ok a \<Longrightarrow> f a = Ok b \<Longrightarrow> P) \<Longrightarrow> P"
  by (cases r) auto

text \<open>\<^verbatim>\<open>collect\<close> of an iterator of results: the first failure stops it.\<close>

fun collect_result :: "('e, 'a) result list \<Rightarrow> ('e, 'a list) result" where
  "collect_result [] = Ok []"
| "collect_result (Ok x # rs) =
     (case collect_result rs of Ok xs \<Rightarrow> Ok (x # xs) | r \<Rightarrow> r)"
| "collect_result (Err e # rs) = Err e"
| "collect_result (Panic # rs) = Panic"
| "collect_result (Stuck # rs) = Stuck"

lemma collect_result_map: "(\<And>x. x \<in> set xs \<Longrightarrow> f x = Ok (g x)) \<Longrightarrow> collect_result (map f xs) = Ok (map g xs)"
  by (induction xs) simp_all

lemma rbind_Ok: "rbind r f = Ok y \<longleftrightarrow> (\<exists>x. r = Ok x \<and> f x = Ok y)"
  by (cases r) simp_all

lemma collect_result_all:
  "collect_result rs = Ok xs \<Longrightarrow> (\<And>x. Ok x \<in> set rs \<Longrightarrow> P x) \<Longrightarrow> list_all P xs"
  by (induction rs arbitrary: xs rule: collect_result.induct) (auto split: result.splits)

section \<open>Bytes and text\<close>

text \<open>A string is the list of the bytes of its UTF-8 encoding.\<close>

definition as_bytes :: "string \<Rightarrow> byte list" where
  "as_bytes s = map of_char s"

text \<open>Little-endian numbers of \<open>n\<close> bytes, as in \<^verbatim>\<open>to_le_bytes\<close> and \<^verbatim>\<open>from_le_bytes\<close>.\<close>

definition le_bytes :: "nat \<Rightarrow> nat \<Rightarrow> byte list" where
  "le_bytes n x = map (\<lambda>i. of_nat (x div 256 ^ i)) [0..<n]"

primrec from_le :: "byte list \<Rightarrow> nat" where
  "from_le [] = 0"
| "from_le (b # bs) = unat b + 256 * from_le bs"

definition to_le_bytes :: "u32 \<Rightarrow> byte list" where
  "to_le_bytes x = le_bytes 4 (unat x)"

lemma length_le_bytes [simp]: "length (le_bytes n x) = n"
  by (simp add: le_bytes_def)

lemma le_bytes_Suc: "le_bytes (Suc n) x = of_nat x # le_bytes n (x div 256)"
proof -
  have "[0..<Suc n] = 0 # map Suc [0..<n]" by (simp add: map_Suc_upt upt_conv_Cons del: upt_Suc)
  then show ?thesis by (simp add: le_bytes_def div_mult2_eq del: upt_Suc)
qed

lemma from_le_bytes [simp]: "from_le (le_bytes n x) = x mod 256 ^ n"
proof (induction n arbitrary: x)
  case (Suc n)
  have "unat (of_nat x :: byte) = x mod 256" by (simp add: unsigned_of_nat take_bit_eq_mod)
  then show ?case using Suc.IH [of "x div 256"] by (simp add: le_bytes_Suc mod_mult2_eq)
qed (simp add: le_bytes_def)

text \<open>Decimal notation.\<close>

function show_nat :: "nat \<Rightarrow> string" where
  "show_nat n = (if n < 10 then [char_of (48 + n)] else show_nat (n div 10) @ [char_of (48 + n mod 10)])"
  by pat_completeness auto
termination by (relation "measure id") auto

declare show_nat.simps [simp del]

end
