(* ===== verification/Paths.thy ===== *)
theory Paths
  imports Prelude
begin

text \<open>
  The part of \<^verbatim>\<open>std::path\<close> the sources use, for Unix paths. A path is the string the caller
  passed; \<open>components\<close> parses it the way \<^verbatim>\<open>Path::components\<close> does, and two paths are equal when
  their components are. \<^verbatim>\<open>parent\<close>, \<^verbatim>\<open>ancestors\<close> and \<^verbatim>\<open>strip_prefix\<close> return slices of the original
  string in Rust; here they return the canonical spelling \<open>path_of\<close> of the same components. No
  caller can tell the difference: the sources only take the components of these results, or store
  the last one, which both spell the same way.
\<close>

section \<open>Splitting and joining strings\<close>

fun split_on :: "char \<Rightarrow> string \<Rightarrow> string list" where
  "split_on c [] = [[]]"
| "split_on c (x # xs) =
     (if x = c then [] # split_on c xs
      else (case split_on c xs of [] \<Rightarrow> [[x]] | y # ys \<Rightarrow> (x # y) # ys))"

fun join_with :: "char \<Rightarrow> string list \<Rightarrow> string" where
  "join_with c [] = []"
| "join_with c [x] = x"
| "join_with c (x # y # ys) = x @ c # join_with c (y # ys)"

lemma split_on_nonempty [simp]: "split_on c xs \<noteq> []"
  by (induction xs) (auto split: list.split)

lemma split_on_no_sep: "c \<notin> set xs \<Longrightarrow> split_on c xs = [xs]"
  by (induction xs) auto

lemma split_on_append_sep: "c \<notin> set xs \<Longrightarrow> split_on c (xs @ c # ys) = xs # split_on c ys"
  by (induction xs) auto

lemma split_on_parts: "\<forall>p \<in> set (split_on c xs). c \<notin> set p"
  by (induction xs) (auto split: list.split)

lemma join_split [simp]: "join_with c (split_on c xs) = xs"
proof (induction xs)
  case (Cons x xs)
  obtain y ys where "split_on c xs = y # ys" by (cases "split_on c xs") auto
  with Cons show ?case by (cases ys) auto
qed simp

lemma split_join:
  "xs \<noteq> [] \<Longrightarrow> \<forall>p \<in> set xs. c \<notin> set p \<Longrightarrow> split_on c (join_with c xs) = xs"
  by (induction c xs rule: join_with.induct) (auto simp: split_on_no_sep split_on_append_sep)

section \<open>Components\<close>

type_synonym path = string

datatype component = RootDir | CurDir | ParentDir | Normal string

definition has_root :: "path \<Rightarrow> bool" where
  "has_root p = (case p of [] \<Rightarrow> False | c # _ \<Rightarrow> c = CHR ''/'')"

definition parse_component :: "string \<Rightarrow> component" where
  "parse_component s = (if s = ''.'' then CurDir else if s = ''..'' then ParentDir else Normal s)"

definition component_str :: "component \<Rightarrow> string" where
  "component_str c =
     (case c of RootDir \<Rightarrow> ''/'' | CurDir \<Rightarrow> ''.'' | ParentDir \<Rightarrow> ''..'' | Normal s \<Rightarrow> s)"

text \<open>Empty parts disappear, and so does a dot unless it starts a relative path.\<close>

definition components :: "path \<Rightarrow> component list" where
  "components p =
     (let parts = split_on (CHR ''/'') p;
          body = map parse_component (filter (\<lambda>s. s \<noteq> [] \<and> s \<noteq> ''.'') parts)
      in if has_root p then RootDir # body
         else if hd parts = ''.'' then CurDir # body
         else body)"

definition path_eq :: "path \<Rightarrow> path \<Rightarrow> bool" where
  "path_eq p q = (components p = components q)"

definition join_path :: "component list \<Rightarrow> path" where
  "join_path cs = join_with (CHR ''/'') (map component_str cs)"

definition path_of :: "component list \<Rightarrow> path" where
  "path_of cs = (case cs of RootDir # cs' \<Rightarrow> CHR ''/'' # join_path cs' | _ \<Rightarrow> join_path cs)"

text \<open>\<^verbatim>\<open>Path::parent\<close>: there is none for the empty path and for one that ends in the root.\<close>

definition parent_components :: "component list \<Rightarrow> component list option" where
  "parent_components cs = (if cs = [] \<or> last cs = RootDir then None else Some (butlast cs))"

definition file_name :: "path \<Rightarrow> string option" where
  "file_name p =
     (if components p = [] then None
      else case last (components p) of Normal s \<Rightarrow> Some s | _ \<Rightarrow> None)"

function ancestors :: "component list \<Rightarrow> component list list" where
  "ancestors cs = cs # (case parent_components cs of None \<Rightarrow> [] | Some cs' \<Rightarrow> ancestors cs')"
  by pat_completeness auto
termination
  by (relation "measure length") (auto simp: parent_components_def split: if_splits)

declare ancestors.simps [simp del]

fun strip_prefix :: "component list \<Rightarrow> component list \<Rightarrow> component list option" where
  "strip_prefix cs [] = Some cs"
| "strip_prefix [] (p # ps) = None"
| "strip_prefix (c # cs) (p # ps) = (if c = p then strip_prefix cs ps else None)"

text \<open>\<^verbatim>\<open>strip_root_slash\<close>: \<^verbatim>\<open>path.strip_prefix("/").unwrap_or(path)\<close>.\<close>

definition strip_root_slash :: "path \<Rightarrow> path" where
  "strip_root_slash p =
     (case strip_prefix (components p) (components ''/'') of
        Some cs \<Rightarrow> path_of cs
      | None \<Rightarrow> p)"

section \<open>Component lists that paths can have\<close>

definition plain :: "component \<Rightarrow> bool" where
  "plain c = (case c of ParentDir \<Rightarrow> True
      | Normal s \<Rightarrow> s \<noteq> [] \<and> s \<noteq> ''.'' \<and> s \<noteq> ''..'' \<and> CHR ''/'' \<notin> set s
      | _ \<Rightarrow> False)"

definition wf_components :: "component list \<Rightarrow> bool" where
  "wf_components cs =
     (case cs of [] \<Rightarrow> True
      | c # cs' \<Rightarrow> (c = RootDir \<or> c = CurDir \<or> plain c) \<and> list_all plain cs')"

lemma plain_simps [simp]:
  "\<not> plain RootDir" "\<not> plain CurDir" "plain ParentDir"
  "plain (Normal s) = (s \<noteq> [] \<and> s \<noteq> ''.'' \<and> s \<noteq> ''..'' \<and> CHR ''/'' \<notin> set s)"
  by (simp_all add: plain_def)

lemma plain_parse [simp]:
  "CHR ''/'' \<notin> set s \<Longrightarrow> s \<noteq> [] \<Longrightarrow> s \<noteq> ''.'' \<Longrightarrow> plain (parse_component s)"
  by (simp add: parse_component_def)

lemma parse_component_str [simp]: "plain c \<Longrightarrow> parse_component (component_str c) = c"
  by (cases c) (auto simp: parse_component_def component_str_def)

lemma plain_component_str:
  "plain c \<Longrightarrow> component_str c \<noteq> [] \<and> component_str c \<noteq> ''.'' \<and> CHR ''/'' \<notin> set (component_str c)"
  by (cases c) (auto simp: component_str_def)

lemma wf_components_components [simp]: "wf_components (components p)"
proof -
  have "list_all plain (map parse_component
          (filter (\<lambda>s. s \<noteq> [] \<and> s \<noteq> ''.'') (split_on (CHR ''/'') p)))"
    using split_on_parts [of "CHR ''/''" p] by (auto simp: list_all_iff)
  then show ?thesis
    by (auto simp: components_def wf_components_def Let_def split: list.split)
qed

lemma has_root_parts: "has_root p \<Longrightarrow> hd (split_on (CHR ''/'') p) = []"
  by (cases p) (auto simp: has_root_def)

definition namelike :: "component \<Rightarrow> bool" where
  "namelike c = (c = CurDir \<or> plain c)"

lemma namelike_str: "namelike c \<Longrightarrow> component_str c \<noteq> [] \<and> CHR ''/'' \<notin> set (component_str c)"
  by (cases c) (auto simp: namelike_def component_str_def)

lemma split_join_path:
  assumes "list_all namelike cs" and "cs \<noteq> []"
  shows "split_on (CHR ''/'') (join_path cs) = map component_str cs" and "\<not> has_root (join_path cs)"
proof -
  have "\<forall>p \<in> set (map component_str cs). CHR ''/'' \<notin> set p"
    using assms(1) namelike_str by (auto simp: list_all_iff)
  with assms(2) show *: "split_on (CHR ''/'') (join_path cs) = map component_str cs"
    by (simp add: join_path_def split_join)
  have "hd (map component_str cs) \<noteq> []"
    using assms namelike_str by (cases cs) auto
  with * show "\<not> has_root (join_path cs)" using has_root_parts by fastforce
qed

lemma parse_plain_parts [simp]:
  "list_all plain cs \<Longrightarrow>
     map parse_component (filter (\<lambda>s. s \<noteq> [] \<and> s \<noteq> ''.'') (map component_str cs)) = cs"
  using plain_component_str by (induction cs) auto

lemma list_all_namelike: "list_all plain cs \<Longrightarrow> list_all namelike cs"
  by (auto simp: list_all_iff namelike_def)

lemma body_parts:
  "list_all plain cs \<Longrightarrow> map parse_component
     (filter (\<lambda>s. s \<noteq> [] \<and> s \<noteq> ''.'') (split_on (CHR ''/'') (join_path cs))) = cs"
proof (cases "cs = []")
  case True
  then show ?thesis by (simp add: join_path_def)
next
  case False
  then show "list_all plain cs \<Longrightarrow> ?thesis" by (simp add: split_join_path list_all_namelike)
qed

lemma components_path_of [simp]:
  assumes "wf_components cs"
  shows "components (path_of cs) = cs"
proof (cases cs)
  case Nil
  then show ?thesis by (simp add: path_of_def join_path_def components_def has_root_def)
next
  case (Cons c cs')
  with assms have rest: "list_all plain cs'" by (simp add: wf_components_def)
  show ?thesis
  proof (cases "c = RootDir")
    case True
    then show ?thesis using Cons rest
      by (simp add: path_of_def components_def has_root_def Let_def body_parts)
  next
    case False
    with assms Cons have named: "list_all namelike cs"
      by (auto simp: wf_components_def namelike_def list_all_namelike [OF rest])
    have "path_of cs = join_path cs" using Cons False by (simp add: path_of_def split: component.split)
    moreover have "c = CurDir \<or> plain c" using assms Cons False by (simp add: wf_components_def)
    ultimately show ?thesis using split_join_path [OF named] Cons rest plain_component_str [of c]
      by (auto simp: components_def Let_def) (simp add: component_str_def)+
  qed
qed

lemma path_eq_refl [simp]: "path_eq p p"
  by (simp add: path_eq_def)

section \<open>Ancestors and prefixes\<close>

lemma strip_prefix_append [simp]: "strip_prefix (ps @ cs) ps = Some cs"
  by (induction ps) auto

lemma strip_prefix_Some: "strip_prefix cs ps = Some r \<longleftrightarrow> cs = ps @ r"
  by (induction cs ps rule: strip_prefix.induct) auto

lemma parent_components_prefix: "parent_components cs = Some ps \<Longrightarrow> \<exists>c. cs = ps @ [c] \<and> c \<noteq> RootDir"
  by (auto simp: parent_components_def split: if_splits) (metis append_butlast_last_id)

lemma ancestors_prefix: "ps \<in> set (ancestors cs) \<Longrightarrow> \<exists>r. cs = ps @ r"
proof (induction cs rule: ancestors.induct)
  case (1 cs)
  show ?case
  proof (cases "parent_components cs")
    case None
    with "1.prems" show ?thesis by (simp add: ancestors.simps [of cs])
  next
    case (Some qs)
    with "1" have "ps = cs \<or> (\<exists>r. qs = ps @ r)" by (auto simp: ancestors.simps [of cs])
    then show ?thesis using parent_components_prefix [OF Some] by auto
  qed
qed

lemma wf_components_suffix: "wf_components (ps @ r) \<Longrightarrow> ps \<noteq> [] \<Longrightarrow> list_all plain r"
  by (cases ps) (auto simp: wf_components_def)

lemma wf_components_append: "wf_components (ps @ r) \<Longrightarrow> wf_components r"
  by (cases ps; cases r) (auto simp: wf_components_def)

lemma wf_components_prefix: "wf_components (ps @ r) \<Longrightarrow> wf_components ps"
  by (cases ps) (auto simp: wf_components_def)

lemma components_parts [simp]:
  "components ''/'' = [RootDir]" "components ''.'' = [CurDir]" "components ''..'' = [ParentDir]"
  "components [] = []"
  by (simp_all add: components_def has_root_def Let_def parse_component_def)

lemma components_normal [simp]: "plain (Normal s) \<Longrightarrow> components s = [Normal s]"
  using components_path_of [of "[Normal s]"]
  by (simp add: wf_components_def path_of_def join_path_def component_str_def)

lemma components_component_str:
  "c = RootDir \<or> c = CurDir \<or> plain c \<Longrightarrow> components (component_str c) = [c]"
  by (cases c) (auto simp: component_str_def)

end
