(* ===== verification/WasiTypes.thy ===== *)
theory WasiTypes
  imports Paths
begin

text \<open>
  The types the sources take from the crate \<^verbatim>\<open>wasi-types\<close>, a git submodule that is not part of the
  repository. Enumerations carry the variants the sources name (the WASI snapshot documents more);
  a bit-flag type is the set of its flags, so \<^verbatim>\<open>contains\<close> is inclusion, \<^verbatim>\<open>&\<close> is intersection,
  \<^verbatim>\<open>|\<close> is union and \<^verbatim>\<open>Rights::all()\<close> is the set of all flags. The numeric encoding of \<^verbatim>\<open>Rights\<close>
  is a parameter (\<open>rights_codec\<close>) of every definition that converts between numbers and rights.
\<close>

section \<open>Errors, file types, flags\<close>

datatype ErrNo =
  Access | Again | BadF | Busy | Canceled | Exist | IlSeq | Inval | IsDir | NFile | NameTooLong
  | NoEnt | NoMem | NoSys | NotDir | SPipe | Success

datatype FileType = Unknown | DirectoryType | RegularFile

datatype Advice = NormalAdvice | OtherAdvice byte

datatype Whence = Current | End | Start

datatype SetTimeFlag = ATIME | ATIME_NOW | MTIME | MTIME_NOW

datatype OpenFlag = CREATE | DIRECTORY | EXCL | TRUNC

type_synonym FdFlags = u16
type_synonym LookupFlags = u32
type_synonym Timestamp = u64
type_synonym FileSize = u64
type_synonym FileDelta = i64
type_synonym Inode = u64
type_synonym Fd = u32
type_synonym DirCookie = u64

section \<open>Rights\<close>

datatype Right =
  FD_ADVISE | FD_DATASYNC | FD_EXECUTE | FD_FDSTAT_SET_FLAGS | FD_FILESTAT_SET_SIZE
  | FD_FILESTAT_SET_TIMES | FD_READ | FD_READDIR | FD_SEEK | FD_SYNC | FD_TELL | FD_WRITE
  | PATH_CREATE_DIRECTORY | PATH_CREATE_FILE | PATH_FILESTAT_GET | PATH_FILESTAT_SET_SIZE
  | PATH_FILESTAT_SET_TIMES | PATH_LINK_SOURCE | PATH_LINK_TARGET | PATH_OPEN | PATH_READLINK
  | PATH_REMOVE_DIRECTORY | PATH_RENAME_SOURCE | PATH_RENAME_TARGET | PATH_SYMLINK
  | PATH_UNLINK_FILE | SOCK_SHUTDOWN

type_synonym Rights = "Right set"

abbreviation all_rights :: Rights where
  "all_rights \<equiv> UNIV"

text \<open>
  The conversions of the bit-flag type: \<^verbatim>\<open>Rights::bits\<close> (also \<^verbatim>\<open>u64::from\<close>), \<^verbatim>\<open>Rights::from_bits\<close>
  and \<^verbatim>\<open>Rights::from_bits_truncate\<close>.
\<close>

record rights_codec =
  rights_bits :: "Rights \<Rightarrow> u64"
  rights_from_bits :: "u64 \<Rightarrow> Rights option"
  rights_from_bits_truncate :: "u64 \<Rightarrow> Rights"

text \<open>What the documentation of the bit-flag type promises, and that every flag fits in 32 bits.\<close>

definition codec_ok :: "rights_codec \<Rightarrow> bool" where
  "codec_ok W \<longleftrightarrow>
     (\<forall>r. rights_from_bits W (rights_bits W r) = Some r) \<and>
     (\<forall>r. rights_from_bits_truncate W (rights_bits W r) = r) \<and>
     (\<forall>r. unat (rights_bits W r) < 2 ^ 32)"

text \<open>
  A concrete codec: the flags numbered in the order above. It shows that the assumptions on the
  parameter can hold, and serves as its instance in examples.
\<close>

definition right_list :: "Right list" where
  "right_list = [FD_ADVISE, FD_DATASYNC, FD_EXECUTE, FD_FDSTAT_SET_FLAGS, FD_FILESTAT_SET_SIZE,
     FD_FILESTAT_SET_TIMES, FD_READ, FD_READDIR, FD_SEEK, FD_SYNC, FD_TELL, FD_WRITE,
     PATH_CREATE_DIRECTORY, PATH_CREATE_FILE, PATH_FILESTAT_GET, PATH_FILESTAT_SET_SIZE,
     PATH_FILESTAT_SET_TIMES, PATH_LINK_SOURCE, PATH_LINK_TARGET, PATH_OPEN, PATH_READLINK,
     PATH_REMOVE_DIRECTORY, PATH_RENAME_SOURCE, PATH_RENAME_TARGET, PATH_SYMLINK,
     PATH_UNLINK_FILE, SOCK_SHUTDOWN]"

lemma right_list: "set right_list = UNIV" "distinct right_list" "length right_list = 27"
proof -
  have "x \<in> set right_list" for x by (cases x) (simp_all add: right_list_def)
  then show "set right_list = UNIV" by auto
qed (simp_all add: right_list_def)

definition flag_bits :: "Rights \<Rightarrow> u64" where
  "flag_bits r = horner_sum of_bool 2 (map (\<lambda>x. x \<in> r) right_list)"

definition flag_rights :: "u64 \<Rightarrow> Rights" where
  "flag_rights w = set (map snd (filter (\<lambda>(n, x). bit w n) (List.enumerate 0 right_list)))"

definition flag_codec :: rights_codec where
  "flag_codec = \<lparr>rights_bits = flag_bits,
     rights_from_bits = (\<lambda>w. if flag_bits (flag_rights w) = w then Some (flag_rights w) else None),
     rights_from_bits_truncate = flag_rights\<rparr>"

lemma bit_flag_bits: "bit (flag_bits r) n \<longleftrightarrow> n < 27 \<and> right_list ! n \<in> r"
  by (auto simp: flag_bits_def bit_horner_sum_bit_word_iff right_list(3))

lemma flag_rights_bits [simp]: "flag_rights (flag_bits r) = r"
proof -
  have "x \<in> flag_rights (flag_bits r) \<longleftrightarrow> x \<in> r" for x
  proof -
    obtain n where "n < length right_list" "right_list ! n = x"
      using right_list(1) by (metis UNIV_I in_set_conv_nth)
    then show ?thesis using right_list(3)
      by (force simp: flag_rights_def bit_flag_bits in_set_enumerate_eq)
  qed
  then show ?thesis by blast
qed

lemma flag_codec_ok: "codec_ok flag_codec"
proof -
  have "take_bit 32 (flag_bits r) = flag_bits r" for r
    by (rule bit_word_eqI) (auto simp: bit_take_bit_iff bit_flag_bits)
  then have "unat (flag_bits r) < 2 ^ 32" for r
    by (metis unsigned_take_bit_eq take_bit_nat_less_exp)
  then show ?thesis by (simp add: codec_ok_def flag_codec_def)
qed
section \<open>Structures\<close>

record FdStat =
  fd_file_type :: FileType
  fd_flags :: FdFlags
  rights_base :: Rights
  rights_inheriting :: Rights

record FileStat =
  stat_device :: u64
  stat_inode :: Inode
  stat_file_type :: FileType
  stat_num_links :: u64
  stat_file_size :: FileSize
  stat_atime :: Timestamp
  stat_mtime :: Timestamp
  stat_ctime :: Timestamp

record DirEnt =
  dirent_next :: DirCookie
  dirent_inode :: Inode
  dirent_name_len :: u32
  dirent_file_type :: FileType

end
