(* ===== verification/Inodes.thy ===== *)
theory Inodes
  imports WasiTypes
begin

text \<open>
  The inode layer of \<^verbatim>\<open>execution-engine/src/fs.rs\<close>: \<open>InodeImpl\<close>, \<open>InodeEntry\<close> and \<open>InodeTable\<close>
  with all their operations, the invariant \<open>inode_inv\<close> of the table, and the proof that every
  operation keeps it.

  A service is behind an \<^verbatim>\<open>Arc<Mutex<Box<dyn Service>>>\<close>. \<open>Service\<close> is such a reference; the two
  objects that exist are the ones \<^verbatim>\<open>FileSystem::new\<close> allocates. The mutable state of the AES object
  is the field \<open>aes_service\<close> of the table, since every handle reaches it through the table.
\<close>

section \<open>Data\<close>

datatype Service = PostcardService | AesService

record AesCounterModeService =
  aes_key :: "byte list"
  aes_iv :: "byte list"
  aes_input_path :: path
  aes_output_path :: path
  aes_is_encryption :: bool

definition aes_new :: AesCounterModeService where
  "aes_new = \<lparr>aes_key = replicate 16 0, aes_iv = replicate 16 0, aes_input_path = [],
     aes_output_path = [], aes_is_encryption = False\<rparr>"

datatype InodeImpl =
  NativeModule Service "byte list"
  | File "byte list"
  | Directory "(path \<times> Inode) list"

record InodeEntry =
  file_stat :: FileStat
  node_data :: InodeImpl

section \<open>Operations of InodeImpl\<close>

definition new_directory :: "Inode \<Rightarrow> Inode \<Rightarrow> InodeImpl" where
  "new_directory current parent =
     Directory (hm_put components (hm_put components [] ''.'' current) ''..'' parent)"

fun impl_resize_file :: "FileSize \<Rightarrow> byte \<Rightarrow> InodeImpl \<Rightarrow> (ErrNo, InodeImpl) result" where
  "impl_resize_file sz fill (NativeModule s b) =
     (case vec_resize (unat sz) fill b of
        Ok b' \<Rightarrow> Ok (NativeModule s b') | Err e \<Rightarrow> Err e | Panic \<Rightarrow> Panic | Stuck \<Rightarrow> Stuck)"
| "impl_resize_file sz fill (File b) =
     (case vec_resize (unat sz) fill b of
        Ok b' \<Rightarrow> Ok (File b') | Err e \<Rightarrow> Err e | Panic \<Rightarrow> Panic | Stuck \<Rightarrow> Stuck)"
| "impl_resize_file sz fill (Directory d) = Err IsDir"

text \<open>
  \<open>buf\<close> is the buffer of the caller; the result is the number of bytes read and the buffer
  afterwards. \<^verbatim>\<open>split_at\<close> panics when the offset is past the end.
\<close>

definition read_bytes_from_offset ::
  "byte list \<Rightarrow> byte list \<Rightarrow> FileSize \<Rightarrow> (ErrNo, nat \<times> byte list) result" where
  "read_bytes_from_offset bytes buf offset =
     (if unat offset > length bytes then Panic
      else let to_read = drop (unat offset) bytes;
               read_length = min (length buf) (length to_read)
           in Ok (read_length, copy_at 0 (take read_length to_read) buf))"

fun impl_read_file :: "InodeImpl \<Rightarrow> byte list \<Rightarrow> FileSize \<Rightarrow> (ErrNo, nat \<times> byte list) result" where
  "impl_read_file (File b) buf offset = read_bytes_from_offset b buf offset"
| "impl_read_file (NativeModule s b) buf offset = read_bytes_from_offset b buf offset"
| "impl_read_file (Directory d) buf offset = Err IsDir"

text \<open>
  The sum of the offset and the length wraps around in a release build. The slice
  \<^verbatim>\<open>bytes[offset..offset + len]\<close> panics when its start is after its end or its end past the file,
  and \<^verbatim>\<open>copy_from_slice\<close> panics when the lengths differ.
\<close>

definition write_bytes :: "byte list \<Rightarrow> byte list \<Rightarrow> FileSize \<Rightarrow> (ErrNo, byte list) result" where
  "write_bytes bytes buf offset =
     (let end_off = offset + of_nat (length buf) in
      case (if unat end_off > length bytes then vec_resize (unat end_off) 0 bytes else Ok bytes) of
        Ok bytes' \<Rightarrow>
          if offset \<le> end_off \<and> unat end_off \<le> length bytes' \<and> unat end_off - unat offset = length buf
          then Ok (copy_at (unat offset) buf bytes') else Panic
      | Err e \<Rightarrow> Err e | Panic \<Rightarrow> Panic | Stuck \<Rightarrow> Stuck)"

fun impl_write_file :: "byte list \<Rightarrow> FileSize \<Rightarrow> InodeImpl \<Rightarrow> (ErrNo, nat \<times> InodeImpl) result" where
  "impl_write_file buf offset (File b) =
     (case write_bytes b buf offset of
        Ok b' \<Rightarrow> Ok (length buf, File b') | Err e \<Rightarrow> Err e | Panic \<Rightarrow> Panic | Stuck \<Rightarrow> Stuck)"
| "impl_write_file buf offset (NativeModule s b) =
     (case write_bytes b buf offset of
        Ok b' \<Rightarrow> Ok (length buf, NativeModule s b') | Err e \<Rightarrow> Err e | Panic \<Rightarrow> Panic | Stuck \<Rightarrow> Stuck)"
| "impl_write_file buf offset (Directory d) = Err IsDir"

fun impl_truncate_file :: "InodeImpl \<Rightarrow> (ErrNo, InodeImpl) result" where
  "impl_truncate_file (File b) = Ok (File [])"
| "impl_truncate_file (NativeModule s b) = Ok (NativeModule s [])"
| "impl_truncate_file (Directory d) = Err IsDir"

fun impl_insert :: "path \<Rightarrow> Inode \<Rightarrow> InodeImpl \<Rightarrow> (ErrNo, InodeImpl) result" where
  "impl_insert p i (Directory d) = Ok (Directory (hm_put components d p i))"
| "impl_insert p i (File b) = Err NotDir"
| "impl_insert p i (NativeModule s b) = Err NotDir"

fun impl_get_inode_by_path :: "InodeImpl \<Rightarrow> path \<Rightarrow> (ErrNo, Inode) result" where
  "impl_get_inode_by_path (Directory d) p = ok_or NoEnt (hm_get components d p)"
| "impl_get_inode_by_path (File b) p = Err NotDir"
| "impl_get_inode_by_path (NativeModule s b) p = Err NotDir"

fun impl_len :: "InodeImpl \<Rightarrow> FileSize" where
  "impl_len (NativeModule s f) = of_nat (length f)"
| "impl_len (File f) = of_nat (length f)"
| "impl_len (Directory d) = of_nat (length d)"

fun impl_is_dir :: "InodeImpl \<Rightarrow> bool" where
  "impl_is_dir (Directory d) = True"
| "impl_is_dir (File b) = False"
| "impl_is_dir (NativeModule s b) = False"

fun impl_is_service :: "InodeImpl \<Rightarrow> bool" where
  "impl_is_service (NativeModule s b) = True"
| "impl_is_service (File b) = False"
| "impl_is_service (Directory d) = False"

fun impl_service_handler :: "InodeImpl \<Rightarrow> (ErrNo, Service \<times> byte list) result" where
  "impl_service_handler (NativeModule s b) = Ok (s, b)"
| "impl_service_handler (File b) = Err Inval"
| "impl_service_handler (Directory d) = Err Inval"

section \<open>Operations of InodeEntry\<close>

definition entry_resize_file :: "FileSize \<Rightarrow> byte \<Rightarrow> InodeEntry \<Rightarrow> (ErrNo, InodeEntry) result" where
  "entry_resize_file sz fill e =
     (case impl_resize_file sz fill (node_data e) of
        Ok d \<Rightarrow> Ok (e\<lparr>node_data := d, file_stat := (file_stat e)\<lparr>stat_file_size := sz\<rparr>\<rparr>)
      | Err x \<Rightarrow> Err x | Panic \<Rightarrow> Panic | Stuck \<Rightarrow> Stuck)"

definition entry_read_file :: "InodeEntry \<Rightarrow> byte list \<Rightarrow> FileSize \<Rightarrow> (ErrNo, nat \<times> byte list) result" where
  "entry_read_file e = impl_read_file (node_data e)"

definition entry_write_file ::
  "byte list \<Rightarrow> FileSize \<Rightarrow> InodeEntry \<Rightarrow> (ErrNo, nat \<times> InodeEntry) result" where
  "entry_write_file buf offset e =
     (case impl_write_file buf offset (node_data e) of
        Ok (n, d) \<Rightarrow> Ok (n, e\<lparr>node_data := d, file_stat := (file_stat e)\<lparr>stat_file_size := impl_len d\<rparr>\<rparr>)
      | Err x \<Rightarrow> Err x | Panic \<Rightarrow> Panic | Stuck \<Rightarrow> Stuck)"

definition entry_truncate_file :: "InodeEntry \<Rightarrow> (ErrNo, InodeEntry) result" where
  "entry_truncate_file e =
     (case impl_truncate_file (node_data e) of
        Ok d \<Rightarrow> Ok (e\<lparr>node_data := d, file_stat := (file_stat e)\<lparr>stat_file_size := 0\<rparr>\<rparr>)
      | Err x \<Rightarrow> Err x | Panic \<Rightarrow> Panic | Stuck \<Rightarrow> Stuck)"

definition entry_insert :: "path \<Rightarrow> Inode \<Rightarrow> InodeEntry \<Rightarrow> (ErrNo, InodeEntry) result" where
  "entry_insert p i e =
     (case impl_insert p i (node_data e) of
        Ok d \<Rightarrow> Ok (e\<lparr>node_data := d\<rparr>)
      | Err x \<Rightarrow> Err x | Panic \<Rightarrow> Panic | Stuck \<Rightarrow> Stuck)"

definition entry_get_inode_by_path :: "InodeEntry \<Rightarrow> path \<Rightarrow> (ErrNo, Inode) result" where
  "entry_get_inode_by_path e = impl_get_inode_by_path (node_data e)"

definition entry_is_dir :: "InodeEntry \<Rightarrow> bool" where
  "entry_is_dir e = impl_is_dir (node_data e)"

definition entry_is_service :: "InodeEntry \<Rightarrow> bool" where
  "entry_is_service e = impl_is_service (node_data e)"

definition entry_len :: "InodeEntry \<Rightarrow> FileSize" where
  "entry_len e = impl_len (node_data e)"

section \<open>The inode table\<close>

type_synonym 'p rights_table = "('p \<times> (path \<times> Rights) list) list"

record 'p InodeTable =
  table :: "Inode \<rightharpoonup> InodeEntry"
  rights_table :: "'p rights_table"
  stdin_inode :: Inode
  stdout_inode :: Inode
  stderr_inode :: Inode
  next_inode_candidate :: Inode
  aes_service :: AesCounterModeService

abbreviation ROOT_DIRECTORY_INODE :: Inode where
  "ROOT_DIRECTORY_INODE \<equiv> 2"

abbreviation CANONICAL_STDIN_FILE_PATH :: path where
  "CANONICAL_STDIN_FILE_PATH \<equiv> ''stdin''"

abbreviation CANONICAL_STDOUT_FILE_PATH :: path where
  "CANONICAL_STDOUT_FILE_PATH \<equiv> ''stdout''"

abbreviation CANONICAL_STDERR_FILE_PATH :: path where
  "CANONICAL_STDERR_FILE_PATH \<equiv> ''stderr''"

definition table_insert :: "Inode \<Rightarrow> InodeEntry \<Rightarrow> ('p InodeTable, ErrNo, unit) sm" where
  "table_insert i e = mmodify (\<lambda>t. t\<lparr>table := (table t)(i \<mapsto> e)\<rparr>)"

definition table_get :: "Inode \<Rightarrow> ('p InodeTable, ErrNo, InodeEntry) sm" where
  "table_get i = mbind mget (\<lambda>t. mlift (ok_or NoEnt (table t i)))"

text \<open>
  \<^verbatim>\<open>get_mut(inode)?\<close> followed by a mutation of the entry: \<open>update_entry i f\<close> stores what \<open>f\<close>
  makes of the entry and returns its value.
\<close>

definition update_entry ::
  "Inode \<Rightarrow> (InodeEntry \<Rightarrow> (ErrNo, 'a \<times> InodeEntry) result) \<Rightarrow> ('p InodeTable, ErrNo, 'a) sm" where
  "update_entry i f =
     mbind (table_get i) (\<lambda>e.
     mbind (mlift (f e)) (\<lambda>(a, e').
     mbind (table_insert i e') (\<lambda>_. mreturn a)))"

definition no_value :: "(ErrNo, InodeEntry) result \<Rightarrow> (ErrNo, unit \<times> InodeEntry) result" where
  "no_value r = (case r of Ok e \<Rightarrow> Ok ((), e) | Err x \<Rightarrow> Err x | Panic \<Rightarrow> Panic | Stuck \<Rightarrow> Stuck)"

definition table_is_dir :: "'p InodeTable \<Rightarrow> Inode \<Rightarrow> bool" where
  "table_is_dir t i = (case table t i of Some e \<Rightarrow> entry_is_dir e | None \<Rightarrow> False)"

definition get_rights :: "'p \<Rightarrow> 'p InodeTable \<Rightarrow> (ErrNo, (path \<times> Rights) list) result" where
  "get_rights pr t = ok_or Access (hm_get id (rights_table t) pr)"

text \<open>The fold of \<^verbatim>\<open>get_inode_by_inode_path\<close>: look each component up in the directory reached so far.\<close>

fun walk :: "'p InodeTable \<Rightarrow> Inode \<Rightarrow> component list \<Rightarrow> (ErrNo, Inode) result" where
  "walk t i [] = Ok i"
| "walk t i (c # cs) =
     (case table t i of
        None \<Rightarrow> Err NoEnt
      | Some e \<Rightarrow>
          (case entry_get_inode_by_path e (component_str c) of
             Ok j \<Rightarrow> walk t j cs
           | Err x \<Rightarrow> Err x | Panic \<Rightarrow> Panic | Stuck \<Rightarrow> Stuck))"

definition get_inode_by_inode_path ::
  "'p InodeTable \<Rightarrow> Inode \<Rightarrow> path \<Rightarrow> (ErrNo, Inode \<times> InodeEntry) result" where
  "get_inode_by_inode_path t parent p =
     (case walk t parent (components p) of
        Ok i \<Rightarrow> (case table t i of None \<Rightarrow> Err NoEnt | Some e \<Rightarrow> Ok (i, e))
      | Err x \<Rightarrow> Err x | Panic \<Rightarrow> Panic | Stuck \<Rightarrow> Stuck)"

definition new_inode :: "('p InodeTable, ErrNo, Inode) sm" where
  "new_inode =
     mbind mget (\<lambda>t.
     let cur = next_inode_candidate t in
     if table t cur \<noteq> None then mthrow NFile
     else (case checked_add_u64 cur 1 of
             Some n \<Rightarrow> mbind (mmodify (\<lambda>t. t\<lparr>next_inode_candidate := n\<rparr>)) (\<lambda>_. mreturn cur)
           | None \<Rightarrow> mthrow NFile))"

definition mk_file_stat :: "Inode \<Rightarrow> FileType \<Rightarrow> FileSize \<Rightarrow> FileStat" where
  "mk_file_stat i ft sz =
     \<lparr>stat_device = 0, stat_inode = i, stat_file_type = ft, stat_num_links = 0,
      stat_file_size = sz, stat_atime = 0, stat_mtime = 0, stat_ctime = 0\<rparr>"

definition add_dir :: "Inode \<Rightarrow> path \<Rightarrow> Inode \<Rightarrow> ('p InodeTable, ErrNo, unit) sm" where
  "add_dir parent p i =
     mbind (if parent \<noteq> i then update_entry parent (\<lambda>e. no_value (entry_insert p i e)) else mreturn ()) (\<lambda>_.
     table_insert i \<lparr>file_stat = mk_file_stat i DirectoryType 0, node_data = new_directory i parent\<rparr>)"

text \<open>One round of the loop of \<^verbatim>\<open>add_all_dir\<close>.\<close>

definition add_all_dir_step :: "Inode \<Rightarrow> component \<Rightarrow> ('p InodeTable, ErrNo, Inode) sm" where
  "add_all_dir_step parent c =
     (case c of
        Normal s \<Rightarrow>
          mbind mget (\<lambda>t.
          case get_inode_by_inode_path t parent s of
            Ok (o', _) \<Rightarrow> mreturn o'
          | Err NoEnt \<Rightarrow>
              mbind new_inode (\<lambda>i.
              mbind (add_dir parent s i) (\<lambda>_. mreturn i))
          | Err e \<Rightarrow> mthrow e
          | Panic \<Rightarrow> mpanic | Stuck \<Rightarrow> mstuck)
      | _ \<Rightarrow> mthrow Inval)"

definition add_all_dir :: "Inode \<Rightarrow> component list \<Rightarrow> ('p InodeTable, ErrNo, Inode) sm" where
  "add_all_dir parent cs = mfold add_all_dir_step parent cs"

text \<open>The first half of \<^verbatim>\<open>add_file\<close>: the directory the file goes into, and the name it gets there.\<close>

definition add_file_parent :: "Inode \<Rightarrow> path \<Rightarrow> ('p InodeTable, ErrNo, Inode \<times> path) sm" where
  "add_file_parent parent p =
     (case parent_components (components p) of
        None \<Rightarrow> mthrow Inval
      | Some pp \<Rightarrow>
          if pp = [] then mreturn (parent, p)
          else (case file_name p of
                  None \<Rightarrow> mthrow Inval
                | Some name \<Rightarrow>
                    mbind (add_all_dir parent pp) (\<lambda>_.
                    mbind mget (\<lambda>t.
                    mbind (mlift (get_inode_by_inode_path t parent (path_of pp))) (\<lambda>(i, _).
                    mreturn (i, name))))))"

definition add_file :: "Inode \<Rightarrow> path \<Rightarrow> Inode \<Rightarrow> byte list \<Rightarrow> ('p InodeTable, ErrNo, unit) sm" where
  "add_file parent p i raw =
     mbind (add_file_parent parent p) (\<lambda>(parent', name).
     mbind (table_insert i \<lparr>file_stat = mk_file_stat i RegularFile (of_nat (length raw)), node_data = File raw\<rparr>) (\<lambda>_.
     if parent' \<noteq> i then update_entry parent' (\<lambda>e. no_value (entry_insert name i e)) else mreturn ()))"

definition install_standard_streams_inode :: "('p InodeTable, ErrNo, unit) sm" where
  "install_standard_streams_inode =
     mbind new_inode (\<lambda>i.
     mbind (mmodify (\<lambda>t. t\<lparr>stdin_inode := i\<rparr>)) (\<lambda>_.
     mbind (add_file i CANONICAL_STDIN_FILE_PATH i []) (\<lambda>_.
     mbind new_inode (\<lambda>j.
     mbind (mmodify (\<lambda>t. t\<lparr>stdout_inode := j\<rparr>)) (\<lambda>_.
     mbind (add_file j CANONICAL_STDOUT_FILE_PATH j []) (\<lambda>_.
     mbind new_inode (\<lambda>k.
     mbind (mmodify (\<lambda>t. t\<lparr>stderr_inode := k\<rparr>)) (\<lambda>_.
     add_file k CANONICAL_STDERR_FILE_PATH k []))))))))"

definition inode_table_empty :: "'p rights_table \<Rightarrow> 'p InodeTable" where
  "inode_table_empty rt =
     \<lparr>table = Map.empty, rights_table = rt, stdin_inode = 0, stdout_inode = 1, stderr_inode = 2,
      next_inode_candidate = ROOT_DIRECTORY_INODE + 1, aes_service = aes_new\<rparr>"

definition inode_table_new :: "'p rights_table \<Rightarrow> (ErrNo, unit) result \<times> 'p InodeTable" where
  "inode_table_new rt =
     mbind (add_dir ROOT_DIRECTORY_INODE ''/'' ROOT_DIRECTORY_INODE) (\<lambda>_.
     install_standard_streams_inode) (inode_table_empty rt)"

definition install_service_step :: "unit \<Rightarrow> path \<times> Service \<Rightarrow> ('p InodeTable, ErrNo, unit) sm" where
  "install_service_step u ps =
     mbind new_inode (\<lambda>i.
     mbind (add_file ROOT_DIRECTORY_INODE (strip_root_slash (fst ps)) i []) (\<lambda>_.
     mbind mget (\<lambda>t.
     case table t i of
       None \<Rightarrow> mthrow Inval
     | Some e \<Rightarrow> table_insert i (e\<lparr>node_data := NativeModule (snd ps) []\<rparr>))))"

definition install_services_inode :: "(path \<times> Service) list \<Rightarrow> ('p InodeTable, ErrNo, unit) sm" where
  "install_services_inode services = mfold install_service_step () services"

text \<open>\<^verbatim>\<open>read_dir\<close>: one \<open>DirEnt\<close> and the raw name for each entry, in iteration order.\<close>

fun read_dir_from :: "'p InodeTable \<Rightarrow> nat \<Rightarrow> (path \<times> Inode) list \<Rightarrow> (ErrNo, (DirEnt \<times> path) list) result" where
  "read_dir_from t n [] = Ok []"
| "read_dir_from t n ((p, i) # d) =
     (case u32_try_from_usize Inval (length p) of
        Ok len \<Rightarrow>
          (case table t i of
             None \<Rightarrow> Err NoEnt
           | Some e \<Rightarrow>
               (case read_dir_from t (Suc n) d of
                  Ok r \<Rightarrow> Ok ((\<lparr>dirent_next = of_nat n + 1, dirent_inode = i, dirent_name_len = len,
                    dirent_file_type = stat_file_type (file_stat e)\<rparr>, p) # r)
                | Err x \<Rightarrow> Err x | Panic \<Rightarrow> Panic | Stuck \<Rightarrow> Stuck))
      | Err x \<Rightarrow> Err x | Panic \<Rightarrow> Panic | Stuck \<Rightarrow> Stuck)"

fun impl_read_dir :: "'p InodeTable \<Rightarrow> InodeImpl \<Rightarrow> (ErrNo, (DirEnt \<times> path) list) result" where
  "impl_read_dir t (Directory d) = read_dir_from t 0 d"
| "impl_read_dir t (File b) = Err NotDir"
| "impl_read_dir t (NativeModule s b) = Err NotDir"

section \<open>The invariant of the table\<close>

text \<open>
  \<open>entry_ok D i e\<close>: entry \<open>e\<close>, stored under inode \<open>i\<close>, is well formed when \<open>D\<close> is the set of inodes
  that exist. The recorded size of a file is the length of its contents, which a \<^verbatim>\<open>Vec\<close> can hold;
  a directory has its dot entries and leads only to inodes that exist.
\<close>

definition entry_ok :: "Inode set \<Rightarrow> Inode \<Rightarrow> InodeEntry \<Rightarrow> bool" where
  "entry_ok D i e =
     (stat_inode (file_stat e) = i \<and>
      (case node_data e of
         Directory d \<Rightarrow> stat_file_type (file_stat e) = DirectoryType \<and>
           stat_file_size (file_stat e) = 0 \<and> hm_wf components d \<and>
           hm_get components d ''.'' = Some i \<and> hm_get components d ''..'' \<noteq> None \<and>
           snd ` set d \<subseteq> D
       | File b \<Rightarrow> stat_file_type (file_stat e) = RegularFile \<and> length b \<le> isize_max \<and>
           stat_file_size (file_stat e) = of_nat (length b)
       | NativeModule s b \<Rightarrow> stat_file_type (file_stat e) = RegularFile \<and> length b \<le> isize_max \<and>
           stat_file_size (file_stat e) = of_nat (length b)))"

definition is_file_at :: "'p InodeTable \<Rightarrow> Inode \<Rightarrow> bool" where
  "is_file_at t i = (\<exists>e. table t i = Some e \<and> \<not> entry_is_dir e)"

definition inode_inv :: "'p InodeTable \<Rightarrow> bool" where
  "inode_inv t =
     (table_is_dir t ROOT_DIRECTORY_INODE \<and>
      is_file_at t (stdin_inode t) \<and> is_file_at t (stdout_inode t) \<and> is_file_at t (stderr_inode t) \<and>
      (\<forall>i e. table t i = Some e \<longrightarrow> i < next_inode_candidate t \<and> entry_ok (dom (table t)) i e))"

text \<open>An inode that \<^verbatim>\<open>new_inode\<close> has handed out and that has no entry yet.\<close>

definition fresh :: "'p InodeTable \<Rightarrow> Inode \<Rightarrow> bool" where
  "fresh t i = (table t i = None \<and> i < next_inode_candidate t)"

fun same_kind :: "InodeImpl \<Rightarrow> InodeImpl \<Rightarrow> bool" where
  "same_kind (File b) (File c) = True"
| "same_kind (NativeModule s b) (NativeModule r c) = (s = r)"
| "same_kind (Directory d) (Directory e) = True"
| "same_kind _ _ = False"

fun same_content :: "InodeImpl \<Rightarrow> InodeImpl \<Rightarrow> bool" where
  "same_content (File b) x = (x = File b)"
| "same_content (NativeModule s b) x = (x = NativeModule s b)"
| "same_content (Directory d) x = impl_is_dir x"

text \<open>
  How one operation may change the table. \<open>table_le\<close>: no inode disappears or changes its kind.
  \<open>ns_le\<close>: moreover the contents and the metadata of every file stay as they are; only the
  directories grow. \<open>alloc_le\<close>: entries appear only under inodes that were not handed out before.
\<close>

definition globals_same :: "'p InodeTable \<Rightarrow> 'p InodeTable \<Rightarrow> bool" where
  "globals_same t t' = (rights_table t' = rights_table t \<and> stdin_inode t' = stdin_inode t \<and>
     stdout_inode t' = stdout_inode t \<and> stderr_inode t' = stderr_inode t \<and>
     next_inode_candidate t \<le> next_inode_candidate t')"

text \<open>An entry that exists stays, and the new one is related to it by \<open>R\<close>.\<close>

fun kept :: "('a \<Rightarrow> 'a \<Rightarrow> bool) \<Rightarrow> 'a option \<Rightarrow> 'a option \<Rightarrow> bool" where
  "kept R (Some e) (Some e') = R e e'"
| "kept R (Some e) None = False"
| "kept R None x = True"

definition kind_kept :: "InodeEntry \<Rightarrow> InodeEntry \<Rightarrow> bool" where
  "kind_kept e e' = same_kind (node_data e) (node_data e')"

definition content_kept :: "InodeEntry \<Rightarrow> InodeEntry \<Rightarrow> bool" where
  "content_kept e e' = (file_stat e' = file_stat e \<and> same_content (node_data e) (node_data e'))"

definition table_le :: "'p InodeTable \<Rightarrow> 'p InodeTable \<Rightarrow> bool" where
  "table_le t t' = (globals_same t t' \<and> (\<forall>i. kept kind_kept (table t i) (table t' i)))"

definition ns_le :: "'p InodeTable \<Rightarrow> 'p InodeTable \<Rightarrow> bool" where
  "ns_le t t' = (globals_same t t' \<and> aes_service t' = aes_service t \<and>
     (\<forall>i. kept content_kept (table t i) (table t' i)))"

definition alloc_le :: "'p InodeTable \<Rightarrow> 'p InodeTable \<Rightarrow> bool" where
  "alloc_le t t' = (\<forall>i. fresh t i \<longrightarrow> fresh t' i)"

lemma same_kind_refl [simp]: "same_kind x x"
  by (cases x) auto

lemma same_kind_trans: "same_kind x y \<Longrightarrow> same_kind y z \<Longrightarrow> same_kind x z"
  by (cases x; cases y; cases z) auto

lemma same_kind_is_dir: "same_kind x y \<Longrightarrow> impl_is_dir y = impl_is_dir x"
  by (cases x; cases y) auto

lemma same_content_kind: "same_content x y \<Longrightarrow> same_kind x y"
  by (cases x; cases y) auto

lemma same_content_refl [simp]: "same_content x x"
  by (cases x) auto

lemma same_content_trans: "same_content x y \<Longrightarrow> same_content y z \<Longrightarrow> same_content x z"
  by (cases x; cases y; cases z) auto

lemma globals_same_refl [simp]: "globals_same t t"
  by (simp add: globals_same_def)

lemma globals_same_trans: "globals_same t u \<Longrightarrow> globals_same u v \<Longrightarrow> globals_same t v"
  by (auto simp: globals_same_def)

lemma kept_trans:
  "kept R x y \<Longrightarrow> kept R y z \<Longrightarrow> (\<And>a b c. R a b \<Longrightarrow> R b c \<Longrightarrow> R a c) \<Longrightarrow> kept R x z"
  by (cases x; cases y; cases z) auto

lemma kept_mono: "kept R x y \<Longrightarrow> (\<And>a b. R a b \<Longrightarrow> R' a b) \<Longrightarrow> kept R' x y"
  by (cases x; cases y) auto

lemma kept_refl [simp]: "(\<And>a. R a a) \<Longrightarrow> kept R x x"
  by (cases x) auto

lemma keptD: "kept R (Some e) y \<Longrightarrow> \<exists>e'. y = Some e' \<and> R e e'"
  by (cases y) auto

lemma kind_kept_refl [simp]: "kind_kept e e"
  by (simp add: kind_kept_def)

lemma content_kept_refl [simp]: "content_kept e e"
  by (simp add: content_kept_def)

lemma kind_kept_trans: "kind_kept a b \<Longrightarrow> kind_kept b c \<Longrightarrow> kind_kept a c"
  unfolding kind_kept_def by (rule same_kind_trans)

lemma content_kept_trans: "content_kept a b \<Longrightarrow> content_kept b c \<Longrightarrow> content_kept a c"
  unfolding content_kept_def by (auto intro: same_content_trans)

lemma content_kind_kept: "content_kept a b \<Longrightarrow> kind_kept a b"
  by (simp add: kind_kept_def content_kept_def same_content_kind)

lemma table_le_refl [simp]: "table_le t t"
  by (simp add: table_le_def)

lemma table_le_trans: "table_le t u \<Longrightarrow> table_le u v \<Longrightarrow> table_le t v"
  unfolding table_le_def by (blast intro: globals_same_trans kept_trans kind_kept_trans)

lemma ns_le_refl [simp]: "ns_le t t"
  by (simp add: ns_le_def)

lemma ns_le_trans: "ns_le t u \<Longrightarrow> ns_le u v \<Longrightarrow> ns_le t v"
  unfolding ns_le_def by (metis (no_types) globals_same_trans kept_trans content_kept_trans)

lemma ns_le_table_le: "ns_le t t' \<Longrightarrow> table_le t t'"
  unfolding ns_le_def table_le_def by (blast intro: kept_mono content_kind_kept)

lemma alloc_le_refl [simp]: "alloc_le t t"
  by (simp add: alloc_le_def)

lemma alloc_le_trans: "alloc_le t u \<Longrightarrow> alloc_le u v \<Longrightarrow> alloc_le t v"
  by (auto simp: alloc_le_def)

lemma table_leD: "table_le t t' \<Longrightarrow> table t i = Some e \<Longrightarrow> \<exists>e'. table t' i = Some e' \<and> kind_kept e e'"
  unfolding table_le_def by (metis keptD)

lemma ns_leD: "ns_le t t' \<Longrightarrow> table t i = Some e \<Longrightarrow> \<exists>e'. table t' i = Some e' \<and> content_kept e e'"
  unfolding ns_le_def by (metis keptD)

lemma table_le_exists: "table_le t t' \<Longrightarrow> table t i \<noteq> None \<Longrightarrow> table t' i \<noteq> None"
  using table_leD by fastforce

lemma kind_kept_is_dir: "kind_kept e e' \<Longrightarrow> entry_is_dir e' = entry_is_dir e"
  by (simp add: kind_kept_def entry_is_dir_def same_kind_is_dir)

lemma table_le_is_dir: "table_le t t' \<Longrightarrow> table_is_dir t i \<Longrightarrow> table_is_dir t' i"
  by (auto simp: table_is_dir_def kind_kept_is_dir dest: table_leD split: option.splits)

lemma entry_ok_mono: "entry_ok D i e \<Longrightarrow> D \<subseteq> D' \<Longrightarrow> entry_ok D' i e"
  by (auto simp: entry_ok_def split: InodeImpl.splits)

lemma inode_invD:
  assumes "inode_inv t" and "table t i = Some e"
  shows "entry_ok (dom (table t)) i e" and "i < next_inode_candidate t"
  using assms by (auto simp: inode_inv_def)

text \<open>Replacing an entry by a well-formed one of the same kind, or adding one under a fresh inode.\<close>

lemma inode_inv_replace:
  assumes "inode_inv t" and "table t i = Some e" and "entry_is_dir e' = entry_is_dir e"
    and "entry_ok (dom (table t)) i e'"
  shows "inode_inv (t\<lparr>table := (table t)(i \<mapsto> e')\<rparr>)"
proof -
  have "insert i (dom (table t)) = dom (table t)" using assms(2) by auto
  with assms show ?thesis
    by (auto simp: inode_inv_def table_is_dir_def is_file_at_def)
qed

lemma inode_inv_update:
  assumes "inode_inv t" and "table t i = Some e" and "kind_kept e e'"
    and "entry_ok (dom (table t)) i e'"
  shows "inode_inv (t\<lparr>table := (table t)(i \<mapsto> e')\<rparr>)"
  by (rule inode_inv_replace [OF assms(1,2) kind_kept_is_dir [OF assms(3)] assms(4)])

lemma inode_inv_add:
  assumes "inode_inv t" and "fresh t i" and "entry_ok (insert i (dom (table t))) i e'"
  shows "inode_inv (t\<lparr>table := (table t)(i \<mapsto> e')\<rparr>)"
  using assms
  by (auto simp: inode_inv_def table_is_dir_def is_file_at_def fresh_def split: option.splits
      intro: entry_ok_mono)

lemma table_le_update:
  "table t i = Some e \<Longrightarrow> kind_kept e e' \<Longrightarrow> table_le t (t\<lparr>table := (table t)(i \<mapsto> e')\<rparr>)"
  by (auto simp: table_le_def globals_same_def)

lemma ns_le_update:
  "table t i = Some e \<Longrightarrow> content_kept e e' \<Longrightarrow> ns_le t (t\<lparr>table := (table t)(i \<mapsto> e')\<rparr>)"
  by (auto simp: ns_le_def globals_same_def)

lemma ns_le_add: "table t i = None \<Longrightarrow> ns_le t (t\<lparr>table := (table t)(i \<mapsto> e')\<rparr>)"
  by (auto simp: ns_le_def globals_same_def)

section \<open>Every operation keeps the invariant\<close>

lemma wp_table_insert [wp_simps]:
  "wp (table_insert i e) Q E = (\<lambda>t. Q () (t\<lparr>table := (table t)(i \<mapsto> e)\<rparr>))"
  by (simp add: table_insert_def wp_simps)

lemma wp_table_get [wp_simps]:
  "wp (table_get i) Q E = (\<lambda>t. case table t i of None \<Rightarrow> E t | Some e \<Rightarrow> Q e t)"
  by (rule ext) (simp add: table_get_def wp_simps ok_or_def split: option.split)

lemma wp_update_entry [wp_simps]:
  "wp (update_entry i f) Q E = (\<lambda>t.
     (case table t i of None \<Rightarrow> E t
      | Some e \<Rightarrow> (case f e of Ok r \<Rightarrow> Q (fst r) (t\<lparr>table := (table t)(i \<mapsto> snd r)\<rparr>)
                   | Err x \<Rightarrow> E t | Panic \<Rightarrow> E t | Stuck \<Rightarrow> E t)))"
  by (rule ext) (auto simp: update_entry_def wp_simps split: option.split result.split)

text \<open>The file operations on a single entry: they return a well-formed entry of the same kind.\<close>

lemma write_bytes_OkE:
  assumes "write_bytes bytes buf offset = Ok bytes'"
  obtains b where "bytes' = copy_at (unat offset) buf b" and "unat offset + length buf \<le> length b"
    and "length b = max (length bytes) (unat offset + length buf)"
    and "b = bytes @ replicate (unat offset + length buf - length bytes) 0"
    and "length bytes < unat offset + length buf \<Longrightarrow> length b \<le> isize_max"
proof -
  let ?stop = "offset + of_nat (length buf)"
  obtain b where b: "(if unat ?stop > length bytes then vec_resize (unat ?stop) 0 bytes else Ok bytes) =
        (Ok b :: (ErrNo, byte list) result)"
      and r: "offset \<le> ?stop" "unat ?stop \<le> length b" "unat ?stop - unat offset = length buf"
        "bytes' = copy_at (unat offset) buf b"
    using assms(1) by (auto simp: write_bytes_def Let_def split: result.splits if_splits)
  have e: "unat ?stop = unat offset + length buf"
    using r(1,3) by (simp add: word_le_nat_alt)
  have "b = bytes @ replicate (unat offset + length buf - length bytes) 0"
    and "length bytes < unat offset + length buf \<Longrightarrow> length b \<le> isize_max"
    using b unfolding e by (auto simp: vec_resize_def split: if_splits)
  with r e that show ?thesis by auto
qed

lemma write_bytes_length:
  assumes "write_bytes bytes buf offset = Ok bytes'" and "length bytes \<le> isize_max"
  shows "length bytes' \<le> isize_max"
  using assms(1)
proof (rule write_bytes_OkE)
  fix b
  assume "bytes' = copy_at (unat offset) buf b" "unat offset + length buf \<le> length b"
    "length b = max (length bytes) (unat offset + length buf)"
    "length bytes < unat offset + length buf \<Longrightarrow> length b \<le> isize_max"
  with assms(2) show ?thesis by (cases "length bytes < unat offset + length buf") auto
qed

lemma entry_write_file_ok:
  assumes "entry_write_file buf offset e = Ok (n, e')" and "entry_ok D i e"
  shows "entry_ok D i e' \<and> kind_kept e e' \<and> n = length buf \<and> \<not> entry_is_dir e"
  using assms by (cases "node_data e")
    (auto simp: entry_write_file_def entry_ok_def kind_kept_def entry_is_dir_def
      split: result.splits dest: write_bytes_length)

lemma entry_resize_file_ok:
  assumes "entry_resize_file sz fill e = Ok e'" and "entry_ok D i e"
  shows "entry_ok D i e' \<and> kind_kept e e' \<and> \<not> entry_is_dir e"
  using assms by (cases "node_data e")
    (auto simp: entry_resize_file_def entry_ok_def kind_kept_def entry_is_dir_def
      split: result.splits dest: vec_resize_length)

lemma entry_truncate_file_ok:
  assumes "entry_truncate_file e = Ok e'" and "entry_ok D i e"
  shows "entry_ok D i e' \<and> kind_kept e e' \<and> \<not> entry_is_dir e"
  using assms by (cases "node_data e")
    (auto simp: entry_truncate_file_def entry_ok_def kind_kept_def entry_is_dir_def)

lemma entry_insert_ok:
  assumes "entry_insert p j e = Ok e'" and "entry_ok D i e" and "j \<in> D"
    and "components p \<noteq> [CurDir]"
  shows "entry_ok D i e' \<and> content_kept e e' \<and> entry_is_dir e"
proof (cases "node_data e")
  case (Directory d)
  with assms(2,3) have "insert j (snd ` set d) \<subseteq> D" by (auto simp: entry_ok_def)
  then have range: "snd ` set (hm_put components d p j) \<subseteq> D" by (rule order_trans [OF hm_put_range])
  have e': "e' = e\<lparr>node_data := Directory (hm_put components d p j)\<rparr>"
    using assms(1) Directory by (simp add: entry_insert_def)
  show ?thesis
    using assms(2,4) Directory range by (simp add: e' entry_ok_def content_kept_def entry_is_dir_def)
qed (use assms in \<open>auto simp: entry_insert_def\<close>)

lemma no_value_Ok [simp]: "no_value r = Ok x \<longleftrightarrow> r = Ok (snd x)"
  by (cases x) (simp add: no_value_def split: result.split)

lemma new_inode_wp:
  assumes "inode_inv t"
  shows "wp new_inode
    (\<lambda>i t'. inode_inv t' \<and> ns_le t t' \<and> alloc_le t t' \<and> table t' = table t \<and> fresh t' i \<and> \<not> fresh t i)
    (\<lambda>t'. t' = t) t"
proof -
  let ?c = "next_inode_candidate t"
  have free: "table t ?c = None"
    using inode_invD(2) [OF assms, of ?c] by (cases "table t ?c") auto
  have less: "?c < ?c + 1" if "unat ?c + 1 < 2 ^ 64"
    using that by (simp add: word_less_nat_alt unat_word_ariths)
  show ?thesis
  proof (cases "unat ?c + 1 < 2 ^ 64")
    case True
    have "inode_inv (t\<lparr>next_inode_candidate := ?c + 1\<rparr>)"
      using assms less [OF True] by (fastforce simp: inode_inv_def table_is_dir_def is_file_at_def)
    with True less [OF True] free show ?thesis
      by (auto simp: new_inode_def wp_simps Let_def checked_add_u64_def ns_le_def globals_same_def
          alloc_le_def fresh_def)
  next
    case False
    with free show ?thesis
      by (simp add: new_inode_def wp_simps Let_def checked_add_u64_def)
  qed
qed

text \<open>
  Linking a new entry into its directory. The two updates only make sense together: the directory
  may lead to the new inode because the entry is there.
\<close>

lemma link_entry:
  assumes "inode_inv t" and "fresh t i" and "entry_ok (insert i (dom (table t))) i n"
    and "table t parent = Some e" and "entry_insert p i e = Ok e'" and "components p \<noteq> [CurDir]"
  defines "t' \<equiv> t\<lparr>table := (table t)(i \<mapsto> n, parent \<mapsto> e')\<rparr>"
  shows "inode_inv t'" and "ns_le t t'"
proof -
  let ?u = "t\<lparr>table := (table t)(i \<mapsto> n)\<rparr>"
  have u: "inode_inv ?u" "ns_le t ?u"
    using assms(1-3) by (auto simp: fresh_def intro: inode_inv_add ns_le_add)
  have "parent \<noteq> i" using assms(2,4) by (auto simp: fresh_def)
  then have e: "table ?u parent = Some e" using assms(4) by simp
  have e': "entry_ok (dom (table ?u)) parent e' \<and> content_kept e e' \<and> entry_is_dir e"
    using inode_invD(1) [OF u(1) e] assms(5,6) by (intro entry_insert_ok) auto
  have *: "t' = ?u\<lparr>table := (table ?u)(parent \<mapsto> e')\<rparr>" by (simp add: t'_def)
  show "inode_inv t'" unfolding * using u(1) e e' by (blast intro: inode_inv_update content_kind_kept)
  show "ns_le t t'" unfolding * using u(2) e e' by (blast intro: ns_le_update ns_le_trans)
qed

lemma new_directory_ok:
  "i \<in> D \<Longrightarrow> parent \<in> D \<Longrightarrow>
     entry_ok D i \<lparr>file_stat = mk_file_stat i DirectoryType 0, node_data = new_directory i parent\<rparr>"
  by (simp add: entry_ok_def mk_file_stat_def new_directory_def hm_wf_def hm_get_Cons)

lemma new_file_ok:
  "length raw \<le> isize_max \<Longrightarrow>
     entry_ok D i \<lparr>file_stat = mk_file_stat i RegularFile (of_nat (length raw)), node_data = File raw\<rparr>"
  by (simp add: entry_ok_def mk_file_stat_def)

definition fresh_but :: "Inode \<Rightarrow> 'p InodeTable \<Rightarrow> 'p InodeTable \<Rightarrow> bool" where
  "fresh_but i t t' = (\<forall>j. j \<noteq> i \<longrightarrow> fresh t j \<longrightarrow> fresh t' j)"

lemma add_dir_wp:
  assumes "inode_inv t" and "fresh t i" and "components p \<noteq> [CurDir]"
  shows "wp (add_dir parent p i)
    (\<lambda>_ t'. inode_inv t' \<and> ns_le t t' \<and> fresh_but i t t' \<and> table_is_dir t' i) (\<lambda>t'. t' = t) t"
proof (cases "parent = i")
  case True
  let ?n = "\<lparr>file_stat = mk_file_stat i DirectoryType 0, node_data = new_directory i i\<rparr>"
  have "inode_inv (t\<lparr>table := (table t)(i \<mapsto> ?n)\<rparr>)"
    by (rule inode_inv_add [OF assms(1,2)]) (simp add: new_directory_ok)
  then show ?thesis using True assms(2)
    by (auto simp: add_dir_def wp_simps fresh_def fresh_but_def table_is_dir_def entry_is_dir_def
        new_directory_def intro: ns_le_add)
next
  case False
  let ?n = "\<lparr>file_stat = mk_file_stat i DirectoryType 0, node_data = new_directory i parent\<rparr>"
  let ?t = "\<lambda>e'. t\<lparr>table := (table t)(parent \<mapsto> e', i \<mapsto> ?n)\<rparr>"
  have "inode_inv (?t e') \<and> ns_le t (?t e') \<and> fresh_but i t (?t e') \<and> table_is_dir (?t e') i"
    if "table t parent = Some e" "entry_insert p i e = Ok e'" for e e'
  proof -
    have "?t e' = t\<lparr>table := (table t)(i \<mapsto> ?n, parent \<mapsto> e')\<rparr>"
      using False by (simp add: fun_upd_twist)
    moreover have "entry_ok (insert i (dom (table t))) i ?n"
      using that(1) by (intro new_directory_ok) auto
    ultimately have "inode_inv (?t e') \<and> ns_le t (?t e')"
      using link_entry [OF assms(1,2) _ that assms(3), of ?n] by simp
    moreover have "fresh_but i t (?t e')" using that(1) by (auto simp: fresh_but_def fresh_def)
    ultimately show ?thesis by (simp add: table_is_dir_def entry_is_dir_def new_directory_def)
  qed
  then show ?thesis using False
    by (simp add: add_dir_def wp_simps split: option.split result.split)
qed

lemma entry_get_exists:
  assumes "entry_ok D i e" and "entry_get_inode_by_path e p = Ok k"
  shows "k \<in> D"
proof (cases "node_data e")
  case (Directory d)
  with assms(2) have "hm_get components d p = Some k"
    by (simp add: entry_get_inode_by_path_def ok_or_def split: option.splits)
  then have "k \<in> snd ` set d" by (auto dest!: hm_get_member intro: rev_image_eqI)
  then show ?thesis using assms(1) Directory by (auto simp: entry_ok_def)
qed (use assms(2) in \<open>auto simp: entry_get_inode_by_path_def\<close>)

lemma walk_Cons_Ok:
  "walk t i (c # cs) = Ok j \<longleftrightarrow>
     (\<exists>e k. table t i = Some e \<and> entry_get_inode_by_path e (component_str c) = Ok k \<and> walk t k cs = Ok j)"
  by (auto split: option.splits result.splits)

lemma walk_exists: "walk t i cs = Ok j \<Longrightarrow> inode_inv t \<Longrightarrow> table t i \<noteq> None \<Longrightarrow> table t j \<noteq> None"
proof (induction cs arbitrary: i)
  case (Cons c cs)
  from Cons.prems(1) obtain e k where e: "table t i = Some e"
      "entry_get_inode_by_path e (component_str c) = Ok k" "walk t k cs = Ok j"
    unfolding walk_Cons_Ok by blast
  have "table t k \<noteq> None"
    using entry_get_exists [OF inode_invD(1) [OF Cons.prems(2) e(1)] e(2)] by auto
  with Cons.IH e(3) Cons.prems(2) show ?case by blast
qed simp

lemma get_inode_Ok:
  "get_inode_by_inode_path t parent p = Ok (i, e) \<longleftrightarrow> walk t parent (components p) = Ok i \<and> table t i = Some e"
  by (auto simp: get_inode_by_inode_path_def split: result.splits option.splits)

text \<open>What a loop that creates directories keeps, from the table \<open>t0\<close> it started with.\<close>

definition ns_step :: "'p InodeTable \<Rightarrow> 'p InodeTable \<Rightarrow> bool" where
  "ns_step t0 t = (inode_inv t \<and> ns_le t0 t \<and> alloc_le t0 t)"

lemma ns_step_refl: "inode_inv t \<Longrightarrow> ns_step t t"
  by (simp add: ns_step_def)

lemma ns_step_trans: "ns_step t u \<Longrightarrow> ns_step u v \<Longrightarrow> ns_step t v"
  unfolding ns_step_def by (blast intro: ns_le_trans alloc_le_trans)

lemma new_dir_wp:
  assumes "inode_inv t" and "components p \<noteq> [CurDir]"
  shows "wp (mbind new_inode (\<lambda>i. mbind (add_dir parent p i) (\<lambda>_. mreturn i)))
    (\<lambda>i t'. ns_step t t' \<and> table_is_dir t' i) (ns_step t) t"
proof -
  have "wp (add_dir parent p i) (\<lambda>_ t'. ns_step t t' \<and> table_is_dir t' i) (ns_step t) u"
    if u: "inode_inv u \<and> ns_le t u \<and> alloc_le t u \<and> table u = table t \<and> fresh u i \<and> \<not> fresh t i" for i u
    using u by (intro wp_mono [OF add_dir_wp [OF _ _ assms(2)]])
      (auto simp: ns_step_def alloc_le_def fresh_but_def intro: ns_le_trans)
  then show ?thesis using assms
    by (auto simp: wp_simps ns_step_refl intro!: wp_mono [OF new_inode_wp])
qed

lemma add_all_dir_step_wp:
  assumes "inode_inv t" and "wf_components [c]"
  shows "wp (add_all_dir_step parent c) (\<lambda>i t'. ns_step t t' \<and> table t' i \<noteq> None) (ns_step t) t"
proof (cases c)
  case (Normal s)
  then have "components s \<noteq> [CurDir]" using assms(2) by (simp add: wf_components_def)
  note * = wp_mono [OF new_dir_wp [OF assms(1) this]]
  show ?thesis using assms(1) Normal
    by (auto simp: add_all_dir_step_def wp_simps ns_step_refl get_inode_Ok table_is_dir_def
        intro!: * [simplified wp_simps] split: result.split ErrNo.split option.splits)
qed (use assms(1) in \<open>auto simp: add_all_dir_step_def wp_simps ns_step_refl\<close>)

lemma wf_components_each: "wf_components cs \<Longrightarrow> c \<in> set cs \<Longrightarrow> wf_components [c]"
  by (cases cs) (auto simp: wf_components_def list_all_iff)

lemma add_all_dir_wp:
  assumes "inode_inv t" and "wf_components cs"
  shows "wp (add_all_dir parent cs) (\<lambda>i t'. ns_step t t' \<and> (table t parent \<noteq> None \<longrightarrow> table t' i \<noteq> None))
    (ns_step t) t"
  unfolding add_all_dir_def
proof (rule wp_mfold)
  fix i c u
  assume c: "c \<in> set cs" and u: "ns_step t u \<and> (table t parent \<noteq> None \<longrightarrow> table u i \<noteq> None)"
  have "wf_components [c]" using assms(2) c by (rule wf_components_each)
  moreover have "inode_inv u" using u by (simp add: ns_step_def)
  ultimately show "wp (add_all_dir_step i c) (\<lambda>i t'. ns_step t t' \<and> (table t parent \<noteq> None \<longrightarrow> table t' i \<noteq> None))
      (ns_step t) u"
    using u by (intro wp_mono [OF add_all_dir_step_wp]) (auto intro: ns_step_trans)
qed (use assms(1) in \<open>simp add: ns_step_refl\<close>)

lemma add_file_parent_wp:
  assumes "inode_inv t"
  shows "wp (add_file_parent parent p)
    (\<lambda>(d, name) t'. ns_step t t' \<and> (d = parent \<and> name = p \<and> t' = t \<or> components name \<noteq> [CurDir]))
    (ns_step t) t"
proof (cases "parent_components (components p)")
  case None
  then show ?thesis using assms by (simp add: add_file_parent_def wp_simps ns_step_refl)
next
  case (Some pp)
  have wf: "wf_components pp"
    using parent_components_prefix [OF Some] wf_components_components [of p]
    by (metis wf_components_prefix)
  have name: "components name \<noteq> [CurDir]" if "file_name p = Some name" for name
  proof -
    from that have "components p \<noteq> []" "last (components p) = Normal name"
      by (auto simp: file_name_def split: if_splits component.splits)
    then have "wf_components [Normal name]" by (metis wf_components_components wf_components_each last_in_set)
    then show ?thesis by (simp add: wf_components_def)
  qed
  have "wp (add_all_dir parent pp) (\<lambda>_ t'. ns_step t t') (ns_step t) t"
    by (rule wp_mono [OF add_all_dir_wp [OF assms wf]]) auto
  then show ?thesis using assms Some name
    by (auto simp: add_file_parent_def wp_simps ns_step_refl elim!: wp_mono
        split: option.split result.split)
qed

lemma add_file_wp:
  assumes "inode_inv t" and "fresh t i" and "length raw \<le> isize_max"
    and "components p \<noteq> [CurDir] \<or> \<not> table_is_dir t parent"
  shows "wp (add_file parent p i raw)
    (\<lambda>_ t'. inode_inv t' \<and> ns_le t t' \<and> fresh_but i t t' \<and>
       table t' i = Some \<lparr>file_stat = mk_file_stat i RegularFile (of_nat (length raw)), node_data = File raw\<rparr>)
    (\<lambda>t'. inode_inv t' \<and> ns_le t t' \<and> fresh_but i t t') t"
proof -
  let ?n = "\<lparr>file_stat = mk_file_stat i RegularFile (of_nat (length raw)), node_data = File raw\<rparr>"
  let ?Q = "\<lambda>t'. inode_inv t' \<and> ns_le t t' \<and> fresh_but i t t'"
  have *: "wp (mbind (table_insert i ?n) (\<lambda>_.
       if d \<noteq> i then update_entry d (\<lambda>e. no_value (entry_insert name i e)) else mreturn ()))
     (\<lambda>_ t'. ?Q t' \<and> table t' i = Some ?n) ?Q u"
    if u: "ns_step t u" and d: "d = parent \<and> name = p \<and> u = t \<or> components name \<noteq> [CurDir]" for d name u
  proof -
    let ?u = "u\<lparr>table := (table u)(i \<mapsto> ?n)\<rparr>"
    have f: "inode_inv u" "ns_le t u" "fresh u i" "alloc_le t u"
      using u assms(2) by (auto simp: ns_step_def alloc_le_def)
    have new: "inode_inv ?u" "ns_le t ?u"
      using f assms(3) by (auto simp: fresh_def intro: inode_inv_add new_file_ok ns_le_trans ns_le_add)
    have fresh: "fresh_but i t ?u"
      using f(4) by (auto simp: fresh_but_def alloc_le_def fresh_def)
    have link: "?Q (?u\<lparr>table := (table ?u)(d \<mapsto> e')\<rparr>)"
      if "d \<noteq> i" "table ?u d = Some e" "entry_insert name i e = Ok e'" for e e'
    proof -
      have e: "table u d = Some e" using that by simp
      have "impl_is_dir (node_data e)"
        using that(3) by (cases "node_data e") (auto simp: entry_insert_def)
      then have "components name \<noteq> [CurDir]"
        using d assms(4) e by (auto simp: table_is_dir_def entry_is_dir_def)
      from link_entry [OF f(1,3) new_file_ok [OF assms(3)] e that(3) this] f(2) fresh e
      show ?thesis by (auto simp: fresh_but_def fresh_def intro: ns_le_trans)
    qed
    show ?thesis using new fresh link
      by (auto simp: wp_simps split: option.split result.split)
  qed
  show ?thesis unfolding add_file_def
  proof (subst wp_mbind, rule wp_mono [OF add_file_parent_wp [OF assms(1)]], goal_cases)
    case (1 x u)
    then show ?case using * [of u "fst x" "snd x"] by (simp add: case_prod_unfold)
  next
    case (2 u)
    then show ?case by (auto simp: ns_step_def alloc_le_def fresh_but_def)
  qed
qed

end
