(* ===== verification/PolicyUtils.thy ===== *)
theory PolicyUtils
  imports Inodes "HOL-Library.List_Lexorder" "HOL-Library.Multiset"
begin

text \<open>
  The global policy (\<^verbatim>\<open>policy-utils/src/\<close>): principals, identities, programs and file hashes
  (\<^verbatim>\<open>principal.rs\<close>), expiry timepoints (\<^verbatim>\<open>expiry.rs\<close>), the policy with its checks and the tables the runtime
  derives from it (\<^verbatim>\<open>policy.rs\<close>), platforms (\<^verbatim>\<open>lib.rs\<close>) and the command-line parsers (\<^verbatim>\<open>parsers.rs\<close>).

  \<^verbatim>\<open>serde_json\<close>, \<^verbatim>\<open>hex\<close> and \<^verbatim>\<open>sha256\<close> (a wrapper of a foreign library) are the fields of the record
  \<open>policy_crates\<close>. The blocks under \<^verbatim>\<open>cfg(features = "std")\<close> are not part of any build, because the
  predicate Cargo sets is named \<^verbatim>\<open>feature\<close>; they are not part of the model either.
\<close>

section \<open>Errors and principals\<close>

text \<open>The errors this part raises. The payloads that other libraries produce are left out.\<close>

datatype PolicyError =
    SerdeJsonError
  | HexDecodeError
  | InvalidClientCertificateError string
  | CertificateFormatError string
  | DuplicatedClientIDError u64
  | MissingPolicyFieldError string

datatype Principal = InternalSuperUser | Participant u64 | Program string | NoCap

type_synonym RightsTable = "Principal rights_table"

record FileRights =
  fr_file_name :: string
  fr_rights :: u32

definition compute_right_map :: "rights_codec \<Rightarrow> FileRights list \<Rightarrow> (path \<times> Rights) list" where
  "compute_right_map W frs =
     foldl (\<lambda>acc f. hm_put components acc (fr_file_name f) (rights_from_bits_truncate W (ucast (fr_rights f))))
       [] frs"

record PolicyProgram =
  program_file_name :: string
  program_id :: u32
  program_file_rights :: "FileRights list"

definition program_file_rights_map :: "rights_codec \<Rightarrow> PolicyProgram \<Rightarrow> (path \<times> Rights) list" where
  "program_file_rights_map W p = compute_right_map W (program_file_rights p)"

datatype ExecutionStrategy = Interpretation | JIT

record 'u Identity =
  certificate :: 'u
  identity_id :: u32
  identity_file_rights :: "FileRights list"

definition identity_file_rights_map :: "rights_codec \<Rightarrow> 'u Identity \<Rightarrow> (path \<times> Rights) list" where
  "identity_file_rights_map W i = compute_right_map W (identity_file_rights i)"

definition ends_with :: "string \<Rightarrow> string \<Rightarrow> bool" where
  "ends_with s t \<longleftrightarrow> length t \<le> length s \<and> drop (length s - length t) s = t"

definition identity_assert_valid :: "string Identity \<Rightarrow> (PolicyError, unit) result" where
  "identity_assert_valid i =
     (if \<not> ends_with (certificate i) ''-----END CERTIFICATE-----''
      then Err (CertificateFormatError (certificate i)) else Ok ())"

record FileHash =
  file_path :: string
  hash :: string

section \<open>Expiry timepoints\<close>

record Timepoint =
  year :: u32
  month :: byte
  day :: byte
  hour :: byte
  minute :: byte

definition timepoint_new :: "u32 \<Rightarrow> byte \<Rightarrow> byte \<Rightarrow> byte \<Rightarrow> byte \<Rightarrow> (PolicyError, Timepoint) result" where
  "timepoint_new y mo d h mi =
     (if mi > 59 then Err (CertificateFormatError (''invalid expiry minute '' @ show_nat (unat mi)))
      else if h > 23 then Err (CertificateFormatError (''invalid expiry hour '' @ show_nat (unat h)))
      else if d > 31 then Err (CertificateFormatError (''invalid expiry day '' @ show_nat (unat d)))
      else if mo > 12 then Err (CertificateFormatError (''invalid expiry month '' @ show_nat (unat mo)))
      else Ok \<lparr>year = y, month = mo, day = d, hour = h, minute = mi\<rparr>)"

definition as_tuple :: "Timepoint \<Rightarrow> u32 \<times> byte \<times> byte \<times> byte \<times> byte \<times> byte" where
  "as_tuple t = (year t, month t, day t, hour t, minute t, 0)"

section \<open>Platforms\<close>

datatype Platform = Linux | Nitro | IceCap | Mock

datatype PlatformError = InvalidPlatform string

definition platform_from_str :: "string \<Rightarrow> (PlatformError, Platform) result" where
  "platform_from_str s =
     (if s = ''nitro'' then Ok Nitro
      else if s = ''icecap'' then Ok IceCap
      else if s = ''linux'' then Ok Linux
      else Err (InvalidPlatform s))"

primrec platform_fmt :: "Platform \<Rightarrow> string" where
  "platform_fmt Linux = ''linux''"
| "platform_fmt Nitro = ''nitro''"
| "platform_fmt IceCap = ''icecap''"
| "platform_fmt Mock = ''mock''"

section \<open>The policy\<close>

record Policy =
  identities :: "string Identity list"
  programs :: "PolicyProgram list"
  file_hashes :: "FileHash list"
  veracruz_server_url :: string
  enclave_cert_expiry :: Timepoint
  ciphersuite :: string
  runtime_manager_hash_linux :: "string option"
  runtime_manager_hash_nitro :: "string option"
  runtime_manager_hash_icecap :: "string option"
  proxy_attestation_server_url :: string
  proxy_service_cert :: string
  debug :: bool
  execution_strategy :: ExecutionStrategy
  enable_clock :: bool
  max_memory_mib :: u32
  policy_hash :: "string option"

record policy_crates =
  json_policy :: "string \<Rightarrow> Policy option"
  hex_encode :: "byte list \<Rightarrow> string"
  hex_decode :: "string \<Rightarrow> byte list option"
  sha256 :: "byte list \<Rightarrow> byte list"

text \<open>The loop of \<^verbatim>\<open>Policy::assert_valid\<close>, with the identifiers seen so far.\<close>

fun check_identities :: "u32 list \<Rightarrow> string Identity list \<Rightarrow> (PolicyError, unit) result" where
  "check_identities client_ids [] = Ok ()"
| "check_identities client_ids (i # is) =
     (case identity_assert_valid i of
        Ok _ \<Rightarrow> if identity_id i \<in> set client_ids then Err (DuplicatedClientIDError (ucast (identity_id i)))
               else check_identities (client_ids @ [identity_id i]) is
      | Err e \<Rightarrow> Err e
      | Panic \<Rightarrow> Panic
      | Stuck \<Rightarrow> Stuck)"

definition policy_assert_valid :: "Policy \<Rightarrow> (PolicyError, unit) result" where
  "policy_assert_valid p = check_identities [] (identities p)"

definition policy_new ::
  "string Identity list \<Rightarrow> PolicyProgram list \<Rightarrow> string \<Rightarrow> Timepoint \<Rightarrow> string \<Rightarrow>
   string option \<Rightarrow> string option \<Rightarrow> string option \<Rightarrow> string \<Rightarrow> string \<Rightarrow> bool \<Rightarrow>
   ExecutionStrategy \<Rightarrow> FileHash list \<Rightarrow> bool \<Rightarrow> u32 \<Rightarrow> (PolicyError, Policy) result" where
  "policy_new ids progs url expiry suite hl hn hi proxy cert dbg strategy hashes clock mem =
     (let policy = \<lparr>identities = ids, programs = progs, file_hashes = hashes, veracruz_server_url = url,
            enclave_cert_expiry = expiry, ciphersuite = suite, runtime_manager_hash_linux = hl,
            runtime_manager_hash_nitro = hn, runtime_manager_hash_icecap = hi,
            proxy_attestation_server_url = proxy, proxy_service_cert = cert, debug = dbg,
            execution_strategy = strategy, enable_clock = clock, max_memory_mib = mem,
            policy_hash = None\<rparr>
      in case policy_assert_valid policy of
           Ok _ \<Rightarrow> Ok policy | Err e \<Rightarrow> Err e | Panic \<Rightarrow> Panic | Stuck \<Rightarrow> Stuck)"

definition from_json :: "policy_crates \<Rightarrow> string \<Rightarrow> (PolicyError, Policy) result" where
  "from_json J json =
     (case json_policy J json of
        None \<Rightarrow> Err SerdeJsonError
      | Some policy \<Rightarrow>
          (case policy_assert_valid policy of
             Ok _ \<Rightarrow> Ok (policy\<lparr>policy_hash := Some (hex_encode J (sha256 J (as_bytes json)))\<rparr>)
           | Err e \<Rightarrow> Err e | Panic \<Rightarrow> Panic | Stuck \<Rightarrow> Stuck))"

definition runtime_manager_hash :: "Policy \<Rightarrow> Platform \<Rightarrow> (PolicyError, string) result" where
  "runtime_manager_hash p platform =
     (case platform of
        Linux \<Rightarrow> ok_or (MissingPolicyFieldError ''runtime_manager_hash_linux'') (runtime_manager_hash_linux p)
      | Nitro \<Rightarrow> ok_or (MissingPolicyFieldError ''runtime_manager_hash_nitro'') (runtime_manager_hash_nitro p)
      | IceCap \<Rightarrow> ok_or (MissingPolicyFieldError ''runtime_manager_hash_icecap'') (runtime_manager_hash_icecap p)
      | Mock \<Rightarrow> ok_or (MissingPolicyFieldError ''runtime_manager_hash_nitro'') (runtime_manager_hash_nitro p))"

definition expected_shutdown_list :: "Policy \<Rightarrow> u64 list" where
  "expected_shutdown_list p = foldl (\<lambda>acc i. acc @ [ucast (identity_id i)]) [] (identities p)"

definition check_client_id :: "Policy \<Rightarrow> string \<Rightarrow> (PolicyError, u64) result" where
  "check_client_id p cert =
     (case find (\<lambda>i. certificate i = cert) (identities p) of
        Some i \<Rightarrow> Ok (ucast (identity_id i))
      | None \<Rightarrow> Err (InvalidClientCertificateError cert))"

definition get_rights_table :: "rights_codec \<Rightarrow> Policy \<Rightarrow> RightsTable" where
  "get_rights_table W p =
     foldl (\<lambda>t g. hm_put id t (Program (program_file_name g)) (program_file_rights_map W g))
       (foldl (\<lambda>t i. hm_put id t (Participant (ucast (identity_id i))) (identity_file_rights_map W i))
          [] (identities p))
       (programs p)"

fun hash_table_from ::
  "policy_crates \<Rightarrow> (path \<times> byte list) list \<Rightarrow> FileHash list \<Rightarrow> (PolicyError, (path \<times> byte list) list) result" where
  "hash_table_from J t [] = Ok t"
| "hash_table_from J t (f # fs) =
     (case hex_decode J (hash f) of
        None \<Rightarrow> Err HexDecodeError
      | Some h \<Rightarrow> hash_table_from J (hm_put components t (file_path f) h) fs)"

definition get_file_hash_table :: "policy_crates \<Rightarrow> Policy \<Rightarrow> (PolicyError, (path \<times> byte list) list) result" where
  "get_file_hash_table J p = hash_table_from J [] (file_hashes p)"

text \<open>
  The order of paths is the lexicographic order of their components, as derived for \<^verbatim>\<open>Component\<close>: the
  constructors in their order, names by their bytes.
\<close>

primrec component_code :: "component \<Rightarrow> nat list" where
  "component_code RootDir = [0]"
| "component_code CurDir = [1]"
| "component_code ParentDir = [2]"
| "component_code (Normal s) = 3 # map of_char s"

lemma inj_component_code: "inj component_code"
proof (rule injI)
  fix x y :: component
  assume eq: "component_code x = component_code y"
  have "inj (of_char :: char \<Rightarrow> nat)" by (rule inj_of_char)
  then have m: "map of_char s = (map of_char t :: nat list) \<Longrightarrow> s = t" for s t by (simp add: inj_map_eq_map)
  show "x = y" using eq by (cases x; cases y) (auto dest: m)
qed

instantiation component :: linorder
begin

definition less_eq_component :: "component \<Rightarrow> component \<Rightarrow> bool" where
  "less_eq_component c d \<longleftrightarrow> component_code c \<le> component_code d"

definition less_component :: "component \<Rightarrow> component \<Rightarrow> bool" where
  "less_component c d \<longleftrightarrow> component_code c < component_code d"

instance
proof
  fix x y z :: component
  show "x < y \<longleftrightarrow> x \<le> y \<and> \<not> y \<le> x" "x \<le> x" "x \<le> y \<or> y \<le> x"
    by (auto simp: less_eq_component_def less_component_def)
  show "x \<le> z" if "x \<le> y" "y \<le> z" using that by (auto simp: less_eq_component_def)
  show "x = y" if "x \<le> y" "y \<le> x"
    using that by (intro injD [OF inj_component_code]) (simp add: less_eq_component_def)
qed

end

definition get_required_inputs :: "(path \<times> Rights) list \<Rightarrow> path list" where
  "get_required_inputs m =
     sort_key components
       (foldl (\<lambda>acc (file_name, right). if {FD_READ, PATH_OPEN} \<subseteq> right then acc @ [file_name] else acc) [] m)"

definition get_input_table :: "rights_codec \<Rightarrow> Policy \<Rightarrow> (string \<times> path list) list" where
  "get_input_table W p =
     foldl (\<lambda>t g. hm_put id t (program_file_name g) (get_required_inputs (program_file_rights_map W g)))
       [] (programs p)"

section \<open>Parsers of command-line arguments\<close>

text \<open>
  An \<^verbatim>\<open>OsStr\<close> is Unicode text, where \<^verbatim>\<open>to_str\<close> succeeds, or other bytes.
\<close>

datatype OsStr = Unicode string | Bytes "byte list"

primrec to_str :: "OsStr \<Rightarrow> string option" where
  "to_str (Unicode s) = Some s"
| "to_str (Bytes b) = None"

datatype ParseError = InvalidPath OsStr

text \<open>\<^verbatim>\<open>str::splitn(2, c)\<close>.\<close>

definition splitn2 :: "char \<Rightarrow> string \<Rightarrow> string list" where
  "splitn2 c s =
     (case dropWhile (\<lambda>x. x \<noteq> c) s of [] \<Rightarrow> [s] | _ # r \<Rightarrow> [takeWhile (\<lambda>x. x \<noteq> c) s, r])"

definition parse_renamable_path :: "OsStr \<Rightarrow> (ParseError, string \<times> path) result" where
  "parse_renamable_path s =
     (case to_str s of
        None \<Rightarrow> Err (InvalidPath s)
      | Some t \<Rightarrow>
          (case splitn2 (CHR ''='') t of
             [name, p] \<Rightarrow> Ok (name, p)
           | [p] \<Rightarrow> Ok (p, p)
           | _ \<Rightarrow> Panic))"

text \<open>\<^verbatim>\<open>collect\<close> into a \<^verbatim>\<open>Result\<close>: the first failure wins.\<close>

definition parse_renamable_paths :: "OsStr \<Rightarrow> (ParseError, (string \<times> path) list) result" where
  "parse_renamable_paths s =
     (case to_str s of
        None \<Rightarrow> Err (InvalidPath s)
      | Some t \<Rightarrow> collect_result (map (parse_renamable_path \<circ> Unicode) (split_on (CHR '','') t)))"

definition enforce_leading_backslash :: "path \<Rightarrow> path" where
  "enforce_leading_backslash p =
     (let is_special_file = p = CANONICAL_STDIN_FILE_PATH \<or> p = CANONICAL_STDOUT_FILE_PATH \<or>
            p = CANONICAL_STDERR_FILE_PATH
      in if \<not> has_root p \<and> \<not> is_special_file then CHR ''/'' # p else p)"

section \<open>Validity\<close>

definition identities_valid :: "string Identity list \<Rightarrow> bool" where
  "identities_valid is \<longleftrightarrow>
     list_all (\<lambda>i. ends_with (certificate i) ''-----END CERTIFICATE-----'') is \<and> distinct (map identity_id is)"

lemma check_identities_Ok:
  "check_identities seen is = Ok () \<longleftrightarrow>
     list_all (\<lambda>i. ends_with (certificate i) ''-----END CERTIFICATE-----'') is \<and>
     distinct (map identity_id is) \<and> set seen \<inter> identity_id ` set is = {}"
  by (induction seen "is" rule: check_identities.induct) (auto simp: identity_assert_valid_def)

lemma check_identities_answers:
  "check_identities seen is \<noteq> Panic" "check_identities seen is \<noteq> Stuck"
  by (induction seen "is" rule: check_identities.induct) (auto simp: identity_assert_valid_def)

lemma policy_assert_valid_Ok: "policy_assert_valid p = Ok () \<longleftrightarrow> identities_valid (identities p)"
  by (simp add: policy_assert_valid_def check_identities_Ok identities_valid_def)

lemma policy_assert_valid_cases:
  obtains "policy_assert_valid p = Ok ()" "identities_valid (identities p)"
  | e where "policy_assert_valid p = Err e" "\<not> identities_valid (identities p)"
  using check_identities_answers [of "[]" "identities p"] policy_assert_valid_Ok [of p]
  by (cases "policy_assert_valid p") (auto simp: policy_assert_valid_def)

section \<open>Tables\<close>

lemma find_distinct_rev:
  "distinct (map f xs) \<Longrightarrow> find (\<lambda>x. f x = k) (rev xs) = find (\<lambda>x. f x = k) xs"
proof (induction xs)
  case (Cons x xs)
  have "find (\<lambda>y. f y = k) xs = None" if "f x = k"
    using Cons.prems that by (auto simp: find_None_iff image_iff)
  then show ?case using Cons by (auto simp: find_append split: option.split)
qed simp

lemma ucast_u32_u64 [simp]: "(ucast (x :: u32) :: u64) = ucast y \<longleftrightarrow> x = y"
proof
  assume eq: "(ucast x :: u64) = ucast y"
  have "unat (ucast z :: u64) = unat z" for z :: u32
    using unat_u32_less [of z] by (simp add: unsigned_ucast_eq take_bit_nat_eq_self)
  then have "unat x = unat y" using eq by metis
  then show "x = y" by (rule unsigned_word_eqI)
qed simp

lemma compute_right_map_get:
  "hm_get components (compute_right_map W frs) p =
     map_option (\<lambda>f. rights_from_bits_truncate W (ucast (fr_rights f)))
       (find (\<lambda>f. components (fr_file_name f) = components p) (rev frs))"
  unfolding compute_right_map_def by (rule hm.get_put_all_new)

lemma hm_wf_fold: "hm_wf c m \<Longrightarrow> hm_wf c (foldl (\<lambda>m x. hm_put c m (f x) (g x)) m xs)"
  by (induction xs arbitrary: m) simp_all

lemma compute_right_map_wf: "hm_wf components (compute_right_map W frs)"
  unfolding compute_right_map_def by (rule hm_wf_fold) simp

lemma get_rights_table_get:
  "hm_get id (get_rights_table W p) q =
     (case q of
        Participant n \<Rightarrow> map_option (identity_file_rights_map W)
          (find (\<lambda>i. ucast (identity_id i) = n) (rev (identities p)))
      | Program s \<Rightarrow> map_option (program_file_rights_map W)
          (find (\<lambda>g. program_file_name g = s) (rev (programs p)))
      | _ \<Rightarrow> None)"
  by (cases q) (simp_all add: get_rights_table_def hm.get_put_all [where c = id] split: option.split)

lemma hash_table_from_get:
  "hash_table_from J t fs = Ok t' \<Longrightarrow>
     hm_get components t' p =
       (case find (\<lambda>f. components (file_path f) = components p) (rev fs) of
          None \<Rightarrow> hm_get components t p
        | Some f \<Rightarrow> hex_decode J (hash f))"
proof (induction J t fs rule: hash_table_from.induct)
  case (2 J t f fs)
  then obtain h where "hex_decode J (hash f) = Some h"
    and "hash_table_from J (hm_put components t (file_path f) h) fs = Ok t'"
    by (auto split: option.splits)
  then show ?case using 2 by (auto simp: find_append split: option.split)
qed simp

lemma hash_table_from_Ok:
  "(\<exists>t'. hash_table_from J t fs = Ok t') \<longleftrightarrow> list_all (\<lambda>f. hex_decode J (hash f) \<noteq> None) fs"
  by (induction J t fs rule: hash_table_from.induct) (auto split: option.split)

lemma required_inputs_unsorted:
  "foldl (\<lambda>acc (n, r). if P r then acc @ [n] else acc) acc m = acc @ map fst (filter (P \<circ> snd) m)"
  by (induction m arbitrary: acc) auto

lemma get_required_inputs_eq:
  "get_required_inputs m = sort_key components (map fst (filter (\<lambda>x. {FD_READ, PATH_OPEN} \<subseteq> snd x) m))"
  using required_inputs_unsorted [of "\<lambda>r. {FD_READ, PATH_OPEN} \<subseteq> r" "[]" m]
  by (simp add: get_required_inputs_def comp_def)

section \<open>Parsers\<close>

lemma splitn2_pair: "CHR ''='' \<notin> set n \<Longrightarrow> splitn2 (CHR ''='') (n @ CHR ''='' # p) = [n, p]"
  by (induction n) (auto simp: splitn2_def split: list.splits)

section \<open>Properties\<close>

definition demo_policy :: Policy where
  "demo_policy =
     \<lparr>identities = [\<lparr>certificate = ''A-----END CERTIFICATE-----'', identity_id = 0,
          identity_file_rights = [\<lparr>fr_file_name = ''/data'', fr_rights = 64\<rparr>]\<rparr>,
        \<lparr>certificate = ''B-----END CERTIFICATE-----'', identity_id = 7, identity_file_rights = []\<rparr>],
      programs = [\<lparr>program_file_name = ''/prog/p.wasm'', program_id = 1,
          program_file_rights = [\<lparr>fr_file_name = ''/b'', fr_rights = 524352\<rparr>, \<lparr>fr_file_name = ''/a'', fr_rights = 524352\<rparr>]\<rparr>],
      file_hashes = [\<lparr>file_path = ''/prog/p.wasm'', hash = ''00''\<rparr>],
      veracruz_server_url = ''localhost'',
      enclave_cert_expiry = \<lparr>year = 2030, month = 1, day = 1, hour = 0, minute = 0\<rparr>,
      ciphersuite = ''TLS1_3'', runtime_manager_hash_linux = None, runtime_manager_hash_nitro = None,
      runtime_manager_hash_icecap = None, proxy_attestation_server_url = ''localhost'',
      proxy_service_cert = [], debug = False, execution_strategy = JIT, enable_clock = False,
      max_memory_mib = 256, policy_hash = None\<rparr>"

lemma demo_policy_valid: "policy_assert_valid demo_policy = Ok ()"
  by (simp add: policy_assert_valid_Ok identities_valid_def demo_policy_def ends_with_def)

text \<open>
  C36. A policy is accepted from JSON exactly when it parses, every certificate ends with the PEM
  marker and the identifiers of the clients are pairwise different; the result is the parsed policy with the
  hash of its text. Nothing else is checked: neither the cipher suite nor the expiry of the
  certificates nor the range of the expiry timepoint.
\<close>

theorem from_json_iff:
  "from_json J json = Ok p' \<longleftrightarrow>
     (\<exists>p. json_policy J json = Some p \<and>
        list_all (\<lambda>i. ends_with (certificate i) ''-----END CERTIFICATE-----'') (identities p) \<and>
        distinct (map identity_id (identities p)) \<and>
        p' = p\<lparr>policy_hash := Some (hex_encode J (sha256 J (as_bytes json)))\<rparr>)"
proof (cases "json_policy J json")
  case None
  then show ?thesis by (simp add: from_json_def)
next
  case (Some p)
  then show ?thesis
    by (cases rule: policy_assert_valid_cases [of p]) (auto simp: from_json_def identities_valid_def)
qed

text \<open>
  C33. The rights table of a valid policy. A participant has the rights of the one identity with its
  identifier, a program those of the last entry with its file name, and no other principal has an
  entry.
\<close>

theorem rights_table_valid:
  assumes "policy_assert_valid p = Ok ()"
  shows "hm_get id (get_rights_table W p) q =
     (case q of
        Participant n \<Rightarrow> map_option (identity_file_rights_map W)
          (find (\<lambda>i. ucast (identity_id i) = n) (identities p))
      | Program s \<Rightarrow> map_option (program_file_rights_map W)
          (find (\<lambda>g. program_file_name g = s) (rev (programs p)))
      | _ \<Rightarrow> None)"
proof -
  have "distinct (map identity_id (identities p))"
    using assms by (simp add: policy_assert_valid_Ok identities_valid_def)
  then have "distinct (map (\<lambda>i. ucast (identity_id i) :: u64) (identities p))"
    by (auto simp: distinct_map inj_on_def)
  then have "find (\<lambda>i. ucast (identity_id i) = n) (rev (identities p)) =
      find (\<lambda>i. ucast (identity_id i) = n) (identities p)" for n :: u64
    by (rule find_distinct_rev)
  then show ?thesis by (simp add: get_rights_table_get split: Principal.split)
qed

theorem rights_table_valid_witness:
  "hm_get id (get_rights_table flag_codec demo_policy) (Participant 7) = Some [] \<and>
   hm_get id (get_rights_table flag_codec demo_policy) (Participant 1) = None"
  using rights_table_valid [OF demo_policy_valid, of flag_codec "Participant 7"]
    rights_table_valid [OF demo_policy_valid, of flag_codec "Participant 1"]
  by (simp add: demo_policy_def identity_file_rights_map_def compute_right_map_def)

text \<open>
  The list of required inputs of a program does not depend on the order in which the hash map
  of its rights is traversed: it holds exactly the paths the program may open and read, in
  the order of paths.
\<close>

theorem required_inputs_stable:
  assumes "hm_wf components m" and "mset m' = mset m"
  shows "get_required_inputs m' = get_required_inputs m \<and>
    sorted (map components (get_required_inputs m)) \<and>
    set (get_required_inputs m) = {p. \<exists>r. (p, r) \<in> set m \<and> {FD_READ, PATH_OPEN} \<subseteq> r}"
proof (intro conjI)
  let ?sel = "\<lambda>m. map fst (filter (\<lambda>x :: path \<times> Rights. {FD_READ, PATH_OPEN} \<subseteq> snd x) m)"
  have "inj_on (components \<circ> fst) (set m)" using assms(1) by (simp add: hm_wf_def distinct_map)
  then have inj: "inj_on components (set (?sel m))" by (fastforce simp: inj_on_def)
  have sel: "mset (?sel m') = mset (?sel m)" using assms(2) by simp
  then have "set (?sel m') = set (?sel m)" by (rule mset_eq_setD)
  with inj have "inj_on components (set (?sel m'))" by simp
  with sel have "sort_key components (?sel m') = sort_key components (?sel m)"
    by (intro sort_key_inj_key_eq) simp_all
  then show "get_required_inputs m' = get_required_inputs m" by (simp add: get_required_inputs_eq)
qed (force simp: get_required_inputs_eq)+

theorem required_inputs_stable_witness:
  "get_required_inputs [(''/b'', {FD_READ, PATH_OPEN}), (''/a'', {PATH_OPEN, FD_READ}), (''/c'', {FD_READ})] =
     get_required_inputs [(''/a'', {FD_READ, PATH_OPEN}), (''/c'', {FD_READ}), (''/b'', {FD_READ, PATH_OPEN})]"
proof -
  have "components [CHR ''/'', c] = [RootDir, Normal [c]]" if "c \<noteq> CHR ''/''" "c \<noteq> CHR ''.''" for c
    using that by (simp add: components_def has_root_def parse_component_def)
  then show ?thesis
    by (intro required_inputs_stable [THEN conjunct1]) (simp_all add: hm_wf_def insert_commute)
qed

text \<open>
  The last entry for a path decides the rights on it, under the equality of paths, which ignores
  repeated and trailing separators.
\<close>

theorem right_map_last_wins:
  "hm_get components (compute_right_map W frs) p =
     map_option (\<lambda>f. rights_from_bits_truncate W (ucast (fr_rights f)))
       (find (\<lambda>f. path_eq (fr_file_name f) p) (rev frs))"
  by (simp add: compute_right_map_get path_eq_def)

text \<open>
  A timepoint is built exactly when minute, hour, day and month are at most 59, 23, 31 and 12. The month
  and the day 0, which ISO-8601 excludes, are accepted, and so is the 31st of every month.
\<close>

theorem timepoint_new_iff:
  "timepoint_new y mo d h mi = Ok t \<longleftrightarrow>
     unat mi \<le> 59 \<and> unat h \<le> 23 \<and> unat d \<le> 31 \<and> unat mo \<le> 12 \<and> as_tuple t = (y, mo, d, h, mi, 0)"
proof -
  have "x > of_nat n \<longleftrightarrow> unat x > n" if "n < 256" for x :: byte and n
    using that by (simp add: word_less_nat_alt unsigned_of_nat take_bit_nat_eq_self)
  from this [of 59 mi] this [of 23 h] this [of 31 d] this [of 12 mo] show ?thesis
    by (cases t) (auto simp: timepoint_new_def as_tuple_def)
qed

text \<open>
  Command-line lists of renamed files parse back: the text \<^verbatim>\<open>n1=p1,n2=p2,...\<close> gives the list of the pairs,
  when no name contains an equality sign and neither names nor paths contain a comma.
\<close>

theorem parse_renamable_paths_roundtrip:
  assumes "l \<noteq> []" and "\<And>n p. (n, p) \<in> set l \<Longrightarrow> set (n @ p) \<inter> {CHR '',''} = {} \<and> CHR ''='' \<notin> set n"
  shows "parse_renamable_paths (Unicode (join_with (CHR '','') (map (\<lambda>(n, p). n @ CHR ''='' # p) l))) = Ok l"
proof -
  let ?parts = "map (\<lambda>(n, p). n @ CHR ''='' # p) l"
  have "split_on (CHR '','') (join_with (CHR '','') ?parts) = ?parts"
    using assms by (intro split_join) force+
  moreover have "collect_result (map (\<lambda>x. parse_renamable_path (Unicode (fst x @ CHR ''='' # snd x))) l) = Ok (map id l)"
    using assms(2) by (intro collect_result_map) (auto simp: parse_renamable_path_def splitn2_pair)
  ultimately show ?thesis by (simp add: parse_renamable_paths_def comp_def case_prod_unfold)
qed

theorem parse_renamable_paths_roundtrip_witness:
  "parse_renamable_paths (Unicode ''a=x,b=y=z'') = Ok [(''a'', ''x''), (''b'', ''y=z'')]"
  using parse_renamable_paths_roundtrip [of "[(''a'', ''x''), (''b'', ''y=z'')]"] by force

text \<open>
  \<^verbatim>\<open>enforce_leading_backslash\<close> gives a rooted path or the name of a standard stream, keeps such names, adds
  at most one separator, and changes nothing when it is applied again.
\<close>

theorem enforce_leading_backslash_spec:
  "(has_root (enforce_leading_backslash p) \<or>
      enforce_leading_backslash p \<in> {CANONICAL_STDIN_FILE_PATH, CANONICAL_STDOUT_FILE_PATH, CANONICAL_STDERR_FILE_PATH}) \<and>
   enforce_leading_backslash (enforce_leading_backslash p) = enforce_leading_backslash p \<and>
   enforce_leading_backslash p \<in> {p, CHR ''/'' # p}"
proof -
  have root: "has_root (CHR ''/'' # p)" by (simp add: has_root_def)
  show ?thesis
  proof (cases "has_root p \<or> p \<in> {CANONICAL_STDIN_FILE_PATH, CANONICAL_STDOUT_FILE_PATH, CANONICAL_STDERR_FILE_PATH}")
    case True
    then have "enforce_leading_backslash p = p" by (auto simp: enforce_leading_backslash_def)
    then show ?thesis using True by auto
  next
    case False
    then have "enforce_leading_backslash p = CHR ''/'' # p" by (auto simp: enforce_leading_backslash_def)
    moreover have "enforce_leading_backslash (CHR ''/'' # p) = CHR ''/'' # p"
      using root by (simp add: enforce_leading_backslash_def)
    ultimately show ?thesis using root by auto
  qed
qed

end
