(* ===== verification/Sessions.thy ===== *)
theory Sessions
  imports PolicyUtils
begin

text \<open>
  TLS sessions (\<^verbatim>\<open>session-manager/src/\<close>): \<^verbatim>\<open>Session\<close>, a TLS connection with the principals of the policy, and
  \<^verbatim>\<open>SessionContext\<close>, which is built up from key pair, policy and certificate chain, in this order.

  The TLS library is the record \<open>tls_crates\<close>, over the types of its configuration builders, configurations
  and connections. Errors of that library are kept without their payload.
\<close>

section \<open>The TLS library\<close>

datatype read_outcome = ReadDone | WouldBlock | ReadFailed

record ('b, 'g, 'c) tls_crates =
  pem_certs :: "string \<Rightarrow> byte list list option"
  root_store_accepts :: "byte list \<Rightarrow> bool"
  cipher_suite_value :: "string \<Rightarrow> u16 option"
  all_cipher_suites :: "u16 list"
  config_builder :: "u16 \<Rightarrow> byte list list \<Rightarrow> 'b option"
  with_single_cert :: "'b \<Rightarrow> byte list list \<Rightarrow> byte list \<Rightarrow> 'g option"
  connection_new :: "'g \<Rightarrow> 'c option"
  read_tls :: "byte list \<Rightarrow> ('c, unit, nat) sm"
  process_new_packets :: "('c, unit, unit) sm"
  write_all :: "byte list \<Rightarrow> ('c, unit, unit) sm"
  read_to_end :: "'c \<Rightarrow> (byte list \<times> read_outcome) \<times> 'c"
  wants_write :: "'c \<Rightarrow> bool"
  write_tls :: "('c, unit, byte list) sm"
  peer_certificates :: "'c \<Rightarrow> byte list list option"
  is_handshaking :: "'c \<Rightarrow> bool"

datatype SessionManagerError =
    TLSError
  | TLSUnspecifiedError
  | TLSInvalidCiphersuiteError string
  | IOError
  | MbedtlsUnspecifiedError
  | WebpkiError
  | PeerCertificateError
  | InvalidLengthError string nat
  | NoCertificateError
  | InvalidStateError

section \<open>Sessions\<close>

type_synonym SessionPrincipal = "byte list Identity"

record 'c Session =
  tls_connection :: 'c
  session_principals :: "SessionPrincipal list"

definition session_new ::
  "('b, 'g, 'c) tls_crates \<Rightarrow> 'g \<Rightarrow> SessionPrincipal list \<Rightarrow> (SessionManagerError, 'c Session) result" where
  "session_new T config ps =
     (case connection_new T config of
        None \<Rightarrow> Err TLSError
      | Some c \<Rightarrow> Ok \<lparr>tls_connection = c, session_principals = ps\<rparr>)"

definition on_connection :: "('c, 'e, 'a) sm \<Rightarrow> ('c Session, 'e, 'a) sm" where
  "on_connection = mzoom tls_connection (\<lambda>c s. s\<lparr>tls_connection := c\<rparr>)"

text \<open>
  The loop of \<^verbatim>\<open>send_tls_data\<close>. It ends only if the library consumes the input, so it is a partial function;
  a call that never returns is \<open>Stuck\<close>.
\<close>

partial_function (option) send_tls_loop ::
  "('b, 'g, 'c) tls_crates \<Rightarrow> byte list \<Rightarrow> 'c \<Rightarrow> ((SessionManagerError, unit) result \<times> 'c) option" where
  "send_tls_loop T input c =
     (if input = [] then Some (Ok (), c)
      else let (r, c1) = read_tls T input c in
           case r of
             Ok n \<Rightarrow>
               (let (r', c2) = process_new_packets T c1 in
                case r' of
                  Ok _ \<Rightarrow> send_tls_loop T (drop n input) c2
                | Err _ \<Rightarrow> Some (Err TLSError, c2)
                | Panic \<Rightarrow> Some (Panic, c2)
                | Stuck \<Rightarrow> Some (Stuck, c2))
           | Err _ \<Rightarrow> Some (Err IOError, c1)
           | Panic \<Rightarrow> Some (Panic, c1)
           | Stuck \<Rightarrow> Some (Stuck, c1))"

definition send_tls_data :: "('b, 'g, 'c) tls_crates \<Rightarrow> byte list \<Rightarrow> ('c Session, SessionManagerError, unit) sm" where
  "send_tls_data T input =
     on_connection (\<lambda>c. case send_tls_loop T input c of None \<Rightarrow> (Stuck, c) | Some r \<Rightarrow> r)"

definition return_data :: "('b, 'g, 'c) tls_crates \<Rightarrow> byte list \<Rightarrow> ('c Session, SessionManagerError, unit) sm" where
  "return_data T input = on_connection (merr (\<lambda>_. IOError) (write_all T input))"

definition read_tls_data :: "('b, 'g, 'c) tls_crates \<Rightarrow> ('c Session, SessionManagerError, byte list option) sm" where
  "read_tls_data T =
     mbind mget (\<lambda>s.
     if wants_write T (tls_connection s)
     then mbind (on_connection (merr (\<lambda>_. IOError) (write_tls T))) (\<lambda>out. mreturn (Some out))
     else mreturn None)"

text \<open>The identifier of the last principal with the certificate of the peer, or 0.\<close>

definition peer_id :: "SessionPrincipal list \<Rightarrow> byte list \<Rightarrow> u32" where
  "peer_id ps cert = foldl (\<lambda>client_id p. if certificate p = cert then identity_id p else client_id) 0 ps"

definition read_plaintext_data ::
  "('b, 'g, 'c) tls_crates \<Rightarrow> ('c Session, SessionManagerError, (u32 \<times> byte list) option) sm" where
  "read_plaintext_data T =
     mbind (on_connection (\<lambda>c. (Ok (fst (read_to_end T c)), snd (read_to_end T c)))) (\<lambda>(received, outcome).
     mbind (if outcome = ReadFailed then mthrow IOError else mreturn ()) (\<lambda>_.
     mbind (on_connection (merr (\<lambda>_. TLSError) (process_new_packets T))) (\<lambda>_.
     mbind mget (\<lambda>s.
     if received = [] then mreturn None
     else mbind (mlift (ok_or PeerCertificateError (peer_certificates T (tls_connection s)))) (\<lambda>peer_certs.
          if length peer_certs \<noteq> 1 then mthrow (InvalidLengthError ''peer_certs'' 1)
          else mreturn (Some (peer_id (session_principals s) (hd peer_certs), received)))))))"

definition read_tls_needed :: "('b, 'g, 'c) tls_crates \<Rightarrow> 'c Session \<Rightarrow> bool" where
  "read_tls_needed T s = wants_write T (tls_connection s)"

definition is_authenticated :: "('b, 'g, 'c) tls_crates \<Rightarrow> 'c Session \<Rightarrow> bool" where
  "is_authenticated T s = (\<not> is_handshaking T (tls_connection s))"

section \<open>The session context\<close>

record ('b, 'g) SessionContext =
  server_config_builder :: "'b option"
  server_config :: "'g option"
  context_policy :: "Policy option"
  context_principals :: "SessionPrincipal list option"
  server_private_key :: "byte list"
  server_public_key :: "byte list"

definition convert_cert_buffer :: "('b, 'g, 'c) tls_crates \<Rightarrow> string \<Rightarrow> (SessionManagerError, byte list) result" where
  "convert_cert_buffer T cert_string =
     (case pem_certs T cert_string of
        None \<Rightarrow> Err TLSUnspecifiedError
      | Some certs \<Rightarrow> if certs = [] then Err NoCertificateError else Ok (hd certs))"

text \<open>
  \<^verbatim>\<open>SessionContext::new\<close>, given the key pair the library generated, in DER encoding (\<open>None\<close> for a failure): the
  first 23 bytes of the public key are cut off.
\<close>

definition session_context_new ::
  "(byte list \<times> byte list) option \<Rightarrow> (SessionManagerError, ('b, 'g) SessionContext) result" where
  "session_context_new key =
     (case key of
        None \<Rightarrow> Err MbedtlsUnspecifiedError
      | Some (public_der, private_der) \<Rightarrow>
          if length public_der < 23 then Panic
          else Ok \<lparr>server_config_builder = None, server_config = None, context_policy = None,
                 context_principals = None, server_private_key = private_der,
                 server_public_key = drop 23 public_der\<rparr>)"

text \<open>The loop over the identities of the policy: the root certificates and the principals.\<close>

fun convert_identities ::
  "('b, 'g, 'c) tls_crates \<Rightarrow> string Identity list \<Rightarrow> byte list list \<Rightarrow> SessionPrincipal list \<Rightarrow>
   (SessionManagerError, byte list list \<times> SessionPrincipal list) result" where
  "convert_identities T [] roots ps = Ok (roots, ps)"
| "convert_identities T (i # is) roots ps =
     (case convert_cert_buffer T (certificate i) of
        Ok cert \<Rightarrow>
          if \<not> root_store_accepts T cert then Err WebpkiError
          else convert_identities T is (roots @ [cert])
                 (ps @ [\<lparr>certificate = cert, identity_id = identity_id i,
                         identity_file_rights = identity_file_rights i\<rparr>])
      | Err e \<Rightarrow> Err e
      | Panic \<Rightarrow> Panic
      | Stuck \<Rightarrow> Stuck)"

definition lookup_ciphersuite :: "('b, 'g, 'c) tls_crates \<Rightarrow> string \<Rightarrow> u16 option" where
  "lookup_ciphersuite T suite =
     (case cipher_suite_value T suite of
        None \<Rightarrow> None
      | Some v \<Rightarrow> find (\<lambda>s. s = v) (all_cipher_suites T))"

definition set_policy :: "('b, 'g, 'c) tls_crates \<Rightarrow> Policy \<Rightarrow> (('b, 'g) SessionContext, SessionManagerError, unit) sm" where
  "set_policy T p =
     mbind (mlift (convert_identities T (identities p) [] [])) (\<lambda>(roots, ps).
     mbind (mlift (ok_or (TLSInvalidCiphersuiteError (ciphersuite p)) (lookup_ciphersuite T (ciphersuite p)))) (\<lambda>suite.
     mbind (mlift (ok_or TLSError (config_builder T suite roots))) (\<lambda>builder.
     mmodify (\<lambda>s. s\<lparr>server_config_builder := Some builder, context_principals := Some ps,
                    context_policy := Some p\<rparr>))))"

definition set_cert_chain :: "('b, 'g, 'c) tls_crates \<Rightarrow> byte list list \<Rightarrow> (('b, 'g) SessionContext, SessionManagerError, unit) sm" where
  "set_cert_chain T chain_data =
     mbind mget (\<lambda>s.
     mbind (mmodify (\<lambda>s. s\<lparr>server_config_builder := None\<rparr>)) (\<lambda>_.
     case server_config_builder s of
       Some builder \<Rightarrow>
         mbind (mlift (ok_or TLSError (with_single_cert T builder chain_data (server_private_key s)))) (\<lambda>config.
         mmodify (\<lambda>s. s\<lparr>server_config := Some config\<rparr>))
     | None \<Rightarrow> mthrow InvalidStateError))"

definition create_session :: "('b, 'g, 'c) tls_crates \<Rightarrow> ('b, 'g) SessionContext \<Rightarrow> (SessionManagerError, 'c Session) result" where
  "create_session T s =
     (case server_config s of
        None \<Rightarrow> Err InvalidStateError
      | Some config \<Rightarrow>
          (case context_principals s of
             None \<Rightarrow> Err InvalidStateError
           | Some ps \<Rightarrow> session_new T config ps))"

section \<open>Lemmas\<close>

lemma send_tls_loop_returns:
  assumes "\<And>input c n c'. input \<noteq> [] \<Longrightarrow> read_tls T input c = (Ok n, c') \<Longrightarrow> 0 < n"
    and "\<And>input c. fst (read_tls T input c) \<noteq> Stuck" and "\<And>c. fst (process_new_packets T c) \<noteq> Stuck"
  shows "\<exists>r c'. send_tls_loop T input c = Some (r, c') \<and> r \<noteq> Stuck"
proof (induction "length input" arbitrary: input c rule: less_induct)
  case less
  show ?case
  proof (cases "input = []")
    case True
    then show ?thesis by (simp add: send_tls_loop.simps)
  next
    case False
    obtain r c1 where r: "read_tls T input c = (r, c1)" "r \<noteq> Stuck"
      using assms(2) [of input c] by (cases "read_tls T input c") auto
    obtain r' c2 where r': "process_new_packets T c1 = (r', c2)" "r' \<noteq> Stuck"
      using assms(3) [of c1] by (cases "process_new_packets T c1") auto
    have "\<exists>x c'. send_tls_loop T (drop n input) c2 = Some (x, c') \<and> x \<noteq> Stuck" if "r = Ok n" for n
      using assms(1) [OF False] r that False by (intro less) simp
    then show ?thesis
      using r(2) r'(2) by (subst send_tls_loop.simps) (simp add: r(1) r'(1) False split: result.split)
  qed
qed

lemma convert_identities_Ok:
  "convert_identities T is roots ps = Ok (roots', ps') \<Longrightarrow>
     map identity_id ps' = map identity_id ps @ map identity_id is \<and>
     map identity_file_rights ps' = map identity_file_rights ps @ map identity_file_rights is \<and>
     map (Ok \<circ> certificate) ps' = map (Ok \<circ> certificate) ps @ map (convert_cert_buffer T \<circ> certificate) is \<and>
     (set roots \<subseteq> certificate ` set ps \<longrightarrow> set roots' \<subseteq> certificate ` set ps')"
proof (induction T "is" roots ps rule: convert_identities.induct)
  case (2 T i "is" roots ps)
  then obtain cert where c: "convert_cert_buffer T (certificate i) = Ok cert" "root_store_accepts T cert"
    by (auto split: result.splits if_splits)
  show ?case using 2(1) [OF c(1)] 2(2) c by auto
qed simp

lemma peer_id_find:
  "peer_id ps cert = (case find (\<lambda>p. certificate p = cert) (rev ps) of None \<Rightarrow> 0 | Some p \<Rightarrow> identity_id p)"
proof -
  have "foldl (\<lambda>c p. if certificate p = cert then identity_id p else c) a ps =
      (case find (\<lambda>p. certificate p = cert) (rev ps) of None \<Rightarrow> a | Some p \<Rightarrow> identity_id p)" for a
    by (induction ps rule: rev_induct) auto
  then show ?thesis by (simp add: peer_id_def)
qed

lemma set_policy_cases:
  obtains b roots ps suite where "convert_identities T (identities p) [] [] = Ok (roots, ps)"
    and "lookup_ciphersuite T (ciphersuite p) = Some suite" and "config_builder T suite roots = Some b"
    and "set_policy T p s = (Ok (), s\<lparr>server_config_builder := Some b, context_principals := Some ps,
           context_policy := Some p\<rparr>)"
  | r where "set_policy T p s = (r, s)" and "r \<noteq> Ok ()"
proof (cases "convert_identities T (identities p) [] []")
  case (Ok rp)
  then show ?thesis
    using that by (cases rp; cases "lookup_ciphersuite T (ciphersuite p)"; 
      cases "config_builder T (the (lookup_ciphersuite T (ciphersuite p))) (fst rp)")
      (auto simp: set_policy_def ok_or_def monad_defs mbind_def)
qed (use that in \<open>auto simp: set_policy_def monad_defs mbind_def\<close>)

section \<open>Properties\<close>

text \<open>
  C39. Sending data to a session ends, provided the library consumes at least one byte of a nonempty input
  whenever it accepts it.
\<close>

theorem send_tls_data_returns:
  assumes "\<And>input c n c'. input \<noteq> [] \<Longrightarrow> read_tls T input c = (Ok n, c') \<Longrightarrow> 0 < n"
    and "\<And>input c. fst (read_tls T input c) \<noteq> Stuck" and "\<And>c. fst (process_new_packets T c) \<noteq> Stuck"
  shows "fst (send_tls_data T input s) \<noteq> Stuck"
proof -
  have "\<exists>r c'. send_tls_loop T input (tls_connection s) = Some (r, c') \<and> r \<noteq> Stuck"
    using assms by (rule send_tls_loop_returns)
  then show ?thesis by (auto simp: send_tls_data_def on_connection_def mzoom_def)
qed

text \<open>A library that takes all input at once and a connection that is a buffer, for the examples.\<close>

definition demo_tls :: "(unit, unit, byte list) tls_crates" where
  "demo_tls = \<lparr>pem_certs = (\<lambda>s. Some [map of_char (take 1 s)]), root_store_accepts = (\<lambda>_. True),
     cipher_suite_value = (\<lambda>_. Some 1), all_cipher_suites = [1], config_builder = (\<lambda>_ _. Some ()),
     with_single_cert = (\<lambda>_ _ _. Some ()), connection_new = (\<lambda>_. Some []),
     read_tls = (\<lambda>input c. (Ok (length input), c @ input)), process_new_packets = (\<lambda>c. (Ok (), c)),
     write_all = (\<lambda>_ c. (Ok (), c)), read_to_end = (\<lambda>c. ((c, ReadDone), [])), wants_write = (\<lambda>_. False),
     write_tls = (\<lambda>c. (Ok [], c)), peer_certificates = (\<lambda>_. Some [[66]]), is_handshaking = (\<lambda>_. False)\<rparr>"

theorem send_tls_data_returns_witness:
  "fst (send_tls_data demo_tls [1, 2, 3] \<lparr>tls_connection = [], session_principals = []\<rparr>) \<noteq> Stuck"
  by (rule send_tls_data_returns) (auto simp: demo_tls_def)

text \<open>
  Who a message is from. Received plaintext is attributed to the last principal of the session whose certificate is
  the certificate of the peer; if there is none, it is attributed to client 0, whether or not the policy
  gives this identifier to somebody else.
\<close>

theorem read_plaintext_client:
  assumes "read_plaintext_data T s = (Ok (Some (client, received)), s')"
  shows "\<exists>cert. peer_certificates T (tls_connection s') = Some [cert] \<and>
    client = (case find (\<lambda>p. certificate p = cert) (rev (session_principals s)) of
                None \<Rightarrow> 0 | Some p \<Rightarrow> identity_id p)"
proof -
  let ?s1 = "s\<lparr>tls_connection := snd (read_to_end T (tls_connection s))\<rparr>"
  let ?s2 = "s\<lparr>tls_connection := snd (process_new_packets T (tls_connection ?s1))\<rparr>"
  obtain certs where "peer_certificates T (tls_connection ?s2) = Some certs" and "length certs = 1"
    and "s' = ?s2" and "client = peer_id (session_principals s) (hd certs)"
    using assms
    by (auto simp: read_plaintext_data_def on_connection_def mzoom_def merr_def ok_or_def monad_defs mbind_def
        case_prod_unfold split: if_splits option.splits result.splits)
  moreover from this have "certs = [hd certs]" by (cases certs) auto
  ultimately show ?thesis using peer_id_find by metis
qed

theorem read_plaintext_client_witness:
  "\<exists>s'. read_plaintext_data demo_tls
       \<lparr>tls_connection = [9], session_principals = [\<lparr>certificate = [65], identity_id = 0, identity_file_rights = []\<rparr>]\<rparr> =
       (Ok (Some (0, [9])), s') \<and>
     (\<exists>cert. peer_certificates demo_tls (tls_connection s') = Some [cert] \<and> cert \<noteq> [65])"
proof -
  let ?s = "\<lparr>tls_connection = [9], session_principals = [\<lparr>certificate = [65], identity_id = 0, identity_file_rights = []\<rparr>]\<rparr>"
  obtain s' where run: "read_plaintext_data demo_tls ?s = (Ok (Some (0, [9])), s')"
    by (simp add: read_plaintext_data_def on_connection_def mzoom_def merr_def ok_or_def monad_defs mbind_def
        demo_tls_def peer_id_def)
  from read_plaintext_client [OF run] show ?thesis using run by (auto simp: demo_tls_def)
qed

text \<open>
  Loading a policy into the session context either fails and changes nothing, or installs one principal for each
  identity of the policy, in order, with its identifier, its file rights and its parsed certificate.
\<close>

theorem set_policy_principals:
  "case set_policy T p s of
     (Ok _, s') \<Rightarrow>
       (\<exists>ps. context_principals s' = Some ps \<and> context_policy s' = Some p \<and>
          map identity_id ps = map identity_id (identities p) \<and>
          map identity_file_rights ps = map identity_file_rights (identities p) \<and>
          map (Ok \<circ> certificate) ps = map (convert_cert_buffer T \<circ> certificate) (identities p) \<and>
          server_config s' = server_config s)
   | (_, s') \<Rightarrow> s' = s"
proof (cases rule: set_policy_cases [of T p s])
  case (1 b roots ps suite)
  then show ?thesis using convert_identities_Ok [OF 1(1)] by simp
next
  case (2 r)
  then show ?thesis by (cases r) simp_all
qed

end
