(* ===== verification/Transport.thy ===== *)
theory Transport
  imports Prelude
begin

text \<open>
  The transport protocol (\<^verbatim>\<open>transport-protocol/\<close>): the messages of \<^verbatim>\<open>protos/transport_protocol.proto\<close>, the
  functions of \<^verbatim>\<open>src/custom.rs\<close> that serialise and parse them, the length prefix, and the table of partial
  buffers that reassembles a message from the chunks of a session.

  The byte encoding of messages is the work of the \<^verbatim>\<open>protobuf\<close> library and of the code it generates:
  the record \<open>proto_crates\<close>. The messages for a retired platform (\<^verbatim>\<open>Sgx...\<close>), which no function builds or
  reads, are kept as their encoded fields.
\<close>

section \<open>Messages\<close>

type_synonym i32 = "32 word"

record FileData =
  data_file_name :: string
  data_data :: "byte list"

record PsaInit =
  init_challenge :: "byte list"
  init_device_id :: i32

datatype RequestMessage =
    WriteFile FileData
  | AppendFile FileData
  | RequestPiHash string
  | RequestResult string
  | RequestProxyPsaAttestationToken "byte list"
  | RequestShutdown
  | RequestPsaAttestationInit PsaInit
  | RequestPolicyHash
  | ReadFile string

record RuntimeManagerRequest =
  request_oneof :: "RequestMessage option"
  request_context :: u32

datatype ResponseStatus =
    UNSET
  | SUCCESS
  | FAILED_INVALID_ROLE
  | FAILED_NOT_READY
  | FAILED_GENERIC
  | FAILED_VM_ERROR
  | FAILED_ERROR_CODE_RETURNED
  | FAILED_INVALID_REQUEST

datatype ResponseMessage =
    ResultData "byte list"
  | PiHash "byte list"
  | ErrorCode "byte list"
  | StateData "byte list"
  | PolicyHash "byte list"
  | Cert "byte list"

record RuntimeManagerResponse =
  response_status :: ResponseStatus
  response_oneof :: "ResponseMessage option"
  response_context :: u32

record StartMessage =
  start_protocol :: string
  start_firmware_version :: string

record NativePsaToken =
  native_token :: "byte list"
  native_device_id :: i32
  native_csr :: "byte list"

record ProxyPsaToken =
  proxy_token :: "byte list"
  proxy_pubkey :: "byte list"
  proxy_device_id :: i32

record NitroDoc =
  nitro_doc :: "byte list"
  nitro_device_id :: i32

record Chain =
  root_cert :: "byte list"
  enclave_cert :: "byte list"

datatype ProxyRequestMessage =
    StartMsg StartMessage
  | NativePsaAttestationToken NativePsaToken
  | ProxyPsaAttestationToken ProxyPsaToken
  | SgxMsg1 "byte list"
  | SgxAttestationTokens "byte list"
  | NitroAttestationDoc NitroDoc

record ProxyAttestationServerRequest =
  proxy_request_oneof :: "ProxyRequestMessage option"
  proxy_request_context :: u32

datatype ProxyResponseMessage =
    PsaAttestationInit PsaInit
  | SgxAttestationInit "byte list"
  | SgxAttestationChallenge "byte list"
  | CertChain Chain

record ProxyAttestationServerResponse =
  proxy_response_oneof :: "ProxyResponseMessage option"
  proxy_response_context :: u32

text \<open>The library's encoder and decoder for each of the four top-level messages.\<close>

record 'm message_codec =
  write_to_bytes :: "'m \<Rightarrow> byte list option"
  parse_from_bytes :: "byte list \<Rightarrow> 'm option"

definition codec_faithful :: "'m message_codec \<Rightarrow> bool" where
  "codec_faithful c \<longleftrightarrow> (\<forall>m b. write_to_bytes c m = Some b \<longrightarrow> parse_from_bytes c b = Some m)"

record proto_crates =
  request_codec :: "RuntimeManagerRequest message_codec"
  response_codec :: "RuntimeManagerResponse message_codec"
  proxy_request_codec :: "ProxyAttestationServerRequest message_codec"
  proxy_response_codec :: "ProxyAttestationServerResponse message_codec"

text \<open>The errors raised in this part, without the payload of the library's own error.\<close>

datatype TransportProtocolError =
    ProtobufError
  | ResponseStatusError i32
  | PartialBuffer u32
  | MissingLengthPrefix u32
  | BufferNotFound u32
  | MutexError u32

section \<open>The length prefix\<close>

abbreviation LENGTH_PREFIX_SIZE :: nat where
  "LENGTH_PREFIX_SIZE \<equiv> 8"

text \<open>\<^verbatim>\<open>u64::to_be_bytes\<close> and \<^verbatim>\<open>u64::from_be_bytes\<close>.\<close>

definition to_be_bytes :: "u64 \<Rightarrow> byte list" where
  "to_be_bytes x = map (\<lambda>i. of_nat (unat x div 256 ^ i)) (rev [0..<8])"

definition from_be_bytes :: "byte list \<Rightarrow> u64" where
  "from_be_bytes bs = of_nat (foldl (\<lambda>a b. a * 256 + unat b) 0 bs)"

definition get_length_prefix :: "u32 \<Rightarrow> byte list \<Rightarrow> (TransportProtocolError, u64 \<times> byte list) result" where
  "get_length_prefix session_id buffer =
     (if length buffer < LENGTH_PREFIX_SIZE then Err (MissingLengthPrefix session_id)
      else Ok (from_be_bytes (take LENGTH_PREFIX_SIZE buffer), drop LENGTH_PREFIX_SIZE buffer))"

definition set_length_prefix :: "byte list \<Rightarrow> byte list" where
  "set_length_prefix buffer = to_be_bytes (of_nat (length buffer)) @ buffer"

section \<open>Reassembly of messages\<close>

type_synonym buffers = "u32 \<rightharpoonup> u64 \<times> byte list"

definition handle_protocol_buffer :: "u32 option \<Rightarrow> byte list \<Rightarrow> (buffers, TransportProtocolError, byte list) sm" where
  "handle_protocol_buffer session input =
     (let session_id = (case session of None \<Rightarrow> 0 | Some s \<Rightarrow> s) in
      mbind mget (\<lambda>h.
      mbind (if h session_id = None
             then mbind (mlift (get_length_prefix session_id input)) (\<lambda>(expected, rest).
                  mbind (mmodify (\<lambda>h. h(session_id \<mapsto> (expected, [])))) (\<lambda>_.
                  mreturn rest))
             else mreturn input) (\<lambda>chunk.
      mbind mget (\<lambda>h.
      case h session_id of
        None \<Rightarrow> mthrow (BufferNotFound session_id)
      | Some (expected, incoming) \<Rightarrow>
          mbind (mmodify (\<lambda>h. h(session_id \<mapsto> (expected, incoming @ chunk)))) (\<lambda>_.
          if length (incoming @ chunk) < unat expected then mthrow (PartialBuffer session_id)
          else mbind (mmodify (\<lambda>h. h(session_id := None))) (\<lambda>_.
               mreturn (incoming @ chunk)))))))"

definition parse_message ::
  "'m message_codec \<Rightarrow> u32 option \<Rightarrow> byte list \<Rightarrow> (buffers, TransportProtocolError, 'm) sm" where
  "parse_message c session buffer =
     mbind (handle_protocol_buffer session buffer) (\<lambda>full.
     mlift (ok_or ProtobufError (parse_from_bytes c full)))"

definition parse_runtime_manager_request ::
  "proto_crates \<Rightarrow> u32 option \<Rightarrow> byte list \<Rightarrow> (buffers, TransportProtocolError, RuntimeManagerRequest) sm" where
  "parse_runtime_manager_request P = parse_message (request_codec P)"

definition parse_runtime_manager_response ::
  "proto_crates \<Rightarrow> u32 option \<Rightarrow> byte list \<Rightarrow> (buffers, TransportProtocolError, RuntimeManagerResponse) sm" where
  "parse_runtime_manager_response P = parse_message (response_codec P)"

definition parse_proxy_attestation_server_request ::
  "proto_crates \<Rightarrow> u32 option \<Rightarrow> byte list \<Rightarrow> (buffers, TransportProtocolError, ProxyAttestationServerRequest) sm" where
  "parse_proxy_attestation_server_request P = parse_message (proxy_request_codec P)"

definition parse_proxy_attestation_server_response ::
  "proto_crates \<Rightarrow> u32 option \<Rightarrow> byte list \<Rightarrow> (buffers, TransportProtocolError, ProxyAttestationServerResponse) sm" where
  "parse_proxy_attestation_server_response P = parse_message (proxy_response_codec P)"

section \<open>Serialisation\<close>

definition serialize :: "'m message_codec \<Rightarrow> 'm \<Rightarrow> (TransportProtocolError, byte list) result" where
  "serialize c m =
     (case write_to_bytes c m of None \<Rightarrow> Err ProtobufError | Some buffer \<Rightarrow> Ok (set_length_prefix buffer))"

definition new_request :: "RequestMessage \<Rightarrow> RuntimeManagerRequest" where
  "new_request m = \<lparr>request_oneof = Some m, request_context = 0\<rparr>"

definition new_response :: "ResponseStatus \<Rightarrow> ResponseMessage option \<Rightarrow> RuntimeManagerResponse" where
  "new_response st m = \<lparr>response_status = st, response_oneof = m, response_context = 0\<rparr>"

definition new_proxy_request :: "ProxyRequestMessage \<Rightarrow> ProxyAttestationServerRequest" where
  "new_proxy_request m = \<lparr>proxy_request_oneof = Some m, proxy_request_context = 0\<rparr>"

definition new_proxy_response :: "ProxyResponseMessage \<Rightarrow> ProxyAttestationServerResponse" where
  "new_proxy_response m = \<lparr>proxy_response_oneof = Some m, proxy_response_context = 0\<rparr>"

definition serialize_program :: "proto_crates \<Rightarrow> byte list \<Rightarrow> string \<Rightarrow> (TransportProtocolError, byte list) result" where
  "serialize_program P program_buffer file_name =
     serialize (request_codec P)
       (new_request (WriteFile \<lparr>data_file_name = file_name, data_data = program_buffer\<rparr>))"

definition serialize_program_data :: "proto_crates \<Rightarrow> byte list \<Rightarrow> string \<Rightarrow> (TransportProtocolError, byte list) result" where
  "serialize_program_data P data_buffer file_name =
     serialize (request_codec P)
       (new_request (WriteFile \<lparr>data_file_name = file_name, data_data = data_buffer\<rparr>))"

definition serialize_write_file :: "proto_crates \<Rightarrow> byte list \<Rightarrow> string \<Rightarrow> (TransportProtocolError, byte list) result" where
  "serialize_write_file P data_buffer file_name =
     serialize (request_codec P)
       (new_request (WriteFile \<lparr>data_file_name = file_name, data_data = data_buffer\<rparr>))"

definition serialize_read_file :: "proto_crates \<Rightarrow> string \<Rightarrow> (TransportProtocolError, byte list) result" where
  "serialize_read_file P file_name = serialize (request_codec P) (new_request (ReadFile file_name))"

definition serialize_stream :: "proto_crates \<Rightarrow> byte list \<Rightarrow> string \<Rightarrow> (TransportProtocolError, byte list) result" where
  "serialize_stream P data_buffer file_name =
     serialize (request_codec P)
       (new_request (AppendFile \<lparr>data_file_name = file_name, data_data = data_buffer\<rparr>))"

definition serialize_request_result :: "proto_crates \<Rightarrow> string \<Rightarrow> (TransportProtocolError, byte list) result" where
  "serialize_request_result P file_name = serialize (request_codec P) (new_request (RequestResult file_name))"

definition serialize_request_shutdown :: "proto_crates \<Rightarrow> (TransportProtocolError, byte list) result" where
  "serialize_request_shutdown P = serialize (request_codec P) (new_request RequestShutdown)"

definition serialize_request_proxy_psa_attestation_token ::
  "proto_crates \<Rightarrow> byte list \<Rightarrow> (TransportProtocolError, byte list) result" where
  "serialize_request_proxy_psa_attestation_token P challenge =
     serialize (request_codec P) (new_request (RequestProxyPsaAttestationToken challenge))"

definition parse_cert_chain :: "Chain \<Rightarrow> byte list \<times> byte list" where
  "parse_cert_chain chain = (root_cert chain, enclave_cert chain)"

definition serialize_proxy_psa_attestation_token ::
  "proto_crates \<Rightarrow> byte list \<Rightarrow> byte list \<Rightarrow> i32 \<Rightarrow> (TransportProtocolError, byte list) result" where
  "serialize_proxy_psa_attestation_token P token pubkey device_id =
     serialize (proxy_request_codec P) (new_proxy_request
       (ProxyPsaAttestationToken \<lparr>proxy_token = token, proxy_pubkey = pubkey, proxy_device_id = device_id\<rparr>))"

definition serialize_nitro_attestation_doc ::
  "proto_crates \<Rightarrow> byte list \<Rightarrow> i32 \<Rightarrow> (TransportProtocolError, byte list) result" where
  "serialize_nitro_attestation_doc P doc device_id =
     serialize (proxy_request_codec P)
       (new_proxy_request (NitroAttestationDoc \<lparr>nitro_doc = doc, nitro_device_id = device_id\<rparr>))"

definition serialize_certificate :: "proto_crates \<Rightarrow> byte list \<Rightarrow> (TransportProtocolError, byte list) result" where
  "serialize_certificate P cert = serialize (response_codec P) (new_response UNSET (Some (Cert cert)))"

definition parse_proxy_psa_attestation_token :: "ProxyPsaToken \<Rightarrow> byte list \<times> byte list \<times> i32" where
  "parse_proxy_psa_attestation_token p = (proxy_token p, proxy_pubkey p, proxy_device_id p)"

definition serialize_native_psa_attestation_token ::
  "proto_crates \<Rightarrow> byte list \<Rightarrow> byte list \<Rightarrow> i32 \<Rightarrow> (TransportProtocolError, byte list) result" where
  "serialize_native_psa_attestation_token P token csr device_id =
     serialize (proxy_request_codec P) (new_proxy_request
       (NativePsaAttestationToken \<lparr>native_token = token, native_device_id = device_id, native_csr = csr\<rparr>))"

definition parse_native_psa_attestation_token :: "NativePsaToken \<Rightarrow> byte list \<times> byte list \<times> i32" where
  "parse_native_psa_attestation_token p = (native_token p, native_csr p, native_device_id p)"

definition parse_nitro_attestation_doc :: "NitroDoc \<Rightarrow> byte list \<times> i32" where
  "parse_nitro_attestation_doc p = (nitro_doc p, nitro_device_id p)"

definition serialize_cert_chain ::
  "proto_crates \<Rightarrow> byte list \<Rightarrow> byte list \<Rightarrow> (TransportProtocolError, byte list) result" where
  "serialize_cert_chain P ec rc =
     serialize (proxy_response_codec P) (new_proxy_response (CertChain \<lparr>root_cert = rc, enclave_cert = ec\<rparr>))"

definition serialize_psa_attestation_init ::
  "proto_crates \<Rightarrow> byte list \<Rightarrow> i32 \<Rightarrow> (TransportProtocolError, byte list) result" where
  "serialize_psa_attestation_init P challenge device_id =
     serialize (proxy_response_codec P)
       (new_proxy_response (PsaAttestationInit \<lparr>init_challenge = challenge, init_device_id = device_id\<rparr>))"

definition parse_psa_attestation_init :: "PsaInit \<Rightarrow> (TransportProtocolError, byte list \<times> i32) result" where
  "parse_psa_attestation_init p = Ok (init_challenge p, init_device_id p)"

definition serialize_request_pi_hash :: "proto_crates \<Rightarrow> string \<Rightarrow> (TransportProtocolError, byte list) result" where
  "serialize_request_pi_hash P file_name = serialize (request_codec P) (new_request (RequestPiHash file_name))"

definition serialize_request_policy_hash :: "proto_crates \<Rightarrow> (TransportProtocolError, byte list) result" where
  "serialize_request_policy_hash P = serialize (request_codec P) (new_request RequestPolicyHash)"

definition serialize_machine_state :: "proto_crates \<Rightarrow> byte \<Rightarrow> (TransportProtocolError, byte list) result" where
  "serialize_machine_state P machine_state =
     serialize (response_codec P) (new_response SUCCESS (Some (StateData [machine_state])))"

definition serialize_pi_hash :: "proto_crates \<Rightarrow> byte list \<Rightarrow> (TransportProtocolError, byte list) result" where
  "serialize_pi_hash P h = serialize (response_codec P) (new_response SUCCESS (Some (PiHash h)))"

definition serialize_policy_hash :: "proto_crates \<Rightarrow> byte list \<Rightarrow> (TransportProtocolError, byte list) result" where
  "serialize_policy_hash P h = serialize (response_codec P) (new_response SUCCESS (Some (PolicyHash h)))"

text \<open>The numbers the interface description gives the status values.\<close>

primrec status_i32 :: "ResponseStatus \<Rightarrow> i32" where
  "status_i32 UNSET = 0"
| "status_i32 SUCCESS = 1"
| "status_i32 FAILED_INVALID_ROLE = 2"
| "status_i32 FAILED_NOT_READY = 3"
| "status_i32 FAILED_GENERIC = 4"
| "status_i32 FAILED_VM_ERROR = 5"
| "status_i32 FAILED_ERROR_CODE_RETURNED = 6"
| "status_i32 FAILED_INVALID_REQUEST = 7"

definition status_from_i32 :: "i32 \<Rightarrow> ResponseStatus option" where
  "status_from_i32 n =
     find (\<lambda>st. status_i32 st = n)
       [UNSET, SUCCESS, FAILED_INVALID_ROLE, FAILED_NOT_READY, FAILED_GENERIC, FAILED_VM_ERROR,
        FAILED_ERROR_CODE_RETURNED, FAILED_INVALID_REQUEST]"

definition serialize_empty_response :: "proto_crates \<Rightarrow> i32 \<Rightarrow> (TransportProtocolError, byte list) result" where
  "serialize_empty_response P status =
     (case status_from_i32 status of
        None \<Rightarrow> Err (ResponseStatusError status)
      | Some st \<Rightarrow> serialize (response_codec P) (new_response st None))"

definition serialize_result ::
  "proto_crates \<Rightarrow> i32 \<Rightarrow> byte list option \<Rightarrow> (TransportProtocolError, byte list) result" where
  "serialize_result P status data_opt =
     (case status_from_i32 status of
        None \<Rightarrow> Err (ResponseStatusError status)
      | Some st \<Rightarrow> serialize (response_codec P) (new_response st (map_option ResultData data_opt)))"

primrec decoded_status :: "ResponseStatus \<Rightarrow> i32" where
  "decoded_status UNSET = - 1"
| "decoded_status SUCCESS = 0"
| "decoded_status FAILED_INVALID_ROLE = 1"
| "decoded_status FAILED_NOT_READY = 2"
| "decoded_status FAILED_GENERIC = 3"
| "decoded_status FAILED_VM_ERROR = 4"
| "decoded_status FAILED_ERROR_CODE_RETURNED = 5"
| "decoded_status FAILED_INVALID_REQUEST = 6"

definition parse_result :: "RuntimeManagerResponse \<Rightarrow> (TransportProtocolError, byte list option) result" where
  "parse_result response =
     (if response_status response \<noteq> SUCCESS
      then Err (ResponseStatusError (decoded_status (response_status response)))
      else Ok (case response_oneof response of Some (ResultData data) \<Rightarrow> Some data | _ \<Rightarrow> None))"

text \<open>A missing start message reads as the default one, with empty fields.\<close>

definition parse_start_msg :: "ProxyAttestationServerRequest \<Rightarrow> string \<times> string" where
  "parse_start_msg parsed =
     (case proxy_request_oneof parsed of
        Some (StartMsg m) \<Rightarrow> (start_protocol m, start_firmware_version m)
      | _ \<Rightarrow> ([], []))"

definition serialize_start_msg :: "proto_crates \<Rightarrow> string \<Rightarrow> string \<Rightarrow> (TransportProtocolError, byte list) result" where
  "serialize_start_msg P protocol firmware_version =
     serialize (proxy_request_codec P)
       (new_proxy_request (StartMsg \<lparr>start_protocol = protocol, start_firmware_version = firmware_version\<rparr>))"

section \<open>The length prefix round trip\<close>

lemma digits_base:
  "foldl (\<lambda>a b. a * 256 + unat (b :: byte)) acc (map (\<lambda>i. of_nat (n div 256 ^ i)) (rev [0..<k])) =
     acc * 256 ^ k + n mod 256 ^ k"
proof (induction k arbitrary: acc)
  case (Suc k)
  have "n mod (256 ^ k * 256) = 256 ^ k * (n div 256 ^ k mod 256) + n mod 256 ^ k"
    by (rule mod_mult2_eq)
  moreover have "unat (of_nat (n div 256 ^ k) :: byte) = n div 256 ^ k mod 256"
    by (simp add: unsigned_of_nat take_bit_eq_mod)
  ultimately show ?case using Suc.IH by (simp add: algebra_simps)
qed simp

lemma length_to_be_bytes [simp]: "length (to_be_bytes x) = 8"
  by (simp add: to_be_bytes_def)

lemma from_to_be_bytes [simp]: "from_be_bytes (to_be_bytes x) = x"
proof -
  have "unat x < 2 ^ LENGTH(64)" by (rule unsigned_less)
  then have "unat x mod 256 ^ 8 = unat x" by simp
  then show ?thesis using digits_base [of 0 "unat x" 8] by (simp add: from_be_bytes_def to_be_bytes_def)
qed

section \<open>Reassembly\<close>

definition receive ::
  "u32 \<Rightarrow> u64 \<Rightarrow> byte list \<Rightarrow> (TransportProtocolError, byte list) result \<times> (u64 \<times> byte list) option" where
  "receive s e b = (if length b < unat e then (Err (PartialBuffer s), Some (e, b)) else (Ok b, None))"

definition buffer_step ::
  "u32 \<Rightarrow> byte list \<Rightarrow> (u64 \<times> byte list) option \<Rightarrow>
   (TransportProtocolError, byte list) result \<times> (u64 \<times> byte list) option" where
  "buffer_step s c old =
     (case old of
        None \<Rightarrow> if length c < LENGTH_PREFIX_SIZE then (Err (MissingLengthPrefix s), None)
                else receive s (from_be_bytes (take LENGTH_PREFIX_SIZE c)) (drop LENGTH_PREFIX_SIZE c)
      | Some (e, b) \<Rightarrow> receive s e (b @ c))"

text \<open>The table of partial buffers keeps the sessions apart.\<close>

definition receive_chunk :: "u32 \<Rightarrow> byte list \<Rightarrow> (buffers, TransportProtocolError, byte list) sm" where
  "receive_chunk s = handle_protocol_buffer (Some s)"

interpretation incoming: keyed receive_chunk buffer_step
  by unfold_locales
    (auto simp: receive_chunk_def handle_protocol_buffer_def buffer_step_def receive_def get_length_prefix_def Let_def monad_defs
      mbind_def split: option.split)

lemma receive_chunk_first:
  "h s = None \<Longrightarrow> LENGTH_PREFIX_SIZE \<le> length c \<Longrightarrow>
     receive_chunk s c h =
       (let (r, v) = receive s (from_be_bytes (take LENGTH_PREFIX_SIZE c)) (drop LENGTH_PREFIX_SIZE c)
        in (r, h(s := v)))"
  by (simp add: incoming.step_local buffer_step_def Let_def case_prod_unfold)

lemma receive_chunk_next:
  "h s = Some (e, b) \<Longrightarrow> receive_chunk s c h = (let (r, v) = receive s e (b @ c) in (r, h(s := v)))"
  by (simp add: incoming.step_local buffer_step_def Let_def case_prod_unfold)

lemmas buffer_simps = receive_chunk_first receive_chunk_next receive_def

lemma nonempty_part: "x \<in> set xs \<Longrightarrow> x \<noteq> [] \<Longrightarrow> 0 < length (concat xs)"
  by (cases "concat xs") auto

lemma buffer_run:
  assumes "cs \<noteq> []" and "last cs \<noteq> []" and "h s = Some (e, acc)" and "length (acc @ concat cs) = unat e"
  shows "fst (run_all receive_chunk (map (Pair s) cs) h) =
      map (Pair s) (replicate (length cs - 1) (Err (PartialBuffer s)) @ [Ok (acc @ concat cs)]) \<and>
    snd (run_all receive_chunk (map (Pair s) cs) h) s = None"
  using assms
proof (induction cs arbitrary: h acc)
  case (Cons c cs)
  show ?case
  proof (cases "cs = []")
    case True
    then show ?thesis using Cons.prems by (simp add: buffer_simps)
  next
    case False
    have "last cs \<in> set cs" "last cs \<noteq> []" using False Cons.prems by simp_all
    then have "0 < length (concat cs)" by (rule nonempty_part)
    moreover have "length acc + (length c + length (concat cs)) = unat e" using Cons.prems(4) by simp
    ultimately have "length (acc @ c) < unat e" unfolding length_append by linarith
    moreover obtain n where "length cs = Suc n" using False by (cases cs) auto
    ultimately show ?thesis
      using Cons.IH [of "h(s \<mapsto> (e, acc @ c))" "acc @ c"] Cons.prems False
      by (simp add: buffer_simps Let_def case_prod_unfold fun_upd_same del: fun_upd_apply)
  qed
qed simp

lemma framed_take_drop:
  assumes "concat (c # cs) = set_length_prefix b" and "8 \<le> length c"
  shows "take 8 c = to_be_bytes (of_nat (length b))" and "drop 8 c @ concat cs = b"
proof -
  have "take 8 (c @ concat cs) = take 8 c" "drop 8 (c @ concat cs) = drop 8 c @ concat cs"
    using assms(2) by simp_all
  moreover have "c @ concat cs = set_length_prefix b" using assms(1) by simp
  ultimately show "take 8 c = to_be_bytes (of_nat (length b))" "drop 8 c @ concat cs = b"
    unfolding set_length_prefix_def by (metis length_to_be_bytes append_eq_conv_conj)+
qed

lemma framed_run:
  assumes "concat cs = set_length_prefix b" and "cs \<noteq> []" and "8 \<le> length (hd cs)" and "last cs \<noteq> []"
    and "length b < 2 ^ 64" and "h s = None"
  shows "fst (run_all receive_chunk (map (Pair s) cs) h) =
      map (Pair s) (replicate (length cs - 1) (Err (PartialBuffer s)) @ [Ok b]) \<and>
    snd (run_all receive_chunk (map (Pair s) cs) h) s = None"
proof -
  obtain c cs' where cs: "cs = c # cs'" using assms(2) by (cases cs) auto
  note frame = framed_take_drop [of c cs' b]
  have pre: "take 8 c = to_be_bytes (of_nat (length b))" "drop 8 c @ concat cs' = b" "8 \<le> length c"
    using frame assms(1,3) by (simp_all add: cs)
  have e: "unat (of_nat (length b) :: u64) = length b" using assms(5) by simp
  show ?thesis
  proof (cases "cs' = []")
    case True
    then show ?thesis using pre e assms(6) by (simp add: cs buffer_simps)
  next
    case False
    have "last cs' \<in> set cs'" "last cs' \<noteq> []" using False assms(4) by (simp_all add: cs)
    then have "0 < length (concat cs')" by (rule nonempty_part)
    then have "length (drop 8 c) < length b" using pre(2) by (metis length_append less_add_same_cancel1)
    moreover obtain n where "length cs' = Suc n" using False by (cases cs') auto
    ultimately show ?thesis
      using buffer_run [of cs' "h(s \<mapsto> (of_nat (length b), drop 8 c))" s "of_nat (length b)" "drop 8 c"]
        pre e assms(4,6) False
      by (simp add: cs buffer_simps Let_def case_prod_unfold fun_upd_same del: fun_upd_apply)
  qed
qed

lemma set_length_prefix_simps [simp]:
  "length (set_length_prefix b) = 8 + length b" "take 8 (set_length_prefix b) = to_be_bytes (of_nat (length b))"
  "drop 8 (set_length_prefix b) = b"
  by (simp_all add: set_length_prefix_def)

lemma parse_framed:
  assumes "codec_faithful c" and "serialize c m = Ok f" and "length f \<le> isize_max" and "h s = None"
  shows "parse_message c (Some s) f h = (Ok m, h)"
proof -
  obtain b where b: "write_to_bytes c m = Some b" "f = set_length_prefix b"
    using assms(2) by (auto simp: serialize_def split: option.splits)
  then have "length b < 2 ^ 64" using assms(3) isize_max_less(2) [of "length b"] by simp
  then have "receive_chunk s f h = (Ok b, h)"
    using assms(4) b(2) by (auto simp: buffer_simps fun_upd_idem)
  then show ?thesis
    using assms(1) b(1) by (simp add: parse_message_def receive_chunk_def codec_faithful_def ok_or_def mbind_def
      monad_defs)
qed

section \<open>Properties\<close>

text \<open>A library that can encode one message of each kind, for the examples.\<close>

definition one_message :: "'m \<Rightarrow> 'm message_codec" where
  "one_message m = \<lparr>write_to_bytes = (\<lambda>x. if x = m then Some [7, 7, 7] else None),
     parse_from_bytes = (\<lambda>b. if b = [7, 7, 7] then Some m else None)\<rparr>"

lemma one_message_faithful: "codec_faithful (one_message m)"
  by (simp add: codec_faithful_def one_message_def)

definition demo_request :: RuntimeManagerRequest where
  "demo_request = new_request (WriteFile \<lparr>data_file_name = ''/a'', data_data = [1]\<rparr>)"

definition demo_proto :: proto_crates where
  "demo_proto = \<lparr>request_codec = one_message demo_request,
     response_codec = one_message (new_response FAILED_NOT_READY None),
     proxy_request_codec = one_message (new_proxy_request (SgxMsg1 [])),
     proxy_response_codec = one_message (new_proxy_response (SgxAttestationInit []))\<rparr>"

text \<open>
  C14. Reassembly. When the chunks of a session are the pieces of one framed message, the first with the
  whole length prefix and the last not empty, then every chunk but the last is answered with
  \<^verbatim>\<open>PartialBuffer\<close>, the last one yields exactly the message, and the session's buffer is gone, whatever chunks
  other sessions send in between.
\<close>

theorem reassembly_interleaved:
  assumes "map snd (filter (\<lambda>x. fst x = s) evs) = cs" and "concat cs = set_length_prefix b"
    and "cs \<noteq> []" and "8 \<le> length (hd cs)" and "last cs \<noteq> []" and "length b < 2 ^ 64" and "h s = None"
  shows "filter (\<lambda>x. fst x = s) (fst (run_all (\<lambda>s. handle_protocol_buffer (Some s)) evs h)) =
      map (Pair s) (replicate (length cs - 1) (Err (PartialBuffer s)) @ [Ok b]) \<and>
    snd (run_all (\<lambda>s. handle_protocol_buffer (Some s)) evs h) s = None"
proof -
  have "filter (\<lambda>x. fst x = s) evs = map (Pair s) cs"
    unfolding assms(1) [symmetric] by (induction evs) auto
  moreover have "receive_chunk = (\<lambda>s. handle_protocol_buffer (Some s))"
    by (rule ext) (rule receive_chunk_def)
  ultimately show ?thesis
    using incoming.independent [where k = s and xs = evs and m = h] framed_run [of cs b h s, OF assms(2-7)] by simp
qed

theorem reassembly_interleaved_witness:
  "filter (\<lambda>x. fst x = 1) (fst (run_all (\<lambda>s. handle_protocol_buffer (Some s))
       [(1, [0, 0, 0, 0, 0, 0, 0, 3, 5]), (2, [9]), (1, []), (1, [6, 7])] Map.empty)) =
     [(1, Err (PartialBuffer 1)), (1, Err (PartialBuffer 1)), (1, Ok [5, 6, 7])]"
proof -
  have "set_length_prefix [5, 6, 7] = [0, 0, 0, 0, 0, 0, 0, 3, 5, 6, 7]"
    by (simp add: set_length_prefix_def to_be_bytes_def upt_rec)
  then show ?thesis
    using reassembly_interleaved [of 1 "[(1, [0, 0, 0, 0, 0, 0, 0, 3, 5]), (2, [9]), (1, []), (1, [6, 7])]"
        "[[0, 0, 0, 0, 0, 0, 0, 3, 5], [], [6, 7]]" "[5, 6, 7]" Map.empty]
    by simp
qed

text \<open>
  Bytes after the end of a message are not kept for the next one. When a chunk completes a message and holds
  more bytes, the reader returns the message with the extra bytes appended.
\<close>

theorem extra_bytes_glued:
  assumes "h s = None" and "length b < 2 ^ 64"
  shows "handle_protocol_buffer (Some s) (set_length_prefix b @ extra) h = (Ok (b @ extra), h)"
proof -
  have "receive_chunk s (set_length_prefix b @ extra) h = (Ok (b @ extra), h)"
    using assms by (auto simp: buffer_simps fun_upd_idem)
  then show ?thesis by (simp add: receive_chunk_def)
qed

theorem extra_bytes_glued_witness:
  "handle_protocol_buffer (Some 4) (set_length_prefix [1] @ set_length_prefix [2]) Map.empty =
     (Ok (1 # set_length_prefix [2]), Map.empty)"
  using extra_bytes_glued [of Map.empty 4 "[1]" "set_length_prefix [2]"] by simp

text \<open>
  C37. What the client side serialises, the runtime parses: a request sent as one chunk on a session
  without a partial buffer is understood as the request it was.
\<close>

theorem request_roundtrip:
  assumes "codec_faithful (request_codec P)" and "length f \<le> isize_max" and "h s = None"
  shows "(serialize_write_file P data name = Ok f \<longrightarrow> parse_runtime_manager_request P (Some s) f h =
      (Ok (new_request (WriteFile \<lparr>data_file_name = name, data_data = data\<rparr>)), h)) \<and>
    (serialize_stream P data name = Ok f \<longrightarrow> parse_runtime_manager_request P (Some s) f h =
      (Ok (new_request (AppendFile \<lparr>data_file_name = name, data_data = data\<rparr>)), h)) \<and>
    (serialize_read_file P name = Ok f \<longrightarrow> parse_runtime_manager_request P (Some s) f h =
      (Ok (new_request (ReadFile name)), h)) \<and>
    (serialize_request_result P name = Ok f \<longrightarrow> parse_runtime_manager_request P (Some s) f h =
      (Ok (new_request (RequestResult name)), h)) \<and>
    (serialize_request_shutdown P = Ok f \<longrightarrow> parse_runtime_manager_request P (Some s) f h =
      (Ok (new_request RequestShutdown), h))"
  using assms
  by (auto simp: serialize_write_file_def serialize_stream_def serialize_read_file_def serialize_request_result_def
      serialize_request_shutdown_def parse_runtime_manager_request_def parse_framed)

theorem request_roundtrip_witness:
  "parse_runtime_manager_request demo_proto (Some 1) (set_length_prefix [7, 7, 7]) Map.empty =
     (Ok demo_request, Map.empty)"
proof -
  have "serialize_write_file demo_proto [1] ''/a'' = Ok (set_length_prefix [7, 7, 7])"
    by (simp add: serialize_write_file_def serialize_def demo_proto_def one_message_def demo_request_def)
  moreover have "codec_faithful (request_codec demo_proto)"
    by (simp add: demo_proto_def one_message_faithful)
  ultimately show ?thesis
    using request_roundtrip [of demo_proto "set_length_prefix [7, 7, 7]" Map.empty 1 "[1]" "''/a''"]
    by (simp add: isize_max_def demo_request_def)
qed

text \<open>
  A result sent with status \<^verbatim>\<open>SUCCESS\<close> (number 1) comes back with its data; any other status becomes an
  error, whose number is one less than the number that was sent.
\<close>

theorem result_roundtrip:
  assumes "codec_faithful (response_codec P)" and "serialize_result P status data = Ok f"
    and "length f \<le> isize_max" and "h s = None"
  shows "\<exists>r. parse_runtime_manager_response P (Some s) f h = (Ok r, h) \<and>
    parse_result r = (if status = 1 then Ok data else Err (ResponseStatusError (status - 1)))"
proof -
  obtain st where st: "status_from_i32 status = Some st"
    and f: "serialize (response_codec P) (new_response st (map_option ResultData data)) = Ok f"
    using assms(2) by (auto simp: serialize_result_def split: option.splits)
  have "status_i32 st = status" using st by (auto simp: status_from_i32_def split: if_splits)
  then have "parse_result (new_response st (map_option ResultData data)) =
      (if status = 1 then Ok data else Err (ResponseStatusError (status - 1)))"
    by (cases st; cases data) (auto simp: parse_result_def new_response_def)
  then show ?thesis
    using parse_framed [of "response_codec P" _ f h s, OF assms(1) f assms(3,4)] by (auto simp: parse_runtime_manager_response_def)
qed

theorem result_roundtrip_witness:
  "\<exists>r. parse_runtime_manager_response demo_proto (Some 1) (set_length_prefix [7, 7, 7]) Map.empty = (Ok r, Map.empty) \<and>
     parse_result r = Err (ResponseStatusError 2)"
proof -
  have "serialize_result demo_proto 3 None = Ok (set_length_prefix [7, 7, 7])"
    by (simp add: serialize_result_def status_from_i32_def serialize_def demo_proto_def one_message_def)
  moreover have "codec_faithful (response_codec demo_proto)"
    by (simp add: demo_proto_def one_message_faithful)
  ultimately show ?thesis
    using result_roundtrip [of demo_proto 3 None "set_length_prefix [7, 7, 7]" Map.empty 1] by (simp add: isize_max_def)
qed

end
