(* ===== verification/Memory.thy ===== *)
theory Memory
  imports WasiTypes
begin

text \<open>
  The memory of a WebAssembly program as the host sees it: the trait \<^verbatim>\<open>MemoryHandler\<close> of
  \<^verbatim>\<open>execution-engine/src/wasi/common.rs\<close> with its default methods, and the unpacking of the WASI structures.

  A memory is the list of its bytes, or \<open>None\<close> when the module exports no memory, which the handler of
  \<^verbatim>\<open>wasmtime\<close> reports as \<^verbatim>\<open>NoMem\<close>. The handlers of both engines slice the bytes at \<^verbatim>\<open>address..address + length\<close>, with
  the sum in 64 bits, so an access out of bounds is a panic of the host. Sums of 32-bit
  addresses in the code itself wrap around, as they do in a release build.
\<close>

section \<open>Slices\<close>

type_synonym memory = "byte list option"
type_synonym 'a mem_op = "(memory, ErrNo, 'a) sm"

definition get_slice :: "u32 \<Rightarrow> u32 \<Rightarrow> byte list mem_op" where
  "get_slice address len m =
     (case m of
        None \<Rightarrow> (Err NoMem, m)
      | Some b \<Rightarrow>
          (if unat address + unat len \<le> length b then Ok (take (unat len) (drop (unat address) b)) else Panic, m))"

text \<open>\<^verbatim>\<open>get_slice_mut(address, len)?.as_mut().copy_from_slice(buffer)\<close>; lengths that differ are a panic.\<close>

definition set_slice :: "u32 \<Rightarrow> u32 \<Rightarrow> byte list \<Rightarrow> unit mem_op" where
  "set_slice address len buffer m =
     (case m of
        None \<Rightarrow> (Err NoMem, m)
      | Some b \<Rightarrow>
          if unat address + unat len \<le> length b \<and> length buffer = unat len
          then (Ok (), Some (copy_at (unat address) buffer b)) else (Panic, m))"

definition get_size :: "u32 mem_op" where
  "get_size m =
     (case m of
        None \<Rightarrow> (Err NoMem, m)
      | Some b \<Rightarrow> (if length b < 2 ^ 32 then Ok (of_nat (length b)) else Panic, m))"

section \<open>Buffers, strings, numbers\<close>

definition write_buffer :: "u32 \<Rightarrow> byte list \<Rightarrow> unit mem_op" where
  "write_buffer address buffer =
     mbind (mlift (u32_try_from_usize Inval (length buffer))) (\<lambda>len. set_slice address len buffer)"

text \<open>The bytes that \<^verbatim>\<open>read_buffer\<close> copies into a buffer of \<open>n\<close> bytes.\<close>

definition read_buffer :: "u32 \<Rightarrow> nat \<Rightarrow> byte list mem_op" where
  "read_buffer address n = mbind (mlift (u32_try_from_usize Inval n)) (\<lambda>len. get_slice address len)"

text \<open>The well-formed byte sequences of UTF-8, which \<^verbatim>\<open>String::from_utf8\<close> accepts.\<close>

definition utf8_cont :: "byte \<Rightarrow> bool" where
  "utf8_cont b \<longleftrightarrow> 0x80 \<le> b \<and> b \<le> 0xBF"

definition utf8_second :: "byte \<Rightarrow> byte \<Rightarrow> bool" where
  "utf8_second b c \<longleftrightarrow> utf8_cont c \<and> (b = 0xE0 \<longrightarrow> 0xA0 \<le> c) \<and> (b = 0xED \<longrightarrow> c \<le> 0x9F) \<and>
     (b = 0xF0 \<longrightarrow> 0x90 \<le> c) \<and> (b = 0xF4 \<longrightarrow> c \<le> 0x8F)"

fun utf8_valid :: "byte list \<Rightarrow> bool" where
  "utf8_valid [] = True"
| "utf8_valid (b # bs) =
     (if b < 0x80 then utf8_valid bs
      else if 0xC2 \<le> b \<and> b \<le> 0xDF
      then (case bs of c # r \<Rightarrow> utf8_cont c \<and> utf8_valid r | _ \<Rightarrow> False)
      else if 0xE0 \<le> b \<and> b \<le> 0xEF
      then (case bs of c # d # r \<Rightarrow> utf8_second b c \<and> utf8_cont d \<and> utf8_valid r | _ \<Rightarrow> False)
      else if 0xF0 \<le> b \<and> b \<le> 0xF4
      then (case bs of c # d # e # r \<Rightarrow> utf8_second b c \<and> utf8_cont d \<and> utf8_cont e \<and> utf8_valid r | _ \<Rightarrow> False)
      else False)"

definition from_utf8 :: "byte list \<Rightarrow> string option" where
  "from_utf8 bs = (if utf8_valid bs then Some (map (\<lambda>b. char_of (unat b)) bs) else None)"

definition read_cstring :: "u32 \<Rightarrow> u32 \<Rightarrow> string mem_op" where
  "read_cstring address len =
     mbind (read_buffer address (unat len)) (\<lambda>bytes. mlift (ok_or IlSeq (from_utf8 bytes)))"

definition read_u16 :: "u32 \<Rightarrow> u16 mem_op" where
  "read_u16 address = mbind (read_buffer address 2) (\<lambda>bytes. mreturn (of_nat (from_le bytes)))"

definition write_u32 :: "u32 \<Rightarrow> u32 \<Rightarrow> unit mem_op" where
  "write_u32 address number = write_buffer address (le_bytes 4 (unat number))"

definition read_u32 :: "u32 \<Rightarrow> u32 mem_op" where
  "read_u32 address = mbind (read_buffer address 4) (\<lambda>bytes. mreturn (of_nat (from_le bytes)))"

definition write_u64 :: "u32 \<Rightarrow> u64 \<Rightarrow> unit mem_op" where
  "write_u64 address number = write_buffer address (le_bytes 8 (unat number))"

definition read_u64 :: "u32 \<Rightarrow> u64 mem_op" where
  "read_u64 address = mbind (read_buffer address 8) (\<lambda>bytes. mreturn (of_nat (from_le bytes)))"

text \<open>A structure is written as the bytes of its representation, which are an argument here.\<close>

definition write_struct :: "u32 \<Rightarrow> byte list \<Rightarrow> unit mem_op" where
  "write_struct address representation = write_buffer address representation"

definition write_string :: "u32 \<times> u32 \<Rightarrow> byte list \<Rightarrow> (u32 \<times> u32) mem_op" where
  "write_string pos to_write =
     mbind (write_buffer (fst pos) to_write) (\<lambda>_.
     mbind (write_u32 (snd pos) (fst pos)) (\<lambda>_.
     mreturn (fst pos + of_nat (length to_write), snd pos + 4)))"

definition write_string_list :: "byte list list \<Rightarrow> u32 \<Rightarrow> u32 \<Rightarrow> unit mem_op" where
  "write_string_list content buf_address buf_pointers =
     mbind (mfold write_string (buf_address, buf_pointers) content) (\<lambda>_. mreturn ())"

section \<open>The WASI structures\<close>

text \<open>
  What the sources use of the crate \<^verbatim>\<open>wasi-types\<close>, which is not part of the repository: the conversions from
  numbers (\<^verbatim>\<open>TryFrom\<close>), the numbers of the error codes, the error for a failed read from a cursor, and the sizes and
  representations of the structures in memory. \<^verbatim>\<open>filestat_result_bytes\<close> is the representation of a whole
  \<^verbatim>\<open>Result<FileStat, ErrNo>\<close>.
\<close>

datatype EventType = FdReadEvent | FdWriteEvent | OtherEvent byte

record wasi_crate =
  advice_of :: "byte \<Rightarrow> Advice option"
  fd_flags_of :: "u16 \<Rightarrow> FdFlags option"
  lookup_flags_of :: "u32 \<Rightarrow> LookupFlags option"
  open_flags_of :: "u16 \<Rightarrow> OpenFlag set option"
  set_time_flags_of :: "u16 \<Rightarrow> SetTimeFlag set option"
  whence_of :: "byte \<Rightarrow> Whence option"
  rights_of :: "u64 \<Rightarrow> Rights option"
  signal_valid :: "byte \<Rightarrow> bool"
  ri_flags_valid :: "u16 \<Rightarrow> bool"
  si_flags_valid :: "u16 \<Rightarrow> bool"
  sd_flags_valid :: "byte \<Rightarrow> bool"
  clock_id_valid :: "u32 \<Rightarrow> bool"
  clock_realtime :: byte
  errno_of :: "u16 \<Rightarrow> ErrNo option"
  event_type_of :: "byte \<Rightarrow> EventType option"
  event_rw_flags_valid :: "u16 \<Rightarrow> bool"
  errno_code :: "ErrNo \<Rightarrow> u16"
  cursor_error :: ErrNo
  subscription_size :: u32
  event_size :: u32
  dirent_size :: u32
  fdstat_bytes :: "FdStat \<Rightarrow> byte list"
  filestat_bytes :: "FileStat \<Rightarrow> byte list"
  filestat_result_bytes :: "(ErrNo, FileStat) result \<Rightarrow> byte list"
  prestat_bytes :: "u32 \<Rightarrow> byte list"
  dirent_bytes :: "DirEnt \<Rightarrow> byte list"

record IoVec =
  iov_buf :: u32
  iov_len :: u32

record SubscriptionClock =
  sub_clock_id :: u32
  sub_timeout :: Timestamp
  sub_precision :: Timestamp
  sub_flags :: u16

datatype SubscriptionUnion = SubClock SubscriptionClock | SubFdRead Fd | SubFdWrite Fd

record Subscription =
  sub_userdata :: u64
  sub_u :: SubscriptionUnion

record EventFdState =
  ev_file_size :: FileSize
  ev_flags :: u16

record Event =
  ev_user_data :: u64
  ev_error :: ErrNo
  ev_ty :: EventType
  ev_fd_state :: "EventFdState option"

text \<open>A \<^verbatim>\<open>Cursor\<close> over bytes: reading the next \<open>n\<close> bytes as a little-endian number.\<close>

definition read_le :: "wasi_crate \<Rightarrow> nat \<Rightarrow> (byte list, ErrNo, nat) sm" where
  "read_le T n bytes =
     (if length bytes < n then (Err (cursor_error T), bytes) else (Ok (from_le (take n bytes)), drop n bytes))"

definition guard :: "'e \<Rightarrow> bool \<Rightarrow> ('s, 'e, unit) sm" where
  "guard e b = (if b then mreturn () else mthrow e)"

definition iovec_unpack :: "byte list \<Rightarrow> (ErrNo, IoVec) result" where
  "iovec_unpack bytes =
     (if length bytes \<noteq> 8 then Err Inval
      else Ok \<lparr>iov_buf = of_nat (from_le (take 4 bytes)), iov_len = of_nat (from_le (drop 4 bytes))\<rparr>)"

definition unpack_clock :: "wasi_crate \<Rightarrow> (byte list, ErrNo, SubscriptionUnion) sm" where
  "unpack_clock T =
     mbind (read_le T 8) (\<lambda>clock.
     mbind (mlift (u32_try_from_u64 Inval (of_nat clock))) (\<lambda>clock_id.
     mbind (guard Inval (clock_id_valid T clock_id)) (\<lambda>_.
     mbind (read_le T 8) (\<lambda>timeout.
     mbind (read_le T 8) (\<lambda>precision.
     mbind (read_le T 8) (\<lambda>flags.
     mbind (guard Inval (flags < 2 ^ 16)) (\<lambda>_.
     mreturn (SubClock \<lparr>sub_clock_id = clock_id, sub_timeout = of_nat timeout,
       sub_precision = of_nat precision, sub_flags = of_nat flags\<rparr>))))))))"

definition unpack_fd_readwrite :: "wasi_crate \<Rightarrow> nat \<Rightarrow> (byte list, ErrNo, SubscriptionUnion) sm" where
  "unpack_fd_readwrite T tag =
     mbind (read_le T 8) (\<lambda>fd.
     mbind (mlift (u32_try_from_u64 Inval (of_nat fd))) (\<lambda>fd.
     mbind (read_le T 8) (\<lambda>_.
     mbind (read_le T 8) (\<lambda>_.
     mbind (read_le T 8) (\<lambda>_.
     mreturn (if tag = 1 then SubFdRead fd else SubFdWrite fd))))))"

definition subscription_unpack :: "wasi_crate \<Rightarrow> byte list \<Rightarrow> (ErrNo, Subscription) result" where
  "subscription_unpack T bytes =
     (if length bytes \<noteq> unat (subscription_size T) then Err Inval
      else fst (mbind (read_le T 8) (\<lambda>userdata.
                mbind (read_le T 8) (\<lambda>tag.
                mbind (if tag = 0 then unpack_clock T
                       else if tag = 1 \<or> tag = 2 then unpack_fd_readwrite T tag
                       else mthrow Inval) (\<lambda>u.
                mreturn \<lparr>sub_userdata = of_nat userdata, sub_u = u\<rparr>))) bytes))"

definition unpack_fd_state :: "wasi_crate \<Rightarrow> EventType \<Rightarrow> (byte list, ErrNo, EventFdState option) sm" where
  "unpack_fd_state T ty =
     (if ty = FdReadEvent \<or> ty = FdWriteEvent
      then mbind (read_le T 8) (\<lambda>file_size.
           mbind (read_le T 8) (\<lambda>flags.
           mbind (guard Inval (flags < 2 ^ 16)) (\<lambda>_.
           mbind (guard Inval (event_rw_flags_valid T (of_nat flags))) (\<lambda>_.
           mreturn (Some \<lparr>ev_file_size = of_nat file_size, ev_flags = of_nat flags\<rparr>)))))
      else mreturn None)"

definition event_unpack :: "wasi_crate \<Rightarrow> byte list \<Rightarrow> (ErrNo, Event) result" where
  "event_unpack T bytes =
     (if length bytes \<noteq> unat (event_size T) then Err Inval
      else fst (mbind (read_le T 8) (\<lambda>user_data.
                mbind (read_le T 2) (\<lambda>error.
                mbind (mlift (ok_or Inval (errno_of T (of_nat error)))) (\<lambda>error.
                mbind (read_le T 6) (\<lambda>ty.
                mbind (guard Inval (ty < 2 ^ 8)) (\<lambda>_.
                mbind (mlift (ok_or Inval (event_type_of T (of_nat ty)))) (\<lambda>ty.
                mbind (unpack_fd_state T ty) (\<lambda>fd_state.
                mreturn \<lparr>ev_user_data = of_nat user_data, ev_error = error, ev_ty = ty,
                  ev_fd_state = fd_state\<rparr>))))))) bytes))"

definition unpack_struct :: "u32 \<Rightarrow> (byte list \<Rightarrow> (ErrNo, 'a) result) \<Rightarrow> u32 \<Rightarrow> 'a mem_op" where
  "unpack_struct sz unp address = mbind (get_slice address sz) (\<lambda>bytes. mlift (unp bytes))"

definition unpack_array :: "u32 \<Rightarrow> (byte list \<Rightarrow> (ErrNo, 'a) result) \<Rightarrow> u32 \<Rightarrow> u32 \<Rightarrow> 'a list mem_op" where
  "unpack_array sz unp address count =
     mfold (\<lambda>xs i. mbind (unpack_struct sz unp (address + of_nat i * sz)) (\<lambda>x. mreturn (xs @ [x])))
       [] [0..<unat count]"

section \<open>Vectors of buffers\<close>

text \<open>\<^verbatim>\<open>&memory[lo..hi]\<close>.\<close>

definition slice_range :: "byte list \<Rightarrow> u32 \<Rightarrow> u32 \<Rightarrow> ('e, byte list) result" where
  "slice_range mem lo hi =
     (if unat lo \<le> unat hi \<and> unat hi \<le> length mem then Ok (take (unat hi - unat lo) (drop (unat lo) mem))
      else Panic)"

text \<open>The buffer number \<open>i\<close>: its address and its bytes.\<close>

definition iovec_at :: "byte list \<Rightarrow> u32 \<Rightarrow> nat \<Rightarrow> (ErrNo, u32 \<times> byte list) result" where
  "iovec_at mem address i =
     rbind (slice_range mem (address + of_nat i * 8) (address + (of_nat i + 1) * 8)) (\<lambda>bytes.
     rbind (iovec_unpack bytes) (\<lambda>iovec.
     rbind (slice_range mem (iov_buf iovec) (iov_buf iovec + iov_len iovec)) (\<lambda>slice.
     Ok (iov_buf iovec, slice))))"

definition unpack_iovec_mut :: "u32 \<Rightarrow> u32 \<Rightarrow> (u32 \<times> byte list) list mem_op" where
  "unpack_iovec_mut address count =
     mbind get_size (\<lambda>sz.
     mbind (get_slice 0 sz) (\<lambda>mem.
     mlift (collect_result (map (iovec_at mem address) [0..<unat count]))))"

definition unpack_iovec :: "u32 \<Rightarrow> u32 \<Rightarrow> byte list list mem_op" where
  "unpack_iovec address count = mbind (unpack_iovec_mut address count) (\<lambda>iovecs. mreturn (map snd iovecs))"

text \<open>
  The mutable slices point into the memory and may overlap. A read fills them in order, and each
  only as far as it has bytes for it; \<open>fill_iovecs iovecs n bufs\<close> puts \<open>n\<close> bytes into the memory that way.
\<close>

fun fill_iovecs :: "(u32 \<times> byte list) list \<Rightarrow> nat \<Rightarrow> byte list list \<Rightarrow> unit mem_op" where
  "fill_iovecs ((address, old) # iovecs) n (buf # bufs) =
     mbind (mmodify (map_option (copy_at (unat address) (take (min (length old) n) buf)))) (\<lambda>_.
     fill_iovecs iovecs (n - min (length old) n) bufs)"
| "fill_iovecs _ _ _ = mreturn ()"

end
