(* ===== verification/Strace.thy ===== *)
theory Strace
  imports Memory
begin

text \<open>
  The tracer of host calls (\<^verbatim>\<open>execution-engine/src/wasi/strace.rs\<close>). It writes to the log and reads the arguments
  of the call back from the memory of the program. The record \<open>guest\<close> has what it works on: the memory, the
  tracer of the current call, and the log.
\<close>

section \<open>State\<close>

datatype TraceState = TraceFunc | TraceArgs | TraceDone

record Strace =
  strace_enabled :: bool
  strace_state :: TraceState

record guest =
  guest_memory :: memory
  guest_strace :: Strace
  guest_log :: "string list"

type_synonym ('z, 'a) guest_op = "('z guest_scheme, ErrNo, 'a) sm"

definition BUFFER_DISPLAY_LEN :: nat where
  "BUFFER_DISPLAY_LEN = 32"

definition on_memory :: "'a mem_op \<Rightarrow> ('z, 'a) guest_op" where
  "on_memory m = mzoom guest_memory (\<lambda>mem h. h\<lparr>guest_memory := mem\<rparr>) m"

definition info :: "string \<Rightarrow> ('z, unit) guest_op" where
  "info line = mmodify (\<lambda>h. h\<lparr>guest_log := guest_log h @ [line]\<rparr>)"

section \<open>Text\<close>

function show_base :: "nat \<Rightarrow> nat \<Rightarrow> string" where
  "show_base b n =
     (let digit = (\<lambda>d. char_of (if d < 10 then 48 + d else 87 + d)) in
      if b < 2 \<or> n < b then [digit n] else show_base b (n div b) @ [digit (n mod b)])"
  by pat_completeness auto
termination by (relation "measure snd") (auto simp: Let_def)

declare show_base.simps [simp del]

definition show_int :: "int \<Rightarrow> string" where
  "show_int i = (if i < 0 then CHR ''-'' # show_base 10 (nat (- i)) else show_base 10 (nat i))"

definition show_octal3 :: "nat \<Rightarrow> string" where
  "show_octal3 n = (let s = show_base 8 n in replicate (3 - length s) (CHR ''0'') @ s)"

text \<open>One byte of a string, and the byte that follows it if there is one among the bytes shown.\<close>

definition strace_char :: "byte \<Rightarrow> byte option \<Rightarrow> string" where
  "strace_char b following =
     (if 0x20 \<le> b \<and> b < 0x7f
      then (if b = 0x5c \<or> b = 0x22 then [CHR 0x5c, char_of (unat b)] else [char_of (unat b)])
      else if b = 9 then [CHR 0x5c, CHR ''t'']
      else if b = 10 then [CHR 0x5c, CHR ''n'']
      else if (case following of Some d \<Rightarrow> 0x30 \<le> d \<and> d \<le> 0x39 | None \<Rightarrow> False) then CHR 0x5c # show_octal3 (unat b)
      else CHR 0x5c # show_base 8 (unat b))"

fun strace_chars :: "byte list \<Rightarrow> string" where
  "strace_chars [] = []"
| "strace_chars [b] = strace_char b None"
| "strace_chars (b # c # bs) = strace_char b (Some c) @ strace_chars (c # bs)"

definition strace_string :: "byte list \<Rightarrow> nat \<Rightarrow> string" where
  "strace_string bytes max_len =
     CHR 0x22 # strace_chars (take max_len bytes) @ [CHR 0x22] @ (if length bytes > max_len then ''...'' else [])"

text \<open>\<^verbatim>\<open>{:?}\<close> of an error code.\<close>

primrec show_errno :: "ErrNo \<Rightarrow> string" where
  "show_errno Access = ''Access''" | "show_errno Again = ''Again''" | "show_errno BadF = ''BadF''"
| "show_errno Busy = ''Busy''" | "show_errno Canceled = ''Canceled''" | "show_errno Exist = ''Exist''"
| "show_errno IlSeq = ''IlSeq''" | "show_errno Inval = ''Inval''" | "show_errno IsDir = ''IsDir''"
| "show_errno NFile = ''NFile''" | "show_errno NameTooLong = ''NameTooLong''" | "show_errno NoEnt = ''NoEnt''"
| "show_errno NoMem = ''NoMem''" | "show_errno NoSys = ''NoSys''" | "show_errno NotDir = ''NotDir''"
| "show_errno SPipe = ''SPipe''" | "show_errno Success = ''Success''"

section \<open>The methods of the tracer\<close>

definition strace_func :: "bool \<Rightarrow> string \<Rightarrow> ('z, unit) guest_op" where
  "strace_func enabled name =
     mbind (if enabled then info (name @ ''('') else mreturn ()) (\<lambda>_.
     mmodify (\<lambda>h. h\<lparr>guest_strace := \<lparr>strace_enabled = enabled, strace_state = TraceFunc\<rparr>\<rparr>))"

definition set_trace :: "TraceState \<Rightarrow> ('z, unit) guest_op" where
  "set_trace st = mmodify (\<lambda>h. h\<lparr>guest_strace := (guest_strace h)\<lparr>strace_state := st\<rparr>\<rparr>)"

definition arg_print_comma :: "('z, unit) guest_op" where
  "arg_print_comma =
     mbind mget (\<lambda>h.
     case strace_state (guest_strace h) of
       TraceFunc \<Rightarrow> set_trace TraceArgs
     | TraceArgs \<Rightarrow> info '', ''
     | TraceDone \<Rightarrow> info (CHR 0x0A # ''Unexpected strace arg: ''))"

text \<open>Every method returns at once when tracing is not enabled, and prints a comma first otherwise.\<close>

definition when_enabled :: "('z, unit) guest_op \<Rightarrow> ('z, unit) guest_op" where
  "when_enabled m =
     mbind mget (\<lambda>h.
     if \<not> strace_enabled (guest_strace h) then mreturn () else mbind arg_print_comma (\<lambda>_. m))"

text \<open>\<^verbatim>\<open>match mem.read(..) { Ok(x) => info!(..), Err(_) => info!(..) }\<close>.\<close>

definition show_read :: "'a mem_op \<Rightarrow> ('a \<Rightarrow> string) \<Rightarrow> string \<Rightarrow> ('z, unit) guest_op" where
  "show_read m text bad = mcatch (on_memory m) (\<lambda>x. info (text x)) (\<lambda>_. info bad)"

definition arg_buffer :: "u32 \<Rightarrow> u32 \<Rightarrow> ('z, unit) guest_op" where
  "arg_buffer adr len =
     when_enabled (show_read (read_buffer adr (unat len)) (\<lambda>b. strace_string b BUFFER_DISPLAY_LEN) ''BAD_MEM_REF'')"

definition arg_dec :: "int \<Rightarrow> ('z, unit) guest_op" where
  "arg_dec n = when_enabled (info (show_int n))"

definition arg_dots :: "('z, unit) guest_op" where
  "arg_dots = when_enabled (info ''...'')"

definition arg_dirents :: "('z, unit) guest_op" where
  "arg_dirents = when_enabled (info ''DIRENTS'')"

definition arg_events :: "('z, unit) guest_op" where
  "arg_events = when_enabled (info ''EVENTS'')"

definition arg_fdstat :: "('z, unit) guest_op" where
  "arg_fdstat = when_enabled (info ''FDSTAT'')"

definition arg_filestat :: "('z, unit) guest_op" where
  "arg_filestat = when_enabled (info ''FILESTAT'')"

definition arg_hex :: "nat \<Rightarrow> ('z, unit) guest_op" where
  "arg_hex n = when_enabled (info (''0x'' @ show_base 16 n))"

definition arg_iovec :: "(ErrNo, unit) result \<Rightarrow> u32 \<Rightarrow> u32 \<Rightarrow> u32 \<Rightarrow> ('z, unit) guest_op" where
  "arg_iovec res base count address =
     when_enabled (
       if \<not> is_ok res then info ''_''
       else mcatch (on_memory (read_u32 address))
              (\<lambda>len. show_read (unpack_iovec base count)
                 (\<lambda>bufs. strace_string (take (unat len) (concat bufs)) BUFFER_DISPLAY_LEN) ''BAD_IOVEC'')
              (\<lambda>_. info ''BAD_IOVEC_LEN''))"

definition arg_p_u16_hex :: "u32 \<Rightarrow> ('z, unit) guest_op" where
  "arg_p_u16_hex adr = when_enabled (show_read (read_u16 adr) (\<lambda>x. ''0x'' @ show_base 16 (unat x)) ''BAD_MEM_REF'')"

definition arg_p_u32 :: "u32 \<Rightarrow> ('z, unit) guest_op" where
  "arg_p_u32 adr = when_enabled (show_read (read_u32 adr) (\<lambda>x. show_base 10 (unat x)) ''BAD_MEM_REF'')"

definition arg_p_u64 :: "u32 \<Rightarrow> ('z, unit) guest_op" where
  "arg_p_u64 adr = when_enabled (show_read (read_u64 adr) (\<lambda>x. show_base 10 (unat x)) ''BAD_MEM_REF'')"

definition arg_path :: "u32 \<Rightarrow> u32 \<Rightarrow> ('z, unit) guest_op" where
  "arg_path adr len = when_enabled (show_read (read_buffer adr (unat len)) (\<lambda>b. strace_string b 1024) ''BAD_MEM_REF'')"

definition arg_prestat_out :: "(ErrNo, unit) result \<Rightarrow> u32 \<Rightarrow> ('z, unit) guest_op" where
  "arg_prestat_out res adr =
     when_enabled (
       if is_ok res
       then show_read (read_u64 adr)
              (\<lambda>x. if unat x mod 2 ^ 32 = 0 then ''{len='' @ show_base 10 (unat x div 2 ^ 32) @ ''}''
                   else ''BAD_PRESTAT'') ''BAD_MEM_REF''
       else info ''_'')"

definition arg_rights :: "u64 \<Rightarrow> ('z, unit) guest_op" where
  "arg_rights rights = when_enabled (info (''0x'' @ show_base 16 (unat rights)))"

definition arg_subscriptions :: "('z, unit) guest_op" where
  "arg_subscriptions = when_enabled (info ''SUBSCRIPTIONS'')"

definition strace_result :: "(ErrNo, unit) result \<Rightarrow> ('z, unit) guest_op" where
  "strace_result res =
     mbind mget (\<lambda>h.
     if \<not> strace_enabled (guest_strace h) then mlift res
     else mbind (if strace_state (guest_strace h) = TraceDone
                 then info (CHR 0x0A # ''Unexpected strace result: '') else set_trace TraceDone) (\<lambda>_.
          mbind (case res of Err x \<Rightarrow> info ('') = '' @ show_errno x) | _ \<Rightarrow> info '') = Success'') (\<lambda>_.
          mlift res)))"

text \<open>
  The frame of every method of the wrapper: start the tracer, run the body, show the arguments, show and
  return the result. A panic of the body leaves it at once.
\<close>

definition traced ::
  "bool \<Rightarrow> string \<Rightarrow> ('z, unit) guest_op \<Rightarrow> ((ErrNo, unit) result \<Rightarrow> ('z, unit) guest_op list) \<Rightarrow> ('z, unit) guest_op"
  where
  "traced enabled name body args =
     mbind (strace_func enabled name) (\<lambda>_ h.
     case body h of
       (Panic, h') \<Rightarrow> (Panic, h')
     | (Stuck, h') \<Rightarrow> (Stuck, h')
     | (r, h') \<Rightarrow> mbind (mfold (\<lambda>_ m. m) () (args r)) (\<lambda>_. strace_result r) h')"

end
