(* ===== verification/Filesystem.thy ===== *)
theory Filesystem
  imports Inodes
begin

text \<open>
  The handle \<^verbatim>\<open>FileSystem\<close> of \<^verbatim>\<open>execution-engine/src/fs.rs\<close>: file descriptors, the pre-opened
  directories, and every operation of the WASI-like interface that does not call a service.
  Operations that write through a descriptor can call a service; they are in the theory \<open>Services\<close>.

  Handles share their inode table through an \<^verbatim>\<open>Arc<Mutex<InodeTable>>\<close>. The record below holds the
  contents of that shared table in the field \<open>inode_table\<close>; a caller that holds two handles copies
  the table over (\<open>adopt\<close>). The mutex can only be poisoned by a thread that panicked, so the error
  \<^verbatim>\<open>Busy\<close> of \<^verbatim>\<open>lock_inode_table\<close> is not a branch of the model.
\<close>

section \<open>Data\<close>

record FdEntry =
  fd_inode :: Inode
  fd_stat :: FdStat
  fd_offset :: FileSize
  fd_advice :: "(FileSize \<times> FileSize \<times> Advice) list"

record 'p FileSystem =
  fd_table :: "Fd \<rightharpoonup> FdEntry"
  next_fd_candidate :: Fd
  inode_table :: "'p InodeTable"
  prestat_table :: "(Fd \<times> path) list"

type_synonym ('p, 'a) fs_op = "('p FileSystem, ErrNo, 'a) sm"

abbreviation FIRST_FD :: Fd where
  "FIRST_FD \<equiv> 3"

abbreviation DEFAULT_RIGHTS :: Rights where
  "DEFAULT_RIGHTS \<equiv> all_rights"

definition adopt :: "'p InodeTable \<Rightarrow> 'p FileSystem \<Rightarrow> 'p FileSystem" where
  "adopt t fs = fs\<lparr>inode_table := t\<rparr>"

definition with_inodes :: "('p InodeTable, ErrNo, 'a) sm \<Rightarrow> ('p, 'a) fs_op" where
  "with_inodes m = mzoom inode_table adopt m"

section \<open>Internal auxiliary methods\<close>

definition mk_fd_stat :: "FileType \<Rightarrow> FdFlags \<Rightarrow> Rights \<Rightarrow> Rights \<Rightarrow> FdStat" where
  "mk_fd_stat ft fl base inh =
     \<lparr>fd_file_type = ft, fd_flags = fl, rights_base = base, rights_inheriting = inh\<rparr>"

definition install_fd :: "Fd \<Rightarrow> FileType \<Rightarrow> Inode \<Rightarrow> Rights \<Rightarrow> Rights \<Rightarrow> ('p, unit) fs_op" where
  "install_fd fd ft i base inh =
     mmodify (\<lambda>fs. fs\<lparr>fd_table := (fd_table fs)(fd \<mapsto>
       \<lparr>fd_inode = i, fd_stat = mk_fd_stat ft 0 base inh, fd_offset = 0, fd_advice = []\<rparr>)\<rparr>)"

definition new_fd :: "('p, Fd) fs_op" where
  "new_fd =
     mbind mget (\<lambda>fs.
     let cur = next_fd_candidate fs in
     if bit cur 31 \<or> fd_table fs cur \<noteq> None then mthrow NFile
     else mbind (mmodify (\<lambda>fs. fs\<lparr>next_fd_candidate := cur + 1\<rparr>)) (\<lambda>_. mreturn cur))"

definition fd_entry :: "Fd \<Rightarrow> ('p, FdEntry) fs_op" where
  "fd_entry fd = mbind mget (\<lambda>fs. mlift (ok_or BadF (fd_table fs fd)))"

definition set_fd_entry :: "Fd \<Rightarrow> FdEntry \<Rightarrow> ('p, unit) fs_op" where
  "set_fd_entry fd e = mmodify (\<lambda>fs. fs\<lparr>fd_table := (fd_table fs)(fd \<mapsto> e)\<rparr>)"

definition check_right :: "Fd \<Rightarrow> Rights \<Rightarrow> ('p, unit) fs_op" where
  "check_right fd r =
     mbind (fd_entry fd) (\<lambda>e. if r \<subseteq> rights_base (fd_stat e) then mreturn () else mthrow Access)"

definition get_inode_by_fd :: "Fd \<Rightarrow> ('p, Inode) fs_op" where
  "get_inode_by_fd fd = mbind (fd_entry fd) (\<lambda>e. mreturn (fd_inode e))"

definition get_inode_by_fd_path :: "Fd \<Rightarrow> path \<Rightarrow> ('p, Inode) fs_op" where
  "get_inode_by_fd_path fd p =
     mbind (get_inode_by_fd fd) (\<lambda>parent.
     mbind mget (\<lambda>fs.
     mbind (mlift (get_inode_by_inode_path (inode_table fs) parent p)) (\<lambda>r.
     mreturn (fst r))))"

definition inode_get :: "Inode \<Rightarrow> ('p, InodeEntry) fs_op" where
  "inode_get i = with_inodes (table_get i)"

definition is_dir_inode :: "Inode \<Rightarrow> ('p, bool) fs_op" where
  "is_dir_inode i = mbind mget (\<lambda>fs. mreturn (table_is_dir (inode_table fs) i))"

section \<open>Creating handles\<close>

text \<open>
  The entries of the table \<^verbatim>\<open>std_streams_table\<close>: the names that are exactly one of the standard
  streams, with their rights as a \<^verbatim>\<open>u32\<close>. An entry whose rights do not fit is dropped.
\<close>

definition std_streams_table :: "rights_codec \<Rightarrow> (path \<times> Rights) list \<Rightarrow> (path \<times> u32) list" where
  "std_streams_table W rt =
     List.map_filter (\<lambda>(k, v).
       if k = CANONICAL_STDIN_FILE_PATH \<or> k = CANONICAL_STDOUT_FILE_PATH \<or> k = CANONICAL_STDERR_FILE_PATH
       then (case u32_try_from_u64 Inval (rights_bits W v) of Ok o' \<Rightarrow> Some (k, o') | _ \<Rightarrow> None)
       else None) rt"

definition install_standard_stream_fd :: "rights_codec \<Rightarrow> unit \<Rightarrow> path \<times> u32 \<Rightarrow> ('p, unit) fs_op" where
  "install_standard_stream_fd W u s =
     mbind mget (\<lambda>fs.
     let t = inode_table fs;
         target = (if fst s = CANONICAL_STDIN_FILE_PATH then Some (0, stdin_inode t)
                   else if fst s = CANONICAL_STDOUT_FILE_PATH then Some (1, stdout_inode t)
                   else if fst s = CANONICAL_STDERR_FILE_PATH then Some (2, stderr_inode t)
                   else None)
     in case target of
          None \<Rightarrow> mreturn ()
        | Some (fd, i) \<Rightarrow>
            mbind (mlift (ok_or Inval (rights_from_bits W (ucast (snd s))))) (\<lambda>r.
            install_fd fd RegularFile i r r))"

definition install_standard_streams_fd :: "rights_codec \<Rightarrow> (path \<times> u32) list \<Rightarrow> ('p, unit) fs_op" where
  "install_standard_streams_fd W streams = mfold (install_standard_stream_fd W) () streams"

definition not_std_stream :: "path \<times> Rights \<Rightarrow> bool" where
  "not_std_stream x = (\<not> path_eq (fst x) CANONICAL_STDIN_FILE_PATH \<and>
     \<not> path_eq (fst x) CANONICAL_STDOUT_FILE_PATH \<and> \<not> path_eq (fst x) CANONICAL_STDERR_FILE_PATH)"

definition install_prestat_dir :: "unit \<Rightarrow> nat \<times> path \<times> Rights \<Rightarrow> ('p, unit) fs_op" where
  "install_prestat_dir u x =
     (case x of (index, p, r) \<Rightarrow>
        mbind (mlift (u32_try_from_usize Inval index)) (\<lambda>n.
        let new_fd = n + FIRST_FD; relative = components (strip_root_slash p) in
        mbind (if relative = [] then mreturn ROOT_DIRECTORY_INODE
               else with_inodes (add_all_dir ROOT_DIRECTORY_INODE relative)) (\<lambda>i.
        mbind (install_fd new_fd Unknown i r r) (\<lambda>_.
        mmodify (\<lambda>fs. fs\<lparr>prestat_table := hm_put id (prestat_table fs) new_fd p\<rparr>)))))"

definition install_prestat :: "rights_codec \<Rightarrow> (path \<times> Rights) list \<Rightarrow> ('p, unit) fs_op" where
  "install_prestat W rt =
     mbind (install_standard_streams_fd W (std_streams_table W rt)) (\<lambda>_.
     mbind (mfold install_prestat_dir () (List.enumerate 0 (filter not_std_stream rt))) (\<lambda>_.
     mbind (mlift (u32_try_from_usize Inval (length rt))) (\<lambda>n.
     mmodify (\<lambda>fs. fs\<lparr>next_fd_candidate := FIRST_FD + n\<rparr>))))"

definition install_services :: "(path \<times> Service) list \<Rightarrow> ('p, unit) fs_op" where
  "install_services services = with_inodes (install_services_inode services)"

definition empty_handle :: "'p InodeTable \<Rightarrow> 'p FileSystem" where
  "empty_handle t =
     \<lparr>fd_table = Map.empty, next_fd_candidate = FIRST_FD, inode_table = t, prestat_table = []\<rparr>"

definition superuser_rights :: "(path \<times> Rights) list" where
  "superuser_rights =
     hm_put components (hm_put components (hm_put components (hm_put components []
       ''/'' all_rights) CANONICAL_STDIN_FILE_PATH all_rights)
       CANONICAL_STDOUT_FILE_PATH all_rights) CANONICAL_STDERR_FILE_PATH all_rights"

definition service_paths :: "(path \<times> Service) list" where
  "service_paths =
     [(''/services/postcard_string.dat'', PostcardService), (''/services/aesctr.dat'', AesService)]"

definition fs_new :: "rights_codec \<Rightarrow> 'p rights_table \<Rightarrow> (ErrNo, 'p FileSystem) result" where
  "fs_new W rights =
     (case inode_table_new rights of
        (Ok _, t) \<Rightarrow>
          (case mbind (install_prestat W superuser_rights) (\<lambda>_. install_services service_paths)
                  (empty_handle t) of
             (Ok _, fs) \<Rightarrow> Ok fs
           | (Err e, fs) \<Rightarrow> Err e | (Panic, fs) \<Rightarrow> Panic | (Stuck, fs) \<Rightarrow> Stuck)
      | (Err e, t) \<Rightarrow> Err e | (Panic, t) \<Rightarrow> Panic | (Stuck, t) \<Rightarrow> Stuck)"

text \<open>
  \<^verbatim>\<open>spawn\<close> returns a second handle on the same table. Opening the directories of the principal can
  create them, so the table of the calling handle changes as well.
\<close>

definition spawn :: "rights_codec \<Rightarrow> 'p \<Rightarrow> ('p, 'p FileSystem) fs_op" where
  "spawn W pr fs =
     (case get_rights pr (inode_table fs) of
        Ok rt \<Rightarrow>
          (case install_prestat W rt (empty_handle (inode_table fs)) of
             (Ok _, h) \<Rightarrow> (Ok h, adopt (inode_table h) fs)
           | (Err e, h) \<Rightarrow> (Err e, adopt (inode_table h) fs)
           | (Panic, h) \<Rightarrow> (Panic, adopt (inode_table h) fs)
           | (Stuck, h) \<Rightarrow> (Stuck, adopt (inode_table h) fs))
      | Err e \<Rightarrow> (Err e, fs) | Panic \<Rightarrow> (Panic, fs) | Stuck \<Rightarrow> (Stuck, fs))"

section \<open>Operations on the filesystem\<close>

definition fd_advise :: "Fd \<Rightarrow> FileSize \<Rightarrow> FileSize \<Rightarrow> Advice \<Rightarrow> ('p, unit) fs_op" where
  "fd_advise fd off len adv =
     mbind (check_right fd {FD_ADVISE}) (\<lambda>_.
     mbind (fd_entry fd) (\<lambda>e.
     set_fd_entry fd (e\<lparr>fd_advice := fd_advice e @ [(off, len, adv)]\<rparr>)))"

definition fd_allocate :: "Fd \<Rightarrow> FileSize \<Rightarrow> FileSize \<Rightarrow> ('p, unit) fs_op" where
  "fd_allocate fd off len = mthrow NoSys"

definition fd_close :: "Fd \<Rightarrow> ('p, unit) fs_op" where
  "fd_close fd =
     mbind (get_inode_by_fd fd) (\<lambda>i.
     mbind (inode_get i) (\<lambda>f.
     mbind (if entry_is_service f
            then with_inodes (update_entry i (\<lambda>e. no_value (entry_truncate_file e)))
            else mreturn ()) (\<lambda>_.
     mbind (fd_entry fd) (\<lambda>_.
     mmodify (\<lambda>fs. fs\<lparr>fd_table := (fd_table fs)(fd := None)\<rparr>)))))"

definition fd_datasync :: "Fd \<Rightarrow> ('p, unit) fs_op" where
  "fd_datasync fd = mbind (check_right fd {FD_DATASYNC}) (\<lambda>_. mthrow NoSys)"

definition fd_fdstat_get :: "Fd \<Rightarrow> ('p, FdStat) fs_op" where
  "fd_fdstat_get fd = mbind (fd_entry fd) (\<lambda>e. mreturn (fd_stat e))"

definition fd_fdstat_set_flags :: "Fd \<Rightarrow> FdFlags \<Rightarrow> ('p, unit) fs_op" where
  "fd_fdstat_set_flags fd fl =
     mbind (check_right fd {FD_FDSTAT_SET_FLAGS}) (\<lambda>_.
     mbind (fd_entry fd) (\<lambda>e.
     set_fd_entry fd (e\<lparr>fd_stat := (fd_stat e)\<lparr>fd_flags := fl\<rparr>\<rparr>)))"

text \<open>
  \<^verbatim>\<open>FdStat\<close> is \<^verbatim>\<open>Copy\<close>: the local variable \<^verbatim>\<open>fd_stat\<close> is a copy of the field, and the two assignments
  change the copy, which is dropped.
\<close>

definition fd_fdstat_set_rights :: "Fd \<Rightarrow> Rights \<Rightarrow> Rights \<Rightarrow> ('p, unit) fs_op" where
  "fd_fdstat_set_rights fd base inh =
     mbind (fd_entry fd) (\<lambda>e.
     let stat = fd_stat e; stat = stat\<lparr>rights_base := base\<rparr>; stat = stat\<lparr>rights_inheriting := inh\<rparr> in
     mreturn ())"

definition fd_filestat_get :: "Fd \<Rightarrow> ('p, FileStat) fs_op" where
  "fd_filestat_get fd =
     mbind (get_inode_by_fd fd) (\<lambda>i.
     mbind (inode_get i) (\<lambda>e.
     mreturn (file_stat e)))"

definition fd_filestat_set_size :: "Fd \<Rightarrow> FileSize \<Rightarrow> ('p, unit) fs_op" where
  "fd_filestat_set_size fd sz =
     mbind (check_right fd {FD_FILESTAT_SET_SIZE}) (\<lambda>_.
     mbind (get_inode_by_fd fd) (\<lambda>i.
     with_inodes (update_entry i (\<lambda>e. no_value (entry_resize_file sz 0 e)))))"

definition set_times :: "Timestamp \<Rightarrow> Timestamp \<Rightarrow> SetTimeFlag set \<Rightarrow> Timestamp \<Rightarrow> InodeEntry \<Rightarrow> InodeEntry" where
  "set_times atime mtime fst_flags now e =
     (if ATIME_NOW \<in> fst_flags then e\<lparr>file_stat := (file_stat e)\<lparr>stat_atime := now\<rparr>\<rparr>
      else if MTIME_NOW \<in> fst_flags then e\<lparr>file_stat := (file_stat e)\<lparr>stat_mtime := now\<rparr>\<rparr>
      else if ATIME \<in> fst_flags then e\<lparr>file_stat := (file_stat e)\<lparr>stat_atime := atime\<rparr>\<rparr>
      else if MTIME \<in> fst_flags then e\<lparr>file_stat := (file_stat e)\<lparr>stat_mtime := mtime\<rparr>\<rparr>
      else e)"

definition fd_filestat_set_times ::
  "Fd \<Rightarrow> Timestamp \<Rightarrow> Timestamp \<Rightarrow> SetTimeFlag set \<Rightarrow> Timestamp \<Rightarrow> ('p, unit) fs_op" where
  "fd_filestat_set_times fd atime mtime fst_flags now =
     mbind (check_right fd {FD_FILESTAT_SET_TIMES}) (\<lambda>_.
     mbind (get_inode_by_fd fd) (\<lambda>i.
     with_inodes (update_entry i (\<lambda>e. Ok ((), set_times atime mtime fst_flags now e)))))"

text \<open>The loop of \<^verbatim>\<open>fd_pread\<close>: fill the buffers of the caller one after the other.\<close>

fun read_bufs :: "InodeEntry \<Rightarrow> byte list list \<Rightarrow> FileSize \<Rightarrow> (ErrNo, nat \<times> byte list list) result" where
  "read_bufs f [] off = Ok (0, [])"
| "read_bufs f (buf # bufs) off =
     (case entry_read_file f buf off of
        Ok (delta, buf') \<Rightarrow>
          (case read_bufs f bufs (off + of_nat delta) of
             Ok (len, bufs') \<Rightarrow> Ok (delta + len, buf' # bufs')
           | Err e \<Rightarrow> Err e | Panic \<Rightarrow> Panic | Stuck \<Rightarrow> Stuck)
      | Err e \<Rightarrow> Err e | Panic \<Rightarrow> Panic | Stuck \<Rightarrow> Stuck)"

definition fd_pread :: "Fd \<Rightarrow> byte list list \<Rightarrow> FileSize \<Rightarrow> ('p, nat \<times> byte list list) fs_op" where
  "fd_pread fd bufs off =
     mbind (check_right fd {FD_READ}) (\<lambda>_.
     mbind (get_inode_by_fd fd) (\<lambda>i.
     mbind (inode_get i) (\<lambda>f.
     mlift (read_bufs f bufs off))))"

text \<open>\<^verbatim>\<open>PreopenType::Dir\<close> is the only variant the sources construct: a \<^verbatim>\<open>Prestat\<close> is its \<^verbatim>\<open>name_len\<close>.\<close>

definition fd_prestat_get :: "Fd \<Rightarrow> ('p, u32) fs_op" where
  "fd_prestat_get fd =
     mbind mget (\<lambda>fs.
     mbind (mlift (ok_or BadF (hm_get id (prestat_table fs) fd))) (\<lambda>p.
     mlift (u32_try_from_usize Inval (length p))))"

definition fd_prestat_dir_name :: "Fd \<Rightarrow> ('p, path) fs_op" where
  "fd_prestat_dir_name fd =
     mbind mget (\<lambda>fs. mlift (ok_or BadF (hm_get id (prestat_table fs) fd)))"

definition fd_readdir :: "Fd \<Rightarrow> DirCookie \<Rightarrow> ('p, (DirEnt \<times> path) list) fs_op" where
  "fd_readdir fd cookie =
     mbind (check_right fd {FD_READDIR}) (\<lambda>_.
     mbind (get_inode_by_fd fd) (\<lambda>i.
     mbind (inode_get i) (\<lambda>e.
     mbind mget (\<lambda>fs.
     mbind (mlift (impl_read_dir (inode_table fs) (node_data e))) (\<lambda>dirs.
     if length dirs < unat cookie then mreturn [] else mreturn (drop (unat cookie) dirs))))))"

definition fd_renumber :: "Fd \<Rightarrow> Fd \<Rightarrow> ('p, unit) fs_op" where
  "fd_renumber old new =
     mbind (fd_entry old) (\<lambda>e.
     mbind mget (\<lambda>fs.
     if fd_table fs new = None
     then mmodify (\<lambda>fs. fs\<lparr>fd_table := ((fd_table fs)(new \<mapsto> e))(old := None)\<rparr>)
     else mthrow BadF))"

text \<open>
  The pieces of \<^verbatim>\<open>fd_seek\<close>: the base the distance is counted from, the new offset (a file grows
  when the offset is past its end), and the update of the descriptor. The sum of the base and the
  distance wraps around in a release build.
\<close>

definition seek_base :: "Whence \<Rightarrow> FdEntry \<Rightarrow> FileSize \<Rightarrow> FileSize" where
  "seek_base whence e sz = (case whence of Current \<Rightarrow> fd_offset e | End \<Rightarrow> sz | Start \<Rightarrow> 0)"

definition seek_offset :: "Fd \<Rightarrow> FileDelta \<Rightarrow> FileSize \<Rightarrow> FileSize \<Rightarrow> ('p, FileSize) fs_op" where
  "seek_offset fd delta base sz =
     mbind (mlift (u64_try_from_i64 Inval (i64_abs delta))) (\<lambda>d.
     if sint delta \<ge> 0
     then let t = base + d in
          mbind (if t > sz then fd_filestat_set_size fd t else mreturn ()) (\<lambda>_. mreturn t)
     else if d > base then mthrow SPipe else mreturn (base - d))"

definition set_offset :: "Fd \<Rightarrow> FileSize \<Rightarrow> ('p, FileSize) fs_op" where
  "set_offset fd off =
     mbind (fd_entry fd) (\<lambda>e.
     mbind (set_fd_entry fd (e\<lparr>fd_offset := off\<rparr>)) (\<lambda>_.
     mreturn off))"

definition fd_seek :: "Fd \<Rightarrow> FileDelta \<Rightarrow> Whence \<Rightarrow> ('p, FileSize) fs_op" where
  "fd_seek fd delta whence =
     mbind (check_right fd {FD_SEEK}) (\<lambda>_.
     mbind (fd_entry fd) (\<lambda>e.
     mbind (inode_get (fd_inode e)) (\<lambda>f.
     let sz = stat_file_size (file_stat f) in
     mbind (seek_offset fd delta (seek_base whence e sz) sz) (\<lambda>off.
     set_offset fd off))))"

definition fd_read :: "Fd \<Rightarrow> byte list list \<Rightarrow> ('p, nat \<times> byte list list) fs_op" where
  "fd_read fd bufs =
     mbind (check_right fd {FD_READ}) (\<lambda>_.
     mbind (fd_entry fd) (\<lambda>e.
     mbind (fd_pread fd bufs (fd_offset e)) (\<lambda>r.
     mbind (fd_seek fd (of_nat (fst r)) Current) (\<lambda>_.
     mreturn r))))"

definition fd_sync :: "Fd \<Rightarrow> ('p, unit) fs_op" where
  "fd_sync fd = mbind (check_right fd {FD_SYNC}) (\<lambda>_. mreturn ())"

definition fd_tell :: "Fd \<Rightarrow> ('p, FileSize) fs_op" where
  "fd_tell fd =
     mbind (check_right fd {FD_TELL}) (\<lambda>_.
     mbind (fd_entry fd) (\<lambda>e. mreturn (fd_offset e)))"

text \<open>One round of the fold of \<^verbatim>\<open>path_create_directory\<close>.\<close>

definition create_directory_step :: "Inode \<Rightarrow> component \<Rightarrow> ('p InodeTable, ErrNo, Inode) sm" where
  "create_directory_step parent c =
     (case c of
        Normal s \<Rightarrow>
          mbind new_inode (\<lambda>i.
          mbind (add_dir parent s i) (\<lambda>_. mreturn i))
      | _ \<Rightarrow> mthrow Inval)"

definition path_create_directory :: "Fd \<Rightarrow> path \<Rightarrow> ('p, unit) fs_op" where
  "path_create_directory fd p =
     mbind (check_right fd {PATH_CREATE_DIRECTORY}) (\<lambda>_.
     mbind (get_inode_by_fd fd) (\<lambda>parent.
     mbind (is_dir_inode parent) (\<lambda>dir.
     if \<not> dir then mthrow NotDir
     else mcatch (get_inode_by_fd_path fd p) (\<lambda>_. mthrow Exist) (\<lambda>_.
          mbind (with_inodes (mfold create_directory_step parent (components p))) (\<lambda>_.
          mreturn ())))))"

definition path_filestat_get :: "Fd \<Rightarrow> LookupFlags \<Rightarrow> path \<Rightarrow> ('p, FileStat) fs_op" where
  "path_filestat_get fd flags p =
     mbind (check_right fd {PATH_FILESTAT_GET}) (\<lambda>_.
     mbind (get_inode_by_fd_path fd p) (\<lambda>i.
     mbind (inode_get i) (\<lambda>e.
     mreturn (file_stat e))))"

definition path_filestat_set_times ::
  "Fd \<Rightarrow> LookupFlags \<Rightarrow> path \<Rightarrow> Timestamp \<Rightarrow> Timestamp \<Rightarrow> SetTimeFlag set \<Rightarrow> Timestamp \<Rightarrow> ('p, unit) fs_op" where
  "path_filestat_set_times fd flags p atime mtime fst_flags now =
     mbind (check_right fd {PATH_FILESTAT_SET_TIMES}) (\<lambda>_.
     mbind (get_inode_by_fd_path fd p) (\<lambda>i.
     with_inodes (update_entry i (\<lambda>e. Ok ((), set_times atime mtime fst_flags now e)))))"

text \<open>The inode \<^verbatim>\<open>path_open\<close> opens: an existing one, or a new file when \<^verbatim>\<open>CREATE\<close> is set.\<close>

definition open_inode :: "Fd \<Rightarrow> Inode \<Rightarrow> path \<Rightarrow> OpenFlag set \<Rightarrow> ('p, Inode) fs_op" where
  "open_inode fd parent p oflags =
     mcatch (get_inode_by_fd_path fd p)
       (\<lambda>i. if EXCL \<in> oflags then mthrow Exist
            else mbind (is_dir_inode i) (\<lambda>dir.
                 if DIRECTORY \<in> oflags \<and> \<not> dir then mthrow NotDir else mreturn i))
       (\<lambda>e. if CREATE \<notin> oflags then mthrow e
            else mbind (check_right fd {PATH_CREATE_FILE}) (\<lambda>_.
                 mbind (with_inodes new_inode) (\<lambda>i.
                 mbind (with_inodes (add_file parent p i [])) (\<lambda>_.
                 mreturn i))))"

text \<open>The rest of \<^verbatim>\<open>path_open\<close>: truncate the file when asked, and install a descriptor for it.\<close>

definition open_at :: "Fd \<Rightarrow> Inode \<Rightarrow> OpenFlag set \<Rightarrow> Rights \<Rightarrow> Rights \<Rightarrow> FdFlags \<Rightarrow> ('p, Fd) fs_op" where
  "open_at fd i oflags base inh fl =
     mbind (if TRUNC \<in> oflags
            then mbind (check_right fd {PATH_FILESTAT_SET_SIZE}) (\<lambda>_.
                 with_inodes (update_entry i (\<lambda>e. no_value (entry_truncate_file e))))
            else mreturn ()) (\<lambda>_.
     mbind new_fd (\<lambda>nfd.
     mbind (inode_get i) (\<lambda>f.
     mbind (set_fd_entry nfd
       \<lparr>fd_inode = i, fd_stat = mk_fd_stat (stat_file_type (file_stat f)) fl base inh,
        fd_offset = 0, fd_advice = [(0, stat_file_size (file_stat f), NormalAdvice)]\<rparr>) (\<lambda>_.
     mreturn nfd))))"

definition path_open ::
  "Fd \<Rightarrow> LookupFlags \<Rightarrow> path \<Rightarrow> OpenFlag set \<Rightarrow> Rights \<Rightarrow> Rights \<Rightarrow> FdFlags \<Rightarrow> ('p, Fd) fs_op" where
  "path_open fd dirflags p oflags base inh fl =
     mbind (check_right fd {PATH_OPEN}) (\<lambda>_.
     mbind (get_inode_by_fd fd) (\<lambda>parent.
     mbind (is_dir_inode parent) (\<lambda>dir.
     if \<not> dir then mthrow NotDir
     else mbind (fd_entry fd) (\<lambda>pe.
          let fd_inh = rights_inheriting (fd_stat pe);
              base' = base \<inter> fd_inh; inh' = inh \<inter> fd_inh in
          mbind (open_inode fd parent p oflags) (\<lambda>i.
          open_at fd i oflags base' inh' fl)))))"

definition path_readlink :: "Fd \<Rightarrow> path \<Rightarrow> ('p, byte list) fs_op" where
  "path_readlink fd p = mbind (check_right fd {PATH_READLINK}) (\<lambda>_. mthrow NoSys)"

definition path_remove_directory :: "Fd \<Rightarrow> path \<Rightarrow> ('p, unit) fs_op" where
  "path_remove_directory fd p = mbind (check_right fd {PATH_REMOVE_DIRECTORY}) (\<lambda>_. mthrow NoSys)"

definition path_rename :: "Fd \<Rightarrow> path \<Rightarrow> Fd \<Rightarrow> path \<Rightarrow> ('p, unit) fs_op" where
  "path_rename old op new np =
     mbind (check_right old {PATH_RENAME_SOURCE}) (\<lambda>_.
     mbind (check_right new {PATH_RENAME_TARGET}) (\<lambda>_. mthrow NoSys))"

definition path_link :: "Fd \<Rightarrow> LookupFlags \<Rightarrow> path \<Rightarrow> Fd \<Rightarrow> path \<Rightarrow> ('p, unit) fs_op" where
  "path_link old flags op new np =
     mbind (check_right old {PATH_LINK_SOURCE}) (\<lambda>_.
     mbind (check_right new {PATH_LINK_TARGET}) (\<lambda>_. mthrow NoSys))"

definition path_symlink :: "path \<Rightarrow> Fd \<Rightarrow> path \<Rightarrow> ('p, unit) fs_op" where
  "path_symlink op fd np = mbind (check_right fd {PATH_SYMLINK}) (\<lambda>_. mthrow NoSys)"

definition path_unlink_file :: "Fd \<Rightarrow> path \<Rightarrow> ('p, unit) fs_op" where
  "path_unlink_file fd p = mbind (check_right fd {PATH_UNLINK_FILE}) (\<lambda>_. mthrow NoSys)"

definition sock_recv :: "Fd \<Rightarrow> ('p, u32 \<times> u16) fs_op" where
  "sock_recv fd = mbind (check_right fd {FD_READ}) (\<lambda>_. mthrow NoSys)"

definition sock_send :: "Fd \<Rightarrow> ('p, u32) fs_op" where
  "sock_send fd = mbind (check_right fd {FD_WRITE}) (\<lambda>_. mthrow NoSys)"

definition sock_shutdown :: "Fd \<Rightarrow> ('p, unit) fs_op" where
  "sock_shutdown fd = mbind (check_right fd {SOCK_SHUTDOWN}) (\<lambda>_. mthrow NoSys)"

definition fd_create :: "('p, Fd) fs_op" where
  "fd_create =
     mbind (with_inodes new_inode) (\<lambda>i.
     mbind (with_inodes (table_insert i
        \<lparr>file_stat = mk_file_stat i RegularFile 0, node_data = File []\<rparr>)) (\<lambda>_.
     mbind new_fd (\<lambda>nfd.
     mbind (set_fd_entry nfd
        \<lparr>fd_inode = i, fd_stat = mk_fd_stat RegularFile 0 all_rights all_rights,
         fd_offset = 0, fd_advice = [(0, 0, NormalAdvice)]\<rparr>) (\<lambda>_.
     mreturn nfd))))"

section \<open>The interface for the runtime: reading\<close>

primrec find_map :: "('a \<Rightarrow> 'b option) \<Rightarrow> 'a list \<Rightarrow> 'b option" where
  "find_map f [] = None"
| "find_map f (x # xs) = (case f x of Some y \<Rightarrow> Some y | None \<Rightarrow> find_map f xs)"

definition find_prestat :: "'p FileSystem \<Rightarrow> path \<Rightarrow> (ErrNo, Fd \<times> path) result" where
  "find_prestat fs p =
     (case find_map (\<lambda>parent.
        find_map (\<lambda>(fd, q). if components q = parent then Some (fd, parent) else None) (prestat_table fs))
        (ancestors (components p)) of
        None \<Rightarrow> Err Access
      | Some (fd, parent) \<Rightarrow>
          (case strip_prefix (components p) parent of
             None \<Rightarrow> Err Inval
           | Some rest \<Rightarrow> Ok (fd, path_of rest)))"

definition open_for :: "path \<Rightarrow> OpenFlag set \<Rightarrow> Rights \<Rightarrow> ('p, Fd) fs_op" where
  "open_for p oflags needed =
     mbind mget (\<lambda>fs.
     mbind (mlift (find_prestat fs p)) (\<lambda>(fd, name).
     mbind (path_open fd 0 name oflags DEFAULT_RIGHTS DEFAULT_RIGHTS 0) (\<lambda>fd.
     mbind (fd_entry fd) (\<lambda>e.
     if \<not> needed \<subseteq> rights_base (fd_stat e) then mthrow Access else mreturn fd))))"

definition read_file_by_absolute_path :: "path \<Rightarrow> ('p, byte list) fs_op" where
  "read_file_by_absolute_path p =
     mbind (open_for p {} {FD_READ, FD_SEEK}) (\<lambda>fd.
     mbind (fd_filestat_get fd) (\<lambda>st.
     mbind (mlift (vec_resize (unat (stat_file_size st)) 0 [])) (\<lambda>vec.
     mbind (fd_read fd [vec]) (\<lambda>(n, bufs).
     mbind (fd_close fd) (\<lambda>_.
     mreturn (concat bufs))))))"

definition read_std_stream :: "Fd \<Rightarrow> ('p, byte list) fs_op" where
  "read_std_stream fd =
     mbind (get_inode_by_fd fd) (\<lambda>i.
     mbind (inode_get i) (\<lambda>e.
     mbind (mlift (vec_resize (unat (entry_len e)) 0 [])) (\<lambda>vec.
     mbind (fd_read fd [vec]) (\<lambda>(n, bufs).
     mreturn (concat bufs)))))"

definition read_stdout :: "('p, byte list) fs_op" where
  "read_stdout = read_std_stream 1"

definition read_stderr :: "('p, byte list) fs_op" where
  "read_stderr = read_std_stream 2"

text \<open>\<^verbatim>\<open>is_executable\<close> works on a handle of the principal that is dropped at the end.\<close>

definition is_executable :: "rights_codec \<Rightarrow> 'p \<Rightarrow> path \<Rightarrow> ('p, bool) fs_op" where
  "is_executable W pr p =
     mbind (spawn W pr) (\<lambda>vfs.
     mzoom (\<lambda>fs. adopt (inode_table fs) vfs) (\<lambda>vfs fs. adopt (inode_table vfs) fs)
       (mbind mget (\<lambda>vfs.
        mbind (mlift (find_prestat vfs p)) (\<lambda>(fd, name).
        mbind (path_open fd 0 name {} DEFAULT_RIGHTS DEFAULT_RIGHTS 0) (\<lambda>fd.
        mbind (check_right fd {FD_EXECUTE}) (\<lambda>_.
        mreturn True))))))"

end
