(* ===== verification/Services.thy ===== *)
theory Services
  imports Filesystem
begin

text \<open>
  Writing through a descriptor, and the two native services (\<^verbatim>\<open>native_modules/aes.rs\<close> and
  \<^verbatim>\<open>native_modules/postcard.rs\<close>) that a write to a special file calls.

  A service runs with its mutex locked and may itself write files, also special ones. A write to
  the file of a service whose mutex is taken never returns (\<open>Stuck\<close>). The operations take the list
  \<open>us\<close> of the services whose mutex is free and the callback \<open>sv\<close> that runs a service; \<open>serve\<close> ties the
  knot by recursion on \<open>us\<close>, which gets shorter with each nested service, so no fuel is needed.

  The crates \<^verbatim>\<open>postcard\<close>, \<^verbatim>\<open>serde_json\<close> and \<^verbatim>\<open>psa_crypto\<close> are the parameter record \<open>crates\<close>.
\<close>

section \<open>Data\<close>

datatype Enum1 =
  ENUM1_1 u32
  | ENUM1_2 i64
  | ENUM1_3 u32
  | ENUM1_4 "u32 list"

text \<open>
  A field of type \<^verbatim>\<open>f64\<close> is the 64 bits of its representation; a \<^verbatim>\<open>char\<close> is its Unicode scalar value.
\<close>

record Struct1 =
  s1_f1 :: u64
  s1_f2 :: u64
  s1_f3 :: u64
  s1_i1 :: i64
  s1_i2 :: i64
  s1_i3 :: i64
  s1_c1 :: u32
  s1_c2 :: u32
  s1_c3 :: u32
  s1_e1 :: Enum1

record Struct2 =
  s2_u1 :: u64
  s2_u2 :: u64
  s2_u3 :: u64
  s2_t1 :: Struct1
  s2_array1 :: "u16 list"
  s2_array2 :: "u32 list"
  s2_e1 :: Enum1

datatype Enum2 =
  ENUM2_1 Struct2
  | ENUM2_2 "u16 list"
  | ENUM2_3 u16

record Struct3 =
  s3_e1 :: Enum2
  s3_e2 :: Enum2
  s3_e3 :: Enum2

text \<open>
  \<open>psa_ctr enc key iv input\<close>: \<^verbatim>\<open>psa_crypto::init\<close>, the import of the key, and \<^verbatim>\<open>encrypt\<close> or \<^verbatim>\<open>decrypt\<close>
  into a buffer as long as the input; the buffer afterwards and the length the call returns, or
  \<open>None\<close> when one of the three fails.
\<close>

record crates =
  postcard_aes :: "byte list \<Rightarrow> AesCounterModeService option"
  postcard_structs :: "byte list \<Rightarrow> Struct3 list option"
  json_structs :: "Struct3 list \<Rightarrow> byte list option"
  psa_ctr :: "bool \<Rightarrow> byte list \<Rightarrow> byte list \<Rightarrow> byte list \<Rightarrow> (byte list \<times> nat) option"

type_synonym 'p service_call = "Service \<Rightarrow> byte list \<Rightarrow> ('p, unit) fs_op"

section \<open>Writing\<close>

definition set_aes :: "AesCounterModeService \<Rightarrow> ('p, unit) fs_op" where
  "set_aes a = mmodify (\<lambda>fs. adopt ((inode_table fs)\<lparr>aes_service := a\<rparr>) fs)"

definition try_parse :: "crates \<Rightarrow> Service \<Rightarrow> byte list \<Rightarrow> ('p, bool) fs_op" where
  "try_parse C s input =
     (case s of
        PostcardService \<Rightarrow> mreturn True
      | AesService \<Rightarrow>
          (case postcard_aes C input of
             Some a \<Rightarrow> mbind (set_aes a) (\<lambda>_. mreturn True)
           | None \<Rightarrow> mreturn False))"

definition service_valid_input :: "crates \<Rightarrow> Service list \<Rightarrow> InodeEntry \<Rightarrow> ('p, bool) fs_op" where
  "service_valid_input C us e =
     (case node_data e of
        NativeModule s input \<Rightarrow> if s \<in> set us then try_parse C s input else mstuck
      | _ \<Rightarrow> mthrow Inval)"

text \<open>One round of the loop of \<^verbatim>\<open>fd_pwrite\<close>, with the running offset and length.\<close>

definition write_buf :: "Inode \<Rightarrow> FileSize \<times> nat \<Rightarrow> byte list \<Rightarrow> ('p InodeTable, ErrNo, FileSize \<times> nat) sm" where
  "write_buf i ol buf =
     mbind (update_entry i (entry_write_file buf (fst ol))) (\<lambda>delta.
     mreturn (fst ol + of_nat delta, snd ol + delta))"

text \<open>
  \<^verbatim>\<open>service.serve(&mut self.service_fs()?, &input)\<close>: the service gets a clone of the handle, whose
  descriptors are dropped at the end; the table is shared.
\<close>

definition call_service :: "Service list \<Rightarrow> 'p service_call \<Rightarrow> Service \<Rightarrow> byte list \<Rightarrow> ('p, unit) fs_op" where
  "call_service us sv s input =
     (if s \<in> set us then mzoom id (\<lambda>clone fs. adopt (inode_table clone) fs) (sv s input) else mstuck)"

text \<open>The second half of \<^verbatim>\<open>fd_pwrite\<close>: call the service of a special file once its input is complete.\<close>

definition trigger_service ::
  "crates \<Rightarrow> Service list \<Rightarrow> 'p service_call \<Rightarrow> Inode \<Rightarrow> ('p, unit) fs_op" where
  "trigger_service C us sv i =
     mbind (inode_get i) (\<lambda>f.
     if entry_is_service f
     then mbind (service_valid_input C us f) (\<lambda>valid.
          if valid
          then mbind (inode_get i) (\<lambda>f.
               mbind (mlift (impl_service_handler (node_data f))) (\<lambda>(s, input).
               call_service us sv s input))
          else mreturn ())
     else mreturn ())"

definition fd_pwrite_with ::
  "crates \<Rightarrow> Service list \<Rightarrow> 'p service_call \<Rightarrow> Fd \<Rightarrow> byte list list \<Rightarrow> FileSize \<Rightarrow> ('p, nat) fs_op" where
  "fd_pwrite_with C us sv fd bufs off =
     mbind (check_right fd {FD_WRITE}) (\<lambda>_.
     mbind (get_inode_by_fd fd) (\<lambda>i.
     mbind (inode_get i) (\<lambda>_.
     mbind (with_inodes (mfold (write_buf i) (off, 0) bufs)) (\<lambda>ol.
     mbind (trigger_service C us sv i) (\<lambda>_.
     mreturn (snd ol))))))"

definition fd_write_with ::
  "crates \<Rightarrow> Service list \<Rightarrow> 'p service_call \<Rightarrow> Fd \<Rightarrow> byte list list \<Rightarrow> ('p, nat) fs_op" where
  "fd_write_with C us sv fd bufs =
     mbind (check_right fd {FD_WRITE}) (\<lambda>_.
     mbind (fd_entry fd) (\<lambda>e.
     mbind (fd_pwrite_with C us sv fd bufs (fd_offset e)) (\<lambda>n.
     mbind (fd_seek fd (of_nat n) Current) (\<lambda>_.
     mreturn n))))"

definition write_file_by_absolute_path_with ::
  "crates \<Rightarrow> Service list \<Rightarrow> 'p service_call \<Rightarrow> path \<Rightarrow> byte list \<Rightarrow> bool \<Rightarrow> ('p, unit) fs_op" where
  "write_file_by_absolute_path_with C us sv p data is_append =
     mbind (open_for p (if is_append then {CREATE} else {CREATE, TRUNC}) {FD_WRITE, FD_SEEK}) (\<lambda>fd.
     mbind (if is_append then mbind (fd_seek fd 0 End) (\<lambda>_. mreturn ()) else mreturn ()) (\<lambda>_.
     mbind (fd_write_with C us sv fd [data]) (\<lambda>_.
     fd_close fd)))"

section \<open>The services\<close>

definition postcard_serve ::
  "crates \<Rightarrow> (path \<Rightarrow> byte list \<Rightarrow> bool \<Rightarrow> ('p, unit) fs_op) \<Rightarrow> byte list \<Rightarrow> ('p, unit) fs_op" where
  "postcard_serve C wr inputs =
     mbind (mlift (ok_or Inval (postcard_structs C inputs))) (\<lambda>v.
     mbind (mlift (ok_or Inval (json_structs C v))) (\<lambda>js.
     wr ''/services/postcard_result.dat'' js False))"

definition encryption_decryption ::
  "crates \<Rightarrow> (path \<Rightarrow> byte list \<Rightarrow> bool \<Rightarrow> ('p, unit) fs_op) \<Rightarrow> AesCounterModeService \<Rightarrow> ('p, unit) fs_op" where
  "encryption_decryption C wr a =
     mbind (read_file_by_absolute_path (aes_input_path a)) (\<lambda>input.
     mbind (mlift (ok_or Canceled (psa_ctr C (aes_is_encryption a) (aes_key a) (aes_iv a) input))) (\<lambda>(out, len).
     mbind (mlift (vec_resize len 0 out)) (\<lambda>out.
     wr (aes_output_path a) out True)))"

definition aes_serve ::
  "crates \<Rightarrow> (path \<Rightarrow> byte list \<Rightarrow> bool \<Rightarrow> ('p, unit) fs_op) \<Rightarrow> ('p, unit) fs_op" where
  "aes_serve C wr =
     mbind mget (\<lambda>fs.
     mcatch (encryption_decryption C wr (aes_service (inode_table fs)))
       (\<lambda>u. mbind (set_aes aes_new) (\<lambda>_. mreturn u))
       (\<lambda>e. mbind (set_aes aes_new) (\<lambda>_. mthrow e)))"

function serve :: "crates \<Rightarrow> Service list \<Rightarrow> 'p service_call" where
  "serve C us s input =
     (if s \<in> set us
      then let us' = removeAll s us; wr = write_file_by_absolute_path_with C us' (serve C us') in
           (case s of PostcardService \<Rightarrow> postcard_serve C wr input | AesService \<Rightarrow> aes_serve C wr)
      else mstuck)"
  by pat_completeness auto
termination
  by (relation "measure (\<lambda>(C, us, s, input). length us)") (auto intro: length_removeAll_less)

declare serve.simps [simp del]

section \<open>The operations outside any service\<close>

definition all_services :: "Service list" where
  "all_services = [PostcardService, AesService]"

definition fd_pwrite :: "crates \<Rightarrow> Fd \<Rightarrow> byte list list \<Rightarrow> FileSize \<Rightarrow> ('p, nat) fs_op" where
  "fd_pwrite C = fd_pwrite_with C all_services (serve C all_services)"

definition fd_write :: "crates \<Rightarrow> Fd \<Rightarrow> byte list list \<Rightarrow> ('p, nat) fs_op" where
  "fd_write C = fd_write_with C all_services (serve C all_services)"

definition write_file_by_absolute_path :: "crates \<Rightarrow> path \<Rightarrow> byte list \<Rightarrow> bool \<Rightarrow> ('p, unit) fs_op" where
  "write_file_by_absolute_path C = write_file_by_absolute_path_with C all_services (serve C all_services)"

definition write_stdin :: "crates \<Rightarrow> byte list \<Rightarrow> ('p, nat) fs_op" where
  "write_stdin C buf = fd_write C 0 [buf]"

end
