(* ===== verification/WasiWrapper.thy ===== *)
theory WasiWrapper
  imports Strace Services
begin

text \<open>
  The host side of the WASI interface: \<^verbatim>\<open>WasiWrapper\<close> of \<^verbatim>\<open>execution-engine/src/wasi/common.rs\<close>, which converts the numbers and
  addresses of a WebAssembly program to the typed arguments of the filesystem and writes the results into the
  memory of the program, and the platform services it uses (\<^verbatim>\<open>platform-services/src\<close>).
\<close>

section \<open>Platform services\<close>

datatype 'a PlatformResult = PlatformSuccess 'a | Unavailable | UnknownError

text \<open>
  The answers of the platform to one host call: the random byte for each position of a buffer of some length, the
  resolution and the time of a clock.
\<close>

record platform =
  platform_getrandom :: "nat \<Rightarrow> (nat \<Rightarrow> byte) PlatformResult"
  platform_getclockres :: "byte \<Rightarrow> u64 PlatformResult"
  platform_getclocktime :: "byte \<Rightarrow> u64 PlatformResult"

definition getrandom :: "platform \<Rightarrow> nat \<Rightarrow> byte list PlatformResult" where
  "getrandom P n =
     (if n = 0 then PlatformSuccess []
      else case platform_getrandom P n of
             PlatformSuccess f \<Rightarrow> PlatformSuccess (map f [0..<n])
           | Unavailable \<Rightarrow> Unavailable
           | UnknownError \<Rightarrow> UnknownError)"

definition getclockres :: "platform \<Rightarrow> byte \<Rightarrow> u64 PlatformResult" where
  "getclockres P clock_id = platform_getclockres P clock_id"

definition getclocktime :: "platform \<Rightarrow> byte \<Rightarrow> u64 PlatformResult" where
  "getclocktime P clock_id = platform_getclocktime P clock_id"

text \<open>
  The services on a host with a standard library. The operating system gives random bytes, and a clock reading in
  nanoseconds as a signed number or an error, of which \<^verbatim>\<open>EINVAL\<close> is told apart.
\<close>

datatype SysError = EINVAL | OtherSysError

record os_services =
  os_getrandom :: "nat \<Rightarrow> (nat \<Rightarrow> byte) option"
  os_clock_getres :: "byte \<Rightarrow> (SysError, int) result"
  os_clock_gettime :: "byte \<Rightarrow> (SysError, int) result"

definition std_getrandom :: "os_services \<Rightarrow> nat \<Rightarrow> (nat \<Rightarrow> byte) PlatformResult" where
  "std_getrandom S n = (case os_getrandom S n of Some bytes \<Rightarrow> PlatformSuccess bytes | None \<Rightarrow> UnknownError)"

definition std_clock :: "(SysError, int) result \<Rightarrow> u64 PlatformResult" where
  "std_clock r =
     (case r of
        Ok t \<Rightarrow> PlatformSuccess (of_int t)
      | Err e \<Rightarrow> if e = EINVAL then Unavailable else UnknownError
      | _ \<Rightarrow> UnknownError)"

definition std_getclockres :: "os_services \<Rightarrow> byte \<Rightarrow> u64 PlatformResult" where
  "std_getclockres S clock_id = std_clock (os_clock_getres S clock_id)"

definition std_getclocktime :: "os_services \<Rightarrow> byte \<Rightarrow> u64 PlatformResult" where
  "std_getclocktime S clock_id = std_clock (os_clock_gettime S clock_id)"

section \<open>State\<close>

record Options =
  environment_variables :: "(string \<times> string) list"
  program_arguments :: "string list"
  enable_clock_option :: bool
  enable_strace :: bool

definition default_options :: Options where
  "default_options = \<lparr>environment_variables = [], program_arguments = [], enable_clock_option = False,
     enable_strace = False\<rparr>"

record 'p WasiWrapper =
  wasi_filesystem :: "'p FileSystem"
  wasi_environment :: "(string \<times> string) list"
  wasi_arguments :: "string list"
  wasi_exit_code :: "u32 option"
  wasi_enable_clock :: bool
  wasi_enable_strace :: bool

definition wrapper_new :: "'p FileSystem \<Rightarrow> bool \<Rightarrow> 'p WasiWrapper" where
  "wrapper_new fs clock =
     \<lparr>wasi_filesystem = fs, wasi_environment = [], wasi_arguments = [], wasi_exit_code = None,
      wasi_enable_clock = clock, wasi_enable_strace = False\<rparr>"

text \<open>A host call sees the wrapper next to the memory of the program.\<close>

record 'p host = guest +
  host_wasi :: "'p WasiWrapper"

type_synonym ('p, 'a) host_op = "('p host, ErrNo, 'a) sm"

definition on_fs :: "('p, 'a) fs_op \<Rightarrow> ('p, 'a) host_op" where
  "on_fs m = mzoom (\<lambda>h. wasi_filesystem (host_wasi h))
     (\<lambda>fs h. h\<lparr>host_wasi := (host_wasi h)\<lparr>wasi_filesystem := fs\<rparr>\<rparr>) m"

definition filestat_time :: "wasi_crate \<Rightarrow> platform \<Rightarrow> 'p WasiWrapper \<Rightarrow> Timestamp" where
  "filestat_time T P w =
     (if \<not> wasi_enable_clock w then 0
      else case getclocktime P (clock_realtime T) of PlatformSuccess t \<Rightarrow> t | _ \<Rightarrow> 0)"

definition strace ::
  "string \<Rightarrow> ('p, unit) host_op \<Rightarrow> ((ErrNo, unit) result \<Rightarrow> ('p, unit) host_op list) \<Rightarrow> ('p, unit) host_op" where
  "strace name body args = mbind mget (\<lambda>h. traced (wasi_enable_strace (host_wasi h)) name body args)"

definition decode_wasi_arg :: "'a option \<Rightarrow> ('p, 'a) host_op" where
  "decode_wasi_arg a = mlift (ok_or Inval a)"

section \<open>Arguments, environment, clocks\<close>

definition wrapper_args_get :: "u32 \<Rightarrow> u32 \<Rightarrow> ('p, unit) host_op" where
  "wrapper_args_get address_for_string_ptrs buf_address =
     strace ''args_get''
       (mbind mget (\<lambda>h.
        on_memory (write_string_list (map (\<lambda>arg. as_bytes (arg @ [CHR 0x00])) (wasi_arguments (host_wasi h)))
          buf_address address_for_string_ptrs)))
       (\<lambda>_. [arg_dots])"

definition wrapper_args_sizes_get :: "u32 \<Rightarrow> u32 \<Rightarrow> ('p, unit) host_op" where
  "wrapper_args_sizes_get address_for_counts address_for_buffer_size =
     strace ''args_sizes_get''
       (mbind mget (\<lambda>h.
        let args = wasi_arguments (host_wasi h) in
        mbind (on_memory (write_u32 address_for_counts (of_nat (length args)))) (\<lambda>_.
        on_memory (write_u32 address_for_buffer_size
          (of_nat (foldl (\<lambda>acc arg. acc + length (as_bytes (arg @ [CHR 0x00]))) 0 args))))))
       (\<lambda>_. [arg_dots])"

definition environ_bytes :: "string \<times> string \<Rightarrow> byte list" where
  "environ_bytes kv = as_bytes (fst kv @ ''='' @ snd kv @ [CHR 0x00])"

definition wrapper_environ_get :: "u32 \<Rightarrow> u32 \<Rightarrow> ('p, unit) host_op" where
  "wrapper_environ_get address_for_string_ptrs buf_address =
     strace ''environ_get''
       (mbind mget (\<lambda>h.
        on_memory (write_string_list (map environ_bytes (wasi_environment (host_wasi h)))
          buf_address address_for_string_ptrs)))
       (\<lambda>_. [arg_dots])"

definition wrapper_environ_sizes_get :: "u32 \<Rightarrow> u32 \<Rightarrow> ('p, unit) host_op" where
  "wrapper_environ_sizes_get address_for_counts address_for_buffer_size =
     strace ''environ_sizes_get''
       (mbind mget (\<lambda>h.
        let env = wasi_environment (host_wasi h) in
        mbind (on_memory (write_u32 address_for_counts (of_nat (length env)))) (\<lambda>_.
        on_memory (write_u32 address_for_buffer_size
          (of_nat (foldl (\<lambda>acc kv. acc + length (environ_bytes kv)) 0 env))))))
       (\<lambda>_. [arg_dots])"

definition clock_answer :: "bool \<Rightarrow> u64 PlatformResult \<Rightarrow> (ErrNo, u64) result" where
  "clock_answer enabled r =
     (if \<not> enabled then Err Access
      else case r of PlatformSuccess t \<Rightarrow> Ok t | Unavailable \<Rightarrow> Err NoSys | UnknownError \<Rightarrow> Err Inval)"

definition wrapper_clock_res_get :: "platform \<Rightarrow> u32 \<Rightarrow> u32 \<Rightarrow> ('p, unit) host_op" where
  "wrapper_clock_res_get P clock_id address =
     strace ''clock_res_get''
       (mbind mget (\<lambda>h.
        mbind (mlift (clock_answer (wasi_enable_clock (host_wasi h)) (getclockres P (ucast clock_id)))) (\<lambda>t.
        on_memory (write_u64 address t))))
       (\<lambda>_. [arg_dec (uint clock_id), arg_p_u64 address])"

definition wrapper_clock_time_get :: "platform \<Rightarrow> u32 \<Rightarrow> u64 \<Rightarrow> u32 \<Rightarrow> ('p, unit) host_op" where
  "wrapper_clock_time_get P clock_id precision address =
     strace ''clock_time_get''
       (mbind mget (\<lambda>h.
        mbind (mlift (clock_answer (wasi_enable_clock (host_wasi h)) (getclocktime P (ucast clock_id)))) (\<lambda>t.
        on_memory (write_u64 address t))))
       (\<lambda>_. [arg_dec (uint clock_id), arg_dec (uint precision), arg_p_u64 address])"

section \<open>Operations on descriptors\<close>

definition wrapper_fd_advise :: "wasi_crate \<Rightarrow> u32 \<Rightarrow> u64 \<Rightarrow> u64 \<Rightarrow> byte \<Rightarrow> ('p, unit) host_op" where
  "wrapper_fd_advise T fd off len advice =
     strace ''fd_advise''
       (mbind (decode_wasi_arg (advice_of T advice)) (\<lambda>adv. on_fs (fd_advise fd off len adv)))
       (\<lambda>_. [arg_dec (uint fd), arg_dec (uint off), arg_dec (uint len), arg_dec (uint advice)])"

definition wrapper_fd_allocate :: "u32 \<Rightarrow> u64 \<Rightarrow> u64 \<Rightarrow> ('p, unit) host_op" where
  "wrapper_fd_allocate fd off len =
     strace ''fd_allocate'' (on_fs (fd_allocate fd off len))
       (\<lambda>_. [arg_dec (uint fd), arg_dec (uint off), arg_dec (uint len)])"

definition wrapper_fd_close :: "u32 \<Rightarrow> ('p, unit) host_op" where
  "wrapper_fd_close fd = strace ''fd_close'' (on_fs (fd_close fd)) (\<lambda>_. [arg_dec (uint fd)])"

definition wrapper_fd_datasync :: "u32 \<Rightarrow> ('p, unit) host_op" where
  "wrapper_fd_datasync fd = strace ''fd_datasync'' (on_fs (fd_datasync fd)) (\<lambda>_. [arg_dec (uint fd)])"

definition wrapper_fd_fdstat_get :: "wasi_crate \<Rightarrow> u32 \<Rightarrow> u32 \<Rightarrow> ('p, unit) host_op" where
  "wrapper_fd_fdstat_get T fd address =
     strace ''fd_fdstat_get''
       (mbind (on_fs (fd_fdstat_get fd)) (\<lambda>stat. on_memory (write_struct address (fdstat_bytes T stat))))
       (\<lambda>_. [arg_dec (uint fd), arg_fdstat])"

definition wrapper_fd_fdstat_set_flags :: "wasi_crate \<Rightarrow> u32 \<Rightarrow> u16 \<Rightarrow> ('p, unit) host_op" where
  "wrapper_fd_fdstat_set_flags T fd flags =
     strace ''fd_fdstat_set_flags''
       (mbind (decode_wasi_arg (fd_flags_of T flags)) (\<lambda>fl. on_fs (fd_fdstat_set_flags fd fl)))
       (\<lambda>_. [arg_dec (uint fd), arg_hex (unat flags)])"

definition wrapper_fd_fdstat_set_rights :: "wasi_crate \<Rightarrow> u32 \<Rightarrow> u64 \<Rightarrow> u64 \<Rightarrow> ('p, unit) host_op" where
  "wrapper_fd_fdstat_set_rights T fd base inh =
     strace ''fd_fdstat_set_rights''
       (mbind (decode_wasi_arg (rights_of T base)) (\<lambda>rights_base.
        mbind (decode_wasi_arg (rights_of T inh)) (\<lambda>rights_inheriting.
        on_fs (fd_fdstat_set_rights fd rights_base rights_inheriting))))
       (\<lambda>_. [arg_dec (uint fd), arg_hex (unat base), arg_hex (unat inh)])"

text \<open>The result of the filesystem is not unpacked here: an error is written into the memory like a success.\<close>

definition wrapper_fd_filestat_get :: "wasi_crate \<Rightarrow> u32 \<Rightarrow> u32 \<Rightarrow> ('p, unit) host_op" where
  "wrapper_fd_filestat_get T fd address =
     strace ''fd_filestat_get''
       (mcatch (on_fs (fd_filestat_get fd))
          (\<lambda>stat. on_memory (write_struct address (filestat_result_bytes T (Ok stat))))
          (\<lambda>e. on_memory (write_struct address (filestat_result_bytes T (Err e)))))
       (\<lambda>_. [arg_dec (uint fd), arg_filestat])"

definition wrapper_fd_filestat_set_size :: "u32 \<Rightarrow> u64 \<Rightarrow> ('p, unit) host_op" where
  "wrapper_fd_filestat_set_size fd sz =
     strace ''fd_filestat_set_size'' (on_fs (fd_filestat_set_size fd sz))
       (\<lambda>_. [arg_dec (uint fd), arg_dec (uint sz)])"

definition wrapper_fd_filestat_set_times ::
  "wasi_crate \<Rightarrow> platform \<Rightarrow> u32 \<Rightarrow> u64 \<Rightarrow> u64 \<Rightarrow> u16 \<Rightarrow> ('p, unit) host_op" where
  "wrapper_fd_filestat_set_times T P fd atime mtime fst_flag =
     strace ''fd_filestat_set_times''
       (mbind (decode_wasi_arg (set_time_flags_of T fst_flag)) (\<lambda>fl.
        mbind mget (\<lambda>h.
        on_fs (fd_filestat_set_times fd atime mtime fl (filestat_time T P (host_wasi h))))))
       (\<lambda>_. [arg_dec (uint fd), arg_dec (uint atime), arg_dec (uint mtime), arg_hex (unat fst_flag)])"

definition wrapper_fd_pread :: "u32 \<Rightarrow> u32 \<Rightarrow> u32 \<Rightarrow> u64 \<Rightarrow> u32 \<Rightarrow> ('p, unit) host_op" where
  "wrapper_fd_pread fd iovec_base iovec_count off address =
     strace ''fd_pread''
       (mbind (on_memory (unpack_iovec_mut iovec_base iovec_count)) (\<lambda>iovecs.
        mbind (on_fs (fd_pread fd (map snd iovecs) off)) (\<lambda>(size_read, bufs).
        mbind (on_memory (fill_iovecs iovecs size_read bufs)) (\<lambda>_.
        on_memory (write_u32 address (of_nat size_read))))))
       (\<lambda>result. [arg_dec (uint fd), arg_iovec result iovec_base iovec_count address, arg_dec (uint off),
          arg_p_u32 address])"

definition wrapper_fd_prestat_get :: "wasi_crate \<Rightarrow> u32 \<Rightarrow> u32 \<Rightarrow> ('p, unit) host_op" where
  "wrapper_fd_prestat_get T fd address =
     strace ''fd_prestat_get''
       (mbind (on_fs (fd_prestat_get fd)) (\<lambda>pre. on_memory (write_struct address (prestat_bytes T pre))))
       (\<lambda>result. [arg_dec (uint fd), arg_prestat_out result address])"

definition wrapper_fd_prestat_dir_name :: "u32 \<Rightarrow> u32 \<Rightarrow> u32 \<Rightarrow> ('p, unit) host_op" where
  "wrapper_fd_prestat_dir_name fd address sz =
     strace ''fd_prestat_dir_name''
       (mbind (on_fs (fd_prestat_dir_name fd)) (\<lambda>name.
        if length name > unat sz then mthrow NameTooLong
        else mbind (decode_wasi_arg (from_utf8 (as_bytes name))) (\<lambda>name.
             on_memory (write_buffer address (as_bytes name)))))
       (\<lambda>_. [arg_dec (uint fd), arg_path address sz, arg_dec (uint sz)])"

definition wrapper_fd_pwrite :: "crates \<Rightarrow> u32 \<Rightarrow> u32 \<Rightarrow> u32 \<Rightarrow> u64 \<Rightarrow> u32 \<Rightarrow> ('p, unit) host_op" where
  "wrapper_fd_pwrite C fd iovec_base iovec_count off address =
     strace ''fd_pwrite''
       (mbind (on_memory (unpack_iovec iovec_base iovec_count)) (\<lambda>iovecs.
        mbind (on_fs (fd_pwrite C fd iovecs off)) (\<lambda>size_written.
        on_memory (write_u32 address (of_nat size_written)))))
       (\<lambda>result. [arg_dec (uint fd), arg_iovec result iovec_base iovec_count address, arg_dec (uint off),
          arg_p_u32 address])"

text \<open>
  \<^verbatim>\<open>fd_read\<close> of the filesystem fills the buffers and then moves the offset; the buffers are filled even
  when the second step fails.
\<close>

definition filled :: "Fd \<Rightarrow> byte list list \<Rightarrow> 'p FileSystem \<Rightarrow> nat \<times> byte list list" where
  "filled fd bufs fs =
     (case fd_table fs fd of
        None \<Rightarrow> (0, [])
      | Some e \<Rightarrow> (case fst (fd_pread fd bufs (fd_offset e) fs) of Ok r \<Rightarrow> r | _ \<Rightarrow> (0, [])))"

definition wrapper_fd_read :: "u32 \<Rightarrow> u32 \<Rightarrow> u32 \<Rightarrow> u32 \<Rightarrow> ('p, unit) host_op" where
  "wrapper_fd_read fd iovec_base iovec_count address =
     strace ''fd_read''
       (mbind (on_memory (unpack_iovec_mut iovec_base iovec_count)) (\<lambda>iovecs.
        mbind mget (\<lambda>h.
        let (n, bufs) = filled fd (map snd iovecs) (wasi_filesystem (host_wasi h)) in
        mbind (on_memory (fill_iovecs iovecs n bufs)) (\<lambda>_.
        mbind (on_fs (fd_read fd (map snd iovecs))) (\<lambda>(size_read, _).
        on_memory (write_u32 address (of_nat size_read)))))))
       (\<lambda>result. [arg_dec (uint fd), arg_iovec result iovec_base iovec_count address, arg_p_u32 address])"

fun write_dir_entries ::
  "wasi_crate \<Rightarrow> u32 \<Rightarrow> (DirEnt \<times> path) list \<Rightarrow> u32 \<Rightarrow> u32 \<Rightarrow> u32 mem_op" where
  "write_dir_entries T buf_len [] buf_ptr written = mreturn written"
| "write_dir_entries T buf_len ((dir, p) # entries) buf_ptr written =
     (let written = written + dirent_size T in
      if written > buf_len then mreturn buf_len
      else mbind (write_struct buf_ptr (dirent_bytes T dir)) (\<lambda>_.
           let buf_ptr = buf_ptr + dirent_size T; written = written + of_nat (length p) in
           if written > buf_len then mreturn buf_len
           else mbind (write_buffer buf_ptr (as_bytes p)) (\<lambda>_.
                write_dir_entries T buf_len entries (buf_ptr + of_nat (length p)) written)))"

definition wrapper_fd_readdir :: "wasi_crate \<Rightarrow> u32 \<Rightarrow> u32 \<Rightarrow> u32 \<Rightarrow> u64 \<Rightarrow> u32 \<Rightarrow> ('p, unit) host_op" where
  "wrapper_fd_readdir T fd buf_ptr buf_len cookie result_ptr =
     strace ''fd_readdir''
       (mbind (on_fs (fd_readdir fd cookie)) (\<lambda>dir_entries.
        mbind (on_memory (write_dir_entries T buf_len dir_entries buf_ptr 0)) (\<lambda>written.
        on_memory (write_u32 result_ptr written))))
       (\<lambda>_. [arg_dec (uint fd), arg_dirents, arg_dec (uint cookie), arg_p_u32 result_ptr])"

definition wrapper_fd_renumber :: "u32 \<Rightarrow> u32 \<Rightarrow> ('p, unit) host_op" where
  "wrapper_fd_renumber old new =
     strace ''fd_renumber'' (on_fs (fd_renumber old new)) (\<lambda>_. [arg_dec (uint old), arg_dec (uint new)])"

definition wrapper_fd_seek :: "wasi_crate \<Rightarrow> u32 \<Rightarrow> i64 \<Rightarrow> byte \<Rightarrow> u32 \<Rightarrow> ('p, unit) host_op" where
  "wrapper_fd_seek T fd off whence address =
     strace ''fd_seek''
       (mbind (decode_wasi_arg (whence_of T whence)) (\<lambda>w.
        mbind (on_fs (fd_seek fd off w)) (\<lambda>new_offset.
        on_memory (write_u64 address new_offset))))
       (\<lambda>_. [arg_dec (uint fd), arg_dec (sint off), arg_dec (uint whence), arg_p_u64 address])"

definition wrapper_fd_sync :: "u32 \<Rightarrow> ('p, unit) host_op" where
  "wrapper_fd_sync fd = strace ''fd_sync'' (on_fs (fd_sync fd)) (\<lambda>_. [arg_dec (uint fd)])"

definition wrapper_fd_tell :: "u32 \<Rightarrow> u32 \<Rightarrow> ('p, unit) host_op" where
  "wrapper_fd_tell fd address =
     strace ''fd_tell''
       (mbind (on_fs (fd_tell fd)) (\<lambda>off. on_memory (write_u64 address off)))
       (\<lambda>_. [arg_dec (uint fd), arg_p_u64 address])"

definition wrapper_fd_write :: "crates \<Rightarrow> u32 \<Rightarrow> u32 \<Rightarrow> u32 \<Rightarrow> u32 \<Rightarrow> ('p, unit) host_op" where
  "wrapper_fd_write C fd iovec_base iovec_count address =
     strace ''fd_write''
       (mbind (on_memory (unpack_iovec iovec_base iovec_count)) (\<lambda>iovecs.
        mbind (on_fs (fd_write C fd iovecs)) (\<lambda>size_written.
        on_memory (write_u32 address (of_nat size_written)))))
       (\<lambda>result. [arg_dec (uint fd), arg_iovec result iovec_base iovec_count address, arg_p_u32 address])"

section \<open>Operations on paths\<close>

definition wrapper_path_create_directory :: "u32 \<Rightarrow> u32 \<Rightarrow> u32 \<Rightarrow> ('p, unit) host_op" where
  "wrapper_path_create_directory fd path_address path_length =
     strace ''path_create_directory''
       (mbind (on_memory (read_cstring path_address path_length)) (\<lambda>p. on_fs (path_create_directory fd p)))
       (\<lambda>_. [arg_dec (uint fd), arg_path path_address path_length])"

definition wrapper_path_filestat_get ::
  "wasi_crate \<Rightarrow> u32 \<Rightarrow> u32 \<Rightarrow> u32 \<Rightarrow> u32 \<Rightarrow> u32 \<Rightarrow> ('p, unit) host_op" where
  "wrapper_path_filestat_get T fd flags path_address path_length address =
     strace ''path_filestat_get''
       (mbind (on_memory (read_cstring path_address path_length)) (\<lambda>p.
        mbind (decode_wasi_arg (lookup_flags_of T flags)) (\<lambda>fl.
        mbind (on_fs (path_filestat_get fd fl p)) (\<lambda>stat.
        on_memory (write_struct address (filestat_bytes T stat))))))
       (\<lambda>_. [arg_dec (uint fd), arg_hex (unat flags), arg_path path_address path_length, arg_filestat])"

definition wrapper_path_filestat_set_times ::
  "wasi_crate \<Rightarrow> platform \<Rightarrow> u32 \<Rightarrow> u32 \<Rightarrow> u32 \<Rightarrow> u32 \<Rightarrow> u64 \<Rightarrow> u64 \<Rightarrow> u16 \<Rightarrow> ('p, unit) host_op" where
  "wrapper_path_filestat_set_times T P fd flags path_address path_length atime mtime fst_flag =
     strace ''path_filestat_set_times''
       (mbind (on_memory (read_cstring path_address path_length)) (\<lambda>p.
        mbind (decode_wasi_arg (lookup_flags_of T flags)) (\<lambda>fl.
        mbind (decode_wasi_arg (set_time_flags_of T fst_flag)) (\<lambda>fst.
        mbind mget (\<lambda>h.
        on_fs (path_filestat_set_times fd fl p atime mtime fst (filestat_time T P (host_wasi h))))))))
       (\<lambda>_. [arg_dec (uint fd), arg_hex (unat flags), arg_path path_address path_length, arg_dec (uint atime),
          arg_dec (uint mtime), arg_hex (unat fst_flag)])"

definition wrapper_path_link ::
  "wasi_crate \<Rightarrow> u32 \<Rightarrow> u32 \<Rightarrow> u32 \<Rightarrow> u32 \<Rightarrow> u32 \<Rightarrow> u32 \<Rightarrow> u32 \<Rightarrow> ('p, unit) host_op" where
  "wrapper_path_link T old_fd old_flags old_address old_path_len to_fd new_address new_path_len =
     strace ''path_link''
       (mbind (decode_wasi_arg (lookup_flags_of T old_flags)) (\<lambda>fl.
        mbind (on_memory (read_cstring old_address old_path_len)) (\<lambda>old_path.
        mbind (on_memory (read_cstring new_address new_path_len)) (\<lambda>new_path.
        on_fs (path_link old_fd fl old_path to_fd new_path)))))
       (\<lambda>_. [arg_dec (uint old_fd), arg_hex (unat old_flags), arg_path old_address old_path_len,
          arg_dec (uint to_fd), arg_path new_address new_path_len])"

definition wrapper_path_open ::
  "wasi_crate \<Rightarrow> u32 \<Rightarrow> u32 \<Rightarrow> u32 \<Rightarrow> u32 \<Rightarrow> u16 \<Rightarrow> u64 \<Rightarrow> u64 \<Rightarrow> u16 \<Rightarrow> u32 \<Rightarrow> ('p, unit) host_op" where
  "wrapper_path_open T fd dir_flags path_address path_length oflags base inh flags address =
     strace ''path_open''
       (mbind (on_memory (read_cstring path_address path_length)) (\<lambda>p.
        mbind (decode_wasi_arg (lookup_flags_of T dir_flags)) (\<lambda>dirf.
        mbind (decode_wasi_arg (open_flags_of T oflags)) (\<lambda>ofl.
        mbind (decode_wasi_arg (rights_of T base)) (\<lambda>rights_base.
        mbind (decode_wasi_arg (rights_of T inh)) (\<lambda>rights_inheriting.
        mbind (decode_wasi_arg (fd_flags_of T flags)) (\<lambda>fl.
        mbind (on_fs (path_open fd dirf p ofl rights_base rights_inheriting fl)) (\<lambda>new_fd.
        on_memory (write_u32 address new_fd)))))))))
       (\<lambda>_. [arg_dec (uint fd), arg_hex (unat dir_flags), arg_path path_address path_length, arg_hex (unat oflags),
          arg_rights base, arg_rights inh, arg_hex (unat flags), arg_p_u32 address])"

definition wrapper_path_readlink ::
  "u32 \<Rightarrow> u32 \<Rightarrow> u32 \<Rightarrow> u32 \<Rightarrow> u32 \<Rightarrow> u32 \<Rightarrow> ('p, unit) host_op" where
  "wrapper_path_readlink fd path_address path_length buf buf_len address =
     strace ''path_readlink''
       (mbind (on_memory (read_cstring path_address path_length)) (\<lambda>p.
        mbind (on_fs (path_readlink fd p)) (\<lambda>rst.
        let to_write = (if unat buf_len < length rst then unat buf_len else length rst) in
        mbind (mlift (vec_resize to_write 0 rst)) (\<lambda>rst.
        mbind (on_memory (write_buffer buf rst)) (\<lambda>_.
        on_memory (write_u32 address (of_nat to_write)))))))
       (\<lambda>_. [arg_dec (uint fd), arg_path path_address path_length, arg_path buf buf_len, arg_p_u32 address])"

definition wrapper_path_remove_directory :: "u32 \<Rightarrow> u32 \<Rightarrow> u32 \<Rightarrow> ('p, unit) host_op" where
  "wrapper_path_remove_directory fd path_address path_length =
     strace ''path_remove_directory''
       (mbind (on_memory (read_cstring path_address path_length)) (\<lambda>p. on_fs (path_remove_directory fd p)))
       (\<lambda>_. [arg_dec (uint fd), arg_path path_address path_length])"

definition wrapper_path_rename :: "u32 \<Rightarrow> u32 \<Rightarrow> u32 \<Rightarrow> u32 \<Rightarrow> u32 \<Rightarrow> u32 \<Rightarrow> ('p, unit) host_op" where
  "wrapper_path_rename old_fd old_address old_path_len to_fd new_address new_path_len =
     strace ''path_rename''
       (mbind (on_memory (read_cstring old_address old_path_len)) (\<lambda>old_path.
        mbind (on_memory (read_cstring new_address new_path_len)) (\<lambda>new_path.
        on_fs (path_rename old_fd old_path to_fd new_path))))
       (\<lambda>_. [arg_dec (uint old_fd), arg_path old_address old_path_len, arg_dec (uint to_fd),
          arg_path new_address old_path_len])"

definition wrapper_path_symlink :: "u32 \<Rightarrow> u32 \<Rightarrow> u32 \<Rightarrow> u32 \<Rightarrow> u32 \<Rightarrow> ('p, unit) host_op" where
  "wrapper_path_symlink old_address old_path_len fd new_address new_path_len =
     strace ''path_symlink''
       (mbind (on_memory (read_cstring old_address old_path_len)) (\<lambda>old_path.
        mbind (on_memory (read_cstring new_address new_path_len)) (\<lambda>new_path.
        on_fs (path_symlink old_path fd new_path))))
       (\<lambda>_. [arg_path old_address old_path_len, arg_dec (uint fd), arg_path new_address old_path_len])"

definition wrapper_path_unlink_file :: "u32 \<Rightarrow> u32 \<Rightarrow> u32 \<Rightarrow> ('p, unit) host_op" where
  "wrapper_path_unlink_file fd path_address path_len =
     strace ''path_unlink_file''
       (mbind (on_memory (read_cstring path_address path_len)) (\<lambda>p. on_fs (path_unlink_file fd p)))
       (\<lambda>_. [arg_dec (uint fd), arg_path path_address path_len])"

section \<open>Polling, processes, random numbers, sockets\<close>

definition poll_oneoff :: "Subscription list \<Rightarrow> Event list \<Rightarrow> ('p, u32) fs_op" where
  "poll_oneoff subscriptions events = mthrow NoSys"

definition wrapper_poll_oneoff :: "wasi_crate \<Rightarrow> u32 \<Rightarrow> u32 \<Rightarrow> u32 \<Rightarrow> u32 \<Rightarrow> ('p, unit) host_op" where
  "wrapper_poll_oneoff T subscriptions events sz address =
     strace ''poll_oneoff''
       (mbind (on_memory (unpack_array (subscription_size T) (subscription_unpack T) subscriptions sz)) (\<lambda>subs.
        mbind (on_memory (unpack_array (event_size T) (event_unpack T) events sz)) (\<lambda>evs.
        mbind (on_fs (poll_oneoff subs evs)) (\<lambda>rst.
        on_memory (write_u32 address rst)))))
       (\<lambda>_. [arg_subscriptions, arg_events, arg_p_u32 address])"

definition wrapper_proc_exit :: "u32 \<Rightarrow> ('p, unit) host_op" where
  "wrapper_proc_exit code =
     mbind mget (\<lambda>h.
     mbind (strace_func (wasi_enable_strace (host_wasi h)) ''proc_exit'') (\<lambda>_.
     mmodify (\<lambda>h. h\<lparr>host_wasi := (host_wasi h)\<lparr>wasi_exit_code := Some code\<rparr>\<rparr>)))"

definition wrapper_proc_raise :: "wasi_crate \<Rightarrow> byte \<Rightarrow> ('p, unit) host_op" where
  "wrapper_proc_raise T signal =
     strace ''proc_raise''
       (mbind (guard Inval (signal_valid T signal)) (\<lambda>_. mthrow NoSys))
       (\<lambda>_. [arg_dec (uint signal)])"

definition wrapper_sched_yield :: "('p, unit) host_op" where
  "wrapper_sched_yield = strace ''sched_yield'' (mthrow NoSys) (\<lambda>_. [])"

definition wrapper_random_get :: "platform \<Rightarrow> u32 \<Rightarrow> u32 \<Rightarrow> ('p, unit) host_op" where
  "wrapper_random_get P buf_ptr len =
     strace ''random_get''
       (case getrandom P (unat len) of
          PlatformSuccess bytes \<Rightarrow> on_memory (write_buffer buf_ptr bytes)
        | _ \<Rightarrow> mthrow NoSys)
       (\<lambda>_. [arg_buffer buf_ptr len])"

definition wrapper_sock_recv ::
  "wasi_crate \<Rightarrow> u32 \<Rightarrow> u32 \<Rightarrow> u32 \<Rightarrow> u16 \<Rightarrow> u32 \<Rightarrow> u32 \<Rightarrow> ('p, unit) host_op" where
  "wrapper_sock_recv T socket ri_address ri_len ri_flag ro_data_len ro_flag =
     strace ''sock_recv''
       (mbind (on_memory (unpack_iovec_mut ri_address ri_len)) (\<lambda>_.
        mbind (guard Inval (ri_flags_valid T ri_flag)) (\<lambda>_.
        mbind (on_fs (sock_recv socket)) (\<lambda>(size_read, ro_flags).
        mbind (on_memory (write_u32 ro_data_len size_read)) (\<lambda>_.
        on_memory (write_buffer ro_flag (le_bytes 2 (unat ro_flags))))))))
       (\<lambda>result. [arg_dec (uint socket), arg_iovec result ri_address ri_len ro_data_len, arg_hex (unat ri_flag),
          arg_p_u32 ro_data_len, arg_p_u16_hex ro_flag])"

definition wrapper_sock_send ::
  "wasi_crate \<Rightarrow> u32 \<Rightarrow> u32 \<Rightarrow> u32 \<Rightarrow> u16 \<Rightarrow> u32 \<Rightarrow> ('p, unit) host_op" where
  "wrapper_sock_send T socket si_address si_len si_flag address =
     strace ''sock_send''
       (mbind (on_memory (unpack_iovec si_address si_len)) (\<lambda>_.
        mbind (guard Inval (si_flags_valid T si_flag)) (\<lambda>_.
        mbind (on_fs (sock_send socket)) (\<lambda>size_written.
        on_memory (write_u32 address size_written)))))
       (\<lambda>result. [arg_iovec result si_address si_len address, arg_hex (unat si_flag), arg_p_u32 address])"

definition wrapper_sock_shutdown :: "wasi_crate \<Rightarrow> u32 \<Rightarrow> byte \<Rightarrow> ('p, unit) host_op" where
  "wrapper_sock_shutdown T socket sd_flag =
     strace ''sock_shutdown''
       (mbind (guard Inval (sd_flags_valid T sd_flag)) (\<lambda>_. on_fs (sock_shutdown socket)))
       (\<lambda>_. [arg_dec (uint socket), arg_hex (unat sd_flag)])"

definition wrapper_fd_create :: "u32 \<Rightarrow> ('p, unit) host_op" where
  "wrapper_fd_create address = mbind (on_fs fd_create) (\<lambda>new_fd. on_memory (write_u32 address new_fd))"

end
