(* ===== verification/EngineTypes.thy ===== *)
theory EngineTypes
  imports WasiWrapper PolicyUtils
begin

text \<open>
  What the two WebAssembly engines share (\<^verbatim>\<open>execution-engine/src/wasi/common.rs\<close>): the names of the host calls, the fatal
  errors, and the execution of a module. The interpreter and the compiler are third-party packages; a module is
  a parameter that computes, from its own state and the memory, its next event: a call of the
  host, the end, a trap, or an endless computation. Any program is such a module.
\<close>

section \<open>Host calls\<close>

datatype WasiAPIName =
  API_ARGS_GET | API_ARGS_SIZES_GET | API_ENVIRON_GET | API_ENVIRON_SIZES_GET | API_CLOCK_RES_GET
  | API_CLOCK_TIME_GET | API_FD_ADVISE | API_FD_ALLOCATE | API_FD_CLOSE | API_FD_DATASYNC | API_FD_FDSTAT_GET
  | API_FD_FDSTAT_SET_FLAGS | API_FD_FDSTAT_SET_RIGHTS | API_FD_FILESTAT_GET | API_FD_FILESTAT_SET_SIZE
  | API_FD_FILESTAT_SET_TIMES | API_FD_PREAD | API_FD_PRESTAT_GET | API_FD_PRESTAT_DIR_NAME | API_FD_PWRITE
  | API_FD_READ | API_FD_READDIR | API_FD_RENUMBER | API_FD_SEEK | API_FD_SYNC | API_FD_TELL | API_FD_WRITE
  | API_PATH_CREATE_DIRECTORY | API_PATH_FILESTAT_GET | API_PATH_FILESTAT_SET_TIMES | API_PATH_LINK
  | API_PATH_OPEN | API_PATH_READLINK | API_PATH_REMOVE_DIRECTORY | API_PATH_RENAME | API_PATH_SYMLINK
  | API_PATH_UNLINK_FILE | API_POLL_ONEOFF | API_PROC_EXIT | API_PROC_RAISE | API_SCHED_YIELD
  | API_RANDOM_GET | API_SOCK_RECV | API_SOCK_SEND | API_SOCK_SHUTDOWN

datatype VeracruzAPIName = API_FD_CREATE

datatype APIName = WasiAPI WasiAPIName | VeracruzAPI VeracruzAPIName

definition wasi_api_names :: "WasiAPIName list" where
  "wasi_api_names =
     [API_ARGS_GET, API_ARGS_SIZES_GET, API_ENVIRON_GET, API_ENVIRON_SIZES_GET, API_CLOCK_RES_GET,
      API_CLOCK_TIME_GET, API_FD_ADVISE, API_FD_ALLOCATE, API_FD_CLOSE, API_FD_DATASYNC, API_FD_FDSTAT_GET,
      API_FD_FDSTAT_SET_FLAGS, API_FD_FDSTAT_SET_RIGHTS, API_FD_FILESTAT_GET, API_FD_FILESTAT_SET_SIZE,
      API_FD_FILESTAT_SET_TIMES, API_FD_PREAD, API_FD_PRESTAT_GET, API_FD_PRESTAT_DIR_NAME, API_FD_PWRITE,
      API_FD_READ, API_FD_READDIR, API_FD_RENUMBER, API_FD_SEEK, API_FD_SYNC, API_FD_TELL, API_FD_WRITE,
      API_PATH_CREATE_DIRECTORY, API_PATH_FILESTAT_GET, API_PATH_FILESTAT_SET_TIMES, API_PATH_LINK,
      API_PATH_OPEN, API_PATH_READLINK, API_PATH_REMOVE_DIRECTORY, API_PATH_RENAME, API_PATH_SYMLINK,
      API_PATH_UNLINK_FILE, API_POLL_ONEOFF, API_PROC_EXIT, API_PROC_RAISE, API_SCHED_YIELD, API_RANDOM_GET,
      API_SOCK_RECV, API_SOCK_SEND, API_SOCK_SHUTDOWN]"

text \<open>The lowercase names of the imported functions (\<^verbatim>\<open>strum(serialize_all = "lowercase")\<close>).\<close>

primrec wasi_api_str :: "WasiAPIName \<Rightarrow> string" where
  "wasi_api_str API_ARGS_GET = ''args_get''"
| "wasi_api_str API_ARGS_SIZES_GET = ''args_sizes_get''"
| "wasi_api_str API_ENVIRON_GET = ''environ_get''"
| "wasi_api_str API_ENVIRON_SIZES_GET = ''environ_sizes_get''"
| "wasi_api_str API_CLOCK_RES_GET = ''clock_res_get''"
| "wasi_api_str API_CLOCK_TIME_GET = ''clock_time_get''"
| "wasi_api_str API_FD_ADVISE = ''fd_advise''"
| "wasi_api_str API_FD_ALLOCATE = ''fd_allocate''"
| "wasi_api_str API_FD_CLOSE = ''fd_close''"
| "wasi_api_str API_FD_DATASYNC = ''fd_datasync''"
| "wasi_api_str API_FD_FDSTAT_GET = ''fd_fdstat_get''"
| "wasi_api_str API_FD_FDSTAT_SET_FLAGS = ''fd_fdstat_set_flags''"
| "wasi_api_str API_FD_FDSTAT_SET_RIGHTS = ''fd_fdstat_set_rights''"
| "wasi_api_str API_FD_FILESTAT_GET = ''fd_filestat_get''"
| "wasi_api_str API_FD_FILESTAT_SET_SIZE = ''fd_filestat_set_size''"
| "wasi_api_str API_FD_FILESTAT_SET_TIMES = ''fd_filestat_set_times''"
| "wasi_api_str API_FD_PREAD = ''fd_pread''"
| "wasi_api_str API_FD_PRESTAT_GET = ''fd_prestat_get''"
| "wasi_api_str API_FD_PRESTAT_DIR_NAME = ''fd_prestat_dir_name''"
| "wasi_api_str API_FD_PWRITE = ''fd_pwrite''"
| "wasi_api_str API_FD_READ = ''fd_read''"
| "wasi_api_str API_FD_READDIR = ''fd_readdir''"
| "wasi_api_str API_FD_RENUMBER = ''fd_renumber''"
| "wasi_api_str API_FD_SEEK = ''fd_seek''"
| "wasi_api_str API_FD_SYNC = ''fd_sync''"
| "wasi_api_str API_FD_TELL = ''fd_tell''"
| "wasi_api_str API_FD_WRITE = ''fd_write''"
| "wasi_api_str API_PATH_CREATE_DIRECTORY = ''path_create_directory''"
| "wasi_api_str API_PATH_FILESTAT_GET = ''path_filestat_get''"
| "wasi_api_str API_PATH_FILESTAT_SET_TIMES = ''path_filestat_set_times''"
| "wasi_api_str API_PATH_LINK = ''path_link''"
| "wasi_api_str API_PATH_OPEN = ''path_open''"
| "wasi_api_str API_PATH_READLINK = ''path_readlink''"
| "wasi_api_str API_PATH_REMOVE_DIRECTORY = ''path_remove_directory''"
| "wasi_api_str API_PATH_RENAME = ''path_rename''"
| "wasi_api_str API_PATH_SYMLINK = ''path_symlink''"
| "wasi_api_str API_PATH_UNLINK_FILE = ''path_unlink_file''"
| "wasi_api_str API_POLL_ONEOFF = ''poll_oneoff''"
| "wasi_api_str API_PROC_EXIT = ''proc_exit''"
| "wasi_api_str API_PROC_RAISE = ''proc_raise''"
| "wasi_api_str API_SCHED_YIELD = ''sched_yield''"
| "wasi_api_str API_RANDOM_GET = ''random_get''"
| "wasi_api_str API_SOCK_RECV = ''sock_recv''"
| "wasi_api_str API_SOCK_SEND = ''sock_send''"
| "wasi_api_str API_SOCK_SHUTDOWN = ''sock_shutdown''"

primrec veracruz_api_str :: "VeracruzAPIName \<Rightarrow> string" where
  "veracruz_api_str API_FD_CREATE = ''fd_create''"

definition wasi_api_from_str :: "string \<Rightarrow> WasiAPIName option" where
  "wasi_api_from_str s = find (\<lambda>n. wasi_api_str n = s) wasi_api_names"

definition veracruz_api_from_str :: "string \<Rightarrow> VeracruzAPIName option" where
  "veracruz_api_from_str s = find (\<lambda>n. veracruz_api_str n = s) [API_FD_CREATE]"

section \<open>Values and signatures\<close>

datatype ValueType = TI32 | TI64 | TF32 | TF64

datatype RuntimeValue = I32 u32 | I64 u64 | F32 u32 | F64 u64

primrec value_type :: "RuntimeValue \<Rightarrow> ValueType" where
  "value_type (I32 x) = TI32"
| "value_type (I64 x) = TI64"
| "value_type (F32 x) = TF32"
| "value_type (F64 x) = TF64"

record Signature =
  sig_params :: "ValueType list"
  sig_return :: "ValueType option"

datatype EntrySignature = NoEntryFound | NoParameters | ArgvAndArgc

definition ENTRY_POINT_NAME :: string where
  "ENTRY_POINT_NAME = ''_start''"

definition LINEAR_MEMORY_NAME :: string where
  "LINEAR_MEMORY_NAME = ''memory''"

definition WASI_SNAPSHOT_MODULE_NAME :: string where
  "WASI_SNAPSHOT_MODULE_NAME = ''wasi_snapshot_preview1''"

definition VERACRUZ_SI_MODULE_NAME :: string where
  "VERACRUZ_SI_MODULE_NAME = ''veracruz_si''"

datatype HostFunctionIndexOrName = HostIndex nat | HostName string

datatype FatalEngineError =
    InvalidWASMModule
  | BadArgumentsToHostFunction WasiAPIName
  | UnknownHostFunction HostFunctionIndexOrName
  | NoMemoryRegistered
  | NoProgramModuleRegistered
  | NoProgramEntryPoint
  | EngineIsNotReady
  | ReturnedCodeError
  | WASMITrapError
  | WASMIError
  | WASIError ErrNo
  | AnyhowError
  | WasmtimeTrapError

type_synonym ('p, 'a) engine_op = "('p host, FatalEngineError, 'a) sm"

text \<open>
  The packages the engines use: \<^verbatim>\<open>wasi-types\<close>, the packages of the native modules, and the conversions of values by
  \<^verbatim>\<open>wasmi\<close>, which fail on a value of another type or out of range.
\<close>

record engine_crates =
  ec_wasi :: wasi_crate
  ec_crates :: crates
  value_u8 :: "RuntimeValue \<Rightarrow> byte option"
  value_u16 :: "RuntimeValue \<Rightarrow> u16 option"
  value_u32 :: "RuntimeValue \<Rightarrow> u32 option"
  value_u64 :: "RuntimeValue \<Rightarrow> u64 option"
  value_i64 :: "RuntimeValue \<Rightarrow> i64 option"

section \<open>Modules\<close>

record wasm_import =
  import_module :: string
  import_field :: string
  import_signature :: Signature

datatype wasm_export = ExportFunc Signature | ExportOther

text \<open>
  What \<^verbatim>\<open>wasm_advance\<close> can report: the call of an imported function with the state to continue in
  for each returned value, the return from the function that was invoked, a trap, or nothing at all because
  the computation does not end.
\<close>

datatype 'm wasm_event = HostCall string "RuntimeValue list" "RuntimeValue option \<Rightarrow> 'm" | Done "RuntimeValue option"
  | Trap | Diverge

text \<open>
  A parsed module: the functions it imports, whether it imports anything else, its start function, the exported
  memory, the export with the name of the entry point, the state in which the entry point is invoked.
\<close>

record 'm wasm_module =
  module_imports :: "wasm_import list"
  module_imports_other :: bool
  module_start :: "'m option"
  module_memory :: "byte list option"
  module_entry :: "wasm_export option"
  module_invoke :: "RuntimeValue list \<Rightarrow> 'm"

record 'm wasm_machine =
  wasm_parse :: "byte list \<Rightarrow> 'm wasm_module option"
  wasm_advance :: "'m \<Rightarrow> memory \<Rightarrow> 'm wasm_event \<times> memory"

text \<open>
  The run of a module. \<open>call n f args\<close> is what the engine does for the host call number \<open>n\<close>. A run that never ends
  is \<open>None\<close>.
\<close>

partial_function (option) run_module ::
  "(nat \<Rightarrow> string \<Rightarrow> RuntimeValue list \<Rightarrow> ('p, RuntimeValue option) engine_op) \<Rightarrow>
   ('m \<Rightarrow> memory \<Rightarrow> 'm wasm_event \<times> memory) \<Rightarrow> nat \<Rightarrow> 'm \<Rightarrow> 'p host \<Rightarrow>
   ((FatalEngineError, RuntimeValue option) result \<times> 'p host) option" where
  "run_module call advance n m h =
     (case advance m (guest_memory h) of (event, mem) \<Rightarrow>
        let h = h\<lparr>guest_memory := mem\<rparr> in
        case event of
          Done v \<Rightarrow> Some (Ok v, h)
        | Trap \<Rightarrow> Some (Err WASMITrapError, h)
        | Diverge \<Rightarrow> None
        | HostCall f args k \<Rightarrow>
            (case call n f args h of
               (Ok v, h') \<Rightarrow> run_module call advance (Suc n) (k v) h'
             | (Err e, h') \<Rightarrow> Some (Err e, h')
             | (Panic, h') \<Rightarrow> Some (Panic, h')
             | (Stuck, h') \<Rightarrow> Some (Stuck, h')))"

definition execute_module ::
  "(nat \<Rightarrow> string \<Rightarrow> RuntimeValue list \<Rightarrow> ('p, RuntimeValue option) engine_op) \<Rightarrow>
   ('m \<Rightarrow> memory \<Rightarrow> 'm wasm_event \<times> memory) \<Rightarrow> 'm \<Rightarrow> ('p, RuntimeValue option) engine_op" where
  "execute_module call advance m h =
     (case run_module call advance 0 m h of None \<Rightarrow> (Stuck, h) | Some r \<Rightarrow> r)"

end
