(* ===== verification/Wasmi.thy ===== *)
theory Wasmi
  imports EngineTypes
begin

text \<open>
  The engine for interpretation (\<^verbatim>\<open>execution-engine/src/wasi/wasmi.rs\<close>): numbering and signatures of the host calls, the
  resolution of imports, one function per host call, and the invocation of the entry point. The state is the
  record \<open>host\<close>; its memory is absent until a module with a memory is loaded.
\<close>

section \<open>Numbers of host calls\<close>

definition API_LAST :: nat where
  "API_LAST = length wasi_api_names + 1"

primrec index_of :: "'a list \<Rightarrow> 'a \<Rightarrow> nat" where
  "index_of [] x = 0"
| "index_of (y # ys) x = (if x = y then 0 else Suc (index_of ys x))"

definition from_u64 :: "nat \<Rightarrow> APIName option" where
  "from_u64 n =
     (if n = 0 then None
      else if n < API_LAST then Some (WasiAPI (wasi_api_names ! (n - 1)))
      else if n - API_LAST = 0 then Some (VeracruzAPI API_FD_CREATE) else None)"

definition from_i64 :: "int \<Rightarrow> APIName option" where
  "from_i64 n = (if n < 0 then None else from_u64 (nat n))"

primrec to_u64 :: "APIName \<Rightarrow> nat" where
  "to_u64 (WasiAPI x) = index_of wasi_api_names x + 1"
| "to_u64 (VeracruzAPI x) = API_LAST + 0"

section \<open>Signatures\<close>

primrec wasi_params :: "WasiAPIName \<Rightarrow> ValueType list" where
  "wasi_params API_ARGS_GET = [TI32, TI32]"
| "wasi_params API_ARGS_SIZES_GET = [TI32, TI32]"
| "wasi_params API_ENVIRON_GET = [TI32, TI32]"
| "wasi_params API_ENVIRON_SIZES_GET = [TI32, TI32]"
| "wasi_params API_CLOCK_RES_GET = [TI32, TI32]"
| "wasi_params API_CLOCK_TIME_GET = [TI32, TI64, TI32]"
| "wasi_params API_FD_ADVISE = [TI32, TI64, TI64, TI32]"
| "wasi_params API_FD_ALLOCATE = [TI32, TI64, TI64]"
| "wasi_params API_FD_CLOSE = [TI32]"
| "wasi_params API_FD_DATASYNC = [TI32]"
| "wasi_params API_FD_FDSTAT_GET = [TI32, TI32]"
| "wasi_params API_FD_FDSTAT_SET_FLAGS = [TI32, TI32]"
| "wasi_params API_FD_FDSTAT_SET_RIGHTS = [TI32, TI64, TI64]"
| "wasi_params API_FD_FILESTAT_GET = [TI32, TI32]"
| "wasi_params API_FD_FILESTAT_SET_SIZE = [TI32, TI64]"
| "wasi_params API_FD_FILESTAT_SET_TIMES = [TI32, TI64, TI64, TI32]"
| "wasi_params API_FD_PREAD = [TI32, TI32, TI32, TI64, TI32]"
| "wasi_params API_FD_PRESTAT_GET = [TI32, TI32]"
| "wasi_params API_FD_PRESTAT_DIR_NAME = [TI32, TI32, TI32]"
| "wasi_params API_FD_PWRITE = [TI32, TI32, TI32, TI64, TI32]"
| "wasi_params API_FD_READ = [TI32, TI32, TI32, TI32]"
| "wasi_params API_FD_READDIR = [TI32, TI32, TI32, TI64, TI32]"
| "wasi_params API_FD_RENUMBER = [TI32, TI32]"
| "wasi_params API_FD_SEEK = [TI32, TI64, TI32, TI32]"
| "wasi_params API_FD_SYNC = [TI32]"
| "wasi_params API_FD_TELL = [TI32, TI32]"
| "wasi_params API_FD_WRITE = [TI32, TI32, TI32, TI32]"
| "wasi_params API_PATH_CREATE_DIRECTORY = [TI32, TI32, TI32]"
| "wasi_params API_PATH_FILESTAT_GET = [TI32, TI32, TI32, TI32, TI32]"
| "wasi_params API_PATH_FILESTAT_SET_TIMES = [TI32, TI32, TI32, TI32, TI64, TI64, TI32]"
| "wasi_params API_PATH_LINK = [TI32, TI32, TI32, TI32, TI32, TI32, TI32]"
| "wasi_params API_PATH_OPEN = [TI32, TI32, TI32, TI32, TI32, TI64, TI64, TI32, TI32]"
| "wasi_params API_PATH_READLINK = [TI32, TI32, TI32, TI32, TI32, TI32]"
| "wasi_params API_PATH_REMOVE_DIRECTORY = [TI32, TI32, TI32]"
| "wasi_params API_PATH_RENAME = [TI32, TI32, TI32, TI32, TI32, TI32]"
| "wasi_params API_PATH_SYMLINK = [TI32, TI32, TI32, TI32, TI32]"
| "wasi_params API_PATH_UNLINK_FILE = [TI32, TI32, TI32]"
| "wasi_params API_POLL_ONEOFF = [TI32, TI32, TI32, TI32]"
| "wasi_params API_PROC_EXIT = [TI32]"
| "wasi_params API_PROC_RAISE = [TI32]"
| "wasi_params API_SCHED_YIELD = []"
| "wasi_params API_RANDOM_GET = [TI32, TI32]"
| "wasi_params API_SOCK_RECV = [TI32, TI32, TI32, TI32, TI32, TI32]"
| "wasi_params API_SOCK_SEND = [TI32, TI32, TI32, TI32, TI32]"
| "wasi_params API_SOCK_SHUTDOWN = [TI32, TI32]"

definition get_params :: "APIName \<Rightarrow> ValueType list" where
  "get_params index = (case index of WasiAPI n \<Rightarrow> wasi_params n | VeracruzAPI n \<Rightarrow> [TI32])"

definition check_signature :: "APIName \<Rightarrow> Signature \<Rightarrow> bool" where
  "check_signature index sig \<longleftrightarrow>
     sig_params sig = get_params index \<and>
     (if index = WasiAPI API_PROC_EXIT then sig_return sig = None else sig_return sig = Some TI32)"

definition check_args_number :: "RuntimeValue list \<Rightarrow> WasiAPIName \<Rightarrow> ('p, unit) engine_op" where
  "check_args_number args index =
     (if length args = length (get_params (WasiAPI index)) then mreturn ()
      else mthrow (BadArgumentsToHostFunction index))"

definition check_main_signature :: "Signature \<Rightarrow> EntrySignature" where
  "check_main_signature sig =
     (if sig_params sig = [] \<and> sig_return sig = None then NoParameters
      else if sig_params sig = [TI32, TI32] \<and> sig_return sig = None then ArgvAndArgc
      else NoEntryFound)"

definition wasmi_check_main :: "'m wasm_module \<Rightarrow> EntrySignature" where
  "wasmi_check_main md = (case module_entry md of Some (ExportFunc sig) \<Rightarrow> check_main_signature sig | _ \<Rightarrow> NoEntryFound)"

definition get_module_memory :: "'m wasm_module \<Rightarrow> (FatalEngineError, byte list) result" where
  "get_module_memory md = ok_or NoMemoryRegistered (module_memory md)"

definition resolve_func :: "string \<Rightarrow> Signature \<Rightarrow> nat option" where
  "resolve_func field_name sig =
     (case (case wasi_api_from_str field_name of
              Some x \<Rightarrow> Some (WasiAPI x)
            | None \<Rightarrow> map_option VeracruzAPI (veracruz_api_from_str field_name)) of
        None \<Rightarrow> None
      | Some index \<Rightarrow> if \<not> check_signature index sig then None else Some (to_u64 index))"

section \<open>Access to arguments\<close>

text \<open>\<^verbatim>\<open>nth_checked\<close> traps on an argument that is missing or cannot be converted, \<^verbatim>\<open>nth\<close> panics.\<close>

definition arg_at :: "(RuntimeValue \<Rightarrow> 'a option) \<Rightarrow> RuntimeValue list \<Rightarrow> nat \<Rightarrow> 'a option" where
  "arg_at conv args i = (if i < length args then conv (args ! i) else None)"

definition nth_checked :: "(RuntimeValue \<Rightarrow> 'a option) \<Rightarrow> RuntimeValue list \<Rightarrow> nat \<Rightarrow> ('p, 'a) engine_op" where
  "nth_checked conv args i = mlift (ok_or WASMITrapError (arg_at conv args i))"

definition nth_panicking :: "(RuntimeValue \<Rightarrow> 'a option) \<Rightarrow> RuntimeValue list \<Rightarrow> nat \<Rightarrow> ('p, 'a) engine_op" where
  "nth_panicking conv args i = (case arg_at conv args i of Some x \<Rightarrow> mreturn x | None \<Rightarrow> mpanic)"

abbreviation arg_u16 :: "engine_crates \<Rightarrow> RuntimeValue list \<Rightarrow> nat \<Rightarrow> ('p, u16) engine_op" where
  "arg_u16 X \<equiv> nth_checked (value_u16 X)"

abbreviation arg_u32 :: "engine_crates \<Rightarrow> RuntimeValue list \<Rightarrow> nat \<Rightarrow> ('p, u32) engine_op" where
  "arg_u32 X \<equiv> nth_checked (value_u32 X)"

abbreviation arg_u64 :: "engine_crates \<Rightarrow> RuntimeValue list \<Rightarrow> nat \<Rightarrow> ('p, u64) engine_op" where
  "arg_u64 X \<equiv> nth_checked (value_u64 X)"

abbreviation arg_i64 :: "engine_crates \<Rightarrow> RuntimeValue list \<Rightarrow> nat \<Rightarrow> ('p, i64) engine_op" where
  "arg_i64 X \<equiv> nth_checked (value_i64 X)"

abbreviation nth_u8 :: "engine_crates \<Rightarrow> RuntimeValue list \<Rightarrow> nat \<Rightarrow> ('p, byte) engine_op" where
  "nth_u8 X \<equiv> nth_panicking (value_u8 X)"

abbreviation nth_u32 :: "engine_crates \<Rightarrow> RuntimeValue list \<Rightarrow> nat \<Rightarrow> ('p, u32) engine_op" where
  "nth_u32 X \<equiv> nth_panicking (value_u32 X)"

text \<open>
  \<^verbatim>\<open>convert_to_errno(self.vfs.f(&mut self.memory()?, ..))\<close>: without a memory the call is a fatal error; a result of the
  wrapper becomes an error code.
\<close>

definition with_memory :: "('p, unit) host_op \<Rightarrow> ('p, ErrNo) engine_op" where
  "with_memory m h =
     (if guest_memory h = None then (Err NoMemoryRegistered, h)
      else case m h of
             (Ok _, h') \<Rightarrow> (Ok Success, h')
           | (Err e, h') \<Rightarrow> (Ok e, h')
           | (Panic, h') \<Rightarrow> (Panic, h')
           | (Stuck, h') \<Rightarrow> (Stuck, h'))"

section \<open>The host calls\<close>

definition wasmi_args_get :: "engine_crates \<Rightarrow> RuntimeValue list \<Rightarrow> ('p, ErrNo) engine_op" where
  "wasmi_args_get X args =
     mbind (check_args_number args API_ARGS_GET) (\<lambda>_.
     mbind (arg_u32 X args 0) (\<lambda>string_ptr_address.
     mbind (arg_u32 X args 1) (\<lambda>buf_address.
     with_memory (wrapper_args_get string_ptr_address buf_address))))"

definition wasmi_args_sizes_get :: "engine_crates \<Rightarrow> RuntimeValue list \<Rightarrow> ('p, ErrNo) engine_op" where
  "wasmi_args_sizes_get X args =
     mbind (check_args_number args API_ARGS_SIZES_GET) (\<lambda>_.
     mbind (arg_u32 X args 0) (\<lambda>arg_count_address.
     mbind (arg_u32 X args 1) (\<lambda>arg_buf_size_address.
     with_memory (wrapper_args_sizes_get arg_count_address arg_buf_size_address))))"

definition wasmi_environ_get :: "engine_crates \<Rightarrow> RuntimeValue list \<Rightarrow> ('p, ErrNo) engine_op" where
  "wasmi_environ_get X args =
     mbind (check_args_number args API_ENVIRON_GET) (\<lambda>_.
     mbind (nth_u32 X args 0) (\<lambda>string_ptr_address.
     mbind (nth_u32 X args 1) (\<lambda>buf_address.
     with_memory (wrapper_environ_get string_ptr_address buf_address))))"

definition wasmi_environ_sizes_get :: "engine_crates \<Rightarrow> RuntimeValue list \<Rightarrow> ('p, ErrNo) engine_op" where
  "wasmi_environ_sizes_get X args =
     mbind (check_args_number args API_ENVIRON_SIZES_GET) (\<lambda>_.
     mbind (arg_u32 X args 0) (\<lambda>environc_address.
     mbind (arg_u32 X args 1) (\<lambda>environ_buf_size_address.
     with_memory (wrapper_environ_sizes_get environc_address environ_buf_size_address))))"

definition wasmi_clock_res_get :: "engine_crates \<Rightarrow> platform \<Rightarrow> RuntimeValue list \<Rightarrow> ('p, ErrNo) engine_op" where
  "wasmi_clock_res_get X P args =
     mbind (check_args_number args API_CLOCK_RES_GET) (\<lambda>_.
     mbind (arg_u32 X args 0) (\<lambda>clock_id.
     mbind (arg_u32 X args 1) (\<lambda>address.
     with_memory (wrapper_clock_res_get P clock_id address))))"

definition wasmi_clock_time_get :: "engine_crates \<Rightarrow> platform \<Rightarrow> RuntimeValue list \<Rightarrow> ('p, ErrNo) engine_op" where
  "wasmi_clock_time_get X P args =
     mbind (check_args_number args API_CLOCK_TIME_GET) (\<lambda>_.
     mbind (arg_u32 X args 0) (\<lambda>clock_id.
     mbind (arg_u64 X args 1) (\<lambda>precision.
     mbind (arg_u32 X args 2) (\<lambda>address.
     with_memory (wrapper_clock_time_get P clock_id precision address)))))"

definition wasmi_fd_advise :: "engine_crates \<Rightarrow> RuntimeValue list \<Rightarrow> ('p, ErrNo) engine_op" where
  "wasmi_fd_advise X args =
     mbind (check_args_number args API_FD_ADVISE) (\<lambda>_.
     mbind (arg_u32 X args 0) (\<lambda>fd.
     mbind (arg_u64 X args 1) (\<lambda>off.
     mbind (arg_u64 X args 2) (\<lambda>len.
     mbind (nth_u8 X args 3) (\<lambda>advice.
     with_memory (wrapper_fd_advise (ec_wasi X) fd off len advice))))))"

definition wasmi_fd_allocate :: "engine_crates \<Rightarrow> RuntimeValue list \<Rightarrow> ('p, ErrNo) engine_op" where
  "wasmi_fd_allocate X args =
     mbind (check_args_number args API_FD_ALLOCATE) (\<lambda>_.
     mbind (arg_u32 X args 0) (\<lambda>fd.
     mbind (arg_u64 X args 1) (\<lambda>off.
     mbind (arg_u64 X args 2) (\<lambda>len.
     with_memory (wrapper_fd_allocate fd off len)))))"

definition wasmi_fd_close :: "engine_crates \<Rightarrow> RuntimeValue list \<Rightarrow> ('p, ErrNo) engine_op" where
  "wasmi_fd_close X args =
     mbind (check_args_number args API_FD_CLOSE) (\<lambda>_.
     mbind (arg_u32 X args 0) (\<lambda>fd.
     with_memory (wrapper_fd_close fd)))"

definition wasmi_fd_datasync :: "engine_crates \<Rightarrow> RuntimeValue list \<Rightarrow> ('p, ErrNo) engine_op" where
  "wasmi_fd_datasync X args =
     mbind (check_args_number args API_FD_DATASYNC) (\<lambda>_.
     mbind (arg_u32 X args 0) (\<lambda>fd.
     with_memory (wrapper_fd_datasync fd)))"

definition wasmi_fd_fdstat_get :: "engine_crates \<Rightarrow> RuntimeValue list \<Rightarrow> ('p, ErrNo) engine_op" where
  "wasmi_fd_fdstat_get X args =
     mbind (check_args_number args API_FD_FDSTAT_GET) (\<lambda>_.
     mbind (arg_u32 X args 0) (\<lambda>fd.
     mbind (arg_u32 X args 1) (\<lambda>address.
     with_memory (wrapper_fd_fdstat_get (ec_wasi X) fd address))))"

definition wasmi_fd_fdstat_set_flags :: "engine_crates \<Rightarrow> RuntimeValue list \<Rightarrow> ('p, ErrNo) engine_op" where
  "wasmi_fd_fdstat_set_flags X args =
     mbind (check_args_number args API_FD_FDSTAT_SET_FLAGS) (\<lambda>_.
     mbind (arg_u32 X args 0) (\<lambda>fd.
     mbind (arg_u16 X args 1) (\<lambda>flags.
     with_memory (wrapper_fd_fdstat_set_flags (ec_wasi X) fd flags))))"

definition wasmi_fd_fdstat_set_rights :: "engine_crates \<Rightarrow> RuntimeValue list \<Rightarrow> ('p, ErrNo) engine_op" where
  "wasmi_fd_fdstat_set_rights X args =
     mbind (check_args_number args API_FD_FDSTAT_SET_RIGHTS) (\<lambda>_.
     mbind (arg_u32 X args 0) (\<lambda>fd.
     mbind (arg_u64 X args 1) (\<lambda>base.
     mbind (arg_u64 X args 2) (\<lambda>inh.
     with_memory (wrapper_fd_fdstat_set_rights (ec_wasi X) fd base inh)))))"

definition wasmi_fd_filestat_get :: "engine_crates \<Rightarrow> RuntimeValue list \<Rightarrow> ('p, ErrNo) engine_op" where
  "wasmi_fd_filestat_get X args =
     mbind (check_args_number args API_FD_FILESTAT_GET) (\<lambda>_.
     mbind (arg_u32 X args 0) (\<lambda>fd.
     mbind (arg_u32 X args 1) (\<lambda>address.
     with_memory (wrapper_fd_filestat_get (ec_wasi X) fd address))))"

definition wasmi_fd_filestat_set_size :: "engine_crates \<Rightarrow> RuntimeValue list \<Rightarrow> ('p, ErrNo) engine_op" where
  "wasmi_fd_filestat_set_size X args =
     mbind (check_args_number args API_FD_FILESTAT_SET_SIZE) (\<lambda>_.
     mbind (arg_u32 X args 0) (\<lambda>fd.
     mbind (arg_u64 X args 1) (\<lambda>sz.
     with_memory (wrapper_fd_filestat_set_size fd sz))))"

definition wasmi_fd_filestat_set_times :: "engine_crates \<Rightarrow> platform \<Rightarrow> RuntimeValue list \<Rightarrow> ('p, ErrNo) engine_op" where
  "wasmi_fd_filestat_set_times X P args =
     mbind (check_args_number args API_FD_FILESTAT_SET_TIMES) (\<lambda>_.
     mbind (arg_u32 X args 0) (\<lambda>fd.
     mbind (arg_u64 X args 1) (\<lambda>atime.
     mbind (arg_u64 X args 2) (\<lambda>mtime.
     mbind (arg_u16 X args 3) (\<lambda>fst_flag.
     with_memory (wrapper_fd_filestat_set_times (ec_wasi X) P fd atime mtime fst_flag))))))"

definition wasmi_fd_pread :: "engine_crates \<Rightarrow> RuntimeValue list \<Rightarrow> ('p, ErrNo) engine_op" where
  "wasmi_fd_pread X args =
     mbind (check_args_number args API_FD_PREAD) (\<lambda>_.
     mbind (arg_u32 X args 0) (\<lambda>fd.
     mbind (arg_u32 X args 1) (\<lambda>iovec_base.
     mbind (arg_u32 X args 2) (\<lambda>iovec_length.
     mbind (arg_u64 X args 3) (\<lambda>off.
     mbind (arg_u32 X args 4) (\<lambda>address.
     with_memory (wrapper_fd_pread fd iovec_base iovec_length off address)))))))"

definition wasmi_fd_prestat_get :: "engine_crates \<Rightarrow> RuntimeValue list \<Rightarrow> ('p, ErrNo) engine_op" where
  "wasmi_fd_prestat_get X args =
     mbind (check_args_number args API_FD_PRESTAT_GET) (\<lambda>_.
     mbind (arg_u32 X args 0) (\<lambda>fd.
     mbind (arg_u32 X args 1) (\<lambda>address.
     with_memory (wrapper_fd_prestat_get (ec_wasi X) fd address))))"

definition wasmi_fd_prestat_dir_name :: "engine_crates \<Rightarrow> RuntimeValue list \<Rightarrow> ('p, ErrNo) engine_op" where
  "wasmi_fd_prestat_dir_name X args =
     mbind (check_args_number args API_FD_PRESTAT_DIR_NAME) (\<lambda>_.
     mbind (arg_u32 X args 0) (\<lambda>fd.
     mbind (arg_u32 X args 1) (\<lambda>address.
     mbind (arg_u32 X args 2) (\<lambda>sz.
     with_memory (wrapper_fd_prestat_dir_name fd address sz)))))"

definition wasmi_fd_pwrite :: "engine_crates \<Rightarrow> RuntimeValue list \<Rightarrow> ('p, ErrNo) engine_op" where
  "wasmi_fd_pwrite X args =
     mbind (check_args_number args API_FD_PWRITE) (\<lambda>_.
     mbind (arg_u32 X args 0) (\<lambda>fd.
     mbind (arg_u32 X args 1) (\<lambda>iovec_base.
     mbind (arg_u32 X args 2) (\<lambda>iovec_length.
     mbind (arg_u64 X args 3) (\<lambda>off.
     mbind (arg_u32 X args 4) (\<lambda>address.
     with_memory (wrapper_fd_pwrite (ec_crates X) fd iovec_base iovec_length off address)))))))"

definition wasmi_fd_read :: "engine_crates \<Rightarrow> RuntimeValue list \<Rightarrow> ('p, ErrNo) engine_op" where
  "wasmi_fd_read X args =
     mbind (check_args_number args API_FD_READ) (\<lambda>_.
     mbind (arg_u32 X args 0) (\<lambda>fd.
     mbind (arg_u32 X args 1) (\<lambda>iovec_base.
     mbind (arg_u32 X args 2) (\<lambda>iovec_len.
     mbind (arg_u32 X args 3) (\<lambda>address.
     with_memory (wrapper_fd_read fd iovec_base iovec_len address))))))"

definition wasmi_fd_readdir :: "engine_crates \<Rightarrow> RuntimeValue list \<Rightarrow> ('p, ErrNo) engine_op" where
  "wasmi_fd_readdir X args =
     mbind (check_args_number args API_FD_READDIR) (\<lambda>_.
     mbind (arg_u32 X args 0) (\<lambda>fd.
     mbind (arg_u32 X args 1) (\<lambda>dirent_base.
     mbind (arg_u32 X args 2) (\<lambda>dirent_length.
     mbind (arg_u64 X args 3) (\<lambda>cookie.
     mbind (arg_u32 X args 4) (\<lambda>address.
     with_memory (wrapper_fd_readdir (ec_wasi X) fd dirent_base dirent_length cookie address)))))))"

definition wasmi_fd_renumber :: "engine_crates \<Rightarrow> RuntimeValue list \<Rightarrow> ('p, ErrNo) engine_op" where
  "wasmi_fd_renumber X args =
     mbind (check_args_number args API_FD_RENUMBER) (\<lambda>_.
     mbind (arg_u32 X args 0) (\<lambda>old.
     mbind (arg_u32 X args 1) (\<lambda>to_fd.
     with_memory (wrapper_fd_renumber old to_fd))))"

definition wasmi_fd_seek :: "engine_crates \<Rightarrow> RuntimeValue list \<Rightarrow> ('p, ErrNo) engine_op" where
  "wasmi_fd_seek X args =
     mbind (check_args_number args API_FD_SEEK) (\<lambda>_.
     mbind (arg_u32 X args 0) (\<lambda>fd.
     mbind (arg_i64 X args 1) (\<lambda>off.
     mbind (nth_u8 X args 2) (\<lambda>whence.
     mbind (arg_u32 X args 3) (\<lambda>address.
     with_memory (wrapper_fd_seek (ec_wasi X) fd off whence address))))))"

definition wasmi_fd_sync :: "engine_crates \<Rightarrow> RuntimeValue list \<Rightarrow> ('p, ErrNo) engine_op" where
  "wasmi_fd_sync X args =
     mbind (check_args_number args API_FD_SYNC) (\<lambda>_.
     mbind (arg_u32 X args 0) (\<lambda>fd.
     with_memory (wrapper_fd_sync fd)))"

definition wasmi_fd_tell :: "engine_crates \<Rightarrow> RuntimeValue list \<Rightarrow> ('p, ErrNo) engine_op" where
  "wasmi_fd_tell X args =
     mbind (check_args_number args API_FD_TELL) (\<lambda>_.
     mbind (arg_u32 X args 0) (\<lambda>fd.
     mbind (arg_u32 X args 1) (\<lambda>address.
     with_memory (wrapper_fd_tell fd address))))"

definition wasmi_fd_write :: "engine_crates \<Rightarrow> RuntimeValue list \<Rightarrow> ('p, ErrNo) engine_op" where
  "wasmi_fd_write X args =
     mbind (check_args_number args API_FD_WRITE) (\<lambda>_.
     mbind (arg_u32 X args 0) (\<lambda>fd.
     mbind (arg_u32 X args 1) (\<lambda>iovec_base.
     mbind (arg_u32 X args 2) (\<lambda>iovec_len.
     mbind (arg_u32 X args 3) (\<lambda>address.
     with_memory (wrapper_fd_write (ec_crates X) fd iovec_base iovec_len address))))))"

definition wasmi_path_create_directory :: "engine_crates \<Rightarrow> RuntimeValue list \<Rightarrow> ('p, ErrNo) engine_op" where
  "wasmi_path_create_directory X args =
     mbind (check_args_number args API_PATH_CREATE_DIRECTORY) (\<lambda>_.
     mbind (arg_u32 X args 0) (\<lambda>fd.
     mbind (arg_u32 X args 1) (\<lambda>p.
     mbind (arg_u32 X args 2) (\<lambda>path_len.
     with_memory (wrapper_path_create_directory fd p path_len)))))"

definition wasmi_path_filestat_get :: "engine_crates \<Rightarrow> RuntimeValue list \<Rightarrow> ('p, ErrNo) engine_op" where
  "wasmi_path_filestat_get X args =
     mbind (check_args_number args API_PATH_FILESTAT_GET) (\<lambda>_.
     mbind (arg_u32 X args 0) (\<lambda>fd.
     mbind (arg_u32 X args 1) (\<lambda>flag.
     mbind (arg_u32 X args 2) (\<lambda>path_address.
     mbind (arg_u32 X args 3) (\<lambda>path_length.
     mbind (arg_u32 X args 4) (\<lambda>address.
     with_memory (wrapper_path_filestat_get (ec_wasi X) fd flag path_address path_length address)))))))"

definition wasmi_path_filestat_set_times :: "engine_crates \<Rightarrow> platform \<Rightarrow> RuntimeValue list \<Rightarrow> ('p, ErrNo) engine_op" where
  "wasmi_path_filestat_set_times X P args =
     mbind (check_args_number args API_PATH_FILESTAT_SET_TIMES) (\<lambda>_.
     mbind (arg_u32 X args 0) (\<lambda>fd.
     mbind (arg_u32 X args 1) (\<lambda>flag.
     mbind (arg_u32 X args 2) (\<lambda>path_address.
     mbind (arg_u32 X args 3) (\<lambda>path_length.
     mbind (arg_u64 X args 4) (\<lambda>atime.
     mbind (arg_u64 X args 5) (\<lambda>mtime.
     mbind (arg_u16 X args 6) (\<lambda>fst_flags.
     with_memory (wrapper_path_filestat_set_times (ec_wasi X) P fd flag path_address path_length atime mtime fst_flags)))))))))"

definition wasmi_path_link :: "engine_crates \<Rightarrow> RuntimeValue list \<Rightarrow> ('p, ErrNo) engine_op" where
  "wasmi_path_link X args =
     mbind (check_args_number args API_PATH_LINK) (\<lambda>_.
     mbind (arg_u32 X args 0) (\<lambda>old_fd.
     mbind (arg_u32 X args 1) (\<lambda>old_flags.
     mbind (arg_u32 X args 2) (\<lambda>old_address.
     mbind (arg_u32 X args 3) (\<lambda>old_path_len.
     mbind (arg_u32 X args 4) (\<lambda>to_fd.
     mbind (arg_u32 X args 5) (\<lambda>new_address.
     mbind (arg_u32 X args 6) (\<lambda>new_path_len.
     with_memory (wrapper_path_link (ec_wasi X) old_fd old_flags old_address old_path_len to_fd new_address new_path_len)))))))))"

definition wasmi_path_open :: "engine_crates \<Rightarrow> RuntimeValue list \<Rightarrow> ('p, ErrNo) engine_op" where
  "wasmi_path_open X args =
     mbind (check_args_number args API_PATH_OPEN) (\<lambda>_.
     mbind (arg_u32 X args 0) (\<lambda>fd.
     mbind (arg_u32 X args 1) (\<lambda>dirflags.
     mbind (arg_u32 X args 2) (\<lambda>path_address.
     mbind (arg_u32 X args 3) (\<lambda>path_length.
     mbind (arg_u16 X args 4) (\<lambda>oflags.
     mbind (arg_u64 X args 5) (\<lambda>base.
     mbind (arg_u64 X args 6) (\<lambda>inh.
     mbind (arg_u16 X args 7) (\<lambda>flags.
     mbind (arg_u32 X args 8) (\<lambda>address.
     with_memory (wrapper_path_open (ec_wasi X) fd dirflags path_address path_length oflags base inh flags address)))))))))))"

definition wasmi_path_readlink :: "engine_crates \<Rightarrow> RuntimeValue list \<Rightarrow> ('p, ErrNo) engine_op" where
  "wasmi_path_readlink X args =
     mbind (check_args_number args API_PATH_READLINK) (\<lambda>_.
     mbind (arg_u32 X args 0) (\<lambda>fd.
     mbind (arg_u32 X args 1) (\<lambda>path_address.
     mbind (arg_u32 X args 2) (\<lambda>path_length.
     mbind (arg_u32 X args 3) (\<lambda>buf_address.
     mbind (arg_u32 X args 4) (\<lambda>buf_length.
     mbind (arg_u32 X args 5) (\<lambda>address.
     with_memory (wrapper_path_readlink fd path_address path_length buf_address buf_length address))))))))"

definition wasmi_path_remove_directory :: "engine_crates \<Rightarrow> RuntimeValue list \<Rightarrow> ('p, ErrNo) engine_op" where
  "wasmi_path_remove_directory X args =
     mbind (check_args_number args API_PATH_REMOVE_DIRECTORY) (\<lambda>_.
     mbind (arg_u32 X args 0) (\<lambda>fd.
     mbind (arg_u32 X args 1) (\<lambda>path_address.
     mbind (arg_u32 X args 2) (\<lambda>path_length.
     with_memory (wrapper_path_remove_directory fd path_address path_length)))))"

definition wasmi_path_rename :: "engine_crates \<Rightarrow> RuntimeValue list \<Rightarrow> ('p, ErrNo) engine_op" where
  "wasmi_path_rename X args =
     mbind (check_args_number args API_PATH_RENAME) (\<lambda>_.
     mbind (arg_u32 X args 0) (\<lambda>old_fd.
     mbind (arg_u32 X args 1) (\<lambda>old_path_address.
     mbind (arg_u32 X args 2) (\<lambda>old_path_len.
     mbind (arg_u32 X args 3) (\<lambda>to_fd.
     mbind (arg_u32 X args 4) (\<lambda>new_path_address.
     mbind (arg_u32 X args 5) (\<lambda>new_path_len.
     with_memory (wrapper_path_rename old_fd old_path_address old_path_len to_fd new_path_address new_path_len))))))))"

definition wasmi_path_symlink :: "engine_crates \<Rightarrow> RuntimeValue list \<Rightarrow> ('p, ErrNo) engine_op" where
  "wasmi_path_symlink X args =
     mbind (check_args_number args API_PATH_SYMLINK) (\<lambda>_.
     mbind (arg_u32 X args 0) (\<lambda>old_path_address.
     mbind (arg_u32 X args 1) (\<lambda>old_path_len.
     mbind (arg_u32 X args 2) (\<lambda>fd.
     mbind (arg_u32 X args 3) (\<lambda>new_path_address.
     mbind (arg_u32 X args 4) (\<lambda>new_path_len.
     with_memory (wrapper_path_symlink old_path_address old_path_len fd new_path_address new_path_len)))))))"

definition wasmi_path_unlink_file :: "engine_crates \<Rightarrow> RuntimeValue list \<Rightarrow> ('p, ErrNo) engine_op" where
  "wasmi_path_unlink_file X args =
     mbind (check_args_number args API_PATH_UNLINK_FILE) (\<lambda>_.
     mbind (arg_u32 X args 0) (\<lambda>fd.
     mbind (arg_u32 X args 1) (\<lambda>path_address.
     mbind (arg_u32 X args 2) (\<lambda>path_len.
     with_memory (wrapper_path_unlink_file fd path_address path_len)))))"

definition wasmi_poll_oneoff :: "engine_crates \<Rightarrow> RuntimeValue list \<Rightarrow> ('p, ErrNo) engine_op" where
  "wasmi_poll_oneoff X args =
     mbind (check_args_number args API_POLL_ONEOFF) (\<lambda>_.
     mbind (arg_u32 X args 0) (\<lambda>subscriptions.
     mbind (arg_u32 X args 1) (\<lambda>events.
     mbind (arg_u32 X args 2) (\<lambda>sz.
     mbind (arg_u32 X args 3) (\<lambda>address.
     with_memory (wrapper_poll_oneoff (ec_wasi X) subscriptions events sz address))))))"

definition wasmi_proc_exit :: "engine_crates \<Rightarrow> RuntimeValue list \<Rightarrow> ('p, ErrNo) engine_op" where
  "wasmi_proc_exit X args =
     mbind (check_args_number args API_PROC_EXIT) (\<lambda>_.
     mbind (arg_u32 X args 0) (\<lambda>code.
     with_memory (wrapper_proc_exit code)))"

definition wasmi_proc_raise :: "engine_crates \<Rightarrow> RuntimeValue list \<Rightarrow> ('p, ErrNo) engine_op" where
  "wasmi_proc_raise X args =
     mbind (check_args_number args API_PROC_RAISE) (\<lambda>_.
     mbind (nth_u8 X args 0) (\<lambda>signal.
     with_memory (wrapper_proc_raise (ec_wasi X) signal)))"

definition wasmi_sched_yield :: "engine_crates \<Rightarrow> RuntimeValue list \<Rightarrow> ('p, ErrNo) engine_op" where
  "wasmi_sched_yield X args =
     mbind (check_args_number args API_SCHED_YIELD) (\<lambda>_.
     with_memory wrapper_sched_yield)"

definition wasmi_random_get :: "engine_crates \<Rightarrow> platform \<Rightarrow> RuntimeValue list \<Rightarrow> ('p, ErrNo) engine_op" where
  "wasmi_random_get X P args =
     mbind (check_args_number args API_RANDOM_GET) (\<lambda>_.
     mbind (arg_u32 X args 0) (\<lambda>address.
     mbind (arg_u32 X args 1) (\<lambda>sz.
     with_memory (wrapper_random_get P address sz))))"

definition wasmi_sock_recv :: "engine_crates \<Rightarrow> RuntimeValue list \<Rightarrow> ('p, ErrNo) engine_op" where
  "wasmi_sock_recv X args =
     mbind (check_args_number args API_SOCK_RECV) (\<lambda>_.
     mbind (arg_u32 X args 0) (\<lambda>socket.
     mbind (arg_u32 X args 1) (\<lambda>buf_address.
     mbind (arg_u32 X args 2) (\<lambda>buf_len.
     mbind (arg_u16 X args 3) (\<lambda>ri_flag.
     mbind (arg_u32 X args 4) (\<lambda>ro_data_len.
     mbind (arg_u32 X args 5) (\<lambda>ro_flag.
     with_memory (wrapper_sock_recv (ec_wasi X) socket buf_address buf_len ri_flag ro_data_len ro_flag))))))))"

definition wasmi_sock_send :: "engine_crates \<Rightarrow> RuntimeValue list \<Rightarrow> ('p, ErrNo) engine_op" where
  "wasmi_sock_send X args =
     mbind (check_args_number args API_SOCK_SEND) (\<lambda>_.
     mbind (arg_u32 X args 0) (\<lambda>socket.
     mbind (arg_u32 X args 1) (\<lambda>buf_address.
     mbind (arg_u32 X args 2) (\<lambda>buf_len.
     mbind (arg_u16 X args 3) (\<lambda>si_flag.
     mbind (arg_u32 X args 4) (\<lambda>ro_data_len.
     with_memory (wrapper_sock_send (ec_wasi X) socket buf_address buf_len si_flag ro_data_len)))))))"

definition wasmi_sock_shutdown :: "engine_crates \<Rightarrow> RuntimeValue list \<Rightarrow> ('p, ErrNo) engine_op" where
  "wasmi_sock_shutdown X args =
     mbind (check_args_number args API_SOCK_SHUTDOWN) (\<lambda>_.
     mbind (arg_u32 X args 0) (\<lambda>socket.
     mbind (nth_u8 X args 1) (\<lambda>sd_flag.
     with_memory (wrapper_sock_shutdown (ec_wasi X) socket sd_flag))))"

definition wasmi_veracruz_fd_create :: "engine_crates \<Rightarrow> RuntimeValue list \<Rightarrow> ('p, ErrNo) engine_op" where
  "wasmi_veracruz_fd_create X args = mbind (arg_u32 X args 0) (\<lambda>address. with_memory (wrapper_fd_create address))"

section \<open>Dispatch and execution\<close>

definition wasmi_call :: "engine_crates \<Rightarrow> platform \<Rightarrow> APIName \<Rightarrow> RuntimeValue list \<Rightarrow> ('p, ErrNo) engine_op" where
  "wasmi_call X P index args =
     (case index of
        VeracruzAPI n \<Rightarrow> wasmi_veracruz_fd_create X args
      | WasiAPI n \<Rightarrow>
     (case n of
        API_ARGS_GET \<Rightarrow> wasmi_args_get X args
      | API_ARGS_SIZES_GET \<Rightarrow> wasmi_args_sizes_get X args
      | API_ENVIRON_GET \<Rightarrow> wasmi_environ_get X args
      | API_ENVIRON_SIZES_GET \<Rightarrow> wasmi_environ_sizes_get X args
      | API_CLOCK_RES_GET \<Rightarrow> wasmi_clock_res_get X P args
      | API_CLOCK_TIME_GET \<Rightarrow> wasmi_clock_time_get X P args
      | API_FD_ADVISE \<Rightarrow> wasmi_fd_advise X args
      | API_FD_ALLOCATE \<Rightarrow> wasmi_fd_allocate X args
      | API_FD_CLOSE \<Rightarrow> wasmi_fd_close X args
      | API_FD_DATASYNC \<Rightarrow> wasmi_fd_datasync X args
      | API_FD_FDSTAT_GET \<Rightarrow> wasmi_fd_fdstat_get X args
      | API_FD_FDSTAT_SET_FLAGS \<Rightarrow> wasmi_fd_fdstat_set_flags X args
      | API_FD_FDSTAT_SET_RIGHTS \<Rightarrow> wasmi_fd_fdstat_set_rights X args
      | API_FD_FILESTAT_GET \<Rightarrow> wasmi_fd_filestat_get X args
      | API_FD_FILESTAT_SET_SIZE \<Rightarrow> wasmi_fd_filestat_set_size X args
      | API_FD_FILESTAT_SET_TIMES \<Rightarrow> wasmi_fd_filestat_set_times X P args
      | API_FD_PREAD \<Rightarrow> wasmi_fd_pread X args
      | API_FD_PRESTAT_GET \<Rightarrow> wasmi_fd_prestat_get X args
      | API_FD_PRESTAT_DIR_NAME \<Rightarrow> wasmi_fd_prestat_dir_name X args
      | API_FD_PWRITE \<Rightarrow> wasmi_fd_pwrite X args
      | API_FD_READ \<Rightarrow> wasmi_fd_read X args
      | API_FD_READDIR \<Rightarrow> wasmi_fd_readdir X args
      | API_FD_RENUMBER \<Rightarrow> wasmi_fd_renumber X args
      | API_FD_SEEK \<Rightarrow> wasmi_fd_seek X args
      | API_FD_SYNC \<Rightarrow> wasmi_fd_sync X args
      | API_FD_TELL \<Rightarrow> wasmi_fd_tell X args
      | API_FD_WRITE \<Rightarrow> wasmi_fd_write X args
      | API_PATH_CREATE_DIRECTORY \<Rightarrow> wasmi_path_create_directory X args
      | API_PATH_FILESTAT_GET \<Rightarrow> wasmi_path_filestat_get X args
      | API_PATH_FILESTAT_SET_TIMES \<Rightarrow> wasmi_path_filestat_set_times X P args
      | API_PATH_LINK \<Rightarrow> wasmi_path_link X args
      | API_PATH_OPEN \<Rightarrow> wasmi_path_open X args
      | API_PATH_READLINK \<Rightarrow> wasmi_path_readlink X args
      | API_PATH_REMOVE_DIRECTORY \<Rightarrow> wasmi_path_remove_directory X args
      | API_PATH_RENAME \<Rightarrow> wasmi_path_rename X args
      | API_PATH_SYMLINK \<Rightarrow> wasmi_path_symlink X args
      | API_PATH_UNLINK_FILE \<Rightarrow> wasmi_path_unlink_file X args
      | API_POLL_ONEOFF \<Rightarrow> wasmi_poll_oneoff X args
      | API_PROC_EXIT \<Rightarrow> wasmi_proc_exit X args
      | API_PROC_RAISE \<Rightarrow> wasmi_proc_raise X args
      | API_SCHED_YIELD \<Rightarrow> wasmi_sched_yield X args
      | API_RANDOM_GET \<Rightarrow> wasmi_random_get X P args
      | API_SOCK_RECV \<Rightarrow> wasmi_sock_recv X args
      | API_SOCK_SEND \<Rightarrow> wasmi_sock_send X args
      | API_SOCK_SHUTDOWN \<Rightarrow> wasmi_sock_shutdown X args))"

definition invoke_index :: "engine_crates \<Rightarrow> platform \<Rightarrow> nat \<Rightarrow> RuntimeValue list \<Rightarrow> ('p, RuntimeValue option) engine_op"
  where
  "invoke_index X P index args =
     (case from_u64 index of
        None \<Rightarrow> mthrow (UnknownHostFunction (HostIndex index))
      | Some call_index \<Rightarrow>
          mbind (wasmi_call X P call_index args) (\<lambda>return_code.
          mreturn (Some (I32 (scast (errno_code (ec_wasi X) return_code))))))"

text \<open>A call of the imported function \<open>f\<close> reaches \<^verbatim>\<open>invoke_index\<close> with the number that \<^verbatim>\<open>resolve_func\<close> gave to its import.\<close>

definition wasmi_host_call ::
  "engine_crates \<Rightarrow> (nat \<Rightarrow> platform) \<Rightarrow> wasm_import list \<Rightarrow> nat \<Rightarrow> string \<Rightarrow> RuntimeValue list \<Rightarrow>
   ('p, RuntimeValue option) engine_op" where
  "wasmi_host_call X Ps imports n f args =
     (case find (\<lambda>i. import_field i = f) imports of
        None \<Rightarrow> mthrow WASMITrapError
      | Some i \<Rightarrow>
          (case resolve_func f (import_signature i) of
             None \<Rightarrow> mthrow WASMITrapError
           | Some index \<Rightarrow> invoke_index X (Ps n) index args))"

definition resolvable :: "wasm_import \<Rightarrow> bool" where
  "resolvable i \<longleftrightarrow> import_module i \<in> {WASI_SNAPSHOT_MODULE_NAME, VERACRUZ_SI_MODULE_NAME} \<and>
     resolve_func (import_field i) (import_signature i) \<noteq> None"

definition load_program :: "'m wasm_machine \<Rightarrow> byte list \<Rightarrow> ('p, 'm wasm_module) engine_op" where
  "load_program M buffer =
     (case wasm_parse M buffer of
        None \<Rightarrow> mthrow WASMIError
      | Some md \<Rightarrow>
          if module_imports_other md \<or> \<not> list_all resolvable (module_imports md) then mthrow WASMIError
          else if module_start md \<noteq> None then mthrow InvalidWASMModule
          else mbind (mlift (get_module_memory md)) (\<lambda>mem.
               mbind (mmodify (\<lambda>h. h\<lparr>guest_memory := Some mem\<rparr>)) (\<lambda>_.
               mreturn md)))"

text \<open>
  \<^verbatim>\<open>invoke_export\<close>. An error that is not a trap (here: no entry point) is told apart by \<open>WASMIError\<close>; every other error
  of a run is a trap.
\<close>

definition invoke_export ::
  "engine_crates \<Rightarrow> (nat \<Rightarrow> platform) \<Rightarrow> 'm wasm_machine \<Rightarrow> 'm wasm_module \<Rightarrow> ('p, RuntimeValue option) engine_op" where
  "invoke_export X Ps M md =
     (case wasmi_check_main md of
        NoEntryFound \<Rightarrow> mthrow WASMIError
      | ArgvAndArgc \<Rightarrow>
          execute_module (wasmi_host_call X Ps (module_imports md)) (wasm_advance M) (module_invoke md [I32 0, I32 0])
      | NoParameters \<Rightarrow>
          execute_module (wasmi_host_call X Ps (module_imports md)) (wasm_advance M) (module_invoke md []))"

definition wasmi_exit :: "FatalEngineError \<Rightarrow> ('p, u32) engine_op" where
  "wasmi_exit e h =
     (if e = WASMIError then (Err WASMIError, h)
      else case wasi_exit_code (host_wasi h) of Some code \<Rightarrow> (Ok code, h) | None \<Rightarrow> (Err WASMITrapError, h))"

definition wasmi_return :: "RuntimeValue option \<Rightarrow> ('p, u32) engine_op" where
  "wasmi_return v h =
     (case v of
        None \<Rightarrow> (Ok (case wasi_exit_code (host_wasi h) of Some code \<Rightarrow> code | None \<Rightarrow> 0), h)
      | Some (I32 c) \<Rightarrow> (Ok c, h)
      | Some _ \<Rightarrow> (Err ReturnedCodeError, h))"

definition wasmi_invoke_entry_point ::
  "engine_crates \<Rightarrow> (nat \<Rightarrow> platform) \<Rightarrow> 'm wasm_machine \<Rightarrow> byte list \<Rightarrow> Options \<Rightarrow> ('p, u32) engine_op" where
  "wasmi_invoke_entry_point X Ps M program options =
     mbind (load_program M program) (\<lambda>md.
     mbind (mmodify (\<lambda>h. h\<lparr>host_wasi := (host_wasi h)\<lparr>wasi_enable_clock := enable_clock_option options,
       wasi_enable_strace := enable_strace options\<rparr>\<rparr>)) (\<lambda>_.
     mcatch (invoke_export X Ps M md) wasmi_return wasmi_exit))"

end
