(* ===== verification/Wasmtime.thy ===== *)
theory Wasmtime
  imports EngineTypes
begin

text \<open>
  The engine for just-in-time compilation (\<^verbatim>\<open>execution-engine/src/wasi/wasmtime.rs\<close>): one function per host call, the linking of
  the imports, and the invocation of the entry point. A lock on the shared wrapper never fails, since a
  program runs in one thread.
\<close>

section \<open>The host calls\<close>

definition to_u8 :: "u32 \<Rightarrow> byte option" where
  "to_u8 x = (if unat x < 2 ^ 8 then Some (ucast x) else None)"

definition to_u16 :: "u32 \<Rightarrow> u16 option" where
  "to_u16 x = (if unat x < 2 ^ 16 then Some (ucast x) else None)"

definition convert_wasi_arg :: "engine_crates \<Rightarrow> 'a option \<Rightarrow> ('a \<Rightarrow> ('p, u32) engine_op) \<Rightarrow> ('p, u32) engine_op" where
  "convert_wasi_arg X arg f =
     (case arg of None \<Rightarrow> mreturn (ucast (errno_code (ec_wasi X) Inval)) | Some a \<Rightarrow> f a)"

definition convert_to_errno :: "engine_crates \<Rightarrow> ('p, unit) host_op \<Rightarrow> ('p, u32) engine_op" where
  "convert_to_errno X m =
     mcatch m (\<lambda>_. mreturn (ucast (errno_code (ec_wasi X) Success)))
       (\<lambda>e. mreturn (ucast (errno_code (ec_wasi X) e)))"

definition wasmtime_args_get ::
  "engine_crates \<Rightarrow> u32 \<Rightarrow> u32 \<Rightarrow> ('p, u32) engine_op" where
  "wasmtime_args_get X string_ptr_address buf_address =
     convert_to_errno X (wrapper_args_get string_ptr_address buf_address)"

definition wasmtime_args_sizes_get ::
  "engine_crates \<Rightarrow> u32 \<Rightarrow> u32 \<Rightarrow> ('p, u32) engine_op" where
  "wasmtime_args_sizes_get X arg_count_address arg_buf_size_address =
     convert_to_errno X (wrapper_args_sizes_get arg_count_address arg_buf_size_address)"

definition wasmtime_environ_get ::
  "engine_crates \<Rightarrow> u32 \<Rightarrow> u32 \<Rightarrow> ('p, u32) engine_op" where
  "wasmtime_environ_get X string_ptr_address buf_address =
     convert_to_errno X (wrapper_environ_get string_ptr_address buf_address)"

definition wasmtime_environ_sizes_get ::
  "engine_crates \<Rightarrow> u32 \<Rightarrow> u32 \<Rightarrow> ('p, u32) engine_op" where
  "wasmtime_environ_sizes_get X environc_address environ_buf_size_address =
     convert_to_errno X (wrapper_environ_sizes_get environc_address environ_buf_size_address)"

definition wasmtime_clock_res_get ::
  "engine_crates \<Rightarrow> platform \<Rightarrow> u32 \<Rightarrow> u32 \<Rightarrow> ('p, u32) engine_op" where
  "wasmtime_clock_res_get X P clock_id address =
     convert_to_errno X (wrapper_clock_res_get P clock_id address)"

definition wasmtime_clock_time_get ::
  "engine_crates \<Rightarrow> platform \<Rightarrow> u32 \<Rightarrow> u64 \<Rightarrow> u32 \<Rightarrow> ('p, u32) engine_op" where
  "wasmtime_clock_time_get X P clock_id precision address =
     convert_to_errno X (wrapper_clock_time_get P clock_id precision address)"

definition wasmtime_fd_advise ::
  "engine_crates \<Rightarrow> u32 \<Rightarrow> u64 \<Rightarrow> u64 \<Rightarrow> u32 \<Rightarrow> ('p, u32) engine_op" where
  "wasmtime_fd_advise X fd off len advice =
     convert_wasi_arg X (to_u8 advice) (\<lambda>advice.
     convert_to_errno X (wrapper_fd_advise (ec_wasi X) fd off len advice))"

definition wasmtime_fd_allocate ::
  "engine_crates \<Rightarrow> u32 \<Rightarrow> u64 \<Rightarrow> u64 \<Rightarrow> ('p, u32) engine_op" where
  "wasmtime_fd_allocate X fd off len =
     convert_to_errno X (wrapper_fd_allocate fd off len)"

definition wasmtime_fd_close ::
  "engine_crates \<Rightarrow> u32 \<Rightarrow> ('p, u32) engine_op" where
  "wasmtime_fd_close X fd =
     convert_to_errno X (wrapper_fd_close fd)"

definition wasmtime_fd_datasync ::
  "engine_crates \<Rightarrow> u32 \<Rightarrow> ('p, u32) engine_op" where
  "wasmtime_fd_datasync X fd =
     convert_to_errno X (wrapper_fd_datasync fd)"

definition wasmtime_fd_fdstat_get ::
  "engine_crates \<Rightarrow> u32 \<Rightarrow> u32 \<Rightarrow> ('p, u32) engine_op" where
  "wasmtime_fd_fdstat_get X fd address =
     convert_to_errno X (wrapper_fd_fdstat_get (ec_wasi X) fd address)"

definition wasmtime_fd_fdstat_set_flags ::
  "engine_crates \<Rightarrow> u32 \<Rightarrow> u32 \<Rightarrow> ('p, u32) engine_op" where
  "wasmtime_fd_fdstat_set_flags X fd flags =
     convert_wasi_arg X (to_u16 flags) (\<lambda>flags.
     convert_to_errno X (wrapper_fd_fdstat_set_flags (ec_wasi X) fd flags))"

definition wasmtime_fd_fdstat_set_rights ::
  "engine_crates \<Rightarrow> u32 \<Rightarrow> u64 \<Rightarrow> u64 \<Rightarrow> ('p, u32) engine_op" where
  "wasmtime_fd_fdstat_set_rights X fd base inh =
     convert_to_errno X (wrapper_fd_fdstat_set_rights (ec_wasi X) fd base inh)"

definition wasmtime_fd_filestat_get ::
  "engine_crates \<Rightarrow> u32 \<Rightarrow> u32 \<Rightarrow> ('p, u32) engine_op" where
  "wasmtime_fd_filestat_get X fd address =
     convert_to_errno X (wrapper_fd_filestat_get (ec_wasi X) fd address)"

definition wasmtime_fd_filestat_set_size ::
  "engine_crates \<Rightarrow> u32 \<Rightarrow> u64 \<Rightarrow> ('p, u32) engine_op" where
  "wasmtime_fd_filestat_set_size X fd sz =
     convert_to_errno X (wrapper_fd_filestat_set_size fd sz)"

definition wasmtime_fd_filestat_set_times ::
  "engine_crates \<Rightarrow> platform \<Rightarrow> u32 \<Rightarrow> u64 \<Rightarrow> u64 \<Rightarrow> u32 \<Rightarrow> ('p, u32) engine_op" where
  "wasmtime_fd_filestat_set_times X P fd atime mtime fst_flag =
     convert_wasi_arg X (to_u16 fst_flag) (\<lambda>fst_flag.
     convert_to_errno X (wrapper_fd_filestat_set_times (ec_wasi X) P fd atime mtime fst_flag))"

definition wasmtime_fd_pread ::
  "engine_crates \<Rightarrow> u32 \<Rightarrow> u32 \<Rightarrow> u32 \<Rightarrow> u64 \<Rightarrow> u32 \<Rightarrow> ('p, u32) engine_op" where
  "wasmtime_fd_pread X fd iovec_base iovec_length off address =
     convert_to_errno X (wrapper_fd_pread fd iovec_base iovec_length off address)"

definition wasmtime_fd_prestat_get ::
  "engine_crates \<Rightarrow> u32 \<Rightarrow> u32 \<Rightarrow> ('p, u32) engine_op" where
  "wasmtime_fd_prestat_get X fd address =
     convert_to_errno X (wrapper_fd_prestat_get (ec_wasi X) fd address)"

definition wasmtime_fd_prestat_dir_name ::
  "engine_crates \<Rightarrow> u32 \<Rightarrow> u32 \<Rightarrow> u32 \<Rightarrow> ('p, u32) engine_op" where
  "wasmtime_fd_prestat_dir_name X fd address sz =
     convert_to_errno X (wrapper_fd_prestat_dir_name fd address sz)"

definition wasmtime_fd_pwrite ::
  "engine_crates \<Rightarrow> u32 \<Rightarrow> u32 \<Rightarrow> u32 \<Rightarrow> u64 \<Rightarrow> u32 \<Rightarrow> ('p, u32) engine_op" where
  "wasmtime_fd_pwrite X fd iovec_base iovec_length off address =
     convert_to_errno X (wrapper_fd_pwrite (ec_crates X) fd iovec_base iovec_length off address)"

definition wasmtime_fd_read ::
  "engine_crates \<Rightarrow> u32 \<Rightarrow> u32 \<Rightarrow> u32 \<Rightarrow> u32 \<Rightarrow> ('p, u32) engine_op" where
  "wasmtime_fd_read X fd iovec_base iovec_len address =
     convert_to_errno X (wrapper_fd_read fd iovec_base iovec_len address)"

definition wasmtime_fd_readdir ::
  "engine_crates \<Rightarrow> u32 \<Rightarrow> u32 \<Rightarrow> u32 \<Rightarrow> u64 \<Rightarrow> u32 \<Rightarrow> ('p, u32) engine_op" where
  "wasmtime_fd_readdir X fd dirent_base dirent_length cookie address =
     convert_to_errno X (wrapper_fd_readdir (ec_wasi X) fd dirent_base dirent_length cookie address)"

definition wasmtime_fd_renumber ::
  "engine_crates \<Rightarrow> u32 \<Rightarrow> u32 \<Rightarrow> ('p, u32) engine_op" where
  "wasmtime_fd_renumber X old to_fd =
     convert_to_errno X (wrapper_fd_renumber old to_fd)"

definition wasmtime_fd_seek ::
  "engine_crates \<Rightarrow> u32 \<Rightarrow> i64 \<Rightarrow> u32 \<Rightarrow> u32 \<Rightarrow> ('p, u32) engine_op" where
  "wasmtime_fd_seek X fd off whence address =
     convert_wasi_arg X (to_u8 whence) (\<lambda>whence.
     convert_to_errno X (wrapper_fd_seek (ec_wasi X) fd off whence address))"

definition wasmtime_fd_sync ::
  "engine_crates \<Rightarrow> u32 \<Rightarrow> ('p, u32) engine_op" where
  "wasmtime_fd_sync X fd =
     convert_to_errno X (wrapper_fd_sync fd)"

definition wasmtime_fd_tell ::
  "engine_crates \<Rightarrow> u32 \<Rightarrow> u32 \<Rightarrow> ('p, u32) engine_op" where
  "wasmtime_fd_tell X fd address =
     convert_to_errno X (wrapper_fd_tell fd address)"

definition wasmtime_fd_write ::
  "engine_crates \<Rightarrow> u32 \<Rightarrow> u32 \<Rightarrow> u32 \<Rightarrow> u32 \<Rightarrow> ('p, u32) engine_op" where
  "wasmtime_fd_write X fd iovec_base iovec_len address =
     convert_to_errno X (wrapper_fd_write (ec_crates X) fd iovec_base iovec_len address)"

definition wasmtime_path_create_directory ::
  "engine_crates \<Rightarrow> u32 \<Rightarrow> u32 \<Rightarrow> u32 \<Rightarrow> ('p, u32) engine_op" where
  "wasmtime_path_create_directory X fd p path_len =
     convert_to_errno X (wrapper_path_create_directory fd p path_len)"

definition wasmtime_path_filestat_get ::
  "engine_crates \<Rightarrow> u32 \<Rightarrow> u32 \<Rightarrow> u32 \<Rightarrow> u32 \<Rightarrow> u32 \<Rightarrow> ('p, u32) engine_op" where
  "wasmtime_path_filestat_get X fd flag path_address path_length address =
     convert_to_errno X (wrapper_path_filestat_get (ec_wasi X) fd flag path_address path_length address)"

definition wasmtime_path_filestat_set_times ::
  "engine_crates \<Rightarrow> platform \<Rightarrow> u32 \<Rightarrow> u32 \<Rightarrow> u32 \<Rightarrow> u32 \<Rightarrow> u64 \<Rightarrow> u64 \<Rightarrow> u32 \<Rightarrow> ('p, u32) engine_op" where
  "wasmtime_path_filestat_set_times X P fd flag path_address path_length atime mtime fst_flags =
     convert_wasi_arg X (to_u16 fst_flags) (\<lambda>fst_flags.
     convert_to_errno X (wrapper_path_filestat_set_times (ec_wasi X) P fd flag path_address path_length atime mtime fst_flags))"

definition wasmtime_path_link ::
  "engine_crates \<Rightarrow> u32 \<Rightarrow> u32 \<Rightarrow> u32 \<Rightarrow> u32 \<Rightarrow> u32 \<Rightarrow> u32 \<Rightarrow> u32 \<Rightarrow> ('p, u32) engine_op" where
  "wasmtime_path_link X old_fd old_flags old_address old_path_len to_fd new_address new_path_len =
     convert_to_errno X (wrapper_path_link (ec_wasi X) old_fd old_flags old_address old_path_len to_fd new_address new_path_len)"

definition wasmtime_path_open ::
  "engine_crates \<Rightarrow> u32 \<Rightarrow> u32 \<Rightarrow> u32 \<Rightarrow> u32 \<Rightarrow> u32 \<Rightarrow> u64 \<Rightarrow> u64 \<Rightarrow> u32 \<Rightarrow> u32 \<Rightarrow> ('p, u32) engine_op" where
  "wasmtime_path_open X fd dirflags path_address path_length oflags base inh flags address =
     convert_wasi_arg X (to_u16 oflags) (\<lambda>oflags.
     convert_wasi_arg X (to_u16 flags) (\<lambda>flags.
     convert_to_errno X (wrapper_path_open (ec_wasi X) fd dirflags path_address path_length oflags base inh flags address)))"

definition wasmtime_path_readlink ::
  "engine_crates \<Rightarrow> u32 \<Rightarrow> u32 \<Rightarrow> u32 \<Rightarrow> u32 \<Rightarrow> u32 \<Rightarrow> u32 \<Rightarrow> ('p, u32) engine_op" where
  "wasmtime_path_readlink X fd path_address path_length buf_address buf_length address =
     convert_to_errno X (wrapper_path_readlink fd path_address path_length buf_address buf_length address)"

definition wasmtime_path_remove_directory ::
  "engine_crates \<Rightarrow> u32 \<Rightarrow> u32 \<Rightarrow> u32 \<Rightarrow> ('p, u32) engine_op" where
  "wasmtime_path_remove_directory X fd path_address path_length =
     convert_to_errno X (wrapper_path_remove_directory fd path_address path_length)"

definition wasmtime_path_rename ::
  "engine_crates \<Rightarrow> u32 \<Rightarrow> u32 \<Rightarrow> u32 \<Rightarrow> u32 \<Rightarrow> u32 \<Rightarrow> u32 \<Rightarrow> ('p, u32) engine_op" where
  "wasmtime_path_rename X old_fd old_path_address old_path_len to_fd new_path_address new_path_len =
     convert_to_errno X (wrapper_path_rename old_fd old_path_address old_path_len to_fd new_path_address new_path_len)"

definition wasmtime_path_symlink ::
  "engine_crates \<Rightarrow> u32 \<Rightarrow> u32 \<Rightarrow> u32 \<Rightarrow> u32 \<Rightarrow> u32 \<Rightarrow> ('p, u32) engine_op" where
  "wasmtime_path_symlink X old_path_address old_path_len fd new_path_address new_path_len =
     convert_to_errno X (wrapper_path_symlink old_path_address old_path_len fd new_path_address new_path_len)"

definition wasmtime_path_unlink_file ::
  "engine_crates \<Rightarrow> u32 \<Rightarrow> u32 \<Rightarrow> u32 \<Rightarrow> ('p, u32) engine_op" where
  "wasmtime_path_unlink_file X fd path_address path_len =
     convert_to_errno X (wrapper_path_unlink_file fd path_address path_len)"

definition wasmtime_poll_oneoff ::
  "engine_crates \<Rightarrow> u32 \<Rightarrow> u32 \<Rightarrow> u32 \<Rightarrow> u32 \<Rightarrow> ('p, u32) engine_op" where
  "wasmtime_poll_oneoff X subscriptions events sz address =
     convert_to_errno X (wrapper_poll_oneoff (ec_wasi X) subscriptions events sz address)"

definition wasmtime_proc_raise ::
  "engine_crates \<Rightarrow> u32 \<Rightarrow> ('p, u32) engine_op" where
  "wasmtime_proc_raise X signal =
     convert_wasi_arg X (to_u8 signal) (\<lambda>signal.
     convert_to_errno X (wrapper_proc_raise (ec_wasi X) signal))"

definition wasmtime_sched_yield ::
  "engine_crates \<Rightarrow> ('p, u32) engine_op" where
  "wasmtime_sched_yield X =
     convert_to_errno X wrapper_sched_yield"

definition wasmtime_random_get ::
  "engine_crates \<Rightarrow> platform \<Rightarrow> u32 \<Rightarrow> u32 \<Rightarrow> ('p, u32) engine_op" where
  "wasmtime_random_get X P address sz =
     convert_to_errno X (wrapper_random_get P address sz)"

definition wasmtime_sock_recv ::
  "engine_crates \<Rightarrow> u32 \<Rightarrow> u32 \<Rightarrow> u32 \<Rightarrow> u32 \<Rightarrow> u32 \<Rightarrow> u32 \<Rightarrow> ('p, u32) engine_op" where
  "wasmtime_sock_recv X socket buf_address buf_len ri_flag ro_data_len ro_flag =
     convert_wasi_arg X (to_u16 ri_flag) (\<lambda>ri_flag.
     convert_to_errno X (wrapper_sock_recv (ec_wasi X) socket buf_address buf_len ri_flag ro_data_len ro_flag))"

definition wasmtime_sock_send ::
  "engine_crates \<Rightarrow> u32 \<Rightarrow> u32 \<Rightarrow> u32 \<Rightarrow> u32 \<Rightarrow> u32 \<Rightarrow> ('p, u32) engine_op" where
  "wasmtime_sock_send X socket buf_address buf_len si_flag ro_data_len =
     convert_wasi_arg X (to_u16 si_flag) (\<lambda>si_flag.
     convert_to_errno X (wrapper_sock_send (ec_wasi X) socket buf_address buf_len si_flag ro_data_len))"

definition wasmtime_sock_shutdown ::
  "engine_crates \<Rightarrow> u32 \<Rightarrow> u32 \<Rightarrow> ('p, u32) engine_op" where
  "wasmtime_sock_shutdown X socket sd_flag =
     convert_wasi_arg X (to_u8 sd_flag) (\<lambda>sd_flag.
     convert_to_errno X (wrapper_sock_shutdown (ec_wasi X) socket sd_flag))"

definition wasmtime_proc_exit :: "u32 \<Rightarrow> ('p, unit) engine_op" where
  "wasmtime_proc_exit code = merr WASIError (wrapper_proc_exit code)"

definition wasmtime_fd_create :: "engine_crates \<Rightarrow> u32 \<Rightarrow> ('p, u32) engine_op" where
  "wasmtime_fd_create X address = convert_to_errno X (wrapper_fd_create address)"

section \<open>Linking\<close>

text \<open>
  The functions that \<^verbatim>\<open>func_wrap\<close> registers, with the WebAssembly types of their Rust signatures. A module whose
  imports differ is refused, so a registered function only sees arguments of its types.
\<close>

definition linked_functions :: "(string \<times> string \<times> APIName \<times> Signature) list" where
  "linked_functions =
       [(WASI_SNAPSHOT_MODULE_NAME, ''args_get'', WasiAPI API_ARGS_GET, \<lparr>sig_params = [TI32, TI32], sig_return = Some TI32\<rparr>),
        (WASI_SNAPSHOT_MODULE_NAME, ''args_sizes_get'', WasiAPI API_ARGS_SIZES_GET, \<lparr>sig_params = [TI32, TI32], sig_return = Some TI32\<rparr>),
        (WASI_SNAPSHOT_MODULE_NAME, ''environ_get'', WasiAPI API_ENVIRON_GET, \<lparr>sig_params = [TI32, TI32], sig_return = Some TI32\<rparr>),
        (WASI_SNAPSHOT_MODULE_NAME, ''environ_sizes_get'', WasiAPI API_ENVIRON_SIZES_GET, \<lparr>sig_params = [TI32, TI32], sig_return = Some TI32\<rparr>),
        (WASI_SNAPSHOT_MODULE_NAME, ''clock_res_get'', WasiAPI API_CLOCK_RES_GET, \<lparr>sig_params = [TI32, TI32], sig_return = Some TI32\<rparr>),
        (WASI_SNAPSHOT_MODULE_NAME, ''clock_time_get'', WasiAPI API_CLOCK_TIME_GET, \<lparr>sig_params = [TI32, TI64, TI32], sig_return = Some TI32\<rparr>),
        (WASI_SNAPSHOT_MODULE_NAME, ''fd_advise'', WasiAPI API_FD_ADVISE, \<lparr>sig_params = [TI32, TI64, TI64, TI32], sig_return = Some TI32\<rparr>),
        (WASI_SNAPSHOT_MODULE_NAME, ''fd_allocate'', WasiAPI API_FD_ALLOCATE, \<lparr>sig_params = [TI32, TI64, TI64], sig_return = Some TI32\<rparr>),
        (WASI_SNAPSHOT_MODULE_NAME, ''fd_close'', WasiAPI API_FD_CLOSE, \<lparr>sig_params = [TI32], sig_return = Some TI32\<rparr>),
        (WASI_SNAPSHOT_MODULE_NAME, ''fd_datasync'', WasiAPI API_FD_DATASYNC, \<lparr>sig_params = [TI32], sig_return = Some TI32\<rparr>),
        (WASI_SNAPSHOT_MODULE_NAME, ''fd_fdstat_get'', WasiAPI API_FD_FDSTAT_GET, \<lparr>sig_params = [TI32, TI32], sig_return = Some TI32\<rparr>),
        (WASI_SNAPSHOT_MODULE_NAME, ''fd_fdstat_set_flags'', WasiAPI API_FD_FDSTAT_SET_FLAGS, \<lparr>sig_params = [TI32, TI32], sig_return = Some TI32\<rparr>),
        (WASI_SNAPSHOT_MODULE_NAME, ''fd_fdstat_set_rights'', WasiAPI API_FD_FDSTAT_SET_RIGHTS, \<lparr>sig_params = [TI32, TI64, TI64], sig_return = Some TI32\<rparr>),
        (WASI_SNAPSHOT_MODULE_NAME, ''fd_filestat_get'', WasiAPI API_FD_FILESTAT_GET, \<lparr>sig_params = [TI32, TI32], sig_return = Some TI32\<rparr>),
        (WASI_SNAPSHOT_MODULE_NAME, ''fd_filestat_set_size'', WasiAPI API_FD_FILESTAT_SET_SIZE, \<lparr>sig_params = [TI32, TI64], sig_return = Some TI32\<rparr>),
        (WASI_SNAPSHOT_MODULE_NAME, ''fd_filestat_set_times'', WasiAPI API_FD_FILESTAT_SET_TIMES, \<lparr>sig_params = [TI32, TI64, TI64, TI32], sig_return = Some TI32\<rparr>),
        (WASI_SNAPSHOT_MODULE_NAME, ''fd_pread'', WasiAPI API_FD_PREAD, \<lparr>sig_params = [TI32, TI32, TI32, TI64, TI32], sig_return = Some TI32\<rparr>),
        (WASI_SNAPSHOT_MODULE_NAME, ''fd_prestat_get'', WasiAPI API_FD_PRESTAT_GET, \<lparr>sig_params = [TI32, TI32], sig_return = Some TI32\<rparr>),
        (WASI_SNAPSHOT_MODULE_NAME, ''fd_prestat_dir_name'', WasiAPI API_FD_PRESTAT_DIR_NAME, \<lparr>sig_params = [TI32, TI32, TI32], sig_return = Some TI32\<rparr>),
        (WASI_SNAPSHOT_MODULE_NAME, ''fd_pwrite'', WasiAPI API_FD_PWRITE, \<lparr>sig_params = [TI32, TI32, TI32, TI64, TI32], sig_return = Some TI32\<rparr>),
        (WASI_SNAPSHOT_MODULE_NAME, ''fd_read'', WasiAPI API_FD_READ, \<lparr>sig_params = [TI32, TI32, TI32, TI32], sig_return = Some TI32\<rparr>),
        (WASI_SNAPSHOT_MODULE_NAME, ''fd_readdir'', WasiAPI API_FD_READDIR, \<lparr>sig_params = [TI32, TI32, TI32, TI64, TI32], sig_return = Some TI32\<rparr>),
        (WASI_SNAPSHOT_MODULE_NAME, ''fd_renumber'', WasiAPI API_FD_RENUMBER, \<lparr>sig_params = [TI32, TI32], sig_return = Some TI32\<rparr>),
        (WASI_SNAPSHOT_MODULE_NAME, ''fd_seek'', WasiAPI API_FD_SEEK, \<lparr>sig_params = [TI32, TI64, TI32, TI32], sig_return = Some TI32\<rparr>),
        (WASI_SNAPSHOT_MODULE_NAME, ''fd_sync'', WasiAPI API_FD_SYNC, \<lparr>sig_params = [TI32], sig_return = Some TI32\<rparr>),
        (WASI_SNAPSHOT_MODULE_NAME, ''fd_tell'', WasiAPI API_FD_TELL, \<lparr>sig_params = [TI32, TI32], sig_return = Some TI32\<rparr>),
        (WASI_SNAPSHOT_MODULE_NAME, ''fd_write'', WasiAPI API_FD_WRITE, \<lparr>sig_params = [TI32, TI32, TI32, TI32], sig_return = Some TI32\<rparr>),
        (WASI_SNAPSHOT_MODULE_NAME, ''path_create_directory'', WasiAPI API_PATH_CREATE_DIRECTORY, \<lparr>sig_params = [TI32, TI32, TI32], sig_return = Some TI32\<rparr>),
        (WASI_SNAPSHOT_MODULE_NAME, ''path_filestat_get'', WasiAPI API_PATH_FILESTAT_GET, \<lparr>sig_params = [TI32, TI32, TI32, TI32, TI32], sig_return = Some TI32\<rparr>),
        (WASI_SNAPSHOT_MODULE_NAME, ''path_filestat_set_times'', WasiAPI API_PATH_FILESTAT_SET_TIMES, \<lparr>sig_params = [TI32, TI32, TI32, TI32, TI64, TI64, TI32], sig_return = Some TI32\<rparr>),
        (WASI_SNAPSHOT_MODULE_NAME, ''path_link'', WasiAPI API_PATH_LINK, \<lparr>sig_params = [TI32, TI32, TI32, TI32, TI32, TI32, TI32], sig_return = Some TI32\<rparr>),
        (WASI_SNAPSHOT_MODULE_NAME, ''path_open'', WasiAPI API_PATH_OPEN, \<lparr>sig_params = [TI32, TI32, TI32, TI32, TI32, TI64, TI64, TI32, TI32], sig_return = Some TI32\<rparr>),
        (WASI_SNAPSHOT_MODULE_NAME, ''path_readlink'', WasiAPI API_PATH_READLINK, \<lparr>sig_params = [TI32, TI32, TI32, TI32, TI32, TI32], sig_return = Some TI32\<rparr>),
        (WASI_SNAPSHOT_MODULE_NAME, ''path_remove_directory'', WasiAPI API_PATH_REMOVE_DIRECTORY, \<lparr>sig_params = [TI32, TI32, TI32], sig_return = Some TI32\<rparr>),
        (WASI_SNAPSHOT_MODULE_NAME, ''path_rename'', WasiAPI API_PATH_RENAME, \<lparr>sig_params = [TI32, TI32, TI32, TI32, TI32, TI32], sig_return = Some TI32\<rparr>),
        (WASI_SNAPSHOT_MODULE_NAME, ''path_symlink'', WasiAPI API_PATH_SYMLINK, \<lparr>sig_params = [TI32, TI32, TI32, TI32, TI32], sig_return = Some TI32\<rparr>),
        (WASI_SNAPSHOT_MODULE_NAME, ''path_unlink_file'', WasiAPI API_PATH_UNLINK_FILE, \<lparr>sig_params = [TI32, TI32, TI32], sig_return = Some TI32\<rparr>),
        (WASI_SNAPSHOT_MODULE_NAME, ''poll_oneoff'', WasiAPI API_POLL_ONEOFF, \<lparr>sig_params = [TI32, TI32, TI32, TI32], sig_return = Some TI32\<rparr>),
        (WASI_SNAPSHOT_MODULE_NAME, ''proc_exit'', WasiAPI API_PROC_EXIT, \<lparr>sig_params = [TI32], sig_return = None\<rparr>),
        (WASI_SNAPSHOT_MODULE_NAME, ''proc_raise'', WasiAPI API_PROC_RAISE, \<lparr>sig_params = [TI32], sig_return = Some TI32\<rparr>),
        (WASI_SNAPSHOT_MODULE_NAME, ''sched_yield'', WasiAPI API_SCHED_YIELD, \<lparr>sig_params = [], sig_return = Some TI32\<rparr>),
        (WASI_SNAPSHOT_MODULE_NAME, ''random_get'', WasiAPI API_RANDOM_GET, \<lparr>sig_params = [TI32, TI32], sig_return = Some TI32\<rparr>),
        (WASI_SNAPSHOT_MODULE_NAME, ''sock_recv'', WasiAPI API_SOCK_RECV, \<lparr>sig_params = [TI32, TI32, TI32, TI32, TI32, TI32], sig_return = Some TI32\<rparr>),
        (WASI_SNAPSHOT_MODULE_NAME, ''sock_send'', WasiAPI API_SOCK_SEND, \<lparr>sig_params = [TI32, TI32, TI32, TI32, TI32], sig_return = Some TI32\<rparr>),
        (WASI_SNAPSHOT_MODULE_NAME, ''sock_shutdown'', WasiAPI API_SOCK_SHUTDOWN, \<lparr>sig_params = [TI32, TI32], sig_return = Some TI32\<rparr>),
        (VERACRUZ_SI_MODULE_NAME, ''fd_create'', VeracruzAPI API_FD_CREATE,
         \<lparr>sig_params = [TI32], sig_return = Some TI32\<rparr>)]"

definition link_import :: "wasm_import \<Rightarrow> APIName option" where
  "link_import i =
     (case find (\<lambda>(md, f, _). md = import_module i \<and> f = import_field i) linked_functions of
        Some (_, _, name, sig) \<Rightarrow> if sig = import_signature i then Some name else None
      | None \<Rightarrow> None)"

definition with_code :: "('p, u32) engine_op \<Rightarrow> ('p, RuntimeValue option) engine_op" where
  "with_code m = mbind m (\<lambda>code. mreturn (Some (I32 code)))"

definition val32 :: "RuntimeValue list \<Rightarrow> nat \<Rightarrow> u32" where
  "val32 args i = (case args ! i of I32 x \<Rightarrow> x | _ \<Rightarrow> 0)"

definition val64 :: "RuntimeValue list \<Rightarrow> nat \<Rightarrow> u64" where
  "val64 args i = (case args ! i of I64 x \<Rightarrow> x | _ \<Rightarrow> 0)"

definition linked_params :: "APIName \<Rightarrow> ValueType list option" where
  "linked_params name =
     map_option (\<lambda>(_, _, _, sig). sig_params sig) (find (\<lambda>(_, _, n, _). n = name) linked_functions)"

definition wasmtime_call ::
  "engine_crates \<Rightarrow> platform \<Rightarrow> APIName \<Rightarrow> RuntimeValue list \<Rightarrow> ('p, RuntimeValue option) engine_op" where
  "wasmtime_call X P name args =
     (if linked_params name \<noteq> Some (map value_type args) then mthrow WasmtimeTrapError
      else case name of
        VeracruzAPI n \<Rightarrow> with_code (wasmtime_fd_create X (val32 args 0))
      | WasiAPI n \<Rightarrow>
     (case n of
        API_ARGS_GET \<Rightarrow> with_code (wasmtime_args_get X (val32 args 0) (val32 args 1))
      | API_ARGS_SIZES_GET \<Rightarrow> with_code (wasmtime_args_sizes_get X (val32 args 0) (val32 args 1))
      | API_ENVIRON_GET \<Rightarrow> with_code (wasmtime_environ_get X (val32 args 0) (val32 args 1))
      | API_ENVIRON_SIZES_GET \<Rightarrow> with_code (wasmtime_environ_sizes_get X (val32 args 0) (val32 args 1))
      | API_CLOCK_RES_GET \<Rightarrow> with_code (wasmtime_clock_res_get X P (val32 args 0) (val32 args 1))
      | API_CLOCK_TIME_GET \<Rightarrow> with_code (wasmtime_clock_time_get X P (val32 args 0) (val64 args 1) (val32 args 2))
      | API_FD_ADVISE \<Rightarrow> 
          with_code (wasmtime_fd_advise X (val32 args 0) (val64 args 1) (val64 args 2) (val32 args 3))
      | API_FD_ALLOCATE \<Rightarrow> with_code (wasmtime_fd_allocate X (val32 args 0) (val64 args 1) (val64 args 2))
      | API_FD_CLOSE \<Rightarrow> with_code (wasmtime_fd_close X (val32 args 0))
      | API_FD_DATASYNC \<Rightarrow> with_code (wasmtime_fd_datasync X (val32 args 0))
      | API_FD_FDSTAT_GET \<Rightarrow> with_code (wasmtime_fd_fdstat_get X (val32 args 0) (val32 args 1))
      | API_FD_FDSTAT_SET_FLAGS \<Rightarrow> with_code (wasmtime_fd_fdstat_set_flags X (val32 args 0) (val32 args 1))
      | API_FD_FDSTAT_SET_RIGHTS \<Rightarrow> 
          with_code (wasmtime_fd_fdstat_set_rights X (val32 args 0) (val64 args 1) (val64 args 2))
      | API_FD_FILESTAT_GET \<Rightarrow> with_code (wasmtime_fd_filestat_get X (val32 args 0) (val32 args 1))
      | API_FD_FILESTAT_SET_SIZE \<Rightarrow> with_code (wasmtime_fd_filestat_set_size X (val32 args 0) (val64 args 1))
      | API_FD_FILESTAT_SET_TIMES \<Rightarrow> 
          with_code (wasmtime_fd_filestat_set_times X P (val32 args 0) (val64 args 1) (val64 args 2) (val32 args 3))
      | API_FD_PREAD \<Rightarrow> 
          with_code (wasmtime_fd_pread X (val32 args 0) (val32 args 1) (val32 args 2) (val64 args 3) (val32 args 4))
      | API_FD_PRESTAT_GET \<Rightarrow> with_code (wasmtime_fd_prestat_get X (val32 args 0) (val32 args 1))
      | API_FD_PRESTAT_DIR_NAME \<Rightarrow> 
          with_code (wasmtime_fd_prestat_dir_name X (val32 args 0) (val32 args 1) (val32 args 2))
      | API_FD_PWRITE \<Rightarrow> 
          with_code (wasmtime_fd_pwrite X (val32 args 0) (val32 args 1) (val32 args 2) (val64 args 3) (val32 args 4))
      | API_FD_READ \<Rightarrow> 
          with_code (wasmtime_fd_read X (val32 args 0) (val32 args 1) (val32 args 2) (val32 args 3))
      | API_FD_READDIR \<Rightarrow> 
          with_code (wasmtime_fd_readdir X (val32 args 0) (val32 args 1) (val32 args 2) (val64 args 3) (val32 args 4))
      | API_FD_RENUMBER \<Rightarrow> with_code (wasmtime_fd_renumber X (val32 args 0) (val32 args 1))
      | API_FD_SEEK \<Rightarrow> 
          with_code (wasmtime_fd_seek X (val32 args 0) (val64 args 1) (val32 args 2) (val32 args 3))
      | API_FD_SYNC \<Rightarrow> with_code (wasmtime_fd_sync X (val32 args 0))
      | API_FD_TELL \<Rightarrow> with_code (wasmtime_fd_tell X (val32 args 0) (val32 args 1))
      | API_FD_WRITE \<Rightarrow> 
          with_code (wasmtime_fd_write X (val32 args 0) (val32 args 1) (val32 args 2) (val32 args 3))
      | API_PATH_CREATE_DIRECTORY \<Rightarrow> 
          with_code (wasmtime_path_create_directory X (val32 args 0) (val32 args 1) (val32 args 2))
      | API_PATH_FILESTAT_GET \<Rightarrow> 
          with_code (wasmtime_path_filestat_get X (val32 args 0) (val32 args 1) (val32 args 2) (val32 args 3) (val32 args 4))
      | API_PATH_FILESTAT_SET_TIMES \<Rightarrow> 
          with_code (wasmtime_path_filestat_set_times X P (val32 args 0) (val32 args 1) (val32 args 2) (val32 args 3) (val64 args 4) (val64 args 5) (val32 args 6))
      | API_PATH_LINK \<Rightarrow> 
          with_code (wasmtime_path_link X (val32 args 0) (val32 args 1) (val32 args 2) (val32 args 3) (val32 args 4) (val32 args 5) (val32 args 6))
      | API_PATH_OPEN \<Rightarrow> 
          with_code (wasmtime_path_open X (val32 args 0) (val32 args 1) (val32 args 2) (val32 args 3) (val32 args 4) (val64 args 5) (val64 args 6) (val32 args 7) (val32 args 8))
      | API_PATH_READLINK \<Rightarrow> 
          with_code (wasmtime_path_readlink X (val32 args 0) (val32 args 1) (val32 args 2) (val32 args 3) (val32 args 4) (val32 args 5))
      | API_PATH_REMOVE_DIRECTORY \<Rightarrow> 
          with_code (wasmtime_path_remove_directory X (val32 args 0) (val32 args 1) (val32 args 2))
      | API_PATH_RENAME \<Rightarrow> 
          with_code (wasmtime_path_rename X (val32 args 0) (val32 args 1) (val32 args 2) (val32 args 3) (val32 args 4) (val32 args 5))
      | API_PATH_SYMLINK \<Rightarrow> 
          with_code (wasmtime_path_symlink X (val32 args 0) (val32 args 1) (val32 args 2) (val32 args 3) (val32 args 4))
      | API_PATH_UNLINK_FILE \<Rightarrow> with_code (wasmtime_path_unlink_file X (val32 args 0) (val32 args 1) (val32 args 2))
      | API_POLL_ONEOFF \<Rightarrow> 
          with_code (wasmtime_poll_oneoff X (val32 args 0) (val32 args 1) (val32 args 2) (val32 args 3))
      | API_PROC_EXIT \<Rightarrow> mbind (wasmtime_proc_exit (val32 args 0)) (\<lambda>_. mreturn None)
      | API_PROC_RAISE \<Rightarrow> with_code (wasmtime_proc_raise X (val32 args 0))
      | API_SCHED_YIELD \<Rightarrow> with_code (wasmtime_sched_yield X)
      | API_RANDOM_GET \<Rightarrow> with_code (wasmtime_random_get X P (val32 args 0) (val32 args 1))
      | API_SOCK_RECV \<Rightarrow> 
          with_code (wasmtime_sock_recv X (val32 args 0) (val32 args 1) (val32 args 2) (val32 args 3) (val32 args 4) (val32 args 5))
      | API_SOCK_SEND \<Rightarrow> 
          with_code (wasmtime_sock_send X (val32 args 0) (val32 args 1) (val32 args 2) (val32 args 3) (val32 args 4))
      | API_SOCK_SHUTDOWN \<Rightarrow> with_code (wasmtime_sock_shutdown X (val32 args 0) (val32 args 1))))"

definition wasmtime_host_call ::
  "engine_crates \<Rightarrow> (nat \<Rightarrow> platform) \<Rightarrow> wasm_import list \<Rightarrow> nat \<Rightarrow> string \<Rightarrow> RuntimeValue list \<Rightarrow>
   ('p, RuntimeValue option) engine_op" where
  "wasmtime_host_call X Ps imports n f args =
     (case find (\<lambda>i. import_field i = f) imports of
        None \<Rightarrow> mthrow WasmtimeTrapError
      | Some i \<Rightarrow>
          (case link_import i of
             None \<Rightarrow> mthrow WasmtimeTrapError
           | Some name \<Rightarrow> wasmtime_call X (Ps n) name args))"

section \<open>Execution\<close>

definition wasmtime_check_main :: "wasm_export \<Rightarrow> EntrySignature" where
  "wasmtime_check_main e =
     (case e of
        ExportFunc sig \<Rightarrow>
          if sig_params sig = [TI32, TI32] then ArgvAndArgc
          else if sig_params sig = [] then NoParameters
          else NoEntryFound
      | ExportOther \<Rightarrow> NoEntryFound)"

text \<open>
  \<^verbatim>\<open>linker.instantiate\<close>: the imports are linked and the start function, if there is one, runs. The answers of the platform
  to the calls of the start function are those with even numbers, the odd ones are for the entry point.
\<close>

definition instantiate ::
  "engine_crates \<Rightarrow> (nat \<Rightarrow> platform) \<Rightarrow> 'm wasm_machine \<Rightarrow> 'm wasm_module \<Rightarrow> ('p, unit) engine_op" where
  "instantiate X Ps M md =
     (if module_imports_other md \<or> \<not> list_all (\<lambda>i. link_import i \<noteq> None) (module_imports md) then mthrow AnyhowError
      else mbind (mmodify (\<lambda>h. h\<lparr>guest_memory := module_memory md\<rparr>)) (\<lambda>_.
           case module_start md of
             None \<Rightarrow> mreturn ()
           | Some m \<Rightarrow>
               mbind (merr (\<lambda>_. AnyhowError)
                 (execute_module (wasmtime_host_call X (\<lambda>n. Ps (2 * n)) (module_imports md)) (wasm_advance M) m)) (\<lambda>_.
               mreturn ())))"

text \<open>
  \<^verbatim>\<open>get_typed_func(..)?.call(..)\<close>: the outer result is whether the function has the type without results, the
  inner one the result of the call.
\<close>

definition call_entry ::
  "engine_crates \<Rightarrow> (nat \<Rightarrow> platform) \<Rightarrow> 'm wasm_machine \<Rightarrow> 'm wasm_module \<Rightarrow> wasm_export \<Rightarrow> RuntimeValue list \<Rightarrow>
   ('p, (FatalEngineError, unit) result) engine_op" where
  "call_entry X Ps M md e args =
     (if (case e of ExportFunc sig \<Rightarrow> sig_return sig \<noteq> None | ExportOther \<Rightarrow> True) then mthrow AnyhowError
      else mcatch (execute_module (wasmtime_host_call X (\<lambda>n. Ps (2 * n + 1)) (module_imports md)) (wasm_advance M)
                     (module_invoke md args))
             (\<lambda>_. mreturn (Ok ())) (\<lambda>e. mreturn (Err WasmtimeTrapError)))"

definition invoke_engine ::
  "engine_crates \<Rightarrow> (nat \<Rightarrow> platform) \<Rightarrow> 'm wasm_machine \<Rightarrow> byte list \<Rightarrow> ('p, u32) engine_op" where
  "invoke_engine X Ps M binary =
     (case wasm_parse M binary of
        None \<Rightarrow> mthrow AnyhowError
      | Some md \<Rightarrow>
          mbind (instantiate X Ps M md) (\<lambda>_.
          mbind (mlift (ok_or NoProgramEntryPoint (module_entry md))) (\<lambda>export.
          mbind (case wasmtime_check_main export of
                   ArgvAndArgc \<Rightarrow> call_entry X Ps M md export [I32 0, I32 0]
                 | NoParameters \<Rightarrow> call_entry X Ps M md export []
                 | NoEntryFound \<Rightarrow> mthrow NoProgramEntryPoint) (\<lambda>return_from_main.
          mbind mget (\<lambda>h.
          case wasi_exit_code (host_wasi h) of
            Some e \<Rightarrow> mreturn e
          | None \<Rightarrow> mbind (mlift return_from_main) (\<lambda>_. mreturn 0))))))"

definition wasmtime_invoke_entry_point ::
  "engine_crates \<Rightarrow> (nat \<Rightarrow> platform) \<Rightarrow> 'm wasm_machine \<Rightarrow> byte list \<Rightarrow> Options \<Rightarrow> ('p, u32) engine_op" where
  "wasmtime_invoke_entry_point X Ps M program options =
     mbind (mmodify (\<lambda>h. h\<lparr>host_wasi := (host_wasi h)\<lparr>wasi_environment := environment_variables options,
       wasi_arguments := program_arguments options, wasi_enable_clock := enable_clock_option options,
       wasi_enable_strace := enable_strace options\<rparr>\<rparr>)) (\<lambda>_.
     invoke_engine X Ps M program)"

end
