(* ===== verification/Authority.thy ===== *)
theory Authority
  imports Services
begin

text \<open>
  What the operations of a handle may do, as an abstract specification, and the proof that the
  operations of \<open>Filesystem\<close> and \<open>Services\<close> implement it.

  \<open>change\<close> lists the elementary changes of a handle and its table, each with the right that allows
  it. \<open>evolves\<close> is a sequence of them, in which a service may work on a clone of the handle.
  \<open>safe m\<close> says that the effect of \<open>m\<close> is such a sequence. An invariant of the handle is proved for
  the elementary changes only, in the locale \<open>handle_invariant\<close>; it then holds for every operation.
\<close>

section \<open>The invariant of a handle\<close>

definition fs_inv :: "'p FileSystem \<Rightarrow> bool" where
  "fs_inv fs = (inode_inv (inode_table fs) \<and>
     (\<forall>fd e. fd_table fs fd = Some e \<longrightarrow>
        table (inode_table fs) (fd_inode e) \<noteq> None \<and> unat (fd_offset e) \<le> isize_max))"

lemma adopt_simps [simp]:
  "inode_table (adopt t fs) = t" "fd_table (adopt t fs) = fd_table fs"
  "prestat_table (adopt t fs) = prestat_table fs" "adopt t (adopt u fs) = adopt t fs"
  "next_fd_candidate (adopt t fs) = next_fd_candidate fs"
  "adopt (inode_table fs) fs = fs"
  by (simp_all add: adopt_def)

lemma fs_inv_table: "fs_inv fs \<Longrightarrow> inode_inv (inode_table fs)"
  by (simp add: fs_inv_def)

lemma fs_inv_fd: "fs_inv fs \<Longrightarrow> fd_table fs fd = Some e \<Longrightarrow> \<exists>x. table (inode_table fs) (fd_inode e) = Some x"
  by (auto simp: fs_inv_def)

lemma fs_inv_offset: "fs_inv fs \<Longrightarrow> fd_table fs fd = Some e \<Longrightarrow> unat (fd_offset e) \<le> isize_max"
  by (auto simp: fs_inv_def)

lemma fs_inv_adopt:
  "fs_inv fs \<Longrightarrow> inode_inv t \<Longrightarrow> table_le (inode_table fs) t \<Longrightarrow> fs_inv (adopt t fs)"
  using table_le_exists [of "inode_table fs" t] by (simp only: fs_inv_def adopt_simps) metis

section \<open>Authorised changes\<close>

definition set_entry :: "Inode \<Rightarrow> InodeEntry \<Rightarrow> 'p FileSystem \<Rightarrow> 'p FileSystem" where
  "set_entry i x fs = adopt ((inode_table fs)\<lparr>table := (table (inode_table fs))(i \<mapsto> x)\<rparr>) fs"

text \<open>Two entries that differ in their timestamps only.\<close>

definition same_but_times :: "InodeEntry \<Rightarrow> InodeEntry \<Rightarrow> bool" where
  "same_but_times x x' = (node_data x' = node_data x \<and>
     (\<exists>a m. file_stat x' = (file_stat x)\<lparr>stat_atime := a, stat_mtime := m\<rparr>))"

inductive change :: "'p FileSystem \<Rightarrow> 'p FileSystem \<Rightarrow> bool" where
  grow: "inode_inv t \<Longrightarrow> ns_le (inode_table fs) t \<Longrightarrow> change fs (adopt t fs)"
| content: "fd_table fs fd = Some e \<Longrightarrow>
    FD_WRITE \<in> rights_base (fd_stat e) \<or> FD_FILESTAT_SET_SIZE \<in> rights_base (fd_stat e) \<Longrightarrow>
    table (inode_table fs) (fd_inode e) = Some x \<Longrightarrow> \<not> entry_is_dir x \<Longrightarrow> kind_kept x x' \<Longrightarrow>
    entry_ok (dom (table (inode_table fs))) (fd_inode e) x' \<Longrightarrow>
    change fs (set_entry (fd_inode e) x' fs)"
| truncate: "fd_table fs fd = Some e \<Longrightarrow> {PATH_OPEN, PATH_FILESTAT_SET_SIZE} \<subseteq> rights_base (fd_stat e) \<Longrightarrow>
    table_is_dir (inode_table fs) (fd_inode e) \<Longrightarrow>
    table (inode_table fs) i = Some x \<Longrightarrow> entry_truncate_file x = Ok x' \<Longrightarrow>
    change fs (set_entry i x' fs)"
| times: "fd_table fs fd = Some e \<Longrightarrow>
    FD_FILESTAT_SET_TIMES \<in> rights_base (fd_stat e) \<or> PATH_FILESTAT_SET_TIMES \<in> rights_base (fd_stat e) \<Longrightarrow>
    table (inode_table fs) i = Some x \<Longrightarrow> same_but_times x x' \<Longrightarrow>
    change fs (set_entry i x' fs)"
| flush: "table (inode_table fs) i = Some x \<Longrightarrow> entry_is_service x \<Longrightarrow> entry_truncate_file x = Ok x' \<Longrightarrow>
    change fs (set_entry i x' fs)"
| service_state: "change fs (adopt ((inode_table fs)\<lparr>aes_service := a\<rparr>) fs)"
| open_fd: "fd_table fs fd = Some e \<Longrightarrow> PATH_OPEN \<in> rights_base (fd_stat e) \<Longrightarrow>
    table_is_dir (inode_table fs) (fd_inode e) \<Longrightarrow>
    fd_table fs new = None \<Longrightarrow> table (inode_table fs) (fd_inode n) \<noteq> None \<Longrightarrow>
    fd_offset n = 0 \<Longrightarrow> rights_base (fd_stat n) \<subseteq> rights_inheriting (fd_stat e) \<Longrightarrow>
    rights_inheriting (fd_stat n) \<subseteq> rights_inheriting (fd_stat e) \<Longrightarrow>
    change fs (fs\<lparr>fd_table := (fd_table fs)(new \<mapsto> n)\<rparr>)"
| anonymous: "inode_inv t \<Longrightarrow> ns_le (inode_table fs) t \<Longrightarrow> table (inode_table fs) (fd_inode n) = None \<Longrightarrow>
    is_file_at t (fd_inode n) \<Longrightarrow> fd_table fs new = None \<Longrightarrow> fd_offset n = 0 \<Longrightarrow>
    change fs ((adopt t fs)\<lparr>next_fd_candidate := c, fd_table := (fd_table fs)(new \<mapsto> n)\<rparr>)"
| retag: "fd_table fs fd = Some e \<Longrightarrow> fd_inode e' = fd_inode e \<Longrightarrow>
    fd_offset e' = fd_offset e \<or> unat (fd_offset e') \<le> isize_max \<Longrightarrow>
    rights_base (fd_stat e') = rights_base (fd_stat e) \<Longrightarrow>
    rights_inheriting (fd_stat e') = rights_inheriting (fd_stat e) \<Longrightarrow>
    change fs (fs\<lparr>fd_table := (fd_table fs)(fd \<mapsto> e')\<rparr>)"
| close: "change fs (fs\<lparr>fd_table := (fd_table fs)(fd := None)\<rparr>)"
| renumber: "fd_table fs old = Some e \<Longrightarrow> fd_table fs new = None \<Longrightarrow>
    change fs (fs\<lparr>fd_table := ((fd_table fs)(new \<mapsto> e))(old := None)\<rparr>)"
| bump: "change fs (fs\<lparr>next_fd_candidate := c\<rparr>)"

inductive evolves :: "'p FileSystem \<Rightarrow> 'p FileSystem \<Rightarrow> bool" where
  stay: "evolves fs fs"
| more: "evolves fs fs1 \<Longrightarrow> change fs1 fs2 \<Longrightarrow> evolves fs fs2"
| clone: "evolves fs fs1 \<Longrightarrow> evolves fs1 fs2 \<Longrightarrow> evolves fs (adopt (inode_table fs2) fs1)"

lemma evolves_trans: "evolves b c \<Longrightarrow> evolves a b \<Longrightarrow> evolves a c"
  by (induction rule: evolves.induct) (auto intro: evolves.more evolves.clone)

lemma change_evolves: "change a b \<Longrightarrow> evolves a b"
  by (auto intro: evolves.more evolves.stay)

lemma set_entry_simps [simp]:
  "fd_table (set_entry i x fs) = fd_table fs"
  "next_fd_candidate (set_entry i x fs) = next_fd_candidate fs"
  "table (inode_table (set_entry i x fs)) = (table (inode_table fs))(i \<mapsto> x)"
  by (simp_all add: set_entry_def)

lemma set_entry_inv:
  assumes "fs_inv fs" and "table (inode_table fs) i = Some x" and "kind_kept x x'"
    and "entry_ok (dom (table (inode_table fs))) i x'"
  shows "fs_inv (set_entry i x' fs)" and "table_le (inode_table fs) (inode_table (set_entry i x' fs))"
proof -
  have "inode_inv (inode_table (set_entry i x' fs))"
    using inode_inv_update [OF fs_inv_table [OF assms(1)] assms(2-4)] by (simp add: set_entry_def)
  moreover show le: "table_le (inode_table fs) (inode_table (set_entry i x' fs))"
    using table_le_update [OF assms(2,3)] by (simp add: set_entry_def)
  ultimately show "fs_inv (set_entry i x' fs)"
    using fs_inv_adopt [OF assms(1)] by (metis adopt_simps(1) set_entry_def)
qed

lemma set_entry_change:
  assumes "fs_inv fs" and "table (inode_table fs) i = Some x"
    and "\<And>D. entry_ok D i x \<Longrightarrow> entry_ok D i x' \<and> kind_kept x x'"
  shows "fs_inv (set_entry i x' fs) \<and> table_le (inode_table fs) (inode_table (set_entry i x' fs))"
proof -
  have "entry_ok (dom (table (inode_table fs))) i x' \<and> kind_kept x x'"
    using inode_invD(1) [OF fs_inv_table [OF assms(1)] assms(2)] assms(3) by simp
  then show ?thesis using set_entry_inv [OF assms(1,2)] by simp
qed

lemma same_but_times_ok:
  "same_but_times x x' \<Longrightarrow> entry_ok D i x \<Longrightarrow> entry_ok D i x' \<and> kind_kept x x'"
  by (auto simp: same_but_times_def entry_ok_def kind_kept_def split: InodeImpl.splits)

lemma change_inv:
  assumes "change fs fs'" and "fs_inv fs"
  shows "fs_inv fs' \<and> table_le (inode_table fs) (inode_table fs')"
  using assms
proof (cases rule: change.cases)
  case (grow t)
  then show ?thesis using assms(2) by (auto intro: fs_inv_adopt ns_le_table_le)
next
  case (content fd e x x')
  then show ?thesis using set_entry_inv [OF assms(2) content(4,6,7)] by simp
next
  case (truncate fd e i x x')
  then show ?thesis using set_entry_change [OF assms(2), of i x x'] entry_truncate_file_ok [of x x'] by simp
next
  case (times fd e i x x')
  then show ?thesis using set_entry_change [OF assms(2), of i x x'] same_but_times_ok [of x x'] by simp
next
  case (flush i x x')
  then show ?thesis using set_entry_change [OF assms(2), of i x x'] entry_truncate_file_ok [of x x'] by simp
next
  case (service_state a)
  then show ?thesis using assms(2)
    by (auto simp: fs_inv_def inode_inv_def table_is_dir_def is_file_at_def table_le_def globals_same_def)
next
  case (anonymous t n new c)
  have "fs_inv (adopt t fs)" using anonymous assms(2) by (auto intro: fs_inv_adopt ns_le_table_le)
  then show ?thesis using anonymous ns_le_table_le
    by (auto simp: fs_inv_def is_file_at_def)
qed (use assms(2) in \<open>auto simp: fs_inv_def split: if_splits\<close>)

lemma evolves_inv: "evolves fs fs' \<Longrightarrow> fs_inv fs \<Longrightarrow> fs_inv fs' \<and> table_le (inode_table fs) (inode_table fs')"
proof (induction rule: evolves.induct)
  case (more fs fs1 fs2)
  then show ?case using change_inv table_le_trans by blast
next
  case (clone fs fs1 fs2)
  then show ?case using fs_inv_adopt fs_inv_table table_le_trans by (metis adopt_simps(1))
qed simp

section \<open>Weakest preconditions of the auxiliary methods\<close>

lemma wp_with_inodes [wp_simps]:
  "wp (with_inodes m) Q E = (\<lambda>fs. wp m (\<lambda>a t. Q a (adopt t fs)) (\<lambda>t. E (adopt t fs)) (inode_table fs))"
  by (simp add: with_inodes_def wp_simps)

lemma wp_fd_entry [wp_simps]:
  "wp (fd_entry fd) Q E = (\<lambda>fs. case fd_table fs fd of None \<Rightarrow> E fs | Some e \<Rightarrow> Q e fs)"
  by (rule ext) (simp add: fd_entry_def wp_simps ok_or_def split: option.split)

lemma wp_set_fd_entry [wp_simps]:
  "wp (set_fd_entry fd e) Q E = (\<lambda>fs. Q () (fs\<lparr>fd_table := (fd_table fs)(fd \<mapsto> e)\<rparr>))"
  by (simp add: set_fd_entry_def wp_simps)

lemma wp_check_right [wp_simps]:
  "wp (check_right fd r) Q E = (\<lambda>fs. case fd_table fs fd of None \<Rightarrow> E fs
     | Some e \<Rightarrow> if r \<subseteq> rights_base (fd_stat e) then Q () fs else E fs)"
  by (rule ext) (simp add: check_right_def wp_simps split: option.split)

lemma wp_get_inode_by_fd [wp_simps]:
  "wp (get_inode_by_fd fd) Q E = (\<lambda>fs. case fd_table fs fd of None \<Rightarrow> E fs | Some e \<Rightarrow> Q (fd_inode e) fs)"
  by (rule ext) (simp add: get_inode_by_fd_def wp_simps split: option.split)

lemma wp_inode_get [wp_simps]:
  "wp (inode_get i) Q E = (\<lambda>fs. case table (inode_table fs) i of None \<Rightarrow> E fs | Some x \<Rightarrow> Q x fs)"
  by (rule ext) (simp add: inode_get_def wp_simps split: option.split)

lemma wp_is_dir_inode [wp_simps]:
  "wp (is_dir_inode i) Q E = (\<lambda>fs. Q (table_is_dir (inode_table fs) i) fs)"
  by (simp add: is_dir_inode_def wp_simps)

lemma wp_new_fd [wp_simps]:
  "wp new_fd Q E = (\<lambda>fs.
     if bit (next_fd_candidate fs) 31 \<or> fd_table fs (next_fd_candidate fs) \<noteq> None then E fs
     else Q (next_fd_candidate fs) (fs\<lparr>next_fd_candidate := next_fd_candidate fs + 1\<rparr>))"
  by (rule ext) (simp add: new_fd_def wp_simps Let_def)

lemma get_inode_by_fd_path_pure: "snd (get_inode_by_fd_path fd p fs) = fs"
  by (simp add: get_inode_by_fd_path_def get_inode_by_fd_def fd_entry_def mbind_def monad_defs
      split: result.split)

lemma fst_get_inode_by_fd_path:
  "fst (get_inode_by_fd_path fd p fs) =
     (case fd_table fs fd of None \<Rightarrow> Err BadF
      | Some e \<Rightarrow> (case get_inode_by_inode_path (inode_table fs) (fd_inode e) p of
                     Ok r \<Rightarrow> Ok (fst r) | Err x \<Rightarrow> Err x | Panic \<Rightarrow> Panic | Stuck \<Rightarrow> Stuck))"
  by (simp add: get_inode_by_fd_path_def get_inode_by_fd_def fd_entry_def mbind_def monad_defs
      ok_or_def split: result.split option.split)

lemma wp_get_inode_by_fd_path [wp_simps]:
  "wp (get_inode_by_fd_path fd p) Q E = (\<lambda>fs.
     case fst (get_inode_by_fd_path fd p fs) of Ok i \<Rightarrow> Q i fs | Err x \<Rightarrow> E fs | Panic \<Rightarrow> E fs | Stuck \<Rightarrow> E fs)"
  by (rule ext) (simp add: wp_def get_inode_by_fd_path_pure split: result.split)

section \<open>Operations whose effect is authorised\<close>

definition safe :: "('p FileSystem, 'e, 'a) sm \<Rightarrow> bool" where
  "safe m = (\<forall>fs. fs_inv fs \<longrightarrow> evolves fs (snd (m fs)))"

named_theorems safe_intros \<open>operations and combinators that are safe\<close>

lemma safe_wp: "safe m \<longleftrightarrow> (\<forall>fs. fs_inv fs \<longrightarrow> wp m (\<lambda>_. evolves fs) (evolves fs) fs)"
  by (simp add: safe_def wp_invariant)

lemma safeI: "(\<And>fs. fs_inv fs \<Longrightarrow> wp m (\<lambda>_. evolves fs) (evolves fs) fs) \<Longrightarrow> safe m"
  by (simp add: safe_wp)

lemma safeD: "safe m \<Longrightarrow> fs_inv fs \<Longrightarrow> evolves fs (snd (m fs))"
  by (simp add: safe_def)

text \<open>Continue after a safe prefix.\<close>

lemma safe_continue:
  assumes "safe m" and "evolves fs0 fs" and "fs_inv fs0"
  shows "wp m (\<lambda>_. evolves fs0) (evolves fs0) fs"
proof -
  have "evolves fs (snd (m fs))" using assms evolves_inv safeD by blast
  then have "evolves fs0 (snd (m fs))" using assms(2) by (rule evolves_trans)
  then show ?thesis by (simp add: wp_invariant)
qed

lemma safe_mbind [safe_intros]:
  fixes m :: "('p FileSystem, 'e, 'a) sm"
  assumes "safe m" and "\<And>a. safe (f a)"
  shows "safe (mbind m f)"
proof (rule safeI)
  fix fs :: "'p FileSystem"
  assume inv: "fs_inv fs"
  have "wp m (\<lambda>a. wp (f a) (\<lambda>_. evolves fs) (evolves fs)) (evolves fs) fs"
    by (rule wp_mono [OF safe_continue [OF assms(1) evolves.stay inv]])
      (use assms(2) inv in \<open>auto intro: safe_continue\<close>)
  then show "wp (mbind m f) (\<lambda>_. evolves fs) (evolves fs) fs" by (simp add: wp_mbind)
qed

lemma safe_mcatch [safe_intros]:
  fixes m :: "('p FileSystem, 'e, 'a) sm"
  assumes "safe m" and "\<And>a. safe (f a)" and "\<And>e. safe (h e)"
  shows "safe (mcatch m f h)"
proof (rule safeI)
  fix fs :: "'p FileSystem"
  assume inv: "fs_inv fs"
  let ?fs = "snd (m fs)"
  have ev: "evolves fs ?fs" using assms(1) inv by (rule safeD)
  have "wp (f a) (\<lambda>_. evolves fs) (evolves fs) ?fs" for a
    using assms(2) ev inv by (rule safe_continue)
  moreover have "wp (h e) (\<lambda>_. evolves fs) (evolves fs) ?fs" for e
    using assms(3) ev inv by (rule safe_continue)
  ultimately show "wp (mcatch m f h) (\<lambda>_. evolves fs) (evolves fs) fs"
    using ev by (simp add: wp_mcatch split: result.split)
qed

lemma safe_pure [safe_intros]:
  "safe (mreturn a)" "safe (mthrow e)" "safe mpanic" "safe mstuck" "safe (mlift r)" "safe mget"
  by (simp_all add: safe_def monad_defs evolves.stay)

lemma safe_if [safe_intros]: "(b \<Longrightarrow> safe m) \<Longrightarrow> (\<not> b \<Longrightarrow> safe n) \<Longrightarrow> safe (if b then m else n)"
  by simp

lemma safe_option [safe_intros]: "safe m \<Longrightarrow> (\<And>a. safe (f a)) \<Longrightarrow> safe (case x of None \<Rightarrow> m | Some a \<Rightarrow> f a)"
  by (simp split: option.split)

lemma safe_prod [safe_intros]: "(\<And>a b. safe (f a b)) \<Longrightarrow> safe (case x of (a, b) \<Rightarrow> f a b)"
  by (simp split: prod.split)

lemma safe_mfold [safe_intros]: "(\<And>b x. safe (f b x)) \<Longrightarrow> safe (mfold f b xs)"
proof (induction xs arbitrary: b)
  case (Cons x xs)
  then show ?case by (auto intro!: safe_mbind)
qed (simp add: safe_pure)

lemma safe_unchanged:
  assumes "\<And>fs. snd (m fs) = fs"
  shows "safe m"
  using assms by (simp add: safe_def evolves.stay)

lemma safe_aux [safe_intros]:
  "safe (fd_entry fd)" "safe (check_right fd r)" "safe (get_inode_by_fd fd)" "safe (inode_get i)"
  "safe (is_dir_inode i)" "safe (get_inode_by_fd_path fd p)"
  by (rule safeI, auto simp: wp_simps evolves.stay split: option.split result.split)+

lemma safe_new_fd [safe_intros]: "safe new_fd"
  by (rule safeI) (auto simp: wp_simps evolves.stay intro: change_evolves change.bump)

lemma safe_set_aes [safe_intros]: "safe (set_aes a)"
  by (rule safeI) (auto simp: set_aes_def wp_simps intro: change_evolves change.service_state)

text \<open>Operations of the table that only add inodes and names.\<close>

lemma safe_grow:
  fixes m :: "('p InodeTable, ErrNo, 'a) sm"
  assumes "\<And>t. inode_inv t \<Longrightarrow> wp m (\<lambda>_ t'. inode_inv t' \<and> ns_le t t') (\<lambda>t'. inode_inv t' \<and> ns_le t t') t"
  shows "safe (with_inodes m)"
proof (rule safeI)
  fix fs :: "'p FileSystem"
  assume "fs_inv fs"
  then have "wp m (\<lambda>_ t'. inode_inv t' \<and> ns_le (inode_table fs) t')
      (\<lambda>t'. inode_inv t' \<and> ns_le (inode_table fs) t') (inode_table fs)"
    by (intro assms fs_inv_table)
  then show "wp (with_inodes m) (\<lambda>_. evolves fs) (evolves fs) fs"
    by (auto simp: wp_simps intro: change_evolves change.grow elim!: wp_mono)
qed

lemma safe_new_inode [safe_intros]: "safe (with_inodes new_inode)"
  by (rule safe_grow) (auto intro: wp_mono [OF new_inode_wp])

lemma safe_add_all_dir [safe_intros]: "wf_components cs \<Longrightarrow> safe (with_inodes (add_all_dir parent cs))"
  by (rule safe_grow) (auto simp: ns_step_def intro: wp_mono [OF add_all_dir_wp])

lemma safe_retag:
  fixes f :: "FdEntry \<Rightarrow> FdEntry"
  assumes "\<And>e. fd_inode (f e) = fd_inode e" and "\<And>e. fd_offset (f e) = fd_offset e"
    and "\<And>e. rights_base (fd_stat (f e)) = rights_base (fd_stat e)"
    and "\<And>e. rights_inheriting (fd_stat (f e)) = rights_inheriting (fd_stat e)"
  shows "safe (mbind (fd_entry fd) (\<lambda>e. set_fd_entry fd (f e)) :: ('p, unit) fs_op)"
proof (rule safeI)
  fix fs :: "'p FileSystem"
  show "wp (mbind (fd_entry fd) (\<lambda>e. set_fd_entry fd (f e))) (\<lambda>_. evolves fs) (evolves fs) fs"
    using change.retag [of fs fd _ "f _", OF _ assms(1) disjI1 [OF assms(2)] assms(3,4)]
    by (auto simp: wp_simps evolves.stay intro: change_evolves split: option.split)
qed

lemma safe_fd_advise [safe_intros]: "safe (fd_advise fd off len adv)"
  unfolding fd_advise_def by (intro safe_intros safe_retag) simp_all

lemma safe_fd_allocate [safe_intros]: "safe (fd_allocate fd off len)"
  unfolding fd_allocate_def by (intro safe_intros)

lemma safe_fd_fdstat_set_flags [safe_intros]: "safe (fd_fdstat_set_flags fd fl)"
  unfolding fd_fdstat_set_flags_def by (intro safe_intros safe_retag) simp_all

lemma safe_queries [safe_intros]:
  "safe (fd_datasync fd)" "safe (fd_fdstat_get fd)" "safe (fd_filestat_get fd)"
  "safe (fd_pread fd bufs off)" "safe (fd_prestat_get fd)" "safe (fd_prestat_dir_name fd)"
  "safe (fd_readdir fd cookie)" "safe (fd_sync fd)" "safe (fd_tell fd)"
  "safe (path_filestat_get fd flags p)" "safe (path_readlink fd p)" "safe (path_remove_directory fd p)"
  "safe (path_rename fd p fd' p')" "safe (path_link fd flags p fd' p')" "safe (path_symlink p fd p')"
  "safe (path_unlink_file fd p)" "safe (sock_recv fd)" "safe (sock_send fd)" "safe (sock_shutdown fd)"
  unfolding fd_datasync_def fd_fdstat_get_def fd_filestat_get_def fd_pread_def fd_prestat_get_def
    fd_prestat_dir_name_def fd_readdir_def fd_sync_def fd_tell_def path_filestat_get_def
    path_readlink_def path_remove_directory_def path_rename_def path_link_def path_symlink_def
    path_unlink_file_def sock_recv_def sock_send_def sock_shutdown_def
  by (intro safe_intros)+

lemma safe_fd_fdstat_set_rights [safe_intros]: "safe (fd_fdstat_set_rights fd base inh)"
  unfolding fd_fdstat_set_rights_def Let_def by (intro safe_intros)

lemma fd_fdstat_set_rights_pure: "snd (fd_fdstat_set_rights fd base inh fs) = fs"
  by (simp add: fd_fdstat_set_rights_def fd_entry_def mbind_def monad_defs ok_or_def split: option.split)

lemma safe_fd_renumber [safe_intros]: "safe (fd_renumber old new)"
  by (rule safeI) (auto simp: fd_renumber_def wp_simps evolves.stay intro: change_evolves change.renumber
      split: option.split)

lemma safe_fd_close [safe_intros]: "safe (fd_close fd)"
proof (rule safeI)
  fix fs :: "'p FileSystem"
  have "evolves fs ((set_entry i x' fs)\<lparr>fd_table := (fd_table fs)(fd := None)\<rparr>)"
    if "table (inode_table fs) i = Some x" "entry_is_service x" "entry_truncate_file x = Ok x'" for i x x'
    using evolves.more [OF change_evolves [OF change.flush [OF that]] change.close [of _ fd]] by simp
  then show "wp (fd_close fd) (\<lambda>_. evolves fs) (evolves fs) fs"
    by (auto simp: fd_close_def wp_simps evolves.stay set_entry_def [symmetric]
        intro: change_evolves change.close split: option.split result.split)
qed

lemma safe_set_size [safe_intros]: "safe (fd_filestat_set_size fd sz)"
proof (rule safeI)
  fix fs :: "'p FileSystem"
  assume inv: "fs_inv fs"
  have "evolves fs (set_entry (fd_inode e) x' fs)"
    if e: "fd_table fs fd = Some e" "FD_FILESTAT_SET_SIZE \<in> rights_base (fd_stat e)"
      "table (inode_table fs) (fd_inode e) = Some x" and x': "entry_resize_file sz 0 x = Ok x'" for e x x'
  proof -
    have "entry_ok (dom (table (inode_table fs))) (fd_inode e) x' \<and> kind_kept x x' \<and> \<not> entry_is_dir x"
      using x' inode_invD(1) [OF fs_inv_table [OF inv] e(3)] by (rule entry_resize_file_ok)
    then show ?thesis using change.content [OF e(1) _ e(3)] e(2) by (auto intro: change_evolves)
  qed
  then show "wp (fd_filestat_set_size fd sz) (\<lambda>_. evolves fs) (evolves fs) fs"
    by (auto simp: fd_filestat_set_size_def wp_simps evolves.stay set_entry_def [symmetric]
        split: option.split result.split)
qed

lemma safe_set_times [safe_intros]:
  "safe (fd_filestat_set_times fd atime mtime fl now)"
  "safe (path_filestat_set_times fd lf p atime mtime fl now)"
proof -
  have t: "same_but_times x (set_times atime mtime fl now x)" for x
    by (cases "file_stat x") (auto simp: same_but_times_def set_times_def)
  show "safe (fd_filestat_set_times fd atime mtime fl now)"
    by (rule safeI) (auto simp: fd_filestat_set_times_def wp_simps evolves.stay set_entry_def [symmetric]
        intro: change_evolves change.times t split: option.split)
  show "safe (path_filestat_set_times fd lf p atime mtime fl now)"
    by (rule safeI) (auto simp: path_filestat_set_times_def wp_simps evolves.stay set_entry_def [symmetric]
        intro: change_evolves change.times t split: option.split result.split)
qed

lemma i64_nonneg:
  assumes "u64_try_from_i64 Inval (i64_abs delta) = Ok d"
  shows "unat d < 2 ^ 63" and "sint delta \<ge> 0 \<Longrightarrow> d = delta"
proof -
  have d: "d = i64_abs delta" "0 \<le> sint d"
    using assms by (auto simp: u64_try_from_i64_def split: if_splits)
  have "take_bit 64 (uint d) = uint d" using uint_bounded [of d] by (simp add: take_bit_int_eq_self_iff)
  moreover have "\<not> bit (uint d) 63" using d(2) by (simp add: sint_uint)
  ultimately have "take_bit 63 (uint d) = uint d"
    using take_bit_Suc_from_most [of 63 "uint d"] by simp
  then have "uint d < 2 ^ 63" by (metis take_bit_int_less_exp)
  then have "int (unat d) < 2 ^ 63" by (simp only: uint_nat)
  then show "unat d < 2 ^ 63" by (metis of_nat_less_iff of_nat_numeral of_nat_power)
  show "d = delta" if "sint delta \<ge> 0" using d(1) that by (simp add: i64_abs_def)
qed

lemma set_size_wp:
  assumes "fs_inv fs"
  shows "wp (fd_filestat_set_size fd sz)
    (\<lambda>_ fs'. evolves fs fs' \<and> fd_table fs' = fd_table fs \<and> unat sz \<le> isize_max) (evolves fs) fs"
proof -
  have "wp (fd_filestat_set_size fd sz) (\<lambda>_ fs'. fd_table fs' = fd_table fs \<and> unat sz \<le> isize_max) (\<lambda>_. True) fs"
    by (auto simp: fd_filestat_set_size_def wp_simps entry_resize_file_def split: option.split result.split)
      (auto elim!: impl_resize_file.elims dest: vec_resize_length split: result.splits)
  from wp_conj [OF safe_continue [OF safe_set_size evolves.stay assms] this] show ?thesis
    by (rule wp_mono) auto
qed

lemma set_offset_wp:
  assumes "evolves fs fs1" and "unat off \<le> isize_max"
  shows "wp (set_offset fd off) (\<lambda>_. evolves fs) (evolves fs) fs1"
  using assms evolves.more [OF assms(1) change.retag [of fs1 fd _ "_\<lparr>fd_offset := off\<rparr>"]]
  by (auto simp: set_offset_def wp_simps split: option.split)

lemma seek_offset_wp:
  assumes inv: "fs_inv fs" and sz: "unat sz \<le> isize_max" and base: "unat base \<le> isize_max"
  shows "wp (seek_offset fd delta base sz) (\<lambda>off fs1. evolves fs fs1 \<and> unat off \<le> isize_max) (evolves fs) fs"
proof -
  let ?Q = "\<lambda>off fs1. evolves fs fs1 \<and> unat off \<le> isize_max"
  have up: "wp (mbind (if base + d > sz then fd_filestat_set_size fd (base + d) else mreturn ()) (\<lambda>_. mreturn (base + d)))
      ?Q (evolves fs) fs" for d
  proof (cases "base + d > sz")
    case True
    then show ?thesis
      by (simp add: wp_mbind wp_mreturn) (rule wp_mono [OF set_size_wp [OF inv]], auto)
  next
    case False
    then have "unat (base + d) \<le> isize_max" using sz by (simp add: word_le_nat_alt not_less)
    then show ?thesis using False by (simp add: wp_simps evolves.stay)
  qed
  have "unat (base - d) \<le> isize_max" if "\<not> d > base" for d
    using that base by (simp add: unat_sub word_le_nat_alt not_less)
  with up show ?thesis
    by (simp add: seek_offset_def Let_def wp_mbind [of "mlift _"] wp_mlift wp_mthrow wp_mreturn evolves.stay
        split: result.split)
qed

lemma safe_fd_seek [safe_intros]: "safe (fd_seek fd delta whence)"
proof (rule safeI)
  fix fs :: "'p FileSystem"
  assume inv: "fs_inv fs"
  show "wp (fd_seek fd delta whence) (\<lambda>_. evolves fs) (evolves fs) fs"
  proof (cases "fd_table fs fd")
    case (Some e)
    obtain x where x: "table (inode_table fs) (fd_inode e) = Some x" using fs_inv_fd [OF inv Some] by blast
    let ?sz = "stat_file_size (file_stat x)"
    have sz: "unat ?sz \<le> isize_max"
      using inode_invD(1) [OF fs_inv_table [OF inv] x] isize_max_less(2)
      by (auto simp: entry_ok_def split: InodeImpl.splits)
    have base: "unat (seek_base whence e ?sz) \<le> isize_max"
      using sz fs_inv_offset [OF inv Some] by (simp add: seek_base_def split: Whence.split)
    have "wp (seek_offset fd delta (seek_base whence e ?sz) ?sz)
        (\<lambda>off. wp (set_offset fd off) (\<lambda>_. evolves fs) (evolves fs)) (evolves fs) fs"
      by (rule wp_mono [OF seek_offset_wp [OF inv sz base]]) (auto intro: set_offset_wp)
    then show ?thesis using Some x by (simp add: fd_seek_def wp_simps Let_def evolves.stay)
  qed (simp add: fd_seek_def wp_simps evolves.stay)
qed

lemma safe_fd_read [safe_intros]: "safe (fd_read fd bufs)"
  unfolding fd_read_def by (intro safe_intros)

lemma safe_path_create_directory [safe_intros]: "safe (path_create_directory fd p)"
proof -
  have *: "wp (mfold create_directory_step parent (components p)) (\<lambda>_. ns_step t) (ns_step t) t"
    if inv: "inode_inv t" for parent and t :: "'p InodeTable"
  proof (rule wp_mfold)
    fix parent c and u :: "'p InodeTable"
    assume c: "c \<in> set (components p)" and u: "ns_step t u"
    have wf: "wf_components [c]" using wf_components_components c by (rule wf_components_each)
    show "wp (create_directory_step parent c) (\<lambda>_. ns_step t) (ns_step t) u"
    proof (cases c)
      case (Normal s)
      then have "components s \<noteq> [CurDir]" using wf by (simp add: wf_components_def)
      moreover have "inode_inv u" using u by (simp add: ns_step_def)
      ultimately have "wp (create_directory_step parent c) (\<lambda>i t'. ns_step u t' \<and> table_is_dir t' i) (ns_step u) u"
        unfolding create_directory_step_def using Normal by (simp add: new_dir_wp)
      then show ?thesis by (rule wp_mono) (auto intro: ns_step_trans [OF u])
    qed (use u in \<open>auto simp: create_directory_step_def wp_simps\<close>)
  qed (use inv in \<open>simp add: ns_step_refl\<close>)
  have "safe (with_inodes (mfold create_directory_step parent (components p)) :: ('p, Inode) fs_op)" for parent
    by (rule safe_grow, rule wp_mono [OF *]) (auto simp: ns_step_def)
  then show ?thesis unfolding path_create_directory_def by (intro safe_intros)
qed

text \<open>\<open>grown fs i fs'\<close>: the table of the handle grew, and inode \<open>i\<close> exists in it.\<close>

definition grown :: "'p FileSystem \<Rightarrow> Inode \<Rightarrow> 'p FileSystem \<Rightarrow> bool" where
  "grown fs i fs' = (\<exists>t. fs' = adopt t fs \<and> inode_inv t \<and> ns_le (inode_table fs) t \<and> table t i \<noteq> None)"

lemma grown_evolves: "grown fs i fs' \<Longrightarrow> evolves fs fs'"
  by (auto simp: grown_def intro: change_evolves change.grow)

lemma dot_entry: "inode_inv t \<Longrightarrow> table_is_dir t i \<Longrightarrow> walk t i [CurDir] = Ok i"
  using inode_invD(1) [of t i]
  by (fastforce simp: table_is_dir_def entry_is_dir_def entry_ok_def entry_get_inode_by_path_def
      component_str_def ok_or_def split: option.splits InodeImpl.splits)

lemma get_inode_error:
  assumes "inode_inv t" and "table_is_dir t i" and "get_inode_by_inode_path t i p = Err x"
  shows "components p \<noteq> [CurDir]"
  using assms dot_entry [OF assms(1,2)]
  by (auto simp: get_inode_by_inode_path_def table_is_dir_def split: option.splits)

lemma open_inode_wp:
  assumes inv: "fs_inv fs" and fd: "fd_table fs fd = Some pe" and dir: "table_is_dir (inode_table fs) (fd_inode pe)"
  shows "wp (open_inode fd (fd_inode pe) p oflags) (\<lambda>i. grown fs i) (evolves fs) fs"
proof (cases "get_inode_by_inode_path (inode_table fs) (fd_inode pe) p")
  case (Ok r)
  then have "table (inode_table fs) (fst r) \<noteq> None" by (cases r) (simp add: get_inode_Ok)
  moreover have "grown fs (fst r) fs"
    unfolding grown_def using calculation fs_inv_table [OF inv]
    by (intro exI [of _ "inode_table fs"]) simp
  ultimately show ?thesis using Ok fd
    by (simp add: open_inode_def wp_mcatch fst_get_inode_by_fd_path get_inode_by_fd_path_pure
        wp_simps evolves.stay)
next
  case (Err x)
  have name: "components p \<noteq> [CurDir]" using get_inode_error [OF fs_inv_table [OF inv] dir Err] .
  let ?t = "inode_table fs"
  have "wp (add_file (fd_inode pe) p i []) (\<lambda>_ t'. grown fs i (adopt t' fs)) (\<lambda>t'. evolves fs (adopt t' fs)) t"
    if t: "inode_inv t \<and> ns_le ?t t \<and> alloc_le ?t t \<and> table t = table ?t \<and> fresh t i \<and> \<not> fresh ?t i" for t i
  proof (rule wp_mono [OF add_file_wp [of t i "[]" p]])
    show "inode_inv t" "fresh t i" "length [] \<le> isize_max" using t by simp_all
    show "components p \<noteq> [CurDir] \<or> \<not> table_is_dir t (fd_inode pe)" using name by simp
  qed (use t in \<open>auto simp: grown_def intro: ns_le_trans change_evolves change.grow\<close>)
  then have "wp new_inode (\<lambda>i. wp (add_file (fd_inode pe) p i []) (\<lambda>_ t'. grown fs i (adopt t' fs))
      (\<lambda>t'. evolves fs (adopt t' fs))) (\<lambda>t'. evolves fs (adopt t' fs)) ?t"
    by (intro wp_mono [OF new_inode_wp [OF fs_inv_table [OF inv]]]) (auto simp: evolves.stay)
  then show ?thesis using Err fd
    by (simp add: open_inode_def wp_mcatch fst_get_inode_by_fd_path get_inode_by_fd_path_pure
        wp_simps evolves.stay)
qed (use fd in \<open>simp_all add: open_inode_def wp_mcatch fst_get_inode_by_fd_path
      get_inode_by_fd_path_pure evolves.stay\<close>)

text \<open>What \<^verbatim>\<open>path_open\<close> does once it has an inode: truncate it when asked, and install a descriptor.\<close>

lemma open_at_wp:
  assumes inv: "fs_inv fs" and fd: "fd_table fs fd = Some pe" "PATH_OPEN \<in> rights_base (fd_stat pe)"
    and dir: "table_is_dir (inode_table fs) (fd_inode pe)" and g: "grown fs i fs1"
    and r: "base \<subseteq> rights_inheriting (fd_stat pe)" "inh \<subseteq> rights_inheriting (fd_stat pe)"
  shows "wp (open_at fd i oflags base inh fl) (\<lambda>_. evolves fs) (evolves fs) fs1"
proof -
  have ev1: "evolves fs fs1" using g by (rule grown_evolves)
  have fd1: "fd_table fs1 fd = Some pe" using g fd(1) by (auto simp: grown_def)
  have dir1: "table_is_dir (inode_table fs1) (fd_inode pe)"
    using g table_le_is_dir [OF ns_le_table_le dir] by (auto simp: grown_def)
  have i1: "table (inode_table fs1) i \<noteq> None" using g by (auto simp: grown_def)
  have install: "evolves fs (fs2\<lparr>next_fd_candidate := c, fd_table := ft(new \<mapsto> n)\<rparr>)"
    if "evolves fs fs2" "ft = fd_table fs2" "fd_table fs2 fd = Some pe" "table_is_dir (inode_table fs2) (fd_inode pe)"
      "fd_table fs2 new = None" "fd_inode n = i" "fd_offset n = 0" "table (inode_table fs2) i \<noteq> None"
      "rights_base (fd_stat n) \<subseteq> rights_inheriting (fd_stat pe)"
      "rights_inheriting (fd_stat n) \<subseteq> rights_inheriting (fd_stat pe)" for fs2 ft c new n
  proof -
    let ?fs = "fs2\<lparr>next_fd_candidate := c\<rparr>"
    have "change ?fs (?fs\<lparr>fd_table := (fd_table ?fs)(new \<mapsto> n)\<rparr>)"
      using that fd(2) by (intro change.open_fd [of ?fs fd pe]) simp_all
    with that(1,2) change.bump [of fs2 c] show ?thesis by (auto intro: evolves.more)
  qed
  have trunc: "evolves fs (set_entry i x' fs1)"
    if "PATH_FILESTAT_SET_SIZE \<in> rights_base (fd_stat pe)" "table (inode_table fs1) i = Some x"
      "entry_truncate_file x = Ok x'" for x x'
    using ev1 change.truncate [OF fd1 _ dir1 that(2,3)] that(1) fd(2) by (auto intro: evolves.more)
  have dir2: "table_is_dir (inode_table (set_entry i x' fs1)) (fd_inode pe)"
    if "table (inode_table fs1) i = Some x" "entry_truncate_file x = Ok x'" for x x'
    using dir1 that by (cases "node_data x")
      (auto simp: table_is_dir_def entry_truncate_file_def entry_is_dir_def split: option.splits)
  show ?thesis
    using ev1 fd1 dir1 i1 trunc dir2 r
    by (auto simp: open_at_def wp_simps set_entry_def [symmetric] mk_fd_stat_def intro!: install
        split: option.split result.split)
qed

lemma safe_path_open [safe_intros]: "safe (path_open fd lf p oflags base inh fl)"
proof (rule safeI)
  fix fs :: "'p FileSystem"
  assume inv: "fs_inv fs"
  show "wp (path_open fd lf p oflags base inh fl) (\<lambda>_. evolves fs) (evolves fs) fs"
  proof (cases "fd_table fs fd")
    case (Some pe)
    let ?inh = "rights_inheriting (fd_stat pe)"
    have "wp (open_inode fd (fd_inode pe) p oflags)
        (\<lambda>i. wp (open_at fd i oflags (base \<inter> ?inh) (inh \<inter> ?inh) fl) (\<lambda>_. evolves fs) (evolves fs)) (evolves fs) fs"
      if "PATH_OPEN \<in> rights_base (fd_stat pe)" "table_is_dir (inode_table fs) (fd_inode pe)"
      by (rule wp_mono [OF open_inode_wp [OF inv Some that(2)]])
        (auto intro: open_at_wp [OF inv Some that])
    then show ?thesis using Some
      by (auto simp: path_open_def wp_mbind wp_check_right wp_get_inode_by_fd wp_is_dir_inode
          wp_fd_entry wp_mthrow Let_def evolves.stay)
  qed (simp add: path_open_def wp_simps evolves.stay)
qed

lemma safe_fd_create [safe_intros]: "safe fd_create"
proof (rule safeI)
  fix fs :: "'p FileSystem"
  assume inv: "fs_inv fs"
  let ?t = "inode_table fs"
  let ?n = "\<lambda>i. \<lparr>file_stat = mk_file_stat i RegularFile 0, node_data = File []\<rparr>"
  let ?u = "\<lambda>t i. t\<lparr>table := (table ?t)(i \<mapsto> ?n i)\<rparr>"
  have new: "inode_inv (?u t i)" "ns_le ?t (?u t i)" "is_file_at (?u t i) i" "table ?t i = None"
    if "inode_inv t" "ns_le ?t t" "fresh t i" "table t = table ?t" for t i
  proof -
    have u: "?u t i = t\<lparr>table := (table t)(i \<mapsto> ?n i)\<rparr>" using that(4) by simp
    show "inode_inv (?u t i)"
      unfolding u using new_file_ok [of "[]" _ i] by (intro inode_inv_add that) simp
    show "ns_le ?t (?u t i)"
      unfolding u by (rule ns_le_trans [OF that(2)], rule ns_le_add) (use that(3) in \<open>simp add: fresh_def\<close>)
    show "is_file_at (?u t i) i" by (simp add: is_file_at_def entry_is_dir_def)
    show "table ?t i = None" using that(3,4) by (simp add: fresh_def)
  qed
  have anon: "evolves fs ((adopt t fs)\<lparr>next_fd_candidate := c, fd_table := (fd_table fs)(new \<mapsto> n)\<rparr>)"
    if "inode_inv t" "ns_le ?t t" "is_file_at t (fd_inode n)" "table ?t (fd_inode n) = None" "fd_table fs new = None"
      "fd_offset n = 0" for t n new c
    using change_evolves [OF change.anonymous [OF that(1,2,4,3,5,6), of c]] .
  have *: "wp new_inode (\<lambda>i t. inode_inv t \<and> ns_le ?t t \<and> fresh t i \<and> table t = table ?t) (\<lambda>t. t = ?t) ?t"
    by (rule wp_mono [OF new_inode_wp [OF fs_inv_table [OF inv]]]) auto
  show "wp fd_create (\<lambda>_. evolves fs) (evolves fs) fs"
    unfolding fd_create_def wp_mbind wp_with_inodes
    by (rule wp_mono [OF *])
      (auto simp: wp_simps evolves.stay intro!: anon new intro: change_evolves change.grow)
qed

lemma safe_open_for [safe_intros]: "safe (open_for p oflags needed)"
  unfolding open_for_def by (intro safe_intros)

lemma safe_read_file [safe_intros]: "safe (read_file_by_absolute_path p)"
  unfolding read_file_by_absolute_path_def by (intro safe_intros)

lemma safe_read_std_stream [safe_intros]: "safe (read_std_stream fd)" "safe read_stdout" "safe read_stderr"
  unfolding read_stdout_def read_stderr_def read_std_stream_def by (intro safe_intros)+

section \<open>Writing and services\<close>

lemma write_loop:
  assumes inv: "fs_inv fs" and e: "fd_table fs fd = Some e" "FD_WRITE \<in> rights_base (fd_stat e)"
  shows "wp (with_inodes (mfold (write_buf (fd_inode e)) ol bufs)) (\<lambda>_. evolves fs) (evolves fs) fs"
proof -
  let ?i = "fd_inode e"
  have "wp (mfold (write_buf ?i) ol bufs) (\<lambda>_ t. evolves fs (adopt t fs)) (\<lambda>t. evolves fs (adopt t fs)) (inode_table fs)"
  proof (rule wp_mfold)
    fix ol :: "FileSize \<times> nat" and buf t
    assume ev: "evolves fs (adopt t fs)"
    then have inv': "fs_inv (adopt t fs)" using inv evolves_inv by blast
    have "evolves fs (set_entry ?i x' (adopt t fs))"
      if x: "table t ?i = Some x" and x': "entry_write_file buf (fst ol) x = Ok (n, x')" for x x' n
    proof -
      have "entry_ok (dom (table t)) ?i x' \<and> kind_kept x x' \<and> n = length buf \<and> \<not> entry_is_dir x"
        using x' inode_invD(1) [OF fs_inv_table [OF inv']] x by (intro entry_write_file_ok) auto
      then have "change (adopt t fs) (set_entry ?i x' (adopt t fs))"
        using e x by (intro change.content [of _ fd e x]) auto
      with ev show ?thesis by (rule evolves.more)
    qed
    then show "wp (write_buf ?i ol buf) (\<lambda>_ t. evolves fs (adopt t fs)) (\<lambda>t. evolves fs (adopt t fs)) t"
      using ev by (auto simp: write_buf_def wp_simps set_entry_def split: option.split result.split)
  qed (simp add: evolves.stay)
  then show ?thesis by (simp add: wp_simps)
qed

text \<open>
  The contract between the write operations and the services they may call: a service is safe. The
  operations are proved against the contract; \<open>serve\<close> provides it, by recursion on the services
  whose mutex is free.
\<close>

locale service_provider =
  fixes us :: "Service list" and sv :: "'p service_call"
  assumes safe_sv: "s \<in> set us \<Longrightarrow> safe (sv s input)"
begin

lemma safe_call: "safe (call_service us sv s input)"
proof (rule safeI)
  fix fs :: "'p FileSystem"
  assume "fs_inv fs"
  then have "evolves fs (adopt (inode_table (snd (sv s input fs))) fs)" if "s \<in> set us"
    using evolves.clone [OF evolves.stay safeD [OF safe_sv [OF that]]] by blast
  then show "wp (call_service us sv s input) (\<lambda>_. evolves fs) (evolves fs) fs"
    by (simp add: wp_invariant call_service_def mzoom_def mstuck_def evolves.stay)
qed

lemma safe_valid_input: "safe (service_valid_input C us f)"
  unfolding service_valid_input_def try_parse_def
  by (simp split: InodeImpl.split Service.split) (intro conjI allI impI safe_intros)

lemma safe_trigger: "safe (trigger_service C us sv i)"
  unfolding trigger_service_def by (intro safe_intros safe_valid_input safe_call)

lemma safe_fd_pwrite: "safe (fd_pwrite_with C us sv fd bufs off)"
proof (rule safeI)
  fix fs :: "'p FileSystem"
  assume inv: "fs_inv fs"
  show "wp (fd_pwrite_with C us sv fd bufs off) (\<lambda>_. evolves fs) (evolves fs) fs"
  proof (cases "fd_table fs fd")
    case (Some e)
    have "wp (with_inodes (mfold (write_buf (fd_inode e)) (off, 0) bufs))
        (\<lambda>ol. wp (trigger_service C us sv (fd_inode e)) (\<lambda>_. evolves fs) (evolves fs)) (evolves fs) fs"
      if "FD_WRITE \<in> rights_base (fd_stat e)"
      by (rule wp_mono [OF write_loop [OF inv Some that]]) (auto intro: safe_continue [OF safe_trigger _ inv])
    then show ?thesis using Some
      by (simp add: fd_pwrite_with_def wp_simps evolves.stay split: option.split)
  qed (simp add: fd_pwrite_with_def wp_simps evolves.stay)
qed

lemma safe_fd_write: "safe (fd_write_with C us sv fd bufs)"
  unfolding fd_write_with_def by (intro safe_intros safe_fd_pwrite)

lemma safe_write_file: "safe (write_file_by_absolute_path_with C us sv p data is_append)"
  unfolding write_file_by_absolute_path_with_def by (intro safe_intros safe_fd_write)

end

lemma safe_serve: "s \<in> set us \<Longrightarrow> safe (serve C us s input :: ('p, unit) fs_op)"
proof (induction C us s input rule: serve.induct)
  case (1 C us s input)
  let ?us = "removeAll s us"
  have "service_provider ?us (serve C ?us :: 'p service_call)"
  proof unfold_locales
    fix r inp
    assume "r \<in> set ?us"
    then show "safe (serve C ?us r inp :: ('p, unit) fs_op)" using "1.IH" [OF "1.prems" refl] by blast
  qed
  then have wr: "safe (write_file_by_absolute_path_with C ?us (serve C ?us) p data app :: ('p, unit) fs_op)" for p data app
    by (rule service_provider.safe_write_file)
  have "safe (postcard_serve C (write_file_by_absolute_path_with C ?us (serve C ?us)) input :: ('p, unit) fs_op)"
    unfolding postcard_serve_def by (intro safe_intros wr)
  moreover have "safe (aes_serve C (write_file_by_absolute_path_with C ?us (serve C ?us)) :: ('p, unit) fs_op)"
    unfolding aes_serve_def encryption_decryption_def by (intro safe_intros wr)
  ultimately show ?case using "1.prems" by (cases s) (simp_all add: serve.simps [of C us] Let_def)
qed

interpretation native: service_provider us "serve C us" for C :: crates and us :: "Service list"
  by unfold_locales (rule safe_serve)

lemmas [safe_intros] =
  native.safe_fd_pwrite native.safe_fd_write native.safe_write_file

lemma safe_writes [safe_intros]:
  "safe (fd_pwrite C fd bufs off)" "safe (fd_write C fd bufs)"
  "safe (write_file_by_absolute_path C p data is_append)" "safe (write_stdin C buf)"
  unfolding fd_pwrite_def fd_write_def write_file_by_absolute_path_def write_stdin_def
  by (intro safe_intros)+

end
