(* ===== verification/Confinement.thy ===== *)
theory Confinement
  imports Authority
begin

text \<open>
  Runs of a handle. A WASI program, or the runtime on behalf of a participant, reaches the
  filesystem only through the operations of its handle; \<open>FsCall\<close> lists them and \<open>exec\<close> runs one.
  Invariants proved for the elementary changes (locale \<open>handle_invariant\<close>) hold in every run. The
  instances are the well-formedness of the handle, the confinement of its rights, and the integrity
  of files for principals without a right to write.
\<close>

section \<open>Calls\<close>

datatype FdQuery =
  FdAllocate Fd FileSize FileSize
  | FdDatasync Fd
  | FdFdstatGet Fd
  | FdFilestatGet Fd
  | FdPread Fd "byte list list" FileSize
  | FdPrestatGet Fd
  | FdPrestatDirName Fd
  | FdReaddir Fd DirCookie
  | FdSync Fd
  | FdTell Fd
  | SockRecv Fd
  | SockSend Fd
  | SockShutdown Fd

datatype FdCall =
  FdAdvise Fd FileSize FileSize Advice
  | FdClose Fd
  | FdCreate
  | FdFdstatSetFlags Fd FdFlags
  | FdFdstatSetRights Fd Rights Rights
  | FdFilestatSetSize Fd FileSize
  | FdFilestatSetTimes Fd Timestamp Timestamp "SetTimeFlag set" Timestamp
  | FdPwrite Fd "byte list list" FileSize
  | FdRead Fd "byte list list"
  | FdRenumber Fd Fd
  | FdSeek Fd FileDelta Whence
  | FdWrite Fd "byte list list"

datatype PathCall =
  PathCreateDirectory Fd path
  | PathFilestatGet Fd LookupFlags path
  | PathFilestatSetTimes Fd LookupFlags path Timestamp Timestamp "SetTimeFlag set" Timestamp
  | PathLink Fd LookupFlags path Fd path
  | PathOpen Fd LookupFlags path "OpenFlag set" Rights Rights FdFlags
  | PathReadlink Fd path
  | PathRemoveDirectory Fd path
  | PathRename Fd path Fd path
  | PathSymlink path Fd path
  | PathUnlinkFile Fd path

datatype RuntimeCall =
  WriteFileByAbsolutePath path "byte list" bool
  | ReadFileByAbsolutePath path
  | WriteStdin "byte list"
  | ReadStdout
  | ReadStderr

datatype FsCall =
  Query FdQuery
  | OnFd FdCall
  | OnPath PathCall
  | Runtime RuntimeCall

primrec exec_query :: "FdQuery \<Rightarrow> 'p FileSystem \<Rightarrow> 'p FileSystem" where
  "exec_query (FdAllocate fd off len) = snd \<circ> fd_allocate fd off len"
| "exec_query (FdDatasync fd) = snd \<circ> fd_datasync fd"
| "exec_query (FdFdstatGet fd) = snd \<circ> fd_fdstat_get fd"
| "exec_query (FdFilestatGet fd) = snd \<circ> fd_filestat_get fd"
| "exec_query (FdPread fd bufs off) = snd \<circ> fd_pread fd bufs off"
| "exec_query (FdPrestatGet fd) = snd \<circ> fd_prestat_get fd"
| "exec_query (FdPrestatDirName fd) = snd \<circ> fd_prestat_dir_name fd"
| "exec_query (FdReaddir fd cookie) = snd \<circ> fd_readdir fd cookie"
| "exec_query (FdSync fd) = snd \<circ> fd_sync fd"
| "exec_query (FdTell fd) = snd \<circ> fd_tell fd"
| "exec_query (SockRecv fd) = snd \<circ> sock_recv fd"
| "exec_query (SockSend fd) = snd \<circ> sock_send fd"
| "exec_query (SockShutdown fd) = snd \<circ> sock_shutdown fd"

primrec exec_fd :: "crates \<Rightarrow> FdCall \<Rightarrow> 'p FileSystem \<Rightarrow> 'p FileSystem" where
  "exec_fd C (FdAdvise fd off len adv) = snd \<circ> fd_advise fd off len adv"
| "exec_fd C (FdClose fd) = snd \<circ> fd_close fd"
| "exec_fd C FdCreate = snd \<circ> fd_create"
| "exec_fd C (FdFdstatSetFlags fd fl) = snd \<circ> fd_fdstat_set_flags fd fl"
| "exec_fd C (FdFdstatSetRights fd base inh) = snd \<circ> fd_fdstat_set_rights fd base inh"
| "exec_fd C (FdFilestatSetSize fd sz) = snd \<circ> fd_filestat_set_size fd sz"
| "exec_fd C (FdFilestatSetTimes fd a m fl now) = snd \<circ> fd_filestat_set_times fd a m fl now"
| "exec_fd C (FdPwrite fd bufs off) = snd \<circ> fd_pwrite C fd bufs off"
| "exec_fd C (FdRead fd bufs) = snd \<circ> fd_read fd bufs"
| "exec_fd C (FdRenumber old new) = snd \<circ> fd_renumber old new"
| "exec_fd C (FdSeek fd delta whence) = snd \<circ> fd_seek fd delta whence"
| "exec_fd C (FdWrite fd bufs) = snd \<circ> fd_write C fd bufs"

primrec exec_path :: "PathCall \<Rightarrow> 'p FileSystem \<Rightarrow> 'p FileSystem" where
  "exec_path (PathCreateDirectory fd p) = snd \<circ> path_create_directory fd p"
| "exec_path (PathFilestatGet fd fl p) = snd \<circ> path_filestat_get fd fl p"
| "exec_path (PathFilestatSetTimes fd lf p a m fl now) = snd \<circ> path_filestat_set_times fd lf p a m fl now"
| "exec_path (PathLink fd fl p fd' p') = snd \<circ> path_link fd fl p fd' p'"
| "exec_path (PathOpen fd lf p ofl base inh fl) = snd \<circ> path_open fd lf p ofl base inh fl"
| "exec_path (PathReadlink fd p) = snd \<circ> path_readlink fd p"
| "exec_path (PathRemoveDirectory fd p) = snd \<circ> path_remove_directory fd p"
| "exec_path (PathRename fd p fd' p') = snd \<circ> path_rename fd p fd' p'"
| "exec_path (PathSymlink p fd p') = snd \<circ> path_symlink p fd p'"
| "exec_path (PathUnlinkFile fd p) = snd \<circ> path_unlink_file fd p"

primrec exec_runtime :: "crates \<Rightarrow> RuntimeCall \<Rightarrow> 'p FileSystem \<Rightarrow> 'p FileSystem" where
  "exec_runtime C (WriteFileByAbsolutePath p data app) = snd \<circ> write_file_by_absolute_path C p data app"
| "exec_runtime C (ReadFileByAbsolutePath p) = snd \<circ> read_file_by_absolute_path p"
| "exec_runtime C (WriteStdin buf) = snd \<circ> write_stdin C buf"
| "exec_runtime C ReadStdout = snd \<circ> read_stdout"
| "exec_runtime C ReadStderr = snd \<circ> read_stderr"

primrec exec :: "crates \<Rightarrow> FsCall \<Rightarrow> 'p FileSystem \<Rightarrow> 'p FileSystem" where
  "exec C (Query c) = exec_query c"
| "exec C (OnFd c) = exec_fd C c"
| "exec C (OnPath c) = exec_path c"
| "exec C (Runtime c) = exec_runtime C c"

lemma exec_query_evolves: "fs_inv fs \<Longrightarrow> evolves fs (exec_query q fs)"
  by (cases q) (simp_all add: safe_intros safeD)

lemma exec_fd_evolves: "fs_inv fs \<Longrightarrow> evolves fs (exec_fd C f fs)"
  by (cases f) (simp_all add: safe_intros safeD)

lemma exec_path_evolves: "fs_inv fs \<Longrightarrow> evolves fs (exec_path p fs)"
  by (cases p) (simp_all add: safe_intros safeD)

lemma exec_runtime_evolves: "fs_inv fs \<Longrightarrow> evolves fs (exec_runtime C r fs)"
  by (cases r) (simp_all add: safe_intros safeD)

lemma exec_evolves: "fs_inv fs \<Longrightarrow> evolves fs (exec C c fs)"
  by (cases c) (simp_all add: exec_query_evolves exec_fd_evolves exec_path_evolves exec_runtime_evolves)

section \<open>Invariants of a run\<close>

locale handle_invariant =
  fixes I :: "'p FileSystem \<Rightarrow> bool"
  assumes inv_fs: "I fs \<Longrightarrow> fs_inv fs"
    and inv_change: "change fs fs' \<Longrightarrow> I fs \<Longrightarrow> I fs'"
    and inv_clone: "I fs \<Longrightarrow> I fs' \<Longrightarrow> table_le (inode_table fs) (inode_table fs') \<Longrightarrow>
        I (adopt (inode_table fs') fs)"
begin

lemma inv_evolves: "evolves fs fs' \<Longrightarrow> I fs \<Longrightarrow> I fs'"
proof (induction rule: evolves.induct)
  case (more fs fs1 fs2)
  then show ?case using inv_change by blast
next
  case (clone fs fs1 fs2)
  then have "I fs1" "I fs2" by simp_all
  moreover have "table_le (inode_table fs1) (inode_table fs2)"
    using evolves_inv [OF clone.hyps(2) inv_fs [OF \<open>I fs1\<close>]] by simp
  ultimately show ?case by (rule inv_clone)
qed

lemma inv_safe: "safe m \<Longrightarrow> I fs \<Longrightarrow> I (snd (m fs))"
  using inv_evolves safeD inv_fs by blast

lemma inv_exec: "I fs \<Longrightarrow> I (exec C c fs)"
  using inv_evolves exec_evolves inv_fs by blast

end

sublocale handle_invariant \<subseteq> run: machine "exec C" I for C :: crates
  by unfold_locales (rule inv_exec)

interpretation wf: handle_invariant "fs_inv :: 'p FileSystem \<Rightarrow> bool"
  by unfold_locales (auto dest: change_inv intro: fs_inv_adopt fs_inv_table)

section \<open>Confinement\<close>

text \<open>
  \<open>confined G T fs\<close>: every descriptor of the handle carries rights of \<open>G\<close> only, except for descriptors
  of files that did not exist in the table \<open>T\<close> the run started with.
\<close>

definition fd_confined :: "Rights \<Rightarrow> 'p InodeTable \<Rightarrow> 'p InodeTable \<Rightarrow> FdEntry \<Rightarrow> bool" where
  "fd_confined G T t e = (rights_base (fd_stat e) \<union> rights_inheriting (fd_stat e) \<subseteq> G \<or>
     table T (fd_inode e) = None \<and> \<not> table_is_dir t (fd_inode e))"

definition confined :: "Rights \<Rightarrow> 'p InodeTable \<Rightarrow> 'p FileSystem \<Rightarrow> bool" where
  "confined G T fs = (fs_inv fs \<and> table_le T (inode_table fs) \<and>
     (\<forall>fd e. fd_table fs fd = Some e \<longrightarrow> fd_confined G T (inode_table fs) e))"

lemma table_le_not_dir:
  assumes "table_le t t'" and "table t i \<noteq> None" and "\<not> table_is_dir t i"
  shows "\<not> table_is_dir t' i"
proof -
  obtain e where e: "table t i = Some e" using assms(2) by auto
  obtain e' where "table t' i = Some e'" "kind_kept e e'" using table_leD [OF assms(1) e] by blast
  then show ?thesis using e assms(3) by (simp add: table_is_dir_def kind_kept_is_dir)
qed

lemma confined_adopt:
  assumes "confined G T fs" and "inode_inv t" and "table_le (inode_table fs) t"
  shows "confined G T (adopt t fs)"
proof -
  have inv: "fs_inv fs" "table_le T (inode_table fs)" using assms(1) by (simp_all add: confined_def)
  have "fd_confined G T t e" if e: "fd_table fs fd = Some e" for fd e
  proof -
    have "fd_confined G T (inode_table fs) e" using assms(1) e by (simp add: confined_def)
    moreover have "table (inode_table fs) (fd_inode e) \<noteq> None" using inv(1) e unfolding fs_inv_def by blast
    ultimately show ?thesis using table_le_not_dir [OF assms(3)] unfolding fd_confined_def by blast
  qed
  moreover have "fs_inv (adopt t fs)" using inv(1) assms(2,3) by (rule fs_inv_adopt)
  moreover have "table_le T t" using inv(2) assms(3) by (rule table_le_trans)
  ultimately show ?thesis by (simp add: confined_def)
qed

lemma confined_fds:
  assumes "confined G T fs" and "fs_inv fs'" and "inode_table fs' = inode_table fs"
    and "\<And>fd e. fd_table fs' fd = Some e \<Longrightarrow> fd_confined G T (inode_table fs) e"
  shows "confined G T fs'"
  using assms by (simp add: confined_def)

lemma confinedD: "confined G T fs \<Longrightarrow> fd_table fs fd = Some e \<Longrightarrow> fd_confined G T (inode_table fs) e"
  by (simp add: confined_def)

lemma confined_dir:
  assumes "confined G T fs" and "fd_table fs fd = Some e" and "table_is_dir (inode_table fs) (fd_inode e)"
  shows "rights_base (fd_stat e) \<union> rights_inheriting (fd_stat e) \<subseteq> G"
  using confinedD [OF assms(1,2)] assms(3) unfolding fd_confined_def by blast

lemma confined_set_entry:
  "confined G T fs \<Longrightarrow> fs_inv (set_entry i x fs) \<Longrightarrow>
     table_le (inode_table fs) (inode_table (set_entry i x fs)) \<Longrightarrow> confined G T (set_entry i x fs)"
  using confined_adopt [of G T fs] by (simp add: set_entry_def fs_inv_def)

lemma confined_change:
  assumes "change fs fs'" and conf: "confined G T fs"
  shows "confined G T fs'"
proof -
  have inv: "fs_inv fs" and T: "table_le T (inode_table fs)" using conf by (simp_all add: confined_def)
  have inv': "fs_inv fs'" "table_le (inode_table fs) (inode_table fs')"
    using change_inv [OF assms(1) inv] by simp_all
  show ?thesis using assms(1)
  proof (cases rule: change.cases)
    case (open_fd fd e new n)
    then have "fd_confined G T (inode_table fs) n"
      using confined_dir [OF conf open_fd(2,4)] by (auto simp: fd_confined_def)
    then show ?thesis using open_fd(1) confinedD [OF conf] inv'
      by (intro confined_fds [OF conf]) (auto split: if_splits)
  next
    case (anonymous t n new c)
    have conf': "confined G T (adopt t fs)"
      using anonymous conf by (intro confined_adopt) (auto intro: ns_le_table_le)
    have "table T (fd_inode n) = None"
      using table_le_exists [OF T] anonymous(4) by blast
    then have n: "fd_confined G T t n"
      using anonymous(5) by (auto simp: fd_confined_def table_is_dir_def is_file_at_def)
    have "fd_confined G T t e" if "fd_table fs' fd = Some e" for fd e
      using that n confinedD [OF conf'] by (cases "fd = new") (simp_all add: anonymous(1))
    then show ?thesis
      by (intro confined_fds [OF conf' inv'(1)]) (simp_all add: anonymous(1))
  next
    case (retag fd e e')
    then have "fd_confined G T (inode_table fs) e'"
      using confinedD [OF conf retag(2)] by (simp add: fd_confined_def)
    then show ?thesis using retag(1) confinedD [OF conf] inv'
      by (intro confined_fds [OF conf]) (auto split: if_splits)
  next
    case (close fd)
    then show ?thesis using confinedD [OF conf] inv'
      by (intro confined_fds [OF conf]) (auto split: if_splits)
  next
    case (renumber old e new)
    then show ?thesis using confinedD [OF conf] inv'
      by (intro confined_fds [OF conf]) (auto split: if_splits)
  next
    case (bump c)
    then show ?thesis using confinedD [OF conf] inv' by (intro confined_fds [OF conf]) auto
  next
    case (service_state a)
    then show ?thesis using confined_adopt [OF conf fs_inv_table [OF inv'(1)] inv'(2)] by simp
  qed (use inv' fs_inv_table in \<open>auto intro!: confined_adopt [OF conf] confined_set_entry [OF conf]\<close>)
qed

interpretation confinement: handle_invariant "confined G T" for G and T :: "'p InodeTable"
proof unfold_locales
  fix fs fs' :: "'p FileSystem"
  assume "confined G T fs"
  then show "fs_inv fs" by (simp add: confined_def)
  show "confined G T (adopt (inode_table fs') fs)"
    if "confined G T fs'" "table_le (inode_table fs) (inode_table fs')"
    using that by (intro confined_adopt [OF \<open>confined G T fs\<close>]) (simp_all add: confined_def fs_inv_table)
qed (rule confined_change)

section \<open>Integrity\<close>

definition files_kept :: "'p InodeTable \<Rightarrow> 'p InodeTable \<Rightarrow> bool" where
  "files_kept T t = (\<forall>i e b. table T i = Some e \<longrightarrow> node_data e = File b \<longrightarrow>
     (\<exists>e'. table t i = Some e' \<and> node_data e' = File b))"

text \<open>\<open>frozen G T fs\<close>: the handle is confined to \<open>G\<close>, and every file of \<open>T\<close> still has its contents.\<close>

definition frozen :: "Rights \<Rightarrow> 'p InodeTable \<Rightarrow> 'p FileSystem \<Rightarrow> bool" where
  "frozen G T fs = (confined G T fs \<and> files_kept T (inode_table fs))"

definition writing_rights :: Rights where
  "writing_rights = {FD_WRITE, FD_FILESTAT_SET_SIZE, PATH_FILESTAT_SET_SIZE}"

lemma files_kept_ns_le: "files_kept T t \<Longrightarrow> ns_le t t' \<Longrightarrow> files_kept T t'"
  unfolding files_kept_def
proof (intro allI impI)
  fix i e b
  assume "ns_le t t'" and "\<forall>i e b. table T i = Some e \<longrightarrow> node_data e = File b \<longrightarrow>
      (\<exists>e'. table t i = Some e' \<and> node_data e' = File b)"
    and "table T i = Some e" "node_data e = File b"
  then obtain x where "table t i = Some x" "node_data x = File b" by blast
  then show "\<exists>e'. table t' i = Some e' \<and> node_data e' = File b"
    using ns_leD [OF \<open>ns_le t t'\<close>, of i x] by (auto simp: content_kept_def)
qed

lemma files_kept_update:
  assumes "files_kept T t" and "\<And>e b. table T i = Some e \<Longrightarrow> node_data e = File b \<Longrightarrow> node_data x = File b"
  shows "files_kept T (t\<lparr>table := (table t)(i \<mapsto> x)\<rparr>)"
  using assms by (auto simp: files_kept_def)

lemma files_kept_now:
  assumes "files_kept T t" and "table t i = Some x" and "table T i = Some e" and "node_data e = File b"
  shows "node_data x = File b"
  using assms unfolding files_kept_def by (metis option.inject)

lemma frozen_change:
  assumes "change fs fs'" and fr: "frozen G T fs" and G: "G \<inter> writing_rights = {}"
  shows "frozen G T fs'"
proof -
  have conf: "confined G T fs" and kept: "files_kept T (inode_table fs)" using fr by (simp_all add: frozen_def)
  have "files_kept T (inode_table fs')" using assms(1)
  proof (cases rule: change.cases)
    case (content fd e x x')
    have "\<not> rights_base (fd_stat e) \<subseteq> G" using content(3) G by (auto simp: writing_rights_def)
    then have "table T (fd_inode e) = None"
      using confinedD [OF conf content(2)] by (auto simp: fd_confined_def)
    then show ?thesis using kept content(1) by (auto simp: set_entry_def intro: files_kept_update)
  next
    case (truncate fd e i x x')
    have "\<not> rights_base (fd_stat e) \<subseteq> G" using truncate(3) G by (auto simp: writing_rights_def)
    then show ?thesis using confined_dir [OF conf truncate(2,4)] by blast
  next
    case (times fd e i x x')
    then have "node_data x' = node_data x" by (simp add: same_but_times_def)
    then show ?thesis using kept times(1) files_kept_now [OF kept times(4)]
      by (auto simp: set_entry_def intro: files_kept_update)
  next
    case (flush i x x')
    have "node_data x \<noteq> File b" for b using flush(3) by (auto simp: entry_is_service_def)
    then show ?thesis using kept flush(1) files_kept_now [OF kept flush(2)]
      by (auto simp: set_entry_def intro: files_kept_update)
  next
    case (service_state a)
    then show ?thesis using kept by (simp add: files_kept_def)
  qed (use kept in \<open>auto intro: files_kept_ns_le\<close>)
  then show ?thesis using confined_change [OF assms(1) conf] by (simp add: frozen_def)
qed

text \<open>
  \<open>G - writing_rights\<close> ranges over all sets of rights without a writing right.
\<close>

interpretation integrity: handle_invariant "frozen (G - writing_rights) T" for G and T :: "'p InodeTable"
proof unfold_locales
  fix fs fs' :: "'p FileSystem"
  assume fr: "frozen (G - writing_rights) T fs"
  then show "fs_inv fs" by (simp add: frozen_def confined_def)
  show "frozen (G - writing_rights) T fs'" if "change fs fs'"
    using frozen_change [OF that fr] by blast
  show "frozen (G - writing_rights) T (adopt (inode_table fs') fs)"
    if "frozen (G - writing_rights) T fs'" "table_le (inode_table fs) (inode_table fs')"
    using fr that confinement.inv_clone by (auto simp: frozen_def)
qed

end
