(* ===== verification/Handles.thy ===== *)
theory Handles
  imports Confinement
begin

text \<open>
  Creating handles: \<^verbatim>\<open>FileSystem::new\<close>, \<^verbatim>\<open>FileSystem::spawn\<close> and \<^verbatim>\<open>FileSystem::is_executable\<close>. A new
  filesystem satisfies the invariant; a spawned handle satisfies it too and holds exactly the
  rights of the table of its principal.
\<close>

section \<open>Pre-opened descriptors\<close>

text \<open>A descriptor with the rights of an entry of the table \<open>rt\<close>.\<close>

definition granted :: "(path \<times> Rights) list \<Rightarrow> FdEntry \<Rightarrow> bool" where
  "granted rt e = (\<exists>(p, r) \<in> set rt. rights_base (fd_stat e) = r \<and> rights_inheriting (fd_stat e) = r)"

definition opened :: "(path \<times> Rights) list \<Rightarrow> 'p InodeTable \<Rightarrow> 'p FileSystem \<Rightarrow> bool" where
  "opened rt t fs = (fs_inv fs \<and> ns_le t (inode_table fs) \<and>
     (\<forall>fd e. fd_table fs fd = Some e \<longrightarrow> granted rt e))"

lemma opened_install_fd:
  assumes "opened rt t fs" and "table (inode_table fs) i \<noteq> None" and "(p, r) \<in> set rt"
  shows "wp (install_fd fd ft i r r) (\<lambda>_. opened rt t) (opened rt t) fs"
  using assms by (auto simp: install_fd_def wp_simps opened_def fs_inv_def granted_def mk_fd_stat_def)

lemma opened_adopt:
  assumes "opened rt t fs" and "inode_inv u" and "ns_le (inode_table fs) u"
  shows "opened rt t (adopt u fs)"
  using assms fs_inv_adopt [OF _ _ ns_le_table_le] ns_le_trans by (auto simp: opened_def)

lemma std_stream_rights:
  assumes "codec_ok W" and "(k, w) \<in> set (std_streams_table W rt)"
  shows "\<exists>r. (k, r) \<in> set rt \<and> rights_from_bits W (ucast w) = Some r"
proof -
  obtain r where r: "(k, r) \<in> set rt" "u32_try_from_u64 Inval (rights_bits W r) = Ok w"
    using assms(2) by (auto simp: std_streams_table_def map_filter_def split: if_splits result.splits)
  have "(ucast w :: u64) = rights_bits W r"
  proof -
    have "unat (rights_bits W r) < 2 ^ 32" using assms(1) by (simp add: codec_ok_def)
    moreover have "w = of_nat (unat (rights_bits W r))"
      using r(2) by (simp add: u32_try_from_u64_def split: if_splits)
    ultimately have "unat (ucast w :: u64) = unat (rights_bits W r)"
      by (simp add: unsigned_ucast_eq unsigned_take_bit_eq unat_of_nat take_bit_nat_eq_self)
    then show ?thesis by (rule unsigned_word_eqI)
  qed
  then show ?thesis using r(1) assms(1) by (auto simp: codec_ok_def)
qed

lemma install_standard_streams_wp:
  assumes "codec_ok W" and "opened rt t fs"
  shows "wp (install_standard_streams_fd W (std_streams_table W rt)) (\<lambda>_. opened rt t) (opened rt t) fs"
  unfolding install_standard_streams_fd_def
proof (rule wp_mfold)
  fix u x fs
  assume x: "x \<in> set (std_streams_table W rt)" and op: "opened rt t fs"
  obtain r where r: "(fst x, r) \<in> set rt" "rights_from_bits W (ucast (snd x)) = Some r"
    using std_stream_rights [OF assms(1), of "fst x" "snd x"] x by auto
  have "table (inode_table fs) (stdin_inode (inode_table fs)) \<noteq> None"
    "table (inode_table fs) (stdout_inode (inode_table fs)) \<noteq> None"
    "table (inode_table fs) (stderr_inode (inode_table fs)) \<noteq> None"
    using op by (auto simp: opened_def fs_inv_def inode_inv_def is_file_at_def)
  then show "wp (install_standard_stream_fd W u x) (\<lambda>_. opened rt t) (opened rt t) fs"
    using op r opened_install_fd [OF op _ r(1)]
    by (simp add: install_standard_stream_fd_def wp_simps Let_def ok_or_def)
qed (rule assms(2))

lemma install_prestat_dir_wp:
  assumes "opened rt t fs" and "(p, r) \<in> set rt"
  shows "wp (install_prestat_dir u (n, p, r)) (\<lambda>_. opened rt t) (opened rt t) fs"
proof -
  let ?cs = "components (strip_root_slash p)"
  have inv: "fs_inv fs" using assms(1) by (simp add: opened_def)
  have root: "table (inode_table fs) ROOT_DIRECTORY_INODE \<noteq> None"
    using fs_inv_table [OF inv] by (auto simp: inode_inv_def table_is_dir_def split: option.splits)
  have fd: "wp (mbind (install_fd k Unknown i r r) (\<lambda>_.
       mmodify (\<lambda>fs. fs\<lparr>prestat_table := hm_put id (prestat_table fs) k p\<rparr>))) (\<lambda>_. opened rt t) (opened rt t) fs1"
    if "opened rt t fs1" "table (inode_table fs1) i \<noteq> None" for i k fs1
    unfolding wp_mbind
    by (rule wp_mono [OF opened_install_fd [OF that assms(2)]]) (auto simp: wp_simps opened_def fs_inv_def)
  have dirs: "wp (with_inodes (add_all_dir ROOT_DIRECTORY_INODE ?cs))
      (\<lambda>i fs1. opened rt t fs1 \<and> table (inode_table fs1) i \<noteq> None) (opened rt t) fs"
    unfolding wp_with_inodes
    by (rule wp_mono [OF add_all_dir_wp [OF fs_inv_table [OF inv]]])
      (use root in \<open>auto simp: ns_step_def intro: opened_adopt [OF assms(1)]\<close>)
  have "wp (with_inodes (add_all_dir ROOT_DIRECTORY_INODE ?cs))
      (\<lambda>i. wp (mbind (install_fd k Unknown i r r) (\<lambda>_.
         mmodify (\<lambda>fs. fs\<lparr>prestat_table := hm_put id (prestat_table fs) k p\<rparr>))) (\<lambda>_. opened rt t) (opened rt t))
      (opened rt t) fs" for k
    by (rule wp_mono [OF dirs]) (auto intro!: fd)
  then show ?thesis using assms(1) fd [OF assms(1) root]
    by (simp add: install_prestat_dir_def wp_mbind [of "mlift _"] wp_mbind [of "mreturn _"]
        wp_mbind [of "with_inodes _"] wp_mlift wp_mreturn Let_def split: result.split)
qed

lemma install_prestat_wp:
  assumes "codec_ok W" and "opened rt t fs"
  shows "wp (install_prestat W rt) (\<lambda>_. opened rt t) (opened rt t) fs"
proof -
  have dirs: "wp (mfold install_prestat_dir () (List.enumerate 0 (filter not_std_stream rt)))
      (\<lambda>_. opened rt t) (opened rt t) fs1" if "opened rt t fs1" for fs1 :: "'a FileSystem"
  proof (rule wp_mfold)
    fix u x and fs2 :: "'a FileSystem"
    assume "x \<in> set (List.enumerate 0 (filter not_std_stream rt))" and "opened rt t fs2"
    moreover from this(1) have "snd x \<in> set (map snd (List.enumerate 0 (filter not_std_stream rt)))"
      unfolding set_map by (rule imageI)
    then have "snd x \<in> set rt" by simp
    ultimately show "wp (install_prestat_dir u x) (\<lambda>_. opened rt t) (opened rt t) fs2"
      using install_prestat_dir_wp [of rt t fs2 "fst (snd x)" "snd (snd x)" u "fst x"] by simp
  qed (rule that)
  have last: "opened rt t (fs1\<lparr>next_fd_candidate := c\<rparr>) = opened rt t fs1" for c and fs1 :: "'a FileSystem"
    by (simp add: opened_def fs_inv_def)
  have "wp (mfold install_prestat_dir () (List.enumerate 0 (filter not_std_stream rt)))
      (\<lambda>_. wp (mbind (mlift (u32_try_from_usize Inval (length rt))) (\<lambda>n.
         mmodify (\<lambda>fs. fs\<lparr>next_fd_candidate := FIRST_FD + n\<rparr>))) (\<lambda>_. opened rt t) (opened rt t)) (opened rt t) fs1"
    if "opened rt t fs1" for fs1 :: "'a FileSystem"
    by (rule wp_mono [OF dirs [OF that]]) (auto simp: wp_simps last split: result.split)
  then show ?thesis unfolding install_prestat_def
    by (subst wp_mbind, intro wp_mono [OF install_standard_streams_wp [OF assms]]) (auto simp: wp_mbind)
qed

section \<open>Spawning a handle\<close>

lemma opened_empty: "inode_inv t \<Longrightarrow> opened rt t (empty_handle t)"
  by (simp add: opened_def empty_handle_def fs_inv_def)

lemma install_prestat_opened:
  assumes "codec_ok W" and "inode_inv t"
  shows "opened rt t (snd (install_prestat W rt (empty_handle t)))"
  using install_prestat_wp [OF assms(1) opened_empty [OF assms(2)]] by (simp add: wp_invariant)

lemma spawn_wp:
  assumes "codec_ok W" and "fs_inv fs"
  shows "wp (spawn W pr)
    (\<lambda>h fs'. fs' = adopt (inode_table h) fs \<and> fs_inv fs' \<and> ns_le (inode_table fs) (inode_table fs') \<and>
       (\<exists>rt. get_rights pr (inode_table fs) = Ok rt \<and> opened rt (inode_table fs) h))
    (\<lambda>fs'. \<exists>t. fs' = adopt t fs \<and> inode_inv t \<and> ns_le (inode_table fs) t) fs"
proof (cases "get_rights pr (inode_table fs)")
  case (Ok rt)
  let ?r = "install_prestat W rt (empty_handle (inode_table fs))"
  have op: "opened rt (inode_table fs) (snd ?r)"
    using assms fs_inv_table by (intro install_prestat_opened) auto
  then have t: "inode_inv (inode_table (snd ?r))" "ns_le (inode_table fs) (inode_table (snd ?r))"
    by (auto simp: opened_def fs_inv_table)
  then have "fs_inv (adopt (inode_table (snd ?r)) fs)"
    using assms(2) by (intro fs_inv_adopt ns_le_table_le)
  then show ?thesis using Ok op t
    by (cases ?r; cases "fst ?r") (auto simp: wp_def spawn_def)
qed (use assms(2) in \<open>auto simp: wp_def spawn_def intro!: exI [of _ "inode_table fs"] fs_inv_table\<close>)

lemma safe_spawn: "codec_ok W \<Longrightarrow> safe (spawn W pr)"
proof (rule safeI)
  fix fs :: "'a FileSystem"
  assume "codec_ok W" and "fs_inv fs"
  from spawn_wp [OF this, of pr] show "wp (spawn W pr) (\<lambda>_. evolves fs) (evolves fs) fs"
    by (rule wp_mono) (auto intro: change_evolves change.grow fs_inv_table simp: fs_inv_def)
qed

text \<open>Opening without \<^verbatim>\<open>CREATE\<close> and \<^verbatim>\<open>TRUNC\<close> does not touch the table.\<close>

lemma open_only_table: "inode_table (snd (path_open fd lf p {} base inh fl fs)) = inode_table fs"
proof -
  have "wp (path_open fd lf p {} base inh fl) (\<lambda>_ fs'. inode_table fs' = inode_table fs)
      (\<lambda>fs'. inode_table fs' = inode_table fs) fs"
    by (auto simp: path_open_def open_inode_def open_at_def wp_simps Let_def get_inode_by_fd_path_pure
        split: option.split result.split)
  then show ?thesis by (simp add: wp_invariant)
qed

section \<open>A new filesystem\<close>

definition initial_table :: "'p rights_table \<Rightarrow> 'p InodeTable" where
  "initial_table rt = snd (inode_table_new rt)"

lemma add_std_file:
  assumes "components p = [Normal p]"
  shows "add_file i p i [] t =
     (Ok (), t\<lparr>table := (table t)(i \<mapsto> \<lparr>file_stat = mk_file_stat i RegularFile 0, node_data = File []\<rparr>)\<rparr>)"
  using assms
  by (simp add: add_file_def add_file_parent_def parent_components_def table_insert_def mbind_def monad_defs)

lemma components_std:
  "components ''stdin'' = [Normal ''stdin'']" "components ''stdout'' = [Normal ''stdout'']"
  "components ''stderr'' = [Normal ''stderr'']"
  by simp_all

lemma new_inode_Ok:
  "table t (next_inode_candidate t) = None \<Longrightarrow> unat (next_inode_candidate t) + 1 < 2 ^ 64 \<Longrightarrow>
     new_inode t = (Ok (next_inode_candidate t), t\<lparr>next_inode_candidate := next_inode_candidate t + 1\<rparr>)"
  by (simp add: new_inode_def Let_def checked_add_u64_def mbind_def monad_defs)

lemma inode_table_new_eq:
  "inode_table_new rt = (Ok (),
     \<lparr>table = [2 \<mapsto> \<lparr>file_stat = mk_file_stat 2 DirectoryType 0, node_data = new_directory 2 2\<rparr>,
               3 \<mapsto> \<lparr>file_stat = mk_file_stat 3 RegularFile 0, node_data = File []\<rparr>,
               4 \<mapsto> \<lparr>file_stat = mk_file_stat 4 RegularFile 0, node_data = File []\<rparr>,
               5 \<mapsto> \<lparr>file_stat = mk_file_stat 5 RegularFile 0, node_data = File []\<rparr>],
      rights_table = rt, stdin_inode = 3, stdout_inode = 4, stderr_inode = 5,
      next_inode_candidate = 6, aes_service = aes_new\<rparr>)"
  by (simp add: inode_table_new_def inode_table_empty_def add_dir_def install_standard_streams_inode_def
      table_insert_def new_inode_Ok add_std_file components_std mbind_def monad_defs)

lemma initial_table_inv: "inode_inv (initial_table rt)"
  by (auto simp: initial_table_def inode_table_new_eq inode_inv_def table_is_dir_def is_file_at_def
      entry_is_dir_def new_directory_def entry_ok_def mk_file_stat_def hm_get_Cons hm_wf_def)

lemma codec_u32:
  assumes "codec_ok W"
  shows "u32_try_from_u64 Inval (rights_bits W r) = Ok (ucast (rights_bits W r))"
    and "rights_from_bits W (ucast (ucast (rights_bits W r) :: u32)) = Some r"
proof -
  have *: "unat (rights_bits W r) < 2 ^ 32" using assms by (simp add: codec_ok_def)
  then show "u32_try_from_u64 Inval (rights_bits W r) = Ok (ucast (rights_bits W r))"
    by (simp add: u32_try_from_u64_def)
  have "unat (ucast (ucast (rights_bits W r) :: u32) :: u64) = unat (rights_bits W r)"
    using * by (simp add: unsigned_ucast_eq unsigned_take_bit_eq take_bit_nat_eq_self)
  then have "(ucast (ucast (rights_bits W r) :: u32) :: u64) = rights_bits W r"
    by (rule unsigned_word_eqI)
  then show "rights_from_bits W (ucast (ucast (rights_bits W r) :: u32)) = Some r"
    using assms by (simp add: codec_ok_def)
qed

text \<open>The state \<^verbatim>\<open>FileSystem::new\<close> builds: the root, the standard streams and the two services.\<close>

definition full_fd :: "FileType \<Rightarrow> Inode \<Rightarrow> FdEntry" where
  "full_fd ft i = \<lparr>fd_inode = i, fd_stat = mk_fd_stat ft 0 all_rights all_rights, fd_offset = 0, fd_advice = []\<rparr>"

definition superuser_table :: "'p rights_table \<Rightarrow> 'p InodeTable" where
  "superuser_table rt =
     \<lparr>table =
        [3 \<mapsto> \<lparr>file_stat = mk_file_stat 3 RegularFile 0, node_data = File []\<rparr>,
         4 \<mapsto> \<lparr>file_stat = mk_file_stat 4 RegularFile 0, node_data = File []\<rparr>,
         5 \<mapsto> \<lparr>file_stat = mk_file_stat 5 RegularFile 0, node_data = File []\<rparr>,
         2 \<mapsto> \<lparr>file_stat = mk_file_stat 2 DirectoryType 0,
               node_data = Directory [(''.'', 2), (''..'', 2), (''services'', 7)]\<rparr>,
         6 \<mapsto> \<lparr>file_stat = mk_file_stat 6 RegularFile 0, node_data = NativeModule PostcardService []\<rparr>,
         7 \<mapsto> \<lparr>file_stat = mk_file_stat 7 DirectoryType 0,
               node_data = Directory [(''.'', 7), (''..'', 2), (''postcard_string.dat'', 6), (''aesctr.dat'', 8)]\<rparr>,
         8 \<mapsto> \<lparr>file_stat = mk_file_stat 8 RegularFile 0, node_data = NativeModule AesService []\<rparr>],
      rights_table = rt, stdin_inode = 3, stdout_inode = 4, stderr_inode = 5,
      next_inode_candidate = 9, aes_service = aes_new\<rparr>"

definition superuser_fs :: "'p rights_table \<Rightarrow> 'p FileSystem" where
  "superuser_fs rt =
     \<lparr>fd_table = [0 \<mapsto> full_fd RegularFile 3, 1 \<mapsto> full_fd RegularFile 4, 2 \<mapsto> full_fd RegularFile 5,
                  3 \<mapsto> full_fd Unknown 2],
      next_fd_candidate = 7, inode_table = superuser_table rt, prestat_table = [(3, ''/'')]\<rparr>"

lemma install_superuser:
  assumes "codec_ok W"
  shows "install_prestat W superuser_rights (empty_handle (initial_table rt)) =
     (Ok (), adopt (initial_table rt) (superuser_fs rt))"
  by (simp add: initial_table_def inode_table_new_eq install_prestat_def install_standard_streams_fd_def
      superuser_rights_def std_streams_table_def List.map_filter_def codec_u32 [OF assms]
      install_standard_stream_fd_def mbind_def monad_defs Let_def install_fd_def components_std
      not_std_stream_def path_eq_def install_prestat_dir_def u32_try_from_usize_def
      strip_root_slash_def ok_or_def empty_handle_def path_of_def join_path_def superuser_fs_def
      full_fd_def adopt_def)

lemma components_services:
  "components ''/services/postcard_string.dat'' = [RootDir, Normal ''services'', Normal ''postcard_string.dat'']"
  "components ''/services/aesctr.dat'' = [RootDir, Normal ''services'', Normal ''aesctr.dat'']"
  "components ''services'' = [Normal ''services'']"
  "components ''postcard_string.dat'' = [Normal ''postcard_string.dat'']"
  "components ''aesctr.dat'' = [Normal ''aesctr.dat'']"
  "components (path_of [Normal ''services'', Normal ''postcard_string.dat'']) =
     [Normal ''services'', Normal ''postcard_string.dat'']"
  "components (path_of [Normal ''services'', Normal ''aesctr.dat'']) = [Normal ''services'', Normal ''aesctr.dat'']"
  "components (path_of [Normal ''services'']) = [Normal ''services'']"
  by (simp_all add: components_def has_root_def parse_component_def path_of_def join_path_def component_str_def)

lemma install_services_new:
  "install_services_inode service_paths (initial_table rt) = (Ok (), superuser_table rt)"
  by (simp add: initial_table_def inode_table_new_eq service_paths_def install_services_inode_def
      install_service_step_def new_inode_Ok strip_root_slash_def components_services add_file_def
      add_file_parent_def parent_components_def file_name_def add_all_dir_def add_all_dir_step_def
      get_inode_by_inode_path_def entry_get_inode_by_path_def new_directory_def hm_get_Cons
      component_str_def ok_or_def add_dir_def update_entry_def table_get_def table_insert_def
      no_value_def entry_insert_def mbind_def monad_defs Let_def superuser_table_def)

lemma fs_new_eq:
  assumes "codec_ok W"
  shows "fs_new W rt = Ok (superuser_fs rt)"
  using install_superuser [OF assms, of rt] install_services_new [of rt]
  by (simp add: fs_new_def initial_table_def inode_table_new_eq install_services_def with_inodes_def
      mzoom_def superuser_fs_def adopt_def)

lemma superuser_inv: "fs_inv (superuser_fs rt)"
  by (auto simp: superuser_fs_def superuser_table_def full_fd_def fs_inv_def inode_inv_def table_is_dir_def
      is_file_at_def entry_is_dir_def entry_ok_def mk_file_stat_def hm_get_Cons hm_wf_def components_services)

end
