(* ===== verification/Engines.thy ===== *)
theory Engines
  imports Wasmi Wasmtime Handles
begin

text \<open>
  The entry of the execution engine (\<^verbatim>\<open>execution-engine/src/lib.rs\<close>).
\<close>

section \<open>Execution of a program\<close>

definition host_new :: "'p FileSystem \<Rightarrow> bool \<Rightarrow> 'p host" where
  "host_new fs clock =
     \<lparr>guest_memory = None, guest_strace = \<lparr>strace_enabled = False, strace_state = TraceFunc\<rparr>, guest_log = [],
      host_wasi = wrapper_new fs clock\<rparr>"

text \<open>
  The filesystem handle moves into the engine and is dropped at the end; its last state is the state of
  this operation.
\<close>

definition execute ::
  "engine_crates \<Rightarrow> (nat \<Rightarrow> platform) \<Rightarrow> 'm wasm_machine \<Rightarrow> ExecutionStrategy \<Rightarrow> Options \<Rightarrow> byte list \<Rightarrow>
   ('p FileSystem, FatalEngineError, u32) sm" where
  "execute X Ps M strategy options program =
     mzoom (\<lambda>fs. host_new fs (enable_clock_option options)) (\<lambda>h _. wasi_filesystem (host_wasi h))
       (case strategy of
          Interpretation \<Rightarrow> wasmi_invoke_entry_point X Ps M program options
        | JIT \<Rightarrow> wasmtime_invoke_entry_point X Ps M program options)"

end
