(* ===== verification/PsaToken.thy ===== *)
theory PsaToken
  imports Prelude
begin

text \<open>
  The attestation tokens of the PSA library (\<^verbatim>\<open>psa-attestation/c_src/\<close>, in C): the key of the device
  (\<^verbatim>\<open>psa_attestation.c\<close>), the claims of a token (\<^verbatim>\<open>attestation_core.c\<close>) and their encoding and signature (\<^verbatim>\<open>attest_token.c\<close>).

  The encoder of CBOR, the signatures of COSE and the cryptographic library are the fields of \<open>psa_crates\<close>. A return value
  of type \<^verbatim>\<open>psa_status_t\<close> is a 32-bit number. Branches under \<^verbatim>\<open>#if 0\<close>, \<^verbatim>\<open>if (0 && ..)\<close> and the flags of test builds are left out.
\<close>

section \<open>Packages and errors\<close>

datatype t_cose_err_t = T_COSE_SUCCESS | T_COSE_ERR_UNSUPPORTED_HASH | T_COSE_ERR_TOO_SMALL | T_COSE_ERR_OTHER

datatype QCBORError = QCBOR_SUCCESS | QCBOR_ERR_BUFFER_TOO_SMALL | QCBOR_ERR_OTHER

text \<open>
  \<open>qcbor_map\<close> encodes a map of labels to byte strings, \<open>cose_sign1\<close> signs a payload with a key and gives the
  encoded token, \<open>qcbor_finish\<close> is the result of putting a token into a buffer of a given size.
\<close>

record psa_crates =
  psa_crypto_init :: u32
  psa_import_key :: "byte list \<Rightarrow> u32 \<times> u32"
  psa_destroy_key :: "u32 \<Rightarrow> u32"
  cose_encode_parameters :: "u32 \<Rightarrow> t_cose_err_t"
  qcbor_map :: "(int \<times> byte list) list \<Rightarrow> byte list"
  cose_sign1 :: "u32 \<Rightarrow> byte list \<Rightarrow> t_cose_err_t \<times> byte list"
  qcbor_finish :: "byte list \<Rightarrow> nat \<Rightarrow> QCBORError"

datatype attest_token_err_t =
    ATTEST_TOKEN_ERR_SUCCESS
  | ATTEST_TOKEN_ERR_TOO_SMALL
  | ATTEST_TOKEN_ERR_CBOR_FORMATTING
  | ATTEST_TOKEN_ERR_GENERAL
  | ATTEST_TOKEN_ERR_HASH_UNAVAILABLE

datatype psa_attest_err_t =
    PSA_ATTEST_ERR_SUCCESS
  | PSA_ATTEST_ERR_INIT_FAILED
  | PSA_ATTEST_ERR_BUFFER_OVERFLOW
  | PSA_ATTEST_ERR_CLAIM_UNAVAILABLE
  | PSA_ATTEST_ERR_INVALID_INPUT
  | PSA_ATTEST_ERR_GENERAL

definition t_cose_err_to_attest_err :: "t_cose_err_t \<Rightarrow> attest_token_err_t" where
  "t_cose_err_to_attest_err err =
     (case err of
        T_COSE_SUCCESS \<Rightarrow> ATTEST_TOKEN_ERR_SUCCESS
      | T_COSE_ERR_UNSUPPORTED_HASH \<Rightarrow> ATTEST_TOKEN_ERR_HASH_UNAVAILABLE
      | T_COSE_ERR_TOO_SMALL \<Rightarrow> ATTEST_TOKEN_ERR_TOO_SMALL
      | _ \<Rightarrow> ATTEST_TOKEN_ERR_GENERAL)"

definition error_mapping_to_psa_attest_err_t :: "attest_token_err_t \<Rightarrow> psa_attest_err_t" where
  "error_mapping_to_psa_attest_err_t token_err =
     (case token_err of
        ATTEST_TOKEN_ERR_SUCCESS \<Rightarrow> PSA_ATTEST_ERR_SUCCESS
      | ATTEST_TOKEN_ERR_TOO_SMALL \<Rightarrow> PSA_ATTEST_ERR_BUFFER_OVERFLOW
      | _ \<Rightarrow> PSA_ATTEST_ERR_GENERAL)"

definition error_mapping_to_psa_status_t :: "psa_attest_err_t \<Rightarrow> u32" where
  "error_mapping_to_psa_status_t attest_err =
     (case attest_err of
        PSA_ATTEST_ERR_SUCCESS \<Rightarrow> 0
      | PSA_ATTEST_ERR_BUFFER_OVERFLOW \<Rightarrow> - 138
      | PSA_ATTEST_ERR_INVALID_INPUT \<Rightarrow> - 135
      | _ \<Rightarrow> - 132)"

section \<open>Keys\<close>

text \<open>The state is the static variable \<^verbatim>\<open>key_handle\<close>; the result is the status and the handle of the new key.\<close>

definition psa_initial_attest_load_key :: "psa_crates \<Rightarrow> byte list \<Rightarrow> u32 \<Rightarrow> (u32 \<times> u32) \<times> u32" where
  "psa_initial_attest_load_key Q private_key static =
     (if psa_crypto_init Q \<noteq> 0 then ((psa_crypto_init Q, 0), static)
      else let (status, handle) = psa_import_key Q private_key in
        if status \<noteq> 0 then ((status, handle), static) else ((0, handle), handle))"

definition psa_initial_attest_remove_key :: "psa_crates \<Rightarrow> u32 \<Rightarrow> u32" where
  "psa_initial_attest_remove_key Q handle =
     (if psa_crypto_init Q \<noteq> 0 then psa_crypto_init Q else psa_destroy_key Q handle)"

section \<open>Tokens\<close>

definition EAT_CBOR_ARM_LABEL_CLIENT_ID :: int where
  "EAT_CBOR_ARM_LABEL_CLIENT_ID = - 75000 - 1"

definition EAT_CBOR_ARM_LABEL_SW_COMPONENTS :: int where
  "EAT_CBOR_ARM_LABEL_SW_COMPONENTS = - 75000 - 6"

definition EAT_CBOR_ARM_LABEL_CHALLENGE :: int where
  "EAT_CBOR_ARM_LABEL_CHALLENGE = - 75000 - 8"

definition EAT_CBOR_ARM_LABEL_ORIGINATION :: int where
  "EAT_CBOR_ARM_LABEL_ORIGINATION = - 75000 - 10"

text \<open>A token under construction: the key that will sign it and the claims in the open map.\<close>

record attest_token_ctx =
  signing_key :: u32
  token_claims :: "(int \<times> byte list) list"

definition attest_token_start :: "psa_crates \<Rightarrow> u32 \<Rightarrow> attest_token_err_t \<times> attest_token_ctx" where
  "attest_token_start Q private_key_handle =
     (t_cose_err_to_attest_err (cose_encode_parameters Q private_key_handle),
      \<lparr>signing_key = private_key_handle, token_claims = []\<rparr>)"

definition attest_token_add_bstr :: "int \<Rightarrow> byte list \<Rightarrow> attest_token_ctx \<Rightarrow> attest_token_ctx" where
  "attest_token_add_bstr label bstr me = me\<lparr>token_claims := token_claims me @ [(label, bstr)]\<rparr>"

definition attest_add_challenge_claim :: "byte list \<Rightarrow> attest_token_ctx \<Rightarrow> attest_token_ctx" where
  "attest_add_challenge_claim challenge me = attest_token_add_bstr EAT_CBOR_ARM_LABEL_CHALLENGE challenge me"

definition attest_token_finish ::
  "psa_crates \<Rightarrow> nat \<Rightarrow> attest_token_ctx \<Rightarrow> attest_token_err_t \<times> byte list" where
  "attest_token_finish Q token_buf_size me =
     (let (cose_return_value, token) = cose_sign1 Q (signing_key me) (qcbor_map Q (token_claims me)) in
      if cose_return_value \<noteq> T_COSE_SUCCESS then (t_cose_err_to_attest_err cose_return_value, [])
      else case qcbor_finish Q token token_buf_size of
             QCBOR_ERR_BUFFER_TOO_SMALL \<Rightarrow> (ATTEST_TOKEN_ERR_TOO_SMALL, [])
           | QCBOR_SUCCESS \<Rightarrow> (ATTEST_TOKEN_ERR_SUCCESS, token)
           | _ \<Rightarrow> (ATTEST_TOKEN_ERR_CBOR_FORMATTING, []))"

definition attest_verify_challenge_size :: "nat \<Rightarrow> psa_attest_err_t" where
  "attest_verify_challenge_size challenge_size =
     (if challenge_size \<in> {32, 48, 64} then PSA_ATTEST_ERR_SUCCESS else PSA_ATTEST_ERR_INVALID_INPUT)"

definition attest_create_token ::
  "psa_crates \<Rightarrow> u32 \<Rightarrow> byte list \<Rightarrow> byte list \<Rightarrow> byte list \<Rightarrow> byte list \<Rightarrow> nat \<Rightarrow> psa_attest_err_t \<times> byte list" where
  "attest_create_token Q key_handle fw_hash cert_hash enclave_name challenge token_buf_size =
     (let (token_err, me) = attest_token_start Q key_handle in
      if token_err \<noteq> ATTEST_TOKEN_ERR_SUCCESS then (error_mapping_to_psa_attest_err_t token_err, [])
      else let me = attest_add_challenge_claim challenge me;
               me = attest_token_add_bstr EAT_CBOR_ARM_LABEL_SW_COMPONENTS fw_hash me;
               me = attest_token_add_bstr EAT_CBOR_ARM_LABEL_ORIGINATION cert_hash me;
               me = attest_token_add_bstr EAT_CBOR_ARM_LABEL_CLIENT_ID enclave_name me;
               (token_err, token) = attest_token_finish Q token_buf_size me in
        (error_mapping_to_psa_attest_err_t token_err, token))"

definition initial_attest_get_token ::
  "psa_crates \<Rightarrow> u32 \<Rightarrow> byte list \<Rightarrow> byte list \<Rightarrow> byte list \<Rightarrow> byte list \<Rightarrow> nat \<Rightarrow> u32 \<times> byte list" where
  "initial_attest_get_token Q key_handle fw_hash cert_hash enclave_name challenge token_buf_size =
     (if attest_verify_challenge_size (length challenge) \<noteq> PSA_ATTEST_ERR_SUCCESS
      then (error_mapping_to_psa_status_t (attest_verify_challenge_size (length challenge)), [])
      else if token_buf_size = 0 then (error_mapping_to_psa_status_t PSA_ATTEST_ERR_INVALID_INPUT, [])
      else let (attest_err, token) =
                 attest_create_token Q key_handle fw_hash cert_hash enclave_name challenge token_buf_size in
        (error_mapping_to_psa_status_t attest_err, token))"

definition psa_initial_attest_get_token ::
  "psa_crates \<Rightarrow> u32 \<Rightarrow> byte list \<Rightarrow> byte list \<Rightarrow> byte list \<Rightarrow> byte list \<Rightarrow> nat \<Rightarrow> u32 \<times> byte list" where
  "psa_initial_attest_get_token = initial_attest_get_token"

section \<open>The layout of the claims\<close>

text \<open>
  The encoding of CBOR (RFC 8949) for the values used here: a head with a major type and an argument, negative integers, byte strings, and
  maps of definite length.
\<close>

definition cbor_head :: "nat \<Rightarrow> nat \<Rightarrow> byte list" where
  "cbor_head major n =
     (if n < 24 then [of_nat (32 * major + n)]
      else if n < 2 ^ 8 then of_nat (32 * major + 24) # rev (le_bytes 1 n)
      else if n < 2 ^ 16 then of_nat (32 * major + 25) # rev (le_bytes 2 n)
      else if n < 2 ^ 32 then of_nat (32 * major + 26) # rev (le_bytes 4 n)
      else of_nat (32 * major + 27) # rev (le_bytes 8 n))"

definition cbor_claim :: "int \<times> byte list \<Rightarrow> byte list" where
  "cbor_claim = (\<lambda>(label, b).
     (if label < 0 then cbor_head 1 (nat (- 1 - label)) else cbor_head 0 (nat label)) @ cbor_head 2 (length b) @ b)"

definition cbor_map :: "(int \<times> byte list) list \<Rightarrow> byte list" where
  "cbor_map claims = cbor_head 5 (length claims) @ concat (map cbor_claim claims)"

lemma length_cbor_head:
  "length (cbor_head major n) =
     (if n < 24 then 1 else if n < 2 ^ 8 then 2 else if n < 2 ^ 16 then 3 else if n < 2 ^ 32 then 5 else 9)"
  by (simp add: cbor_head_def)

text \<open>The four claims of a token, in the order of the source.\<close>

lemma create_token_claims:
  assumes "attest_create_token Q key fw cert name ch n = (PSA_ATTEST_ERR_SUCCESS, token)"
  shows "cose_sign1 Q key (qcbor_map Q
    [(EAT_CBOR_ARM_LABEL_CHALLENGE, ch), (EAT_CBOR_ARM_LABEL_SW_COMPONENTS, fw), (EAT_CBOR_ARM_LABEL_ORIGINATION, cert),
     (EAT_CBOR_ARM_LABEL_CLIENT_ID, name)]) = (T_COSE_SUCCESS, token)"
  using assms
  by (auto simp: attest_create_token_def attest_token_start_def attest_token_finish_def attest_add_challenge_claim_def
      attest_token_add_bstr_def error_mapping_to_psa_attest_err_t_def t_cose_err_to_attest_err_def Let_def
      split: if_splits prod.splits t_cose_err_t.splits QCBORError.splits attest_token_err_t.splits)

lemma get_token_claims:
  assumes "psa_initial_attest_get_token Q key fw cert name ch n = (0, token)"
  shows "length ch \<in> {32, 48, 64} \<and> cose_sign1 Q key (qcbor_map Q
    [(EAT_CBOR_ARM_LABEL_CHALLENGE, ch), (EAT_CBOR_ARM_LABEL_SW_COMPONENTS, fw), (EAT_CBOR_ARM_LABEL_ORIGINATION, cert),
     (EAT_CBOR_ARM_LABEL_CLIENT_ID, name)]) = (T_COSE_SUCCESS, token)"
proof -
  have zero: "error_mapping_to_psa_status_t e = 0 \<longleftrightarrow> e = PSA_ATTEST_ERR_SUCCESS" for e
    by (cases e) (simp_all add: error_mapping_to_psa_status_t_def)
  obtain e where "attest_create_token Q key fw cert name ch n = (e, token)" "e = PSA_ATTEST_ERR_SUCCESS"
    and "length ch \<in> {32, 48, 64}"
    using assms
    by (auto simp: psa_initial_attest_get_token_def initial_attest_get_token_def zero attest_verify_challenge_size_def
        split: if_splits prod.splits)
  then show ?thesis using create_token_claims [of Q key fw cert name ch n token] by simp
qed

text \<open>With values of 32 bytes, the challenge is at offset 8, the hash of the firmware at 47 and the hash of the certificate at 86.\<close>

lemma cbor_claim_32:
  assumes "label < - (2 ^ 16)" and "- (2 ^ 32) \<le> label" and "length b = 32"
  shows "\<exists>head. length head = 7 \<and> cbor_claim (label, b) = head @ b"
  using assms by (intro exI [of _ "cbor_head 1 (nat (- 1 - label)) @ cbor_head 2 32"])
    (auto simp: cbor_claim_def length_cbor_head nat_less_iff)

lemma claims_layout:
  assumes "length ch = 32" and "length fw = 32" and "length cert = 32"
  shows "let payload = cbor_map
      [(EAT_CBOR_ARM_LABEL_CHALLENGE, ch), (EAT_CBOR_ARM_LABEL_SW_COMPONENTS, fw), (EAT_CBOR_ARM_LABEL_ORIGINATION, cert),
       (EAT_CBOR_ARM_LABEL_CLIENT_ID, name)] in
    118 \<le> length payload \<and> take 32 (drop 8 payload) = ch \<and> take 32 (drop 47 payload) = fw \<and> take 32 (drop 86 payload) = cert"
proof -
  obtain h1 where "length h1 = 7" "cbor_claim (EAT_CBOR_ARM_LABEL_CHALLENGE, ch) = h1 @ ch"
    using cbor_claim_32 [of EAT_CBOR_ARM_LABEL_CHALLENGE ch] assms by (auto simp: EAT_CBOR_ARM_LABEL_CHALLENGE_def)
  moreover obtain h2 where "length h2 = 7" "cbor_claim (EAT_CBOR_ARM_LABEL_SW_COMPONENTS, fw) = h2 @ fw"
    using cbor_claim_32 [of EAT_CBOR_ARM_LABEL_SW_COMPONENTS fw] assms by (auto simp: EAT_CBOR_ARM_LABEL_SW_COMPONENTS_def)
  moreover obtain h3 where "length h3 = 7" "cbor_claim (EAT_CBOR_ARM_LABEL_ORIGINATION, cert) = h3 @ cert"
    using cbor_claim_32 [of EAT_CBOR_ARM_LABEL_ORIGINATION cert] assms by (auto simp: EAT_CBOR_ARM_LABEL_ORIGINATION_def)
  moreover have "length (cbor_head 5 (Suc (Suc (Suc (Suc 0))))) = 1" by (simp add: length_cbor_head)
  ultimately show ?thesis using assms by (simp add: cbor_map_def Let_def)
qed

text \<open>A library for examples, whose signed tokens are the payloads.\<close>

definition demo_psa :: psa_crates where
  "demo_psa = \<lparr>psa_crypto_init = 0, psa_import_key = (\<lambda>_. (0, 1)), psa_destroy_key = (\<lambda>_. 0),
     cose_encode_parameters = (\<lambda>_. T_COSE_SUCCESS), qcbor_map = cbor_map, cose_sign1 = (\<lambda>_ payload. (T_COSE_SUCCESS, payload)),
     qcbor_finish = (\<lambda>token n. if length token \<le> n then QCBOR_SUCCESS else QCBOR_ERR_BUFFER_TOO_SMALL)\<rparr>"

lemma demo_psa_token:
  assumes "length ch = 32" and "length fw = 32" and "length cert \<le> 32"
  shows "\<exists>token. psa_initial_attest_get_token demo_psa k fw cert [] ch 2048 = (0, token)"
proof -
  let ?claims = "[(EAT_CBOR_ARM_LABEL_CHALLENGE, ch), (EAT_CBOR_ARM_LABEL_SW_COMPONENTS, fw),
    (EAT_CBOR_ARM_LABEL_ORIGINATION, cert), (EAT_CBOR_ARM_LABEL_CLIENT_ID, [])]"
  have head: "length (cbor_head major n) \<le> 9" for major n by (simp add: length_cbor_head)
  have claim: "length (cbor_claim (label, b)) \<le> 18 + length b" for label b
    using head [of 1 "nat (- 1 - label)"] head [of 0 "nat label"] head [of 2 "length b"] by (simp add: cbor_claim_def)
  have "length (cbor_map ?claims) \<le> 2048"
    using head [of 5 "length ?claims"] claim [of EAT_CBOR_ARM_LABEL_CHALLENGE ch] claim [of EAT_CBOR_ARM_LABEL_SW_COMPONENTS fw]
      claim [of EAT_CBOR_ARM_LABEL_ORIGINATION cert] claim [of EAT_CBOR_ARM_LABEL_CLIENT_ID "[]"] assms
    by (simp add: cbor_map_def)
  then show ?thesis
    using assms(1)
    by (simp add: psa_initial_attest_get_token_def initial_attest_get_token_def attest_verify_challenge_size_def
        attest_create_token_def attest_token_start_def t_cose_err_to_attest_err_def attest_token_finish_def demo_psa_def
        attest_add_challenge_claim_def attest_token_add_bstr_def error_mapping_to_psa_attest_err_t_def
        error_mapping_to_psa_status_t_def)
qed

end
