(* ===== verification/RuntimeManager.thy ===== *)
theory RuntimeManager
  imports Sessions Transport Engines PsaToken
begin

text \<open>
  The runtime manager inside the isolate (\<^verbatim>\<open>runtime-manager/src/\<close>): the protocol state with its filesystem and
  digest table and the execution of programs (\<^verbatim>\<open>managers/mod.rs\<close>), the dispatch of client requests
  (\<^verbatim>\<open>managers/execution_engine_manager.rs\<close>), the sessions (\<^verbatim>\<open>managers/session_manager.rs\<close>), and the message loop of
  the Linux build (\<^verbatim>\<open>runtime_manager_linux.rs\<close>).

  The static variables are the fields of the record \<open>Globals\<close>. The message loop is the only thread, so a
  lock is never contended and a poisoned lock cannot be observed: a panic ends the process. The
  packages, the WebAssembly machine, the platform and the attestation packages are the fields of \<open>runtime_env\<close>.
\<close>

section \<open>Environment and errors\<close>

datatype RuntimeManagerError =
    SessionManagerErr SessionManagerError
  | TransportProtocolErr TransportProtocolError
  | VeracruzUtilError PolicyError
  | FatalHostError
  | FileSystemError ErrNo
  | UninitializedSessionError string
  | UnsafeCallError string u32
  | NoDataError
  | UnavailableSessionError u64
  | UninitializedProtocolState
  | ExecutionDenied
  | RmBincodeError
  | RmIOError
  | VeracruzSocketError
  | NsmLibError i32
  | NsmErrorCode

record ('b, 'g, 'c, 'm) runtime_env =
  env_rights :: rights_codec
  env_policy :: policy_crates
  env_proto :: proto_crates
  env_tls :: "('b, 'g, 'c) tls_crates"
  env_engine :: engine_crates
  env_platform :: "Principal FileSystem \<Rightarrow> nat \<Rightarrow> platform"
  env_machine :: "'m wasm_machine"
  env_csr :: "byte list \<Rightarrow> byte list option"
  env_psa :: psa_crates

abbreviation env_crates :: "('b, 'g, 'c, 'm) runtime_env \<Rightarrow> crates" where
  "env_crates E \<equiv> ec_crates (env_engine E)"

section \<open>The protocol state\<close>

record ProtocolState =
  global_policy :: Policy
  global_policy_hash :: string
  expected_shutdown_sources :: "u64 list"
  vfs :: "Principal FileSystem"
  digest_table :: "(path \<times> byte list) list"

definition superuser_read_rights :: "(path \<times> Rights) list" where
  "superuser_read_rights = hm_put components [] ''/'' {PATH_OPEN, FD_READ, FD_SEEK, FD_READDIR}"

definition protocol_state_new ::
  "('b, 'g, 'c, 'm) runtime_env \<Rightarrow> Policy \<Rightarrow> string \<Rightarrow> (RuntimeManagerError, ProtocolState) result" where
  "protocol_state_new E policy h =
     (let rights = hm_put id (get_rights_table (env_rights E) policy) InternalSuperUser superuser_read_rights in
      case get_file_hash_table (env_policy E) policy of
        Ok digests \<Rightarrow>
          (case fs_new (env_rights E) rights of
             Ok fs \<Rightarrow> Ok \<lparr>global_policy = policy, global_policy_hash = h,
                        expected_shutdown_sources = expected_shutdown_list policy, vfs = fs,
                        digest_table = digests\<rparr>
           | Err e \<Rightarrow> Err (FileSystemError e) | Panic \<Rightarrow> Panic | Stuck \<Rightarrow> Stuck)
      | Err e \<Rightarrow> Err (VeracruzUtilError e) | Panic \<Rightarrow> Panic | Stuck \<Rightarrow> Stuck)"

text \<open>\<open>on_vfs m\<close> runs \<open>m\<close> on the handle of the protocol state.\<close>

definition on_vfs :: "(Principal FileSystem, ErrNo, 'a) sm \<Rightarrow> (ProtocolState, RuntimeManagerError, 'a) sm" where
  "on_vfs m = merr FileSystemError (mzoom vfs (\<lambda>fs ps. ps\<lparr>vfs := fs\<rparr>) m)"

text \<open>
  \<open>on_handle E pr m\<close> spawns a handle for the principal \<open>pr\<close> and runs \<open>m\<close> on it. The handle is dropped at
  the end; what it did to the inode table stays, because all handles share the table.
\<close>

definition with_spawned ::
  "rights_codec \<Rightarrow> 'p \<Rightarrow> ('p FileSystem, 'e, 'a) sm \<Rightarrow> (ErrNo \<Rightarrow> 'e) \<Rightarrow> ('p FileSystem, 'e, 'a) sm" where
  "with_spawned W pr m f =
     mbind (merr f (spawn W pr)) (\<lambda>h.
     mzoom (\<lambda>fs. adopt (inode_table fs) h) (\<lambda>h' fs. adopt (inode_table h') fs) m)"

definition on_handle ::
  "('b, 'g, 'c, 'm) runtime_env \<Rightarrow> Principal \<Rightarrow> (Principal FileSystem, ErrNo, 'a) sm \<Rightarrow>
   (ProtocolState, RuntimeManagerError, 'a) sm" where
  "on_handle E pr m = on_vfs (with_spawned (env_rights E) pr m id)"

definition digest_mismatch :: "byte list \<Rightarrow> byte list \<Rightarrow> bool" where
  "digest_mismatch digest incoming \<longleftrightarrow>
     length incoming \<noteq> length digest \<or> list_ex (\<lambda>(lhs, rhs). lhs \<noteq> rhs) (zip digest incoming)"

definition ps_write_file ::
  "('b, 'g, 'c, 'm) runtime_env \<Rightarrow> Principal \<Rightarrow> string \<Rightarrow> byte list \<Rightarrow> (ProtocolState, RuntimeManagerError, unit) sm" where
  "ps_write_file E client name data =
     mbind mget (\<lambda>ps.
     mbind (case hm_get components (digest_table ps) name of
              Some digest \<Rightarrow>
                if digest_mismatch digest (sha256 (env_policy E) data) then mthrow (FileSystemError Access)
                else mreturn ()
            | None \<Rightarrow> mreturn ()) (\<lambda>_.
     if name = CANONICAL_STDIN_FILE_PATH
     then mbind (on_handle E client (write_stdin (env_crates E) data)) (\<lambda>_. mreturn ())
     else on_handle E client (write_file_by_absolute_path (env_crates E) name data False)))"

definition ps_append_file ::
  "('b, 'g, 'c, 'm) runtime_env \<Rightarrow> Principal \<Rightarrow> string \<Rightarrow> byte list \<Rightarrow> (ProtocolState, RuntimeManagerError, unit) sm" where
  "ps_append_file E client name data =
     mbind mget (\<lambda>ps.
     if hm_get components (digest_table ps) name \<noteq> None then mthrow (FileSystemError Access)
     else on_handle E client (write_file_by_absolute_path (env_crates E) name data True))"

definition ps_read_file ::
  "('b, 'g, 'c, 'm) runtime_env \<Rightarrow> Principal \<Rightarrow> string \<Rightarrow> (ProtocolState, RuntimeManagerError, byte list option) sm" where
  "ps_read_file E client name =
     mbind (on_handle E client
       (if name = ''stderr'' then read_stderr
        else if name = ''stdout'' then read_stdout
        else read_file_by_absolute_path name)) (\<lambda>rst.
     mreturn (if rst = [] then None else Some rst))"

definition request_and_check_shutdown :: "u64 \<Rightarrow> ProtocolState \<Rightarrow> bool" where
  "request_and_check_shutdown client ps = (client \<in> set (expected_shutdown_sources ps))"

text \<open>\<^verbatim>\<open>serialize_result(...).unwrap_or_else(|err| panic!(...))\<close>.\<close>

definition unwrap_result :: "('e, 'a) result \<Rightarrow> ('s, 'f, 'a) sm" where
  "unwrap_result r = (case r of Ok a \<Rightarrow> mreturn a | _ \<Rightarrow> mpanic)"

definition response_error_code_returned ::
  "('b, 'g, 'c, 'm) runtime_env \<Rightarrow> u32 \<Rightarrow> (ProtocolState, RuntimeManagerError, byte list) sm" where
  "response_error_code_returned E code =
     unwrap_result (serialize_result (env_proto E) (status_i32 SUCCESS) (Some (to_le_bytes code)))"

definition run_program ::
  "('b, 'g, 'c, 'm) runtime_env \<Rightarrow> Principal \<Rightarrow> ExecutionStrategy \<Rightarrow> Options \<Rightarrow> byte list \<Rightarrow>
   (ProtocolState, RuntimeManagerError, u32) sm" where
  "run_program E pr strategy options program =
     mzoom vfs (\<lambda>fs ps. ps\<lparr>vfs := fs\<rparr>)
       (with_spawned (env_rights E) pr
          (\<lambda>fs. merr (\<lambda>_. FatalHostError)
             (execute (env_engine E) (env_platform E fs) (env_machine E) strategy options program) fs) FileSystemError)"

definition ps_execute ::
  "('b, 'g, 'c, 'm) runtime_env \<Rightarrow> Principal \<Rightarrow> string \<Rightarrow> (ProtocolState, RuntimeManagerError, byte list option) sm" where
  "ps_execute E client name =
     mbind mget (\<lambda>ps.
     let options = default_options\<lparr>enable_clock_option := enable_clock (global_policy ps)\<rparr> in
     mbind (on_vfs (is_executable (env_rights E) client name)) (\<lambda>executable.
     if \<not> executable then mthrow ExecutionDenied
     else
     mbind (ps_read_file E InternalSuperUser name) (\<lambda>content.
     mbind (mlift (ok_or (FileSystemError NoEnt) content)) (\<lambda>program.
     mbind (run_program E (Program name) (execution_strategy (global_policy ps)) options program) (\<lambda>code.
     mbind (response_error_code_returned E code) (\<lambda>response.
     mreturn (Some response)))))))"

section \<open>Global state\<close>

record ('b, 'g, 'c) Globals =
  my_session_manager :: "('b, 'g) SessionContext option"
  session_counter :: u32
  sessions :: "u32 \<rightharpoonup> 'c Session"
  protocol_state :: "ProtocolState option"
  debug_flag :: bool
  incoming_buffers :: buffers

type_synonym ('b, 'g, 'c, 'a) rt_op = "(('b, 'g, 'c) Globals, RuntimeManagerError, 'a) sm"

definition globals_init :: "('b, 'g, 'c) Globals" where
  "globals_init = \<lparr>my_session_manager = None, session_counter = 1, sessions = Map.empty, protocol_state = None,
     debug_flag = False, incoming_buffers = Map.empty\<rparr>"

section \<open>Dispatch of client requests\<close>

definition on_protocol :: "(ProtocolState, RuntimeManagerError, 'a) sm \<Rightarrow> ('b, 'g, 'c, 'a) rt_op" where
  "on_protocol m =
     mbind mget (\<lambda>G.
     case protocol_state G of
       None \<Rightarrow> mthrow UninitializedProtocolState
     | Some ps \<Rightarrow> mbind (mmodify (\<lambda>G. G\<lparr>protocol_state := Some (snd (m ps))\<rparr>)) (\<lambda>_.
                  mlift (fst (m ps))))"

definition response_success ::
  "('b, 'g, 'c, 'm) runtime_env \<Rightarrow> byte list option \<Rightarrow> ('s, 'e, byte list) sm" where
  "response_success E result = unwrap_result (serialize_result (env_proto E) (status_i32 SUCCESS) result)"

definition serialized :: "(TransportProtocolError, byte list) result \<Rightarrow> ('s, RuntimeManagerError, byte list option) sm" where
  "serialized r = merr TransportProtocolErr (mbind (mlift r) (\<lambda>b. mreturn (Some b)))"

definition response_invalid_request ::
  "('b, 'g, 'c, 'm) runtime_env \<Rightarrow> ('s, RuntimeManagerError, byte list option) sm" where
  "response_invalid_request E = serialized (serialize_result (env_proto E) (status_i32 FAILED_INVALID_REQUEST) None)"

definition dispatch_on_policy_hash ::
  "('b, 'g, 'c, 'm) runtime_env \<Rightarrow> (ProtocolState, RuntimeManagerError, byte list option) sm" where
  "dispatch_on_policy_hash E =
     mbind mget (\<lambda>ps. serialized (serialize_policy_hash (env_proto E) (as_bytes (global_policy_hash ps))))"

definition dispatch_on_result ::
  "('b, 'g, 'c, 'm) runtime_env \<Rightarrow> string \<Rightarrow> u64 \<Rightarrow> (ProtocolState, RuntimeManagerError, byte list option) sm" where
  "dispatch_on_result E name client = ps_execute E (Participant client) name"

definition dispatch_on_write ::
  "('b, 'g, 'c, 'm) runtime_env \<Rightarrow> FileData \<Rightarrow> u64 \<Rightarrow> (ProtocolState, RuntimeManagerError, byte list option) sm" where
  "dispatch_on_write E d client =
     mbind (ps_write_file E (Participant client) (data_file_name d) (data_data d)) (\<lambda>_.
     serialized (serialize_result (env_proto E) (status_i32 SUCCESS) None))"

definition dispatch_on_append ::
  "('b, 'g, 'c, 'm) runtime_env \<Rightarrow> FileData \<Rightarrow> u64 \<Rightarrow> (ProtocolState, RuntimeManagerError, byte list option) sm" where
  "dispatch_on_append E d client =
     mbind (ps_append_file E (Participant client) (data_file_name d) (data_data d)) (\<lambda>_.
     serialized (serialize_result (env_proto E) (status_i32 SUCCESS) None))"

definition dispatch_on_read ::
  "('b, 'g, 'c, 'm) runtime_env \<Rightarrow> string \<Rightarrow> u64 \<Rightarrow> (ProtocolState, RuntimeManagerError, byte list option) sm" where
  "dispatch_on_read E name client =
     mbind (ps_read_file E (Participant client) name) (\<lambda>result.
     mbind (response_success E result) (\<lambda>response.
     mreturn (Some response)))"

text \<open>The requests that leave the protocol state in place.\<close>

definition dispatch_on_state ::
  "('b, 'g, 'c, 'm) runtime_env \<Rightarrow> u64 \<Rightarrow> RequestMessage \<Rightarrow> (ProtocolState, RuntimeManagerError, byte list option) sm" where
  "dispatch_on_state E client request =
     (case request of
        WriteFile d \<Rightarrow> dispatch_on_write E d client
      | AppendFile d \<Rightarrow> dispatch_on_append E d client
      | RequestPiHash _ \<Rightarrow> serialized (serialize_pi_hash (env_proto E) (as_bytes ''deprecated''))
      | RequestPolicyHash \<Rightarrow> dispatch_on_policy_hash E
      | RequestResult name \<Rightarrow> dispatch_on_result E name client
      | ReadFile name \<Rightarrow> dispatch_on_read E name client
      | _ \<Rightarrow> response_invalid_request E)"

definition dispatch_on_request :: "('b, 'g, 'c, 'm) runtime_env \<Rightarrow> u64 \<Rightarrow> RequestMessage \<Rightarrow> ('b, 'g, 'c, byte list option) rt_op" where
  "dispatch_on_request E client request =
     (if request = RequestShutdown
      then mbind (on_protocol (\<lambda>ps. (Ok (request_and_check_shutdown client ps), ps))) (\<lambda>is_dead.
           mbind (if is_dead then mmodify (\<lambda>G. G\<lparr>protocol_state := None\<rparr>) else mreturn ()) (\<lambda>_.
           mbind (response_success E None) (\<lambda>response.
           mreturn (Some response))))
      else on_protocol (dispatch_on_state E client request))"

definition on_buffers :: "(buffers, TransportProtocolError, 'a) sm \<Rightarrow> ('b, 'g, 'c, 'a) rt_op" where
  "on_buffers m = merr TransportProtocolErr (mzoom incoming_buffers (\<lambda>h G. G\<lparr>incoming_buffers := h\<rparr>) m)"

definition parse_incoming_buffer ::
  "('b, 'g, 'c, 'm) runtime_env \<Rightarrow> u32 \<Rightarrow> byte list \<Rightarrow> ('b, 'g, 'c, RuntimeManagerRequest option) rt_op" where
  "parse_incoming_buffer E session input G =
     (case on_buffers (parse_runtime_manager_request (env_proto E) (Some session) input) G of
        (Ok v, G') \<Rightarrow> (Ok (Some v), G')
      | (Err (TransportProtocolErr (PartialBuffer _)), G') \<Rightarrow> (Ok None, G')
      | (Err e, G') \<Rightarrow> (Err e, G')
      | (Panic, G') \<Rightarrow> (Panic, G')
      | (Stuck, G') \<Rightarrow> (Stuck, G'))"

definition dispatch_on_incoming_data ::
  "('b, 'g, 'c, 'm) runtime_env \<Rightarrow> u32 \<Rightarrow> u64 \<Rightarrow> byte list \<Rightarrow> ('b, 'g, 'c, byte list option) rt_op" where
  "dispatch_on_incoming_data E session client input =
     mbind (parse_incoming_buffer E session input) (\<lambda>parsed.
     case parsed of
       None \<Rightarrow> mreturn None
     | Some r \<Rightarrow>
         (case request_oneof r of
            None \<Rightarrow> response_invalid_request E
          | Some request \<Rightarrow> dispatch_on_request E client request))"

section \<open>Sessions\<close>

definition init_session_manager :: "(byte list \<times> byte list) option \<Rightarrow> ('b, 'g, 'c, unit) rt_op" where
  "init_session_manager key =
     mbind (mlift (map_err SessionManagerErr (session_context_new key))) (\<lambda>s.
     mmodify (\<lambda>G. G\<lparr>my_session_manager := Some s\<rparr>))"

definition on_session_manager ::
  "string \<Rightarrow> (('b, 'g) SessionContext, SessionManagerError, 'a) sm \<Rightarrow> ('b, 'g, 'c, 'a) rt_op" where
  "on_session_manager err m =
     mbind mget (\<lambda>G.
     case my_session_manager G of
       None \<Rightarrow> mthrow (UninitializedSessionError err)
     | Some s \<Rightarrow> mbind (mmodify (\<lambda>G. G\<lparr>my_session_manager := Some (snd (m s))\<rparr>)) (\<lambda>_.
                 mlift (map_err SessionManagerErr (fst (m s)))))"

definition load_policy :: "('b, 'g, 'c, 'm) runtime_env \<Rightarrow> string \<Rightarrow> ('b, 'g, 'c, unit) rt_op" where
  "load_policy E json =
     (let policy_hash = sha256 (env_policy E) (as_bytes json) in
      mbind (mlift (map_err VeracruzUtilError (from_json (env_policy E) json))) (\<lambda>policy.
      mbind (if debug policy then mmodify (\<lambda>G. G\<lparr>debug_flag := True\<rparr>) else mreturn ()) (\<lambda>_.
      mbind (mlift (protocol_state_new E policy (hex_encode (env_policy E) policy_hash))) (\<lambda>state.
      mbind (mmodify (\<lambda>G. G\<lparr>protocol_state := Some state\<rparr>)) (\<lambda>_.
      on_session_manager ''session_manager_state'' (set_policy (env_tls E) policy))))))"

definition load_cert_chain :: "('b, 'g, 'c, 'm) runtime_env \<Rightarrow> byte list list \<Rightarrow> ('b, 'g, 'c, unit) rt_op" where
  "load_cert_chain E chain = on_session_manager ''load_cert_chain'' (set_cert_chain (env_tls E) chain)"

definition new_session :: "('b, 'g, 'c, 'm) runtime_env \<Rightarrow> ('b, 'g, 'c, u32) rt_op" where
  "new_session E =
     mbind mget (\<lambda>G.
     let local_session_id = session_counter G in
     mbind (mmodify (\<lambda>G. G\<lparr>session_counter := session_counter G + 1\<rparr>)) (\<lambda>_.
     case my_session_manager G of
       None \<Rightarrow> mthrow (UninitializedSessionError ''new_session'')
     | Some s \<Rightarrow>
         mbind (mlift (map_err SessionManagerErr (create_session (env_tls E) s))) (\<lambda>session.
         mbind (mmodify (\<lambda>G. G\<lparr>sessions := (sessions G)(local_session_id \<mapsto> session)\<rparr>)) (\<lambda>_.
         mreturn local_session_id))))"

definition close_session :: "u32 \<Rightarrow> ('b, 'g, 'c, unit) rt_op" where
  "close_session session = mmodify (\<lambda>G. G\<lparr>sessions := (sessions G)(session := None)\<rparr>)"

text \<open>\<open>on_session k m\<close> runs \<open>m\<close> on the session with the number \<open>k\<close>, which must exist.\<close>

definition on_session :: "u32 \<Rightarrow> ('c Session, SessionManagerError, 'a) sm \<Rightarrow> ('b, 'g, 'c, 'a) rt_op" where
  "on_session k m =
     mbind mget (\<lambda>G.
     case sessions G k of
       None \<Rightarrow> mthrow (UnavailableSessionError (ucast k))
     | Some s \<Rightarrow> mbind (mmodify (\<lambda>G. G\<lparr>sessions := (sessions G)(k \<mapsto> snd (m s))\<rparr>)) (\<lambda>_.
                 mlift (map_err SessionManagerErr (fst (m s)))))"

definition send_data :: "('b, 'g, 'c, 'm) runtime_env \<Rightarrow> u32 \<Rightarrow> byte list \<Rightarrow> ('b, 'g, 'c, unit) rt_op" where
  "send_data E session input =
     mbind (on_session session (send_tls_data (env_tls E) input)) (\<lambda>_.
     mbind (on_session session (read_plaintext_data (env_tls E))) (\<lambda>plaintext.
     case plaintext of
       None \<Rightarrow> mreturn ()
     | Some (client, data) \<Rightarrow>
         mbind (dispatch_on_incoming_data E session (ucast client) data) (\<lambda>proc_ret.
         case proc_ret of
           None \<Rightarrow> mreturn ()
         | Some response \<Rightarrow> on_session session (return_data (env_tls E) response))))"

definition get_data :: "('b, 'g, 'c, 'm) runtime_env \<Rightarrow> u32 \<Rightarrow> ('b, 'g, 'c, bool \<times> byte list) rt_op" where
  "get_data E session =
     mbind (on_session session (read_tls_data (env_tls E))) (\<lambda>result.
     mbind mget (\<lambda>G.
     case result of
       Some out \<Rightarrow> mreturn (protocol_state G \<noteq> None, out)
     | None \<Rightarrow> mthrow NoDataError))"

definition get_data_needed :: "('b, 'g, 'c, 'm) runtime_env \<Rightarrow> u32 \<Rightarrow> ('b, 'g, 'c, bool) rt_op" where
  "get_data_needed E session = on_session session (\<lambda>s. (Ok (read_tls_needed (env_tls E) s), s))"

definition get_enclave_private_key :: "('b, 'g, 'c, byte list) rt_op" where
  "get_enclave_private_key = on_session_manager ''get_enclave_private_key'' (\<lambda>s. (Ok (server_private_key s), s))"

definition rt_generate_csr :: "('b, 'g, 'c, 'm) runtime_env \<Rightarrow> ('b, 'g, 'c, byte list) rt_op" where
  "rt_generate_csr E =
     mbind get_enclave_private_key (\<lambda>key.
     case env_csr E key of None \<Rightarrow> mpanic | Some csr \<Rightarrow> mreturn csr)"

section \<open>The message loop\<close>

datatype Status = Success | Fail | Unimplemented

datatype RmRequest =
    Attestation "byte list" i32
  | CloseTlsSession u32
  | GetTlsData u32
  | GetTlsDataNeeded u32
  | Initialize string "byte list list"
  | NewTlsSession
  | ResetEnclave
  | SendTlsData u32 "byte list"

text \<open>The attestation data is one document in the build for Nitro, a token and a request in the others.\<close>

datatype RmResponse =
    AttestationData "byte list" "byte list"
  | NitroAttestationData "byte list"
  | StatusResponse Status
  | TlsData "byte list" bool
  | TlsDataNeeded bool
  | TlsSession u32

definition ROOT_PRIVATE_KEY :: "byte list" where
  "ROOT_PRIVATE_KEY =
     [0xe6, 0xbf, 0x1e, 0x3d, 0xb4, 0x45, 0x42, 0xbe, 0xf5, 0x35, 0xe7, 0xac, 0xbc, 0x2d, 0x54, 0xd0,
      0xba, 0x94, 0xbf, 0xb5, 0x47, 0x67, 0x2c, 0x31, 0xc1, 0xd4, 0xee, 0x1c, 0x05, 0x76, 0xa1, 0x44]"

text \<open>The static variable of the library is set by loading the key, so its value before does not matter.\<close>

definition native_attestation ::
  "('b, 'g, 'c, 'm) runtime_env \<Rightarrow> byte list \<Rightarrow> byte list \<Rightarrow> byte list \<Rightarrow> (RuntimeManagerError, byte list) result" where
  "native_attestation E csr challenge measurement =
     (let csr_hash = sha256 (env_policy E) csr;
          ((ret, root_key_handle), static) = psa_initial_attest_load_key (env_psa E) ROOT_PRIVATE_KEY 0 in
      if ret \<noteq> 0 then Err (UnsafeCallError ''psa_initial_attest_load_key'' ret)
      else let (ret, token) = psa_initial_attest_get_token (env_psa E) static measurement csr_hash [] challenge 2048 in
        if ret \<noteq> 0 then Err (UnsafeCallError ''psa_initial_attest_get_token'' ret)
        else let ret = psa_initial_attest_remove_key (env_psa E) root_key_handle in
          if ret \<noteq> 0 then Err (UnsafeCallError ''psa_initial_attest_remove_key'' ret)
          else Ok token)"

text \<open>A failed operation is answered with \<^verbatim>\<open>Status::Fail\<close>; what it did to the state before it failed stays.\<close>

definition or_fail :: "('s, 'e, RmResponse) sm \<Rightarrow> ('s, 'f, RmResponse) sm" where
  "or_fail m s =
     (case m s of
        (Ok r, s') \<Rightarrow> (Ok r, s')
      | (Err _, s') \<Rightarrow> (Ok (StatusResponse Fail), s')
      | (Panic, s') \<Rightarrow> (Panic, s')
      | (Stuck, s') \<Rightarrow> (Stuck, s'))"

definition rt_initialize :: "(byte list \<times> byte list) option \<Rightarrow> ('b, 'g, 'c, RmResponse) rt_op" where
  "rt_initialize key = or_fail (mbind (init_session_manager key) (\<lambda>_. mreturn (StatusResponse Success)))"

definition handle_attestation ::
  "('b, 'g, 'c, 'm) runtime_env \<Rightarrow> (byte list \<times> byte list) option \<Rightarrow> byte list \<Rightarrow> byte list \<Rightarrow> ('b, 'g, 'c, RmResponse) rt_op" where
  "handle_attestation E key measurement challenge =
     mbind (rt_initialize key) (\<lambda>_.
     mbind (rt_generate_csr E) (\<lambda>csr.
     mbind (mlift (native_attestation E csr challenge measurement)) (\<lambda>token.
     mreturn (AttestationData token csr))))"

text \<open>An error of \<^verbatim>\<open>load_policy\<close> is answered, one of \<^verbatim>\<open>load_cert_chain\<close> ends the loop.\<close>

definition handle_initialize ::
  "('b, 'g, 'c, 'm) runtime_env \<Rightarrow> string \<Rightarrow> byte list list \<Rightarrow> ('b, 'g, 'c, RmResponse) rt_op" where
  "handle_initialize E json chain =
     mbind (or_fail (mbind (load_policy E json) (\<lambda>_. mreturn (StatusResponse Success)))) (\<lambda>r.
     if r = StatusResponse Fail then mreturn r
     else mbind (load_cert_chain E chain) (\<lambda>_.
          mreturn (StatusResponse Success)))"

definition handle_message ::
  "('b, 'g, 'c, 'm) runtime_env \<Rightarrow> byte list \<Rightarrow> (byte list \<times> byte list) option \<Rightarrow> RmRequest \<Rightarrow> ('b, 'g, 'c, RmResponse) rt_op" where
  "handle_message E measurement key request =
     (case request of
        Attestation challenge _ \<Rightarrow> handle_attestation E key measurement challenge
      | Initialize json chain \<Rightarrow> handle_initialize E json chain
      | NewTlsSession \<Rightarrow> or_fail (mbind (new_session E) (\<lambda>i. mreturn (TlsSession i)))
      | CloseTlsSession session \<Rightarrow> or_fail (mbind (close_session session) (\<lambda>_. mreturn (StatusResponse Success)))
      | GetTlsDataNeeded session \<Rightarrow> or_fail (mbind (get_data_needed E session) (\<lambda>needed. mreturn (TlsDataNeeded needed)))
      | GetTlsData session \<Rightarrow> or_fail (mbind (get_data E session) (\<lambda>(active, data). mreturn (TlsData data active)))
      | SendTlsData session tls_data \<Rightarrow> or_fail (mbind (send_data E session tls_data) (\<lambda>_. mreturn (StatusResponse Success)))
      | ResetEnclave \<Rightarrow> mreturn (StatusResponse Unimplemented))"

text \<open>
  The loop over the messages received, each with the key pair the library would generate for it. It stops at
  the first error.
\<close>

primrec linux_loop ::
  "('b, 'g, 'c, 'm) runtime_env \<Rightarrow> byte list \<Rightarrow> ((byte list \<times> byte list) option \<times> RmRequest) list \<Rightarrow>
   ('b, 'g, 'c, RmResponse list) rt_op" where
  "linux_loop E measurement [] = mreturn []"
| "linux_loop E measurement (x # xs) =
     mbind (handle_message E measurement (fst x) (snd x)) (\<lambda>r.
     mbind (linux_loop E measurement xs) (\<lambda>rs.
     mreturn (r # rs)))"

end
