(* ===== verification/Effects.thy ===== *)
theory Effects
  imports Engines
begin

text \<open>
  The effects of host calls and of whole programs on the host, for every program. A locale has the laws of a relation
  between states of the host, one per elementary effect; in it, every host call of both engines is followed through the
  wrapper and its tracing, and a run of a module is the sequence of its host calls. The instances are the size of the
  memory, the calls of the filesystem, and the log.
\<close>

named_theorems effect_intros \<open>rules for operations with effects of a given kind\<close>
named_theorems sized_intros \<open>rules for operations that keep the size of a memory\<close>

section \<open>The size of the memory\<close>

definition sized :: "(memory, 'e, 'a) sm \<Rightarrow> bool" where
  "sized m \<longleftrightarrow> (\<forall>mem. map_option length (snd (m mem)) = map_option length mem)"

lemma sized_basic [sized_intros]:
  "sized (mreturn x)" "sized (mthrow e)" "sized (mlift r)" "sized (get_slice a l)" "sized (set_slice a l b)" "sized get_size"
  by (simp_all add: sized_def monad_defs get_slice_def set_slice_def get_size_def split: option.split)

lemma sized_mbind [sized_intros]: "sized m \<Longrightarrow> (\<And>a. sized (f a)) \<Longrightarrow> sized (mbind m f)"
  by (auto simp: sized_def mbind_def split: result.split prod.split) (metis snd_conv)?

lemma sized_mfold [sized_intros]: "(\<And>a x. sized (f a x)) \<Longrightarrow> sized (mfold f a xs)"
  by (induction xs arbitrary: a) (auto intro: sized_intros)

lemma sized_if [sized_intros]: "sized m \<Longrightarrow> sized n \<Longrightarrow> sized (if b then m else n)"
  by simp

lemma sized_numbers [sized_intros]:
  "sized (write_buffer a b)" "sized (read_buffer a n)" "sized (read_cstring a l)" "sized (read_u16 a)" "sized (write_u32 a w)"
  "sized (read_u32 a)" "sized (write_u64 a w')" "sized (read_u64 a)" "sized (write_struct a b)"
  unfolding write_struct_def write_u32_def write_u64_def write_buffer_def read_u16_def read_u32_def read_u64_def
    read_cstring_def read_buffer_def
  by (intro sized_intros)+

lemma sized_structs [sized_intros]:
  "sized (write_string_list c a p)" "sized (unpack_array sz unp a n)" "sized (unpack_iovec_mut a n)" "sized (unpack_iovec a n)"
  unfolding write_string_list_def write_string_def unpack_array_def unpack_struct_def unpack_iovec_def unpack_iovec_mut_def
  by (intro sized_intros)+

lemma sized_dir_entries [sized_intros]: "sized (write_dir_entries T n es a w)"
  by (induction es arbitrary: a w) (auto simp: Let_def intro!: sized_intros)

text \<open>The buffers of a vector lie inside the memory they were unpacked from, so filling them keeps its size.\<close>

definition iovecs_inside :: "(u32 \<times> byte list) list \<Rightarrow> memory \<Rightarrow> bool" where
  "iovecs_inside iovecs mem \<longleftrightarrow>
     (\<forall>b. mem = Some b \<longrightarrow> list_all (\<lambda>(a, old). unat a + length old \<le> length b) iovecs)"

lemma slice_range_inside:
  "slice_range mem lo hi = Ok bytes \<Longrightarrow> unat lo + length bytes \<le> length mem"
  by (auto simp: slice_range_def split: if_splits)

lemma iovec_at_inside: "iovec_at mem a i = Ok (adr, old) \<Longrightarrow> unat adr + length old \<le> length mem"
  by (auto simp: iovec_at_def rbind_Ok dest: slice_range_inside)

lemma unpack_iovec_mut_inside:
  assumes "unpack_iovec_mut a n mem = (Ok iovecs, mem')"
  shows "iovecs_inside iovecs mem'"
proof (cases mem)
  case (Some b)
  with assms have "length b < 2 ^ 32" "mem' = Some b" "collect_result (map (iovec_at b a) [0..<unat n]) = Ok iovecs"
    by (auto simp: unpack_iovec_mut_def mbind_def get_size_def get_slice_def mlift_def unat_of_nat take_bit_nat_eq_self
        split: if_splits)
  then show ?thesis by (auto simp: iovecs_inside_def dest: iovec_at_inside [OF sym] elim!: collect_result_all)
qed (use assms in \<open>simp add: unpack_iovec_mut_def mbind_def get_size_def\<close>)

lemma fill_iovecs_size:
  "iovecs_inside iovecs mem \<Longrightarrow>
     map_option length (snd (fill_iovecs iovecs n bufs mem)) = map_option length mem"
proof (induction iovecs n bufs arbitrary: mem rule: fill_iovecs.induct)
  case (1 address old iovecs n buf bufs)
  show ?case
  proof (cases mem)
    case (Some b)
    let ?b = "copy_at (unat address) (take (min (length old) n) buf) b"
    have b: "length ?b = length b" using 1 (2) Some by (auto simp: iovecs_inside_def)
    then have "iovecs_inside iovecs (Some ?b)" using 1 (2) Some by (auto simp: iovecs_inside_def)
    from 1 (1) [OF this] b Some show ?thesis by (simp add: mbind_def mmodify_def)
  qed (use 1 in \<open>simp add: mbind_def mmodify_def iovecs_inside_def\<close>)
qed (simp_all add: mreturn_def)

lemma unpack_one:
  assumes "length m < 2 ^ 32" and "iovec_at m v 0 = Ok (p, data)"
  shows "unpack_iovec_mut v 1 (Some m) = (Ok [(p, data)], Some m)" "unpack_iovec v 1 (Some m) = (Ok [data], Some m)"
proof -
  have "unat (of_nat (length m) :: u32) = length m" using assms(1) by (simp add: unat_of_nat take_bit_nat_eq_self)
  then show "unpack_iovec_mut v 1 (Some m) = (Ok [(p, data)], Some m)"
    using assms by (simp add: unpack_iovec_mut_def mbind_def get_size_def get_slice_def mlift_def)
  then show "unpack_iovec v 1 (Some m) = (Ok [data], Some m)"
    by (simp add: unpack_iovec_def mbind_def mreturn_def)
qed

lemma write_u32_Ok:
  "unat a + 4 \<le> length m \<Longrightarrow> write_u32 a w (Some m) = (Ok (), Some (copy_at (unat a) (le_bytes 4 (unat w)) m))"
  by (simp add: write_u32_def write_buffer_def u32_try_from_usize_def mbind_def mlift_def set_slice_def)

lemmas wasmi_defs = wasmi_args_get_def wasmi_args_sizes_get_def wasmi_environ_get_def wasmi_environ_sizes_get_def
    wasmi_clock_res_get_def wasmi_clock_time_get_def wasmi_fd_advise_def wasmi_fd_allocate_def
    wasmi_fd_close_def wasmi_fd_datasync_def wasmi_fd_fdstat_get_def wasmi_fd_fdstat_set_flags_def
    wasmi_fd_fdstat_set_rights_def wasmi_fd_filestat_get_def wasmi_fd_filestat_set_size_def
    wasmi_fd_filestat_set_times_def wasmi_fd_pread_def wasmi_fd_prestat_get_def wasmi_fd_prestat_dir_name_def
    wasmi_fd_pwrite_def wasmi_fd_read_def wasmi_fd_readdir_def wasmi_fd_renumber_def wasmi_fd_seek_def
    wasmi_fd_sync_def wasmi_fd_tell_def wasmi_fd_write_def wasmi_path_create_directory_def
    wasmi_path_filestat_get_def wasmi_path_filestat_set_times_def wasmi_path_link_def wasmi_path_open_def
    wasmi_path_readlink_def wasmi_path_remove_directory_def wasmi_path_rename_def wasmi_path_symlink_def
    wasmi_path_unlink_file_def wasmi_poll_oneoff_def wasmi_proc_exit_def wasmi_proc_raise_def
    wasmi_sched_yield_def wasmi_random_get_def wasmi_sock_recv_def wasmi_sock_send_def wasmi_sock_shutdown_def
    wasmi_veracruz_fd_create_def

lemmas wasmtime_defs = wasmtime_args_get_def wasmtime_args_sizes_get_def wasmtime_environ_get_def wasmtime_environ_sizes_get_def
    wasmtime_clock_res_get_def wasmtime_clock_time_get_def wasmtime_fd_advise_def wasmtime_fd_allocate_def
    wasmtime_fd_close_def wasmtime_fd_datasync_def wasmtime_fd_fdstat_get_def wasmtime_fd_fdstat_set_flags_def
    wasmtime_fd_fdstat_set_rights_def wasmtime_fd_filestat_get_def wasmtime_fd_filestat_set_size_def
    wasmtime_fd_filestat_set_times_def wasmtime_fd_pread_def wasmtime_fd_prestat_get_def
    wasmtime_fd_prestat_dir_name_def wasmtime_fd_pwrite_def wasmtime_fd_read_def wasmtime_fd_readdir_def
    wasmtime_fd_renumber_def wasmtime_fd_seek_def wasmtime_fd_sync_def wasmtime_fd_tell_def
    wasmtime_fd_write_def wasmtime_path_create_directory_def wasmtime_path_filestat_get_def
    wasmtime_path_filestat_set_times_def wasmtime_path_link_def wasmtime_path_open_def
    wasmtime_path_readlink_def wasmtime_path_remove_directory_def wasmtime_path_rename_def
    wasmtime_path_symlink_def wasmtime_path_unlink_file_def wasmtime_poll_oneoff_def wasmtime_proc_exit_def
    wasmtime_proc_raise_def wasmtime_sched_yield_def wasmtime_random_get_def wasmtime_sock_recv_def
    wasmtime_sock_send_def wasmtime_sock_shutdown_def wasmtime_fd_create_def

section \<open>The effects of host calls\<close>

text \<open>
  A relation that holds whenever the filesystem executes one of its calls, the memory is written, a line is logged, the tracer changes
  or an exit code is set holds between the states before and after every host call.
\<close>

locale host_effects =
  fixes X :: engine_crates and R :: "'p host \<Rightarrow> 'p host \<Rightarrow> bool"
  assumes R_refl: "R h h"
    and R_trans: "R h h1 \<Longrightarrow> R h1 h2 \<Longrightarrow> R h h2"
    and R_fs: "R h (h\<lparr>host_wasi := (host_wasi h)\<lparr>wasi_filesystem :=
        exec (ec_crates X) c (wasi_filesystem (host_wasi h))\<rparr>\<rparr>)"
    and R_memory: "map_option length mem = map_option length (guest_memory h) \<Longrightarrow> R h (h\<lparr>guest_memory := mem\<rparr>)"
    and R_log: "R h (h\<lparr>guest_log := guest_log h @ [line]\<rparr>)"
    and R_trace: "R h (h\<lparr>guest_strace := st\<rparr>)"
    and R_exit: "R h (h\<lparr>host_wasi := (host_wasi h)\<lparr>wasi_exit_code := code\<rparr>\<rparr>)"
begin

definition related :: "('p host, 'e, 'a) sm \<Rightarrow> bool" where
  "related m \<longleftrightarrow> (\<forall>h. R h (snd (m h)))"

lemma related_then: "related m \<Longrightarrow> (\<And>h. R (snd (m h)) (snd (f h))) \<Longrightarrow> related f"
  unfolding related_def using R_trans by blast

lemma related_basic [effect_intros]:
  "related (mreturn a)" "related (mthrow e)" "related mpanic" "related (mlift r)" "related mget"
  "related (info line)" "related (set_trace st)"
  by (simp_all add: related_def monad_defs info_def set_trace_def R_refl R_log R_trace)

lemma related_on_memory [effect_intros]: "sized m \<Longrightarrow> related (on_memory m)"
  by (simp add: related_def sized_def on_memory_def mzoom_def R_memory)

lemma related_mbind [effect_intros]: "related m \<Longrightarrow> (\<And>a. related (f a)) \<Longrightarrow> related (mbind m f)"
  by (erule related_then) (auto simp: mbind_def related_def R_refl split: result.split)

lemma related_mcatch [effect_intros]:
  "related m \<Longrightarrow> (\<And>a. related (f a)) \<Longrightarrow> (\<And>e. related (g e)) \<Longrightarrow> related (mcatch m f g)"
  by (erule related_then) (auto simp: mcatch_def related_def R_refl split: result.split)

lemma related_merr [effect_intros]: "related m \<Longrightarrow> related (merr f m)"
  by (simp add: related_def merr_def)

lemma related_mfold: "list_all related ms \<Longrightarrow> related (mfold (\<lambda>_ m. m) () ms)"
  by (induction ms) (auto intro: effect_intros)

lemma related_splits [effect_intros]:
  "(b \<Longrightarrow> related m) \<Longrightarrow> (\<not> b \<Longrightarrow> related n) \<Longrightarrow> related (if b then m else n)"
  "(\<And>x. related (f1 x)) \<Longrightarrow> related n \<Longrightarrow> related (case o1 of None \<Rightarrow> n | Some x \<Rightarrow> f1 x)"
  "(\<And>x y. related (f2 x y)) \<Longrightarrow> related (case p1 of (x, y) \<Rightarrow> f2 x y)"
  "related (g x) \<Longrightarrow> related (Let x g)"
  by (simp_all add: Let_def split: option.split prod.split)

lemma related_on_fs: "(\<And>fs. snd (m fs) = exec (ec_crates X) c fs) \<Longrightarrow> related (on_fs m)"
  by (simp add: related_def on_fs_def mzoom_def R_fs)

lemma related_calls:
  "exec_query q = snd \<circ> m \<Longrightarrow> related (on_fs m)" "exec_fd (ec_crates X) f = snd \<circ> m \<Longrightarrow> related (on_fs m)"
  "exec_path p = snd \<circ> m \<Longrightarrow> related (on_fs m)"
  using related_on_fs [of m "Query q"] related_on_fs [of m "OnFd f"] related_on_fs [of m "OnPath p"] by simp_all

lemma related_when_enabled [effect_intros]: "related m \<Longrightarrow> related (when_enabled m)"
  unfolding when_enabled_def arg_print_comma_def
  by (intro effect_intros | simp add: related_basic split: TraceState.split)+

lemma related_show_read [effect_intros]: "sized m \<Longrightarrow> related (show_read m text bad)"
  unfolding show_read_def by (intro effect_intros)

lemma related_args [effect_intros]:
  "related (arg_buffer a l)" "related (arg_dec i)" "related arg_dots" "related arg_dirents" "related arg_events"
  "related arg_fdstat" "related arg_filestat" "related (arg_hex n)" "related (arg_iovec r a l b)"
  "related (arg_p_u16_hex a)" "related (arg_p_u32 a)" "related (arg_p_u64 a)" "related (arg_path a l)"
  "related (arg_prestat_out r a)" "related (arg_rights w)" "related arg_subscriptions"
  unfolding arg_buffer_def arg_dec_def arg_dots_def arg_dirents_def arg_events_def arg_fdstat_def arg_filestat_def
    arg_hex_def arg_iovec_def arg_p_u16_hex_def arg_p_u32_def arg_p_u64_def arg_path_def arg_prestat_out_def
    arg_rights_def arg_subscriptions_def
  by (intro effect_intros sized_intros)+

lemma related_strace_result [effect_intros]: "related (strace_result r)"
  unfolding strace_result_def by (intro effect_intros | simp add: related_basic split: result.split)+

lemma related_strace_func [effect_intros]: "related (strace_func en name)"
  unfolding strace_func_def by (intro effect_intros) (simp add: related_def mmodify_def R_trace)

lemma related_strace [effect_intros]:
  assumes "related body" and "\<And>r. list_all related (args r)"
  shows "related (strace name body args)"
proof -
  have "related (\<lambda>h. case body h of (Panic, h') \<Rightarrow> (Panic, h') | (Stuck, h') \<Rightarrow> (Stuck, h')
      | (r, h') \<Rightarrow> mbind (mfold (\<lambda>_ m. m) () (args r)) (\<lambda>_. strace_result r) h')"
  proof (rule related_then [OF assms(1)])
    fix h
    have "related (mbind (mfold (\<lambda>_ m. m) () (args r)) (\<lambda>_. strace_result r))" for r
      by (intro effect_intros related_mfold assms(2))
    then show "R (snd (body h)) (snd (case body h of (Panic, h') \<Rightarrow> (Panic, h')
        | (Stuck, h') \<Rightarrow> (Stuck, h') | (r, h') \<Rightarrow> mbind (mfold (\<lambda>_ m. m) () (args r)) (\<lambda>_. strace_result r) h'))"
      by (cases "body h"; cases "fst (body h)") (auto simp: related_def R_refl)
  qed
  then show ?thesis unfolding strace_def traced_def by (intro effect_intros)
qed

lemma related_fd_queries [effect_intros]:
  "related (on_fs (fd_allocate fd off len))" "related (on_fs (fd_datasync fd))" "related (on_fs (fd_fdstat_get fd))"
  "related (on_fs (fd_filestat_get fd))" "related (on_fs (fd_pread fd bufs off))" "related (on_fs (fd_prestat_get fd))"
  "related (on_fs (fd_prestat_dir_name fd))" "related (on_fs (fd_readdir fd cookie))" "related (on_fs (fd_sync fd))"
  "related (on_fs (fd_tell fd))" "related (on_fs (sock_recv fd))" "related (on_fs (sock_send fd))"
  "related (on_fs (sock_shutdown fd))"
  by (rule related_calls(1), rule exec_query.simps)+

lemma related_poll_oneoff [effect_intros]: "related (on_fs (poll_oneoff subs evs))"
  by (simp add: related_def on_fs_def mzoom_def poll_oneoff_def mthrow_def R_refl)

lemma related_fd_calls [effect_intros]:
  "related (on_fs (fd_advise fd off len adv))" "related (on_fs (fd_close fd))" "related (on_fs fd_create)"
  "related (on_fs (fd_fdstat_set_flags fd fl))" "related (on_fs (fd_fdstat_set_rights fd base inh))"
  "related (on_fs (fd_filestat_set_size fd sz))" "related (on_fs (fd_filestat_set_times fd at mt tfl now))"
  "related (on_fs (fd_pwrite (ec_crates X) fd bufs off))" "related (on_fs (fd_read fd bufs))" "related (on_fs (fd_renumber fd fd'))"
  "related (on_fs (fd_seek fd delta whence))" "related (on_fs (fd_write (ec_crates X) fd bufs))"
  by (rule related_calls(2), rule exec_fd.simps)+

lemma related_path_calls [effect_intros]:
  "related (on_fs (path_create_directory fd p))" "related (on_fs (path_filestat_get fd lf p))"
  "related (on_fs (path_filestat_set_times fd lf p at mt tfl now))" "related (on_fs (path_link fd lf p fd' p'))"
  "related (on_fs (path_open fd lf p ofl base inh fl))" "related (on_fs (path_readlink fd p))"
  "related (on_fs (path_remove_directory fd p))" "related (on_fs (path_rename fd p fd' p'))"
  "related (on_fs (path_symlink p fd p'))" "related (on_fs (path_unlink_file fd p))"
  by (rule related_calls(3), rule exec_path.simps)+

lemma related_decode [effect_intros]: "related (decode_wasi_arg a)" "related (guard e b)"
  unfolding decode_wasi_arg_def guard_def by (intro effect_intros)+

lemma related_set_exit [effect_intros]:
  "related (mmodify (\<lambda>h. h\<lparr>host_wasi := (host_wasi h)\<lparr>wasi_exit_code := c\<rparr>\<rparr>))"
  by (simp add: related_def mmodify_def R_exit)

lemma related_getrandom [effect_intros]:
  "(\<And>x. related (f x)) \<Longrightarrow> related m \<Longrightarrow> related n \<Longrightarrow>
     related (case r of PlatformSuccess x \<Rightarrow> f x | Unavailable \<Rightarrow> m | UnknownError \<Rightarrow> n)"
  by (simp split: PlatformResult.split)

text \<open>A read into a vector of buffers: whatever happens to the filesystem in between, the buffers lie inside the memory.\<close>

lemma related_unpack:
  assumes "\<And>iovecs h. iovecs_inside iovecs (guest_memory h) \<Longrightarrow> R h (snd (f iovecs h))"
  shows "related (mbind (on_memory (unpack_iovec_mut a n)) f)"
proof (rule related_then)
  show "related (on_memory (unpack_iovec_mut a n))" by (intro effect_intros sized_intros)
  fix h
  show "R (snd (on_memory (unpack_iovec_mut a n) h)) (snd (mbind (on_memory (unpack_iovec_mut a n)) f h))"
    using assms unpack_iovec_mut_inside [of a n "guest_memory h"]
    by (cases "unpack_iovec_mut a n (guest_memory h)")
      (auto simp: mbind_def on_memory_def mzoom_def R_refl split: result.split)
qed

lemma related_fill:
  assumes "iovecs_inside iovecs (guest_memory h)" and "related m"
  shows "R h (snd (mbind (on_memory (fill_iovecs iovecs n bufs)) (\<lambda>_. m) h))"
proof -
  have "R h (snd (on_memory (fill_iovecs iovecs n bufs) h))"
    using fill_iovecs_size [OF assms(1)] by (simp add: on_memory_def mzoom_def R_memory)
  then show ?thesis
    using assms(2) R_trans by (auto simp: mbind_def related_def split: result.split prod.split)
qed

lemma related_fill_after:
  assumes "iovecs_inside iovecs (guest_memory h)" and "related (on_fs m)" and "\<And>a. related (g a)"
  shows "R h (snd (mbind (on_fs m) (\<lambda>(n, bufs). mbind (on_memory (fill_iovecs iovecs n bufs)) (\<lambda>_. g n)) h))"
proof -
  obtain r h1 where run: "on_fs m h = (r, h1)" by fastforce
  then have h1: "iovecs_inside iovecs (guest_memory h1)" "R h h1"
    using assms(1,2) by (auto simp: related_def on_fs_def mzoom_def dest!: spec [of _ h])
  then have "R h (snd (mbind (on_memory (fill_iovecs iovecs n bufs)) (\<lambda>_. g n) h1))" for n bufs
    using related_fill [OF h1(1) assms(3)] R_trans by blast
  with h1(2) run show ?thesis by (cases r) (simp_all add: mbind_def [of "on_fs m"] split: prod.split)
qed

lemma related_wrapper_reads [effect_intros]:
  "related (wrapper_fd_pread a0 a1 a2 w0 a3)" "related (wrapper_fd_read a0 a1 a2 a3)"
proof -
  have "related (mbind (on_fs (fd_read a0 bufs)) (\<lambda>(n, _). on_memory (write_u32 a3 (of_nat n))))" for bufs
    by (intro effect_intros sized_intros)
  then show "related (wrapper_fd_read a0 a1 a2 a3)"
    unfolding wrapper_fd_read_def
    by (intro related_strace related_unpack)
      (auto simp: mbind_def [of mget] mget_def related_args Let_def split: prod.split intro: related_fill)
  show "related (wrapper_fd_pread a0 a1 a2 w0 a3)"
    unfolding wrapper_fd_pread_def
    by (intro related_strace related_unpack related_fill_after) (auto simp: related_args intro: effect_intros sized_intros)
qed

lemma related_wrapper_args [effect_intros]:
  "related (wrapper_args_get a0 a1)" "related (wrapper_args_sizes_get a0 a1)"
  "related (wrapper_environ_get a0 a1)" "related (wrapper_environ_sizes_get a0 a1)"
  "related (wrapper_clock_res_get P a0 a1)" "related (wrapper_clock_time_get P a0 w0 a1)"
  unfolding wrapper_args_get_def wrapper_args_sizes_get_def wrapper_environ_get_def wrapper_environ_sizes_get_def
    wrapper_clock_res_get_def wrapper_clock_time_get_def
  by (intro effect_intros sized_intros | simp add: related_args)+

lemma related_wrapper_fd [effect_intros]:
  "related (wrapper_fd_advise T a0 w0 w1 b0)" "related (wrapper_fd_allocate a0 w0 w1)"
  "related (wrapper_fd_close a0)" "related (wrapper_fd_datasync a0)" "related (wrapper_fd_fdstat_get T a0 a1)"
  "related (wrapper_fd_fdstat_set_flags T a0 h0)" "related (wrapper_fd_fdstat_set_rights T a0 w0 w1)"
  "related (wrapper_fd_filestat_get T a0 a1)" "related (wrapper_fd_filestat_set_size a0 w0)"
  "related (wrapper_fd_filestat_set_times T P a0 w0 w1 h0)" 
  "related (wrapper_fd_prestat_get T a0 a1)" "related (wrapper_fd_prestat_dir_name a0 a1 a2)"
  "related (wrapper_fd_pwrite (ec_crates X) a0 a1 a2 w0 a3)"
  "related (wrapper_fd_readdir T a0 a1 a2 w0 a3)" "related (wrapper_fd_renumber a0 a1)"
  "related (wrapper_fd_seek T a0 w0 b0 a1)" "related (wrapper_fd_sync a0)" "related (wrapper_fd_tell a0 a1)"
  "related (wrapper_fd_write (ec_crates X) a0 a1 a2 a3)"
  unfolding wrapper_fd_advise_def wrapper_fd_allocate_def wrapper_fd_close_def wrapper_fd_datasync_def
    wrapper_fd_fdstat_get_def wrapper_fd_fdstat_set_flags_def wrapper_fd_fdstat_set_rights_def
    wrapper_fd_filestat_get_def wrapper_fd_filestat_set_size_def wrapper_fd_filestat_set_times_def
    wrapper_fd_prestat_get_def wrapper_fd_prestat_dir_name_def wrapper_fd_pwrite_def
    wrapper_fd_readdir_def wrapper_fd_renumber_def wrapper_fd_seek_def wrapper_fd_sync_def
    wrapper_fd_tell_def wrapper_fd_write_def
  by (intro effect_intros sized_intros | simp add: related_args)+

lemma related_wrapper_path [effect_intros]:
  "related (wrapper_path_create_directory a0 a1 a2)" "related (wrapper_path_filestat_get T a0 a1 a2 a3 a4)"
  "related (wrapper_path_filestat_set_times T P a0 a1 a2 a3 w0 w1 h0)"
  "related (wrapper_path_link T a0 a1 a2 a3 a4 a5 a6)"
  "related (wrapper_path_open T a0 a1 a2 a3 h0 w0 w1 h1 a4)"
  "related (wrapper_path_readlink a0 a1 a2 a3 a4 a5)" "related (wrapper_path_remove_directory a0 a1 a2)"
  "related (wrapper_path_rename a0 a1 a2 a3 a4 a5)" "related (wrapper_path_symlink a0 a1 a2 a3 a4)"
  "related (wrapper_path_unlink_file a0 a1 a2)"
  unfolding wrapper_path_create_directory_def wrapper_path_filestat_get_def wrapper_path_filestat_set_times_def
    wrapper_path_link_def wrapper_path_open_def wrapper_path_readlink_def wrapper_path_remove_directory_def
    wrapper_path_rename_def wrapper_path_symlink_def wrapper_path_unlink_file_def
  by (intro effect_intros sized_intros | simp add: related_args)+

lemma related_wrapper_rest [effect_intros]:
  "related (wrapper_poll_oneoff T a0 a1 a2 a3)" "related (wrapper_proc_exit a0)"
  "related (wrapper_proc_raise T b0)" "related wrapper_sched_yield" "related (wrapper_random_get P a0 a1)"
  "related (wrapper_sock_recv T a0 a1 a2 h0 a3 a4)" "related (wrapper_sock_send T a0 a1 a2 h0 a3)"
  "related (wrapper_sock_shutdown T a0 b0)" "related (wrapper_fd_create a0)"
  unfolding wrapper_poll_oneoff_def wrapper_proc_exit_def wrapper_proc_raise_def wrapper_sched_yield_def
    wrapper_random_get_def wrapper_sock_recv_def wrapper_sock_send_def wrapper_sock_shutdown_def
    wrapper_fd_create_def
  by (intro effect_intros sized_intros | simp add: related_args)+


lemma related_with_memory [effect_intros]:
  assumes "related m"
  shows "related (with_memory m)"
  unfolding related_def
proof
  fix h
  have "snd (with_memory m h) = (if guest_memory h = None then h else snd (m h))"
    by (cases "m h"; cases "fst (m h)") (auto simp: with_memory_def)
  then show "R h (snd (with_memory m h))"
    using assms by (simp add: related_def R_refl)
qed

lemma related_wasmi_args [effect_intros]:
  "related (check_args_number args n)" "related (nth_checked conv args i)" "related (nth_panicking conv args i)"
  unfolding check_args_number_def nth_checked_def nth_panicking_def by (intro effect_intros)+

lemma related_wasmi_call [effect_intros]: "related (wasmi_call X P index args)"
proof (cases index)
  case (WasiAPI n)
  then show ?thesis unfolding wasmi_call_def by (cases n) (simp_all add: wasmi_defs, (intro effect_intros)+)
next
  case (VeracruzAPI n)
  then show ?thesis by (simp add: wasmi_call_def wasmi_defs effect_intros)
qed

lemma related_wasmtime [effect_intros]:
  "(\<And>a. related (f a)) \<Longrightarrow> related (convert_wasi_arg X arg f)"
  "related m \<Longrightarrow> related (convert_to_errno X m)" "related n \<Longrightarrow> related (with_code n)"
  unfolding convert_wasi_arg_def convert_to_errno_def with_code_def by (intro effect_intros; assumption?)+

lemma related_wasmtime_call [effect_intros]: "related (wasmtime_call X P index args)"
proof (cases index)
  case (WasiAPI n)
  then show ?thesis unfolding wasmtime_call_def 
    by (cases n) (simp_all add: wasmtime_defs related_basic, (intro impI effect_intros)+)
next
  case (VeracruzAPI n)
  then show ?thesis by (simp add: wasmtime_call_def wasmtime_defs effect_intros)
qed

lemma related_host_calls [effect_intros]:
  "related (wasmi_host_call X Ps imports n f args)" "related (wasmtime_host_call X Ps imports n f args)"
  unfolding wasmi_host_call_def invoke_index_def wasmtime_host_call_def by (intro effect_intros)+

end

section \<open>The effects of programs\<close>

text \<open>
  When the relation also allows a program to write and grow its memory, and the engine to set the options, it
  holds for whole runs.
\<close>

locale program_effects = host_effects +
  assumes R_advance: "R h (h\<lparr>guest_memory := mem\<rparr>)"
    and R_configure: "R h (h\<lparr>host_wasi := (host_wasi h)\<lparr>wasi_environment := env, wasi_arguments := argv,
        wasi_enable_clock := clock, wasi_enable_strace := tracing\<rparr>\<rparr>)"
begin

lemma run_module_related:
  assumes "run_module call advance n m h = Some y" and "\<And>n f args. related (call n f args)"
  shows "R h (snd y)"
  using assms
proof (induction rule: run_module.raw_induct [rotated, consumes 1, case_names step])
  case (step run call advance n m h y)
  obtain event mem where ev: "advance m (guest_memory h) = (event, mem)" by fastforce
  let ?h = "h\<lparr>guest_memory := mem\<rparr>"
  have h: "R h ?h" by (rule R_advance)
  show ?case
  proof (cases event)
    case (HostCall f args k)
    obtain r h' where call: "call n f args ?h = (r, h')" by fastforce
    then have h': "R h h'" using step.prems [of n f args] R_trans [OF h] unfolding related_def by (metis snd_conv)
    show ?thesis
    proof (cases r)
      case (Ok v)
      then have "run call advance (Suc n) (k v) h' = Some y" using step.hyps ev HostCall call by simp
      from step.IH [OF this step.prems] h' show ?thesis by (rule R_trans [rotated])
    qed (use step.hyps ev HostCall call h' in auto)
  qed (use step.hyps ev h in auto)
qed

lemma related_execute_module [effect_intros]:
  "(\<And>n f args. related (call n f args)) \<Longrightarrow> related (execute_module call advance m)"
  unfolding related_def [of "execute_module call advance m"]
  by (auto simp: execute_module_def R_refl split: option.split dest: run_module_related)

lemma related_configure [effect_intros]:
  "related (mmodify (\<lambda>h. h\<lparr>guest_memory := mem\<rparr>))"
  "related (mmodify (\<lambda>h. h\<lparr>host_wasi := (host_wasi h)\<lparr>wasi_enable_clock := clock, wasi_enable_strace := tracing\<rparr>\<rparr>))"
  "related (mmodify (\<lambda>h. h\<lparr>host_wasi := (host_wasi h)\<lparr>wasi_environment := env, wasi_arguments := argv,
     wasi_enable_clock := clock, wasi_enable_strace := tracing\<rparr>\<rparr>))"
proof -
  have "R h (h\<lparr>host_wasi := (host_wasi h)\<lparr>wasi_enable_clock := clock, wasi_enable_strace := tracing\<rparr>\<rparr>)" for h
    using R_configure [where h = h and env = "wasi_environment (host_wasi h)" and argv = "wasi_arguments (host_wasi h)"]
    by simp
  then show "related (mmodify (\<lambda>h. h\<lparr>host_wasi := (host_wasi h)\<lparr>wasi_enable_clock := clock,
      wasi_enable_strace := tracing\<rparr>\<rparr>))"
    by (simp add: related_def mmodify_def)
qed (simp_all add: related_def mmodify_def R_advance R_configure)

lemma related_wasmi_end [effect_intros]: "related (wasmi_return v)" "related (wasmi_exit e)"
  by (simp_all add: related_def wasmi_return_def wasmi_exit_def R_refl split: option.split RuntimeValue.split)

lemma related_invoke_export [effect_intros]: "related (invoke_export X Ps M md)"
  unfolding invoke_export_def by (cases "wasmi_check_main md") (simp_all add: effect_intros)

lemma related_wasmi_invoke: "related (wasmi_invoke_entry_point X Ps M program options)"
  unfolding wasmi_invoke_entry_point_def load_program_def by (intro effect_intros)

lemma related_call_entry: "related (call_entry X Ps M md e args)"
  unfolding call_entry_def by (intro effect_intros)

lemma related_entry_point [effect_intros]:
  "related (case wasmtime_check_main e of ArgvAndArgc \<Rightarrow> call_entry X Ps M md e a
      | NoParameters \<Rightarrow> call_entry X Ps M md e b | NoEntryFound \<Rightarrow> mthrow NoProgramEntryPoint)"
  by (simp add: related_basic related_call_entry split: EntrySignature.split)

lemma related_wasmtime_invoke: "related (wasmtime_invoke_entry_point X Ps M program options)"
  unfolding wasmtime_invoke_entry_point_def invoke_engine_def instantiate_def by (intro effect_intros)

lemma related_invoke:
  "related (case strategy of Interpretation \<Rightarrow> wasmi_invoke_entry_point X Ps M program options
      | JIT \<Rightarrow> wasmtime_invoke_entry_point X Ps M program options)"
  by (simp add: related_wasmi_invoke related_wasmtime_invoke split: ExecutionStrategy.split)

end

section \<open>What programs can do to the host\<close>

text \<open>
  Three instances: host calls keep the size of the memory; programs reach the filesystem only through its calls; what is logged
  stays in the log.
\<close>

definition same_size :: "'p host \<Rightarrow> 'p host \<Rightarrow> bool" where
  "same_size h h' \<longleftrightarrow> map_option length (guest_memory h') = map_option length (guest_memory h)"

definition by_calls :: "crates \<Rightarrow> 'p host \<Rightarrow> 'p host \<Rightarrow> bool" where
  "by_calls C h h' \<longleftrightarrow> (\<exists>cs. wasi_filesystem (host_wasi h') = fold (exec C) cs (wasi_filesystem (host_wasi h)))"

definition log_grows :: "'p host \<Rightarrow> 'p host \<Rightarrow> bool" where
  "log_grows h h' \<longleftrightarrow> (\<exists>lines. guest_log h' = guest_log h @ lines)"

lemma by_calls_one: "wasi_filesystem (host_wasi h') = exec C c (wasi_filesystem (host_wasi h)) \<Longrightarrow> by_calls C h h'"
  unfolding by_calls_def by (rule exI [of _ "[c]"]) simp

lemma by_calls_none: "wasi_filesystem (host_wasi h') = wasi_filesystem (host_wasi h) \<Longrightarrow> by_calls C h h'"
  unfolding by_calls_def by (rule exI [of _ "[]"]) simp

lemma by_calls_trans: "by_calls C h h1 \<Longrightarrow> by_calls C h1 h2 \<Longrightarrow> by_calls C h h2"
  unfolding by_calls_def by (metis fold_append comp_apply)

interpretation memory_size: host_effects X same_size for X :: engine_crates
  by unfold_locales (simp_all add: same_size_def)

interpretation fs_calls: program_effects X "by_calls (ec_crates X)" for X :: engine_crates
  by unfold_locales (auto intro: by_calls_none by_calls_one by_calls_trans)

interpretation logging: program_effects X log_grows for X :: engine_crates
  by unfold_locales (auto simp: log_grows_def)

lemma execute_calls:
  "\<exists>cs. snd (execute X Ps M strategy options program fs) = fold (exec (ec_crates X)) cs fs"
  using fs_calls.related_invoke [where X = X and strategy = strategy and Ps = Ps and M = M and program = program and options = options]
  unfolding fs_calls.related_def by_calls_def execute_def mzoom_def
  by (drule_tac x = "host_new fs (enable_clock_option options)" in spec) (simp add: host_new_def wrapper_new_def)

end
