(* ===== verification/Returns.thy ===== *)
theory Returns
  imports Effects
begin

text \<open>
  Which operations return. The only call that may wait for ever is a write to the file of a service, since a
  service holds its lock while it runs and may write to its own file; every other host call returns, whatever its
  arguments are.
\<close>

named_theorems returns_intros \<open>rules for operations that return\<close>
named_theorems not_stuck \<open>rules for results of operations that return\<close>

section \<open>Operations that return\<close>

definition returns :: "('s, 'e, 'a) sm \<Rightarrow> bool" where
  "returns m \<longleftrightarrow> (\<forall>s. fst (m s) \<noteq> Stuck)"

lemma returnsD: "returns m \<Longrightarrow> fst (m s) \<noteq> Stuck"
  by (simp add: returns_def)

lemma returns_basic [returns_intros]:
  "returns (mreturn a)" "returns (mthrow e)" "returns mpanic" "returns mget" "returns (mmodify f)"
  "r \<noteq> Stuck \<Longrightarrow> returns (mlift r)"
  by (simp_all add: returns_def monad_defs)

lemma returns_mbind [returns_intros]: "returns m \<Longrightarrow> (\<And>a. returns (f a)) \<Longrightarrow> returns (mbind m f)"
  by (auto simp: returns_def mbind_def split: result.split)

lemma returns_mcatch [returns_intros]:
  "returns m \<Longrightarrow> (\<And>a. returns (f a)) \<Longrightarrow> (\<And>e. returns (g e)) \<Longrightarrow> returns (mcatch m f g)"
  by (auto simp: returns_def mcatch_def split: result.split)

lemma map_err_Stuck [simp]: "map_err f r = Stuck \<longleftrightarrow> r = Stuck"
  by (cases r) simp_all

lemma returns_lift [returns_intros]: "returns m \<Longrightarrow> returns (merr f m)" "returns n \<Longrightarrow> returns (mzoom get put n)"
  by (simp_all add: returns_def merr_def mzoom_def)

lemma returns_mfold [returns_intros]: "(\<And>a x. returns (f a x)) \<Longrightarrow> returns (mfold f a xs)"
  by (induction xs arbitrary: a) (auto intro: returns_intros)

lemma returns_splits [returns_intros]:
  "(b \<Longrightarrow> returns m) \<Longrightarrow> (\<not> b \<Longrightarrow> returns n) \<Longrightarrow> returns (if b then m else n)"
  "(\<And>x. returns (f1 x)) \<Longrightarrow> returns n \<Longrightarrow> returns (case o1 of None \<Rightarrow> n | Some x \<Rightarrow> f1 x)"
  "(\<And>x y. returns (f2 x y)) \<Longrightarrow> returns (case p1 of (x, y) \<Rightarrow> f2 x y)"
  "returns (g x) \<Longrightarrow> returns (Let x g)"
  by (simp_all add: Let_def split: option.split prod.split)

lemma not_stuck_basic [not_stuck]:
  "ok_or e x \<noteq> Stuck" "u32_try_from_usize e n \<noteq> Stuck" "u32_try_from_u64 e w \<noteq> Stuck" "u64_try_from_i64 e w \<noteq> Stuck"
  "vec_resize n y ys \<noteq> Stuck"
  by (simp_all add: ok_or_def u32_try_from_usize_def u32_try_from_u64_def u64_try_from_i64_def vec_resize_def
      split: option.split)

section \<open>The filesystem\<close>

lemma returns_component [returns_intros]:
  "(\<And>s. returns (f s)) \<Longrightarrow> returns (case c of Normal s \<Rightarrow> f s | _ \<Rightarrow> mthrow e)"
  by (simp add: returns_basic split: component.split)

lemma not_stuck_impl [not_stuck]:
  "impl_resize_file sz fill x \<noteq> Stuck" "impl_read_file x buf off \<noteq> Stuck" "impl_write_file buf off x \<noteq> Stuck"
  "impl_truncate_file x \<noteq> Stuck" "impl_insert p i x \<noteq> Stuck" "impl_get_inode_by_path x p \<noteq> Stuck"
  "impl_service_handler x \<noteq> Stuck"
  by (cases x; simp add: read_bytes_from_offset_def write_bytes_def Let_def ok_or_def vec_resize_def split: result.split option.split)+

lemma not_stuck_entry [not_stuck]:
  "entry_resize_file sz fill e \<noteq> Stuck" "entry_read_file e buf off \<noteq> Stuck" "entry_write_file buf off e \<noteq> Stuck"
  "entry_truncate_file e \<noteq> Stuck" "entry_insert p i e \<noteq> Stuck" "entry_get_inode_by_path e p \<noteq> Stuck"
  by (auto simp: entry_resize_file_def entry_read_file_def entry_write_file_def entry_truncate_file_def entry_insert_def
      entry_get_inode_by_path_def not_stuck split: result.split)

lemma not_stuck_no_value [not_stuck]: "r \<noteq> Stuck \<Longrightarrow> no_value r \<noteq> Stuck"
  by (cases r) (simp_all add: no_value_def)

lemma not_stuck_walk [not_stuck]: "walk t i cs \<noteq> Stuck"
  by (induction t i cs rule: walk.induct) (auto simp: not_stuck split: option.split result.split)

lemma not_stuck_paths [not_stuck]: "get_inode_by_inode_path t i p \<noteq> Stuck" "find_prestat fs p \<noteq> Stuck"
  by (auto simp: get_inode_by_inode_path_def find_prestat_def not_stuck split: option.split result.split)

lemma not_stuck_read_dir_from: "read_dir_from t n d \<noteq> Stuck"
  by (induction t n d rule: read_dir_from.induct) (auto simp: not_stuck split: option.split result.split)

lemma not_stuck_read_dir [not_stuck]: "impl_read_dir t x \<noteq> Stuck"
  by (cases x) (simp_all add: not_stuck_read_dir_from)

lemma not_stuck_read_bufs [not_stuck]: "read_bufs f bufs off \<noteq> Stuck"
  by (induction f bufs off rule: read_bufs.induct) (auto simp: not_stuck split: result.split)

lemma returns_table [returns_intros]:
  "returns (table_insert i e)" "returns (table_get i)" "(\<And>e. f e \<noteq> Stuck) \<Longrightarrow> returns (update_entry i f)" "returns new_inode"
  unfolding table_insert_def table_get_def update_entry_def new_inode_def by (intro returns_intros not_stuck; assumption?)+

lemma returns_add_dir [returns_intros]: "returns (add_dir parent p i)"
  unfolding add_dir_def by (intro returns_intros not_stuck)

lemma returns_add_all_dir [returns_intros]: "returns (add_all_dir parent cs)"
proof -
  have "returns (case get_inode_by_inode_path t parent s of Ok (o', _) \<Rightarrow> mreturn o'
      | Err NoEnt \<Rightarrow> mbind new_inode (\<lambda>i. mbind (add_dir parent s i) (\<lambda>_. mreturn i)) | Err e \<Rightarrow> mthrow e
      | Panic \<Rightarrow> mpanic | Stuck \<Rightarrow> mstuck)" for t :: "'p InodeTable" and parent s
    using not_stuck_paths(1) [of t parent s]
    by (auto intro!: returns_intros split: result.split ErrNo.split)
  then show ?thesis unfolding add_all_dir_def add_all_dir_step_def
    by (intro returns_intros)
qed

lemma returns_add_file [returns_intros]: "returns (add_file parent p i raw)"
  unfolding add_file_def add_file_parent_def by (intro returns_intros not_stuck)

lemma returns_handle [returns_intros]:
  "returns m \<Longrightarrow> returns (with_inodes m)" "returns new_fd" "returns (fd_entry fd)" "returns (set_fd_entry fd e)"
  "returns (check_right fd r)" "returns (get_inode_by_fd fd)" "returns (get_inode_by_fd_path fd p)" "returns (inode_get i)"
  "returns (is_dir_inode i)"
  unfolding with_inodes_def new_fd_def check_right_def get_inode_by_fd_def get_inode_by_fd_path_def inode_get_def
    is_dir_inode_def fd_entry_def set_fd_entry_def with_inodes_def
  by (intro returns_intros not_stuck; assumption?)+

lemma returns_fd_queries [returns_intros]:
  "returns (fd_allocate fd off len)" "returns (fd_datasync fd)" "returns (fd_fdstat_get fd)"
  "returns (fd_filestat_get fd)" "returns (fd_pread fd bufs off)" "returns (fd_prestat_get fd)"
  "returns (fd_prestat_dir_name fd)" "returns (fd_readdir fd cookie)" "returns (fd_sync fd)"
  "returns (fd_tell fd)" "returns (sock_recv fd)" "returns (sock_send fd)"
  "returns (sock_shutdown fd)" "returns (poll_oneoff subs evs)"
  unfolding fd_allocate_def fd_datasync_def fd_fdstat_get_def fd_filestat_get_def fd_pread_def fd_prestat_get_def
    fd_prestat_dir_name_def fd_readdir_def fd_sync_def fd_tell_def sock_recv_def sock_send_def sock_shutdown_def
    poll_oneoff_def
  by (intro returns_intros not_stuck)+

lemma returns_fd_calls [returns_intros]:
  "returns (fd_advise fd off len adv)" "returns (fd_close fd)" "returns fd_create"
  "returns (fd_fdstat_set_flags fd fl)" "returns (fd_fdstat_set_rights fd base inh)"
  "returns (fd_filestat_set_size fd sz)" "returns (fd_filestat_set_times fd at mt tfl now)"
  "returns (fd_read fd bufs)" "returns (fd_renumber fd fd')" "returns (fd_seek fd delta whence)"
  unfolding fd_advise_def fd_close_def fd_create_def fd_fdstat_set_flags_def fd_fdstat_set_rights_def
    fd_filestat_set_size_def fd_filestat_set_times_def fd_read_def fd_renumber_def fd_seek_def seek_offset_def set_offset_def
  by (intro returns_intros not_stuck | simp)+

lemma returns_path_calls [returns_intros]:
  "returns (path_create_directory fd p)" "returns (path_filestat_get fd lf p)"
  "returns (path_filestat_set_times fd lf p at mt tfl now)" "returns (path_link fd lf p fd' p')"
  "returns (path_open fd lf p ofl base inh fl)" "returns (path_readlink fd p)"
  "returns (path_remove_directory fd p)" "returns (path_rename fd p fd' p')"
  "returns (path_symlink p fd p')" "returns (path_unlink_file fd p)"
  unfolding path_create_directory_def path_filestat_get_def path_filestat_set_times_def path_link_def path_open_def
    path_readlink_def path_remove_directory_def path_rename_def path_symlink_def path_unlink_file_def open_inode_def
    open_at_def create_directory_step_def
  by (intro returns_intros not_stuck | simp)+


text \<open>A write returns when the descriptor is not open on the file of a service.\<close>

definition service_fd :: "'p FileSystem \<Rightarrow> Fd \<Rightarrow> bool" where
  "service_fd fs fd \<longleftrightarrow>
     (\<exists>e x. fd_table fs fd = Some e \<and> table (inode_table fs) (fd_inode e) = Some x \<and> entry_is_service x)"

lemma entry_write_service: "entry_write_file buf off e = Ok (n, e') \<Longrightarrow> entry_is_service e' = entry_is_service e"
  by (cases "node_data e") (auto simp: entry_write_file_def entry_is_service_def split: result.splits)

lemma write_buf_service:
  assumes "\<forall>x. table t i = Some x \<longrightarrow> \<not> entry_is_service x"
  shows "\<forall>x. table (snd (mfold (write_buf i) ol bufs t)) i = Some x \<longrightarrow> \<not> entry_is_service x"
  using assms
proof (induction bufs arbitrary: ol t)
  case (Cons buf bufs)
  have "\<forall>x. table (snd (write_buf i ol buf t)) i = Some x \<longrightarrow> \<not> entry_is_service x"
    using Cons.prems
    by (auto simp: write_buf_def update_entry_def table_get_def table_insert_def ok_or_def monad_defs mbind_def
        dest: entry_write_service split: result.splits option.splits)
  then show ?case by (auto simp: mbind_def Cons.IH split: result.split)
qed (simp add: mreturn_def)

lemma returns_write_bufs [returns_intros]: "returns (mfold (write_buf i) ol bufs)"
  unfolding write_buf_def by (intro returns_intros not_stuck)

lemma pwrite_returns:
  assumes "\<not> service_fd fs fd"
  shows "fst (fd_pwrite C fd bufs off fs) \<noteq> Stuck"
proof (cases "fd_table fs fd")
  case (Some e)
  let ?i = "fd_inode e" and ?m = "mfold (write_buf (fd_inode e)) (off, 0) bufs (inode_table fs)"
  have "\<forall>x. table (snd ?m) ?i = Some x \<longrightarrow> \<not> entry_is_service x"
    by (rule write_buf_service) (use assms Some in \<open>auto simp: service_fd_def\<close>)
  moreover have "fst ?m \<noteq> Stuck" by (rule returnsD) (rule returns_write_bufs)
  ultimately show ?thesis using Some
    by (auto simp: fd_pwrite_def fd_pwrite_with_def check_right_def fd_entry_def get_inode_by_fd_def inode_get_def table_get_def
        with_inodes_def trigger_service_def mzoom_def adopt_def ok_or_def monad_defs mbind_def
        split: result.split option.split)
qed (simp add: fd_pwrite_def fd_pwrite_with_def check_right_def fd_entry_def ok_or_def monad_defs mbind_def)

lemma write_returns:
  assumes "\<not> service_fd fs fd"
  shows "fst (fd_write C fd bufs fs) \<noteq> Stuck"
proof (cases "fd_table fs fd")
  case (Some e)
  have "fst (fd_seek fd (of_nat n) Current s) \<noteq> Stuck" for n :: nat and s by (intro returnsD returns_intros)
  moreover have "fst (fd_pwrite C fd bufs (fd_offset e) fs) \<noteq> Stuck" using assms by (rule pwrite_returns)
  ultimately show ?thesis using Some
    by (auto simp: fd_write_def fd_write_with_def fd_pwrite_def check_right_def fd_entry_def ok_or_def monad_defs
        mbind_def split: result.split)
qed (simp add: fd_write_def fd_write_with_def check_right_def fd_entry_def ok_or_def monad_defs mbind_def)

section \<open>The wrapper\<close>

lemma returns_memory [returns_intros]:
  "returns (get_slice a l)" "returns (set_slice a l b)" "returns get_size"
  by (simp_all add: returns_def get_slice_def set_slice_def get_size_def split: option.split)

lemma returns_numbers [returns_intros]:
  "returns (write_buffer a b)" "returns (read_buffer a n)" "returns (read_cstring a l)" "returns (read_u16 a)"
  "returns (write_u32 a w)" "returns (read_u32 a)" "returns (write_u64 a w')" "returns (read_u64 a)" "returns (write_struct a b)"
  unfolding write_struct_def write_u32_def write_u64_def write_buffer_def read_u16_def read_u32_def read_u64_def
    read_cstring_def read_buffer_def
  by (intro returns_intros not_stuck)+

lemma not_stuck_rbind: "r \<noteq> Stuck \<Longrightarrow> (\<And>x. f x \<noteq> Stuck) \<Longrightarrow> rbind r f \<noteq> Stuck"
  by (cases r) simp_all

lemma not_stuck_collect [not_stuck]: "(\<And>r. r \<in> set rs \<Longrightarrow> r \<noteq> Stuck) \<Longrightarrow> collect_result rs \<noteq> Stuck"
  by (induction rs rule: collect_result.induct) (auto split: result.split)

lemma not_stuck_iovec [simp]: "iovec_at mem a i \<noteq> Stuck"
  unfolding iovec_at_def by (intro not_stuck_rbind) (simp_all add: slice_range_def iovec_unpack_def)

lemma returns_iovecs [returns_intros]:
  "returns (unpack_iovec_mut a n)" "returns (unpack_iovec a n)"
  unfolding unpack_iovec_mut_def unpack_iovec_def
  by (intro returns_intros not_stuck; auto)+

lemma returns_fill [returns_intros]: "returns (fill_iovecs iovecs n bufs)"
  by (induction iovecs n bufs rule: fill_iovecs.induct) (simp_all only: fill_iovecs.simps returns_intros)

lemma returns_guard [returns_intros]: "returns (guard e b)" "returns (read_le T n)"
  unfolding guard_def by (intro returns_intros) (simp add: returns_def read_le_def)

lemma not_stuck_unpack [not_stuck]: "subscription_unpack T bytes \<noteq> Stuck" "event_unpack T bytes \<noteq> Stuck"
  unfolding subscription_unpack_def event_unpack_def unpack_clock_def unpack_fd_readwrite_def unpack_fd_state_def
  by (auto intro!: returnsD returns_intros not_stuck)

lemma returns_structs [returns_intros]:
  "returns (write_string_list c a p)" "(\<And>bytes. unp bytes \<noteq> Stuck) \<Longrightarrow> returns (unpack_array sz unp a n)"
  unfolding write_string_list_def write_string_def unpack_array_def unpack_struct_def
  by (intro returns_intros; simp)+

lemma returns_dir_entries [returns_intros]: "returns (write_dir_entries T n es a w)"
  by (induction es arbitrary: a w) (auto simp: Let_def intro!: returns_intros)

lemma returns_guest [returns_intros]:
  "returns m \<Longrightarrow> returns (on_memory m)" "returns n \<Longrightarrow> returns (on_fs n)" "returns (info line)" "returns (set_trace st)"
  unfolding on_memory_def on_fs_def info_def set_trace_def by (intro returns_intros; assumption?)+

lemma returns_when_enabled [returns_intros]: "returns m \<Longrightarrow> returns (when_enabled m)"
  unfolding when_enabled_def arg_print_comma_def
  by (intro returns_intros | simp add: returns_guest split: TraceState.split)+

lemma returns_show_read [returns_intros]: "returns m \<Longrightarrow> returns (show_read m text bad)"
  unfolding show_read_def by (intro returns_intros)

lemma returns_args [returns_intros]:
  "returns (arg_buffer a l)" "returns (arg_dec i)" "returns arg_dots" "returns arg_dirents" "returns arg_events"
  "returns arg_fdstat" "returns arg_filestat" "returns (arg_hex n)" "returns (arg_iovec r a l b)"
  "returns (arg_p_u16_hex a)" "returns (arg_p_u32 a)" "returns (arg_p_u64 a)" "returns (arg_path a l)"
  "returns (arg_prestat_out r a)" "returns (arg_rights w)" "returns arg_subscriptions"
  unfolding arg_buffer_def arg_dec_def arg_dots_def arg_dirents_def arg_events_def arg_fdstat_def arg_filestat_def
    arg_hex_def arg_iovec_def arg_p_u16_hex_def arg_p_u32_def arg_p_u64_def arg_path_def arg_prestat_out_def
    arg_rights_def arg_subscriptions_def
  by (intro returns_intros)+

lemma returns_strace_func [returns_intros]: "returns (strace_func en name)"
  unfolding strace_func_def by (intro returns_intros)

lemma returns_strace_result: "r \<noteq> Stuck \<Longrightarrow> returns (strace_result r)"
  unfolding strace_result_def by (intro returns_intros | simp add: returns_intros split: result.split)+

lemma returns_trace_args: "list_all returns ms \<Longrightarrow> returns (mfold (\<lambda>_ m. m) () ms)"
  by (induction ms) (auto intro: returns_intros)

lemma strace_returns:
  assumes "\<And>h'. host_wasi h' = host_wasi h \<Longrightarrow> fst (body h') \<noteq> Stuck" and "\<And>r. list_all returns (args r)"
  shows "fst (strace name body args h) \<noteq> Stuck"
proof -
  obtain u h1 where f: "strace_func (wasi_enable_strace (host_wasi h)) name h = (Ok u, h1)" "host_wasi h1 = host_wasi h"
    by (cases "wasi_enable_strace (host_wasi h)") (auto simp: strace_func_def info_def monad_defs mbind_def)
  have "returns (mbind (mfold (\<lambda>_ m. m) () (args r)) (\<lambda>_. strace_result r))" if "r \<noteq> Stuck" for r
    by (intro returns_intros returns_trace_args assms(2) returns_strace_result that)
  then show ?thesis using assms(1) [OF f(2)] f(1)
    by (cases "body h1"; cases "fst (body h1)") (auto simp: strace_def traced_def mbind_def mget_def returns_def)
qed

lemma returns_strace [returns_intros]:
  "returns body \<Longrightarrow> (\<And>r. list_all returns (args r)) \<Longrightarrow> returns (strace name body args)"
  unfolding returns_def [of "strace name body args"] by (intro allI strace_returns returnsD)

lemma returns_decode [returns_intros]: "returns (decode_wasi_arg a)" "returns (mlift (clock_answer en r))"
  unfolding decode_wasi_arg_def clock_answer_def by (intro returns_intros not_stuck | simp split: PlatformResult.split)+

lemma returns_getrandom [returns_intros]:
  "(\<And>x. returns (f x)) \<Longrightarrow> returns m \<Longrightarrow> returns n \<Longrightarrow>
     returns (case r of PlatformSuccess x \<Rightarrow> f x | Unavailable \<Rightarrow> m | UnknownError \<Rightarrow> n)"
  by (simp split: PlatformResult.split)

lemma returns_wrapper_args [returns_intros]:
  "returns (wrapper_args_get a0 a1)" "returns (wrapper_args_sizes_get a0 a1)"
  "returns (wrapper_environ_get a0 a1)" "returns (wrapper_environ_sizes_get a0 a1)"
  "returns (wrapper_clock_res_get P a0 a1)" "returns (wrapper_clock_time_get P a0 w0 a1)"
  unfolding wrapper_args_get_def wrapper_args_sizes_get_def wrapper_environ_get_def wrapper_environ_sizes_get_def
    wrapper_clock_res_get_def wrapper_clock_time_get_def
  by (intro returns_intros not_stuck | simp add: returns_args)+

lemma returns_wrapper_fd [returns_intros]:
  "returns (wrapper_fd_advise T a0 w0 w1 b0)" "returns (wrapper_fd_allocate a0 w0 w1)"
  "returns (wrapper_fd_close a0)" "returns (wrapper_fd_datasync a0)" "returns (wrapper_fd_fdstat_get T a0 a1)"
  "returns (wrapper_fd_fdstat_set_flags T a0 h0)" "returns (wrapper_fd_fdstat_set_rights T a0 w0 w1)"
  "returns (wrapper_fd_filestat_get T a0 a1)" "returns (wrapper_fd_filestat_set_size a0 w0)"
  "returns (wrapper_fd_filestat_set_times T P a0 w0 w1 h0)" 
  "returns (wrapper_fd_prestat_get T a0 a1)" "returns (wrapper_fd_prestat_dir_name a0 a1 a2)"
  "returns (wrapper_fd_pread a0 a1 a2 w0 a3)"
  "returns (wrapper_fd_readdir T a0 a1 a2 w0 a3)" "returns (wrapper_fd_renumber a0 a1)"
  "returns (wrapper_fd_seek T a0 w0 b0 a1)" "returns (wrapper_fd_sync a0)" "returns (wrapper_fd_tell a0 a1)"
  "returns (wrapper_fd_read a0 a1 a2 a3)"
  unfolding wrapper_fd_advise_def wrapper_fd_allocate_def wrapper_fd_close_def wrapper_fd_datasync_def
    wrapper_fd_fdstat_get_def wrapper_fd_fdstat_set_flags_def wrapper_fd_fdstat_set_rights_def
    wrapper_fd_filestat_get_def wrapper_fd_filestat_set_size_def wrapper_fd_filestat_set_times_def
    wrapper_fd_prestat_get_def wrapper_fd_prestat_dir_name_def wrapper_fd_pread_def
    wrapper_fd_readdir_def wrapper_fd_renumber_def wrapper_fd_seek_def wrapper_fd_sync_def
    wrapper_fd_tell_def wrapper_fd_read_def
  by (intro returns_intros not_stuck | simp add: returns_args)+

lemma returns_wrapper_path [returns_intros]:
  "returns (wrapper_path_create_directory a0 a1 a2)" "returns (wrapper_path_filestat_get T a0 a1 a2 a3 a4)"
  "returns (wrapper_path_filestat_set_times T P a0 a1 a2 a3 w0 w1 h0)"
  "returns (wrapper_path_link T a0 a1 a2 a3 a4 a5 a6)"
  "returns (wrapper_path_open T a0 a1 a2 a3 h0 w0 w1 h1 a4)"
  "returns (wrapper_path_readlink a0 a1 a2 a3 a4 a5)" "returns (wrapper_path_remove_directory a0 a1 a2)"
  "returns (wrapper_path_rename a0 a1 a2 a3 a4 a5)" "returns (wrapper_path_symlink a0 a1 a2 a3 a4)"
  "returns (wrapper_path_unlink_file a0 a1 a2)"
  unfolding wrapper_path_create_directory_def wrapper_path_filestat_get_def wrapper_path_filestat_set_times_def
    wrapper_path_link_def wrapper_path_open_def wrapper_path_readlink_def wrapper_path_remove_directory_def
    wrapper_path_rename_def wrapper_path_symlink_def wrapper_path_unlink_file_def
  by (intro returns_intros not_stuck | simp add: returns_args)+

lemma returns_wrapper_rest [returns_intros]:
  "returns (wrapper_poll_oneoff T a0 a1 a2 a3)" "returns (wrapper_proc_exit a0)"
  "returns (wrapper_proc_raise T b0)" "returns wrapper_sched_yield" "returns (wrapper_random_get P a0 a1)"
  "returns (wrapper_sock_recv T a0 a1 a2 h0 a3 a4)" "returns (wrapper_sock_send T a0 a1 a2 h0 a3)"
  "returns (wrapper_sock_shutdown T a0 b0)" "returns (wrapper_fd_create a0)"
  unfolding wrapper_poll_oneoff_def wrapper_proc_exit_def wrapper_proc_raise_def wrapper_sched_yield_def
    wrapper_random_get_def wrapper_sock_recv_def wrapper_sock_send_def wrapper_sock_shutdown_def
    wrapper_fd_create_def
  by (intro returns_intros not_stuck | simp add: returns_args)+

lemma mbind_returns:
  "fst (m h) \<noteq> Stuck \<Longrightarrow> (\<And>a. fst (m h) = Ok a \<Longrightarrow> fst (f a (snd (m h))) \<noteq> Stuck) \<Longrightarrow> fst (mbind m f h) \<noteq> Stuck"
  by (auto simp: mbind_def split: result.split)

lemma on_fs_returns: "fst (m (wasi_filesystem (host_wasi h))) \<noteq> Stuck \<Longrightarrow> fst (on_fs m h) \<noteq> Stuck"
  by (simp add: on_fs_def mzoom_def)

lemma host_wasi_on_memory: "host_wasi (snd (on_memory m h)) = host_wasi h"
  by (simp add: on_memory_def mzoom_def)

lemma wrapper_writes_return:
  assumes "\<not> service_fd (wasi_filesystem (host_wasi h)) fd"
  shows "fst (wrapper_fd_pwrite C fd a n off adr h) \<noteq> Stuck" and "fst (wrapper_fd_write C fd a n adr h) \<noteq> Stuck"
  unfolding wrapper_fd_pwrite_def wrapper_fd_write_def
  by (intro strace_returns mbind_returns on_fs_returns pwrite_returns write_returns returnsD returns_intros;
      simp add: assms host_wasi_on_memory returns_args)+

section \<open>The engines\<close>

lemma with_memory_returns: "fst (m h) \<noteq> Stuck \<Longrightarrow> fst (with_memory m h) \<noteq> Stuck"
  by (cases "m h"; cases "fst (m h)") (auto simp: with_memory_def)

lemma returns_with_memory [returns_intros]: "returns m \<Longrightarrow> returns (with_memory m)"
  unfolding returns_def [of "with_memory m"] by (intro allI with_memory_returns returnsD)

lemma returns_wasmi_args [returns_intros]:
  "returns (check_args_number args n)" "returns (nth_checked conv args i)" "returns (nth_panicking conv args i)"
  unfolding check_args_number_def nth_checked_def nth_panicking_def by (intro returns_intros not_stuck)+

lemma wasmi_args_state [simp]:
  "snd (check_args_number args n h) = h" "snd (nth_checked conv args i h) = h" "snd (nth_panicking conv args i h) = h"
  by (simp_all add: check_args_number_def nth_checked_def nth_panicking_def monad_defs split: option.split)

lemma returns_wasmtime [returns_intros]:
  "(\<And>a. returns (f a)) \<Longrightarrow> returns (convert_wasi_arg X arg f)"
  "returns m \<Longrightarrow> returns (convert_to_errno X m)" "returns n \<Longrightarrow> returns (with_code n)"
  unfolding convert_wasi_arg_def convert_to_errno_def with_code_def by (intro returns_intros; assumption?)+

lemma convert_to_errno_returns: "fst (m h) \<noteq> Stuck \<Longrightarrow> fst (convert_to_errno X m h) \<noteq> Stuck"
  by (auto simp: convert_to_errno_def mcatch_def monad_defs split: result.split)

definition is_write :: "APIName \<Rightarrow> bool" where
  "is_write index \<longleftrightarrow> index \<in> {WasiAPI API_FD_WRITE, WasiAPI API_FD_PWRITE}"

lemma wasmi_call_returns: "\<not> is_write index \<Longrightarrow> returns (wasmi_call X P index args)"
proof (cases index)
  case (WasiAPI n)
  moreover assume "\<not> is_write index"
  ultimately show ?thesis
    unfolding wasmi_call_def by (cases n) (simp_all add: is_write_def wasmi_defs, (intro returns_intros)+)
next
  case (VeracruzAPI n)
  then show ?thesis by (simp add: wasmi_call_def wasmi_defs returns_intros)
qed

lemma wasmtime_call_returns: "\<not> is_write index \<Longrightarrow> returns (wasmtime_call X P index args)"
proof (cases index)
  case (WasiAPI n)
  moreover assume "\<not> is_write index"
  ultimately show ?thesis
    unfolding wasmtime_call_def
    by (cases n) (simp_all add: is_write_def wasmtime_defs returns_basic, (intro impI returns_intros)+)
next
  case (VeracruzAPI n)
  then show ?thesis by (simp add: wasmtime_call_def wasmtime_defs returns_intros)
qed

lemma writes_return:
  assumes "is_write index" and free: "\<forall>fd. \<not> service_fd (wasi_filesystem (host_wasi h)) fd"
  shows "fst (wasmi_call X P index args h) \<noteq> Stuck" and "fst (wasmtime_call X P index args h) \<noteq> Stuck"
proof -
  have "fst (wasmi_fd_write X args h) \<noteq> Stuck" "fst (wasmi_fd_pwrite X args h) \<noteq> Stuck"
    unfolding wasmi_fd_write_def wasmi_fd_pwrite_def
    by (intro mbind_returns with_memory_returns wrapper_writes_return returnsD [OF returns_wasmi_args(1)]
        returnsD [OF returns_wasmi_args(2)]; simp add: free)+
  then show "fst (wasmi_call X P index args h) \<noteq> Stuck"
    using assms(1) by (auto simp: is_write_def wasmi_call_def)
  have "fst (with_code (wasmtime_fd_write X a b c d) h) \<noteq> Stuck" "fst (with_code (wasmtime_fd_pwrite X a b c e d) h) \<noteq> Stuck"
    for a b c d e
    unfolding with_code_def wasmtime_fd_write_def wasmtime_fd_pwrite_def
    by (intro mbind_returns convert_to_errno_returns wrapper_writes_return returnsD [OF returns_basic(1)]; simp add: free)+
  then show "fst (wasmtime_call X P index args h) \<noteq> Stuck"
    using assms(1) by (auto simp: is_write_def wasmtime_call_def mthrow_def)
qed

end
