(* ===== verification/Agreement.thy ===== *)
theory Agreement
  imports Returns
begin

text \<open>
  The two engines side by side: the operation of the wrapper behind every host call, that both engines reach it with
  the same arguments, and that they link the same functions.
\<close>

section \<open>The meaning of host calls\<close>

text \<open>
  The operation of the wrapper behind a host call, as a reference for both engines: the arguments are taken by their position,
  those of 8 and 16 bits are cut to their width.
\<close>

definition wrapper_call :: "engine_crates \<Rightarrow> platform \<Rightarrow> APIName \<Rightarrow> RuntimeValue list \<Rightarrow> ('p, unit) host_op" where
  "wrapper_call X P index args =
     (case index of
        VeracruzAPI n \<Rightarrow> wrapper_fd_create (val32 args 0)
      | WasiAPI n \<Rightarrow>
     (case n of
        API_ARGS_GET \<Rightarrow> wrapper_args_get (val32 args 0) (val32 args 1)
      | API_ARGS_SIZES_GET \<Rightarrow> wrapper_args_sizes_get (val32 args 0) (val32 args 1)
      | API_ENVIRON_GET \<Rightarrow> wrapper_environ_get (val32 args 0) (val32 args 1)
      | API_ENVIRON_SIZES_GET \<Rightarrow> wrapper_environ_sizes_get (val32 args 0) (val32 args 1)
      | API_CLOCK_RES_GET \<Rightarrow> wrapper_clock_res_get P (val32 args 0) (val32 args 1)
      | API_CLOCK_TIME_GET \<Rightarrow> wrapper_clock_time_get P (val32 args 0) (val64 args 1) (val32 args 2)
      | API_FD_ADVISE \<Rightarrow>
          wrapper_fd_advise (ec_wasi X) (val32 args 0) (val64 args 1) (val64 args 2) (ucast (val32 args 3))
      | API_FD_ALLOCATE \<Rightarrow> wrapper_fd_allocate (val32 args 0) (val64 args 1) (val64 args 2)
      | API_FD_CLOSE \<Rightarrow> wrapper_fd_close (val32 args 0)
      | API_FD_DATASYNC \<Rightarrow> wrapper_fd_datasync (val32 args 0)
      | API_FD_FDSTAT_GET \<Rightarrow> wrapper_fd_fdstat_get (ec_wasi X) (val32 args 0) (val32 args 1)
      | API_FD_FDSTAT_SET_FLAGS \<Rightarrow>
          wrapper_fd_fdstat_set_flags (ec_wasi X) (val32 args 0) (ucast (val32 args 1))
      | API_FD_FDSTAT_SET_RIGHTS \<Rightarrow>
          wrapper_fd_fdstat_set_rights (ec_wasi X) (val32 args 0) (val64 args 1) (val64 args 2)
      | API_FD_FILESTAT_GET \<Rightarrow> wrapper_fd_filestat_get (ec_wasi X) (val32 args 0) (val32 args 1)
      | API_FD_FILESTAT_SET_SIZE \<Rightarrow> wrapper_fd_filestat_set_size (val32 args 0) (val64 args 1)
      | API_FD_FILESTAT_SET_TIMES \<Rightarrow>
          wrapper_fd_filestat_set_times (ec_wasi X) P (val32 args 0) (val64 args 1) (val64 args 2) (ucast
            (val32 args 3))
      | API_FD_PREAD \<Rightarrow>
          wrapper_fd_pread (val32 args 0) (val32 args 1) (val32 args 2) (val64 args 3) (val32 args 4)
      | API_FD_PRESTAT_GET \<Rightarrow> wrapper_fd_prestat_get (ec_wasi X) (val32 args 0) (val32 args 1)
      | API_FD_PRESTAT_DIR_NAME \<Rightarrow> wrapper_fd_prestat_dir_name (val32 args 0) (val32 args 1) (val32 args 2)
      | API_FD_PWRITE \<Rightarrow>
          wrapper_fd_pwrite (ec_crates X) (val32 args 0) (val32 args 1) (val32 args 2) (val64 args 3)
            (val32 args 4)
      | API_FD_READ \<Rightarrow> wrapper_fd_read (val32 args 0) (val32 args 1) (val32 args 2) (val32 args 3)
      | API_FD_READDIR \<Rightarrow>
          wrapper_fd_readdir (ec_wasi X) (val32 args 0) (val32 args 1) (val32 args 2) (val64 args 3)
            (val32 args 4)
      | API_FD_RENUMBER \<Rightarrow> wrapper_fd_renumber (val32 args 0) (val32 args 1)
      | API_FD_SEEK \<Rightarrow>
          wrapper_fd_seek (ec_wasi X) (val32 args 0) (val64 args 1) (ucast (val32 args 2)) (val32 args 3)
      | API_FD_SYNC \<Rightarrow> wrapper_fd_sync (val32 args 0)
      | API_FD_TELL \<Rightarrow> wrapper_fd_tell (val32 args 0) (val32 args 1)
      | API_FD_WRITE \<Rightarrow>
          wrapper_fd_write (ec_crates X) (val32 args 0) (val32 args 1) (val32 args 2) (val32 args 3)
      | API_PATH_CREATE_DIRECTORY \<Rightarrow>
          wrapper_path_create_directory (val32 args 0) (val32 args 1) (val32 args 2)
      | API_PATH_FILESTAT_GET \<Rightarrow>
          wrapper_path_filestat_get (ec_wasi X) (val32 args 0) (val32 args 1) (val32 args 2) (val32 args 3)
            (val32 args 4)
      | API_PATH_FILESTAT_SET_TIMES \<Rightarrow>
          wrapper_path_filestat_set_times (ec_wasi X) P (val32 args 0) (val32 args 1) (val32 args 2)
            (val32 args 3) (val64 args 4) (val64 args 5) (ucast (val32 args 6))
      | API_PATH_LINK \<Rightarrow>
          wrapper_path_link (ec_wasi X) (val32 args 0) (val32 args 1) (val32 args 2) (val32 args 3)
            (val32 args 4) (val32 args 5) (val32 args 6)
      | API_PATH_OPEN \<Rightarrow>
          wrapper_path_open (ec_wasi X) (val32 args 0) (val32 args 1) (val32 args 2) (val32 args 3) (ucast
            (val32 args 4)) (val64 args 5) (val64 args 6) (ucast (val32 args 7)) (val32 args 8)
      | API_PATH_READLINK \<Rightarrow>
          wrapper_path_readlink (val32 args 0) (val32 args 1) (val32 args 2) (val32 args 3) (val32 args 4)
            (val32 args 5)
      | API_PATH_REMOVE_DIRECTORY \<Rightarrow>
          wrapper_path_remove_directory (val32 args 0) (val32 args 1) (val32 args 2)
      | API_PATH_RENAME \<Rightarrow>
          wrapper_path_rename (val32 args 0) (val32 args 1) (val32 args 2) (val32 args 3) (val32 args 4)
            (val32 args 5)
      | API_PATH_SYMLINK \<Rightarrow>
          wrapper_path_symlink (val32 args 0) (val32 args 1) (val32 args 2) (val32 args 3) (val32 args 4)
      | API_PATH_UNLINK_FILE \<Rightarrow> wrapper_path_unlink_file (val32 args 0) (val32 args 1) (val32 args 2)
      | API_POLL_ONEOFF \<Rightarrow>
          wrapper_poll_oneoff (ec_wasi X) (val32 args 0) (val32 args 1) (val32 args 2) (val32 args 3)
      | API_PROC_EXIT \<Rightarrow> wrapper_proc_exit (val32 args 0)
      | API_PROC_RAISE \<Rightarrow> wrapper_proc_raise (ec_wasi X) (ucast (val32 args 0))
      | API_SCHED_YIELD \<Rightarrow> wrapper_sched_yield
      | API_RANDOM_GET \<Rightarrow> wrapper_random_get P (val32 args 0) (val32 args 1)
      | API_SOCK_RECV \<Rightarrow>
          wrapper_sock_recv (ec_wasi X) (val32 args 0) (val32 args 1) (val32 args 2) (ucast (val32 args 3))
            (val32 args 4) (val32 args 5)
      | API_SOCK_SEND \<Rightarrow>
          wrapper_sock_send (ec_wasi X) (val32 args 0) (val32 args 1) (val32 args 2) (ucast (val32 args 3))
            (val32 args 4)
      | API_SOCK_SHUTDOWN \<Rightarrow> wrapper_sock_shutdown (ec_wasi X) (val32 args 0) (ucast (val32 args 1))))"

text \<open>The positions of the arguments that have fewer than 32 bits, with their bits.\<close>

definition narrow :: "APIName \<Rightarrow> (nat \<times> nat) list" where
  "narrow index =
     (case index of
        VeracruzAPI n \<Rightarrow> []
      | WasiAPI n \<Rightarrow>
     (case n of
        API_FD_ADVISE \<Rightarrow> [(3, 8)]
      | API_FD_FDSTAT_SET_FLAGS \<Rightarrow> [(1, 16)]
      | API_FD_FILESTAT_SET_TIMES \<Rightarrow> [(3, 16)]
      | API_FD_SEEK \<Rightarrow> [(2, 8)]
      | API_PATH_FILESTAT_SET_TIMES \<Rightarrow> [(6, 16)]
      | API_PATH_OPEN \<Rightarrow> [(4, 16), (7, 16)]
      | API_PROC_RAISE \<Rightarrow> [(0, 8)]
      | API_SOCK_RECV \<Rightarrow> [(3, 16)]
      | API_SOCK_SEND \<Rightarrow> [(3, 16)]
      | API_SOCK_SHUTDOWN \<Rightarrow> [(1, 8)]
      | _ \<Rightarrow> []))"

definition in_range :: "APIName \<Rightarrow> RuntimeValue list \<Rightarrow> bool" where
  "in_range index args \<longleftrightarrow> list_all (\<lambda>(i, bits). unat (val32 args i) < 2 ^ bits) (narrow index)"

text \<open>
  What the documentation of \<^verbatim>\<open>wasmi\<close> promises for the conversions of values, and that the error codes of WASI are small.
\<close>

definition values_ok :: "engine_crates \<Rightarrow> bool" where
  "values_ok X \<longleftrightarrow>
     (\<forall>w. value_u32 X (I32 w) = Some w) \<and> (\<forall>w. value_u64 X (I64 w) = Some w) \<and> (\<forall>w. value_i64 X (I64 w) = Some w) \<and>
     (\<forall>w. value_u16 X (I32 w) = to_u16 w) \<and> (\<forall>w. value_u8 X (I32 w) = to_u8 w) \<and>
     (\<forall>e. unat (errno_code (ec_wasi X) e) < 2 ^ 15)"

lemma value_type_I32 [simp]: "value_type v = TI32 \<longleftrightarrow> (\<exists>w. v = I32 w)" "value_type v = TI64 \<longleftrightarrow> (\<exists>w. v = I64 w)"
  by (cases v; simp)+

lemma mlift_Ok: "mlift (Ok a) = mreturn a"
  by (rule ext) (simp add: mlift_def mreturn_def)

lemma wasmi_arg_values:
  assumes "values_ok X"
  shows "i < length args \<Longrightarrow> args ! i = I32 w \<Longrightarrow> arg_u32 X args i = mreturn w"
    and "i < length args \<Longrightarrow> args ! i = I32 w \<Longrightarrow> nth_u32 X args i = mreturn w"
    and "i < length args \<Longrightarrow> args ! i = I64 w' \<Longrightarrow> arg_u64 X args i = mreturn w'"
    and "i < length args \<Longrightarrow> args ! i = I64 w' \<Longrightarrow> arg_i64 X args i = mreturn w'"
    and "i < length args \<Longrightarrow> args ! i = I32 w \<Longrightarrow> unat w < 65536 \<Longrightarrow> arg_u16 X args i = mreturn (ucast w)"
    and "i < length args \<Longrightarrow> args ! i = I32 w \<Longrightarrow> unat w < 256 \<Longrightarrow> nth_u8 X args i = mreturn (ucast w)"
  using assms
  by (simp_all add: values_ok_def nth_checked_def nth_panicking_def arg_at_def ok_or_def mlift_Ok to_u16_def to_u8_def)

lemma wasmi_call_typed:
  assumes "values_ok X" and "map value_type args = get_params index" and "in_range index args"
  shows "wasmi_call X P index args = with_memory (wrapper_call X P index args)"
proof (cases index)
  case (WasiAPI n)
  then show ?thesis using assms(2,3)
    by (cases n)
      (auto simp: get_params_def map_eq_Cons_conv in_range_def narrow_def val32_def val64_def wrapper_call_def wasmi_call_def
        wasmi_defs check_args_number_def wasmi_arg_values [OF assms(1)] mbind_mreturn)
next
  case (VeracruzAPI n)
  then show ?thesis using assms(2,3)
    by (auto simp: get_params_def map_eq_Cons_conv val32_def wrapper_call_def wasmi_call_def wasmi_defs
        wasmi_arg_values [OF assms(1)] mbind_mreturn)
qed

lemma linked_functions_ok:
  "list_all (\<lambda>(md, f, name, sig).
     (md = WASI_SNAPSHOT_MODULE_NAME \<or> md = VERACRUZ_SI_MODULE_NAME) \<and> resolve_func f sig = Some (to_u64 name) \<and>
     from_u64 (to_u64 name) = Some name \<and> sig_params sig = get_params name) linked_functions"
  by code_simp

lemma wasi_api_names_all: "n \<in> set wasi_api_names"
  by (cases n) (simp_all add: wasi_api_names_def)

lemma linked_params_get_params: "linked_params index = Some (get_params index)"
proof (cases index)
  case (WasiAPI n)
  have "list_all (\<lambda>n. linked_params (WasiAPI n) = Some (get_params (WasiAPI n))) wasi_api_names" by code_simp
  then show ?thesis using WasiAPI wasi_api_names_all by (auto simp: list_all_iff)
next
  case (VeracruzAPI n)
  have "linked_params (VeracruzAPI API_FD_CREATE) = Some (get_params (VeracruzAPI API_FD_CREATE))" by code_simp
  then show ?thesis using VeracruzAPI by (cases n) simp
qed

lemma wasmtime_call_typed:
  assumes "map value_type args = get_params index" and "in_range index args" and "index \<noteq> WasiAPI API_PROC_EXIT"
  shows "wasmtime_call X P index args = with_code (convert_to_errno X (wrapper_call X P index args))"
proof (cases index)
  case (WasiAPI n)
  then show ?thesis using assms(2,3)
    by (cases n)
      (simp_all add: wasmtime_call_def linked_params_get_params assms(1) wasmtime_defs wrapper_call_def in_range_def narrow_def
        convert_wasi_arg_def to_u16_def to_u8_def)
next
  case (VeracruzAPI n)
  then show ?thesis
    by (simp add: wasmtime_call_def linked_params_get_params assms(1) wasmtime_defs wrapper_call_def)
qed

lemma scast_small:
  assumes "unat (c :: u16) < 2 ^ 15" shows "(scast c :: u32) = ucast c"
proof -
  have "int (unat c) < int (2 ^ 15)" using assms by (simp only: of_nat_less_iff)
  then have u: "uint c < 2 ^ 15" by (simp only: int_eq_iff uint_nat [symmetric] of_nat_power of_nat_numeral)
  have len: "LENGTH(16) - 1 = 15" by simp
  have "sint c = uint c"
    unfolding sint_uint len by (rule signed_take_bit_int_eq_self) (use u order_trans [OF _ uint_ge_0 [of c]] in auto)
  then have "word_of_int (sint c) = (word_of_int (uint c) :: u32)" by (rule arg_cong)
  then show ?thesis by (simp only: of_int_sint of_int_uint)
qed

lemma with_memory_code:
  assumes "values_ok X" and "guest_memory h \<noteq> None"
  shows "mbind (with_memory m) (\<lambda>e. mreturn (Some (I32 (scast (errno_code (ec_wasi X) e))))) h =
    with_code (convert_to_errno X m) h"
  using assms scast_small
  by (cases "m h"; cases "fst (m h)")
    (auto simp: with_memory_def with_code_def convert_to_errno_def mcatch_def mbind_def mreturn_def values_ok_def)

lemma link_import_linked:
  assumes "link_import i = Some name"
  shows "(import_module i, import_field i, name, import_signature i) \<in> set linked_functions"
proof -
  obtain md f where "find (\<lambda>(md, f, _). md = import_module i \<and> f = import_field i) linked_functions =
      Some (md, f, name, import_signature i)"
    using assms by (auto simp: link_import_def split: option.splits if_splits)
  then show ?thesis by (auto simp: find_Some_iff in_set_conv_nth)
qed

end
