(* ===== verification/Tracing.thy ===== *)
theory Tracing
  imports Agreement
begin

text \<open>
  Tracing is transparent: apart from the log, a host call does the same with and without tracing, unless showing an argument panics.
  The body of a call does not depend on tracing (\<open>blind\<close>), showing the arguments only writes to the log (\<open>quiet\<close>).
\<close>

named_theorems blind_intros \<open>rules for operations that do not depend on tracing\<close>
named_theorems quiet_intros \<open>rules for operations that only write to the log\<close>

section \<open>The state without tracing\<close>

definition erase :: "'p host \<Rightarrow> 'p host" where
  "erase h = h\<lparr>guest_strace := \<lparr>strace_enabled = False, strace_state = TraceFunc\<rparr>, guest_log := [],
     host_wasi := (host_wasi h)\<lparr>wasi_enable_strace := False\<rparr>\<rparr>"

lemma erase_simps [simp]:
  "guest_memory (erase h) = guest_memory h" "wasi_filesystem (host_wasi (erase h)) = wasi_filesystem (host_wasi h)"
  "wasi_environment (host_wasi (erase h)) = wasi_environment (host_wasi h)"
  "wasi_arguments (host_wasi (erase h)) = wasi_arguments (host_wasi h)"
  "wasi_exit_code (host_wasi (erase h)) = wasi_exit_code (host_wasi h)"
  "wasi_enable_clock (host_wasi (erase h)) = wasi_enable_clock (host_wasi h)"
  "\<not> wasi_enable_strace (host_wasi (erase h))" "\<not> strace_enabled (guest_strace (erase h))"
  "guest_strace (erase h) = \<lparr>strace_enabled = False, strace_state = TraceFunc\<rparr>"
  "erase (erase h) = erase h" "erase (h\<lparr>guest_strace := st\<rparr>) = erase h" "erase (h\<lparr>guest_log := l\<rparr>) = erase h"
  by (simp_all add: erase_def)

definition blind :: "('p host, 'e, 'a) sm \<Rightarrow> bool" where
  "blind m \<longleftrightarrow> (\<forall>h. fst (m h) = fst (m (erase h)) \<and> erase (snd (m h)) = erase (snd (m (erase h))) \<and>
     guest_strace (snd (m h)) = guest_strace h)"

lemma blindD:
  assumes "blind m"
  shows "fst (m h) = fst (m (erase h))" "erase (snd (m h)) = erase (snd (m (erase h)))"
    "guest_strace (snd (m h)) = guest_strace h"
  using assms unfolding blind_def by blast+

lemma blind_basic [blind_intros]:
  "blind (mreturn a)" "blind (mthrow e)" "blind mpanic" "blind (mlift r)" "blind (decode_wasi_arg x)"
  "blind (guard e b)"
  by (simp_all add: blind_def monad_defs decode_wasi_arg_def guard_def)

lemma blind_parts [blind_intros]: "blind (on_memory m)" "blind (on_fs n)"
  by (simp_all add: blind_def on_memory_def on_fs_def mzoom_def erase_def)

lemma blind_mcatch [blind_intros]:
  assumes "blind m" and "\<And>a. blind (f a)" and "\<And>e. blind (g e)"
  shows "blind (mcatch m f g)"
  unfolding blind_def
proof
  fix h
  note m = blindD [OF assms(1), of h] and f = blindD [OF assms(2)] and g = blindD [OF assms(3)]
  show "fst (mcatch m f g h) = fst (mcatch m f g (erase h)) \<and>
      erase (snd (mcatch m f g h)) = erase (snd (mcatch m f g (erase h))) \<and>
      guest_strace (snd (mcatch m f g h)) = guest_strace h"
    using m f [of _ "snd (m h)"] f [of _ "snd (m (erase h))"] g [of _ "snd (m h)"] g [of _ "snd (m (erase h))"]
    by (simp add: mcatch_def split: result.split)
qed

lemma mbind_mcatch: "mbind m f = mcatch m f mthrow"
  by (rule ext) (simp add: mbind_def mcatch_def mthrow_def split: result.split)

lemma blind_mbind [blind_intros]: "blind m \<Longrightarrow> (\<And>a. blind (f a)) \<Longrightarrow> blind (mbind m f)"
  unfolding mbind_mcatch by (intro blind_intros)

lemma blind_mget [blind_intros]:
  "(\<And>h. blind (f h)) \<Longrightarrow> (\<And>h. f (erase h) = f h) \<Longrightarrow> blind (mbind mget f)"
  by (simp add: blind_def mbind_def mget_def)

lemma blind_splits [blind_intros]:
  "(b \<Longrightarrow> blind m) \<Longrightarrow> (\<not> b \<Longrightarrow> blind n) \<Longrightarrow> blind (if b then m else n)"
  "(\<And>x. blind (f1 x)) \<Longrightarrow> blind n \<Longrightarrow> blind (case o1 of None \<Rightarrow> n | Some x \<Rightarrow> f1 x)"
  "(\<And>x y. blind (f2 x y)) \<Longrightarrow> blind (case p1 of (x, y) \<Rightarrow> f2 x y)"
  "blind (g x) \<Longrightarrow> blind (Let x g)"
  "(\<And>x. blind (f3 x)) \<Longrightarrow> blind m \<Longrightarrow> blind n \<Longrightarrow>
     blind (case r of PlatformSuccess x \<Rightarrow> f3 x | Unavailable \<Rightarrow> m | UnknownError \<Rightarrow> n)"
  by (simp_all add: Let_def split: option.split prod.split PlatformResult.split)

lemma blind_set_exit [blind_intros]:
  "blind (mmodify (\<lambda>h. h\<lparr>host_wasi := (host_wasi h)\<lparr>wasi_exit_code := c\<rparr>\<rparr>))"
  by (simp add: blind_def mmodify_def erase_def)

section \<open>Showing arguments\<close>

text \<open>\<open>reads m\<close>: the operation leaves the memory as it is. \<open>logs m\<close>: the operation writes to the log only, or panics.\<close>

definition reads :: "(memory, 'e, 'a) sm \<Rightarrow> bool" where
  "reads m \<longleftrightarrow> (\<forall>mem. snd (m mem) = mem \<and> fst (m mem) \<noteq> Stuck)"

definition logs :: "('p host, 'e, unit) sm \<Rightarrow> bool" where
  "logs m \<longleftrightarrow> (\<forall>h. (fst (m h) = Ok () \<or> fst (m h) = Panic) \<and> erase (snd (m h)) = erase h)"

definition quiet :: "('p host, 'e, unit) sm \<Rightarrow> bool" where
  "quiet m \<longleftrightarrow> logs m \<and> (\<forall>h. \<not> strace_enabled (guest_strace h) \<longrightarrow> m h = (Ok (), h))"

lemma reads_basic [quiet_intros]:
  "reads (mreturn a)" "reads (get_slice w l)" "reads get_size" "r \<noteq> Stuck \<Longrightarrow> reads (mlift r)"
  by (simp_all add: reads_def monad_defs get_slice_def get_size_def split: option.split)

lemma reads_mbind [quiet_intros]: "reads m \<Longrightarrow> (\<And>a. reads (f a)) \<Longrightarrow> reads (mbind m f)"
  by (auto simp: reads_def mbind_def split: result.split)

lemma reads_numbers [quiet_intros]:
  "reads (read_buffer a n)" "reads (read_u16 a)" "reads (read_u32 a)" "reads (read_u64 a)" "reads (unpack_iovec a c)"
  unfolding read_buffer_def read_u16_def read_u32_def read_u64_def unpack_iovec_def unpack_iovec_mut_def
  by (intro quiet_intros not_stuck; auto)+

lemma logs_info [quiet_intros]: "logs (info line)" "logs (set_trace st)" "logs (mreturn ())"
  by (simp_all add: logs_def info_def set_trace_def monad_defs)

lemma logs_mbind [quiet_intros]: "logs m \<Longrightarrow> (\<And>a. logs (f a)) \<Longrightarrow> logs (mbind m f)"
  unfolding logs_def [of "mbind m f"]
proof
  fix h
  assume "logs m" and "\<And>a. logs (f a)"
  then have "(fst (m h) = Ok () \<or> fst (m h) = Panic) \<and> erase (snd (m h)) = erase h"
    "(fst (f a (snd (m h))) = Ok () \<or> fst (f a (snd (m h))) = Panic) \<and> erase (snd (f a (snd (m h)))) = erase (snd (m h))" for a
    unfolding logs_def by blast+
  then show "(fst (mbind m f h) = Ok () \<or> fst (mbind m f h) = Panic) \<and> erase (snd (mbind m f h)) = erase h"
    by (auto simp: mbind_def)
qed

lemma logs_if [quiet_intros]: "logs m \<Longrightarrow> logs n \<Longrightarrow> logs (if b then m else n)"
  by simp

lemma logs_read [quiet_intros]:
  assumes "reads m" and "\<And>x. logs (f x)" and "\<And>e. logs (g e)"
  shows "logs (mcatch (on_memory m) f g)"
  using assms unfolding logs_def reads_def
  by (auto simp: mcatch_def on_memory_def mzoom_def split: result.split)

lemma logs_show_read [quiet_intros]: "reads m \<Longrightarrow> logs (show_read m text bad)"
  unfolding show_read_def by (intro quiet_intros)

lemma logs_comma [quiet_intros]: "logs arg_print_comma"
  by (simp add: logs_def arg_print_comma_def mbind_def mget_def info_def set_trace_def mmodify_def split: TraceState.split)

lemma quiet_when_enabled: "logs m \<Longrightarrow> quiet (when_enabled m)"
proof -
  assume "logs m"
  then have "logs (mbind arg_print_comma (\<lambda>_. m))" by (intro quiet_intros)
  then show ?thesis by (auto simp: quiet_def when_enabled_def logs_def mbind_def [of mget] mget_def mreturn_def)
qed

lemma quiet_args:
  "quiet (arg_buffer a l)" "quiet (arg_dec i)" "quiet arg_dots" "quiet arg_dirents" "quiet arg_events"
  "quiet arg_fdstat" "quiet arg_filestat" "quiet (arg_hex n)" "quiet (arg_iovec r a l b)"
  "quiet (arg_p_u16_hex a)" "quiet (arg_p_u32 a)" "quiet (arg_p_u64 a)" "quiet (arg_path a l)"
  "quiet (arg_prestat_out r a)" "quiet (arg_rights w)" "quiet arg_subscriptions"
  unfolding arg_buffer_def arg_dec_def arg_dots_def arg_dirents_def arg_events_def arg_fdstat_def arg_filestat_def
    arg_hex_def arg_iovec_def arg_p_u16_hex_def arg_p_u32_def arg_p_u64_def arg_path_def arg_prestat_out_def
    arg_rights_def arg_subscriptions_def
  by (intro quiet_when_enabled quiet_intros)+

lemma quiet_fold:
  assumes "list_all quiet ms"
  shows "quiet (mfold (\<lambda>_ m. m) () ms)"
  using assms
proof (induction ms)
  case (Cons m ms)
  then have "quiet m" "quiet (mfold (\<lambda>_ m. m) () ms)" by simp_all
  then show ?case unfolding quiet_def by (simp add: mbind_def logs_mbind)
qed (simp add: quiet_def logs_def mreturn_def)

lemma strace_off:
  assumes "\<not> wasi_enable_strace (host_wasi h)" and "blind body" and "\<And>r. list_all quiet (args r)"
  shows "strace name body args h = body (h\<lparr>guest_strace := \<lparr>strace_enabled = False, strace_state = TraceFunc\<rparr>\<rparr>)"
proof -
  let ?h = "h\<lparr>guest_strace := \<lparr>strace_enabled = False, strace_state = TraceFunc\<rparr>\<rparr>"
  have "quiet (mfold (\<lambda>_ m. m) () (args r))" for r by (rule quiet_fold) (rule assms(3))
  moreover have "\<not> strace_enabled (guest_strace (snd (body ?h)))" using blindD(3) [OF assms(2), of ?h] by simp
  ultimately show ?thesis using assms(1)
    by (cases "body ?h"; cases "fst (body ?h)")
      (simp_all add: strace_def traced_def strace_func_def mbind_def mget_def mreturn_def mmodify_def quiet_def
        strace_result_def mlift_def)
qed

section \<open>Tracing is transparent\<close>

definition transparent :: "('p host, 'e, 'a) sm \<Rightarrow> bool" where
  "transparent m \<longleftrightarrow> (\<forall>h. fst (m h) \<noteq> Panic \<longrightarrow>
     fst (m h) = fst (m (erase h)) \<and> erase (snd (m h)) = erase (snd (m (erase h))))"

lemma transparent_blind: "blind m \<Longrightarrow> transparent m"
  by (simp add: blind_def transparent_def)

lemma strace_result_state:
  "fst (strace_result r h) = r" "erase (snd (strace_result r h)) = erase h"
  by (auto simp: strace_result_def mbind_def mget_def mlift_def info_def set_trace_def mmodify_def split: result.split)

lemma transparent_strace:
  assumes "blind body" and "\<And>r. list_all quiet (args r)"
  shows "transparent (strace name body args)"
  unfolding transparent_def
proof (intro allI impI)
  fix h
  assume np: "fst (strace name body args h) \<noteq> Panic"
  let ?en = "wasi_enable_strace (host_wasi h)" and ?r = "fst (body (erase h))" and ?h0 = "snd (body (erase h))"
  obtain h1 where h1: "strace_func ?en name h = (Ok (), h1)" "erase h1 = erase h"
    by (cases ?en) (auto simp: strace_func_def info_def monad_defs mbind_def)
  have e: "strace_func False name (erase h) = (Ok (), erase h)"
    by (simp add: strace_func_def monad_defs mbind_def erase_def)
  have b: "fst (body h1) = ?r" "erase (snd (body h1)) = erase ?h0" "\<not> strace_enabled (guest_strace ?h0)"
    using blindD [OF assms(1), of h1] blindD(3) [OF assms(1), of "erase h"] h1(2) by simp_all
  have q: "quiet (mfold (\<lambda>_ m. m) () (args r))" for r by (rule quiet_fold) (rule assms(2))
  have off: "strace name body args (erase h) = (?r, ?h0)"
    using q [of ?r] b(3) e
    by (cases "body (erase h)"; cases ?r)
      (simp_all add: strace_def traced_def mbind_def mget_def quiet_def strace_result_def mlift_def)
  obtain h2 where h2: "body h1 = (?r, h2)" "erase h2 = erase ?h0" using b(1,2) by (cases "body h1") simp
  obtain v h3 where f: "mfold (\<lambda>_ m. m) () (args ?r) h2 = (v, h3)" by fastforce
  have v: "v = Ok () \<or> v = Panic" "erase h3 = erase h2"
    using q [of ?r] f unfolding quiet_def logs_def by (metis fst_conv, metis snd_conv)
  have run: "strace name body args h = (case ?r of Panic \<Rightarrow> (Panic, h2) | Stuck \<Rightarrow> (Stuck, h2)
      | _ \<Rightarrow> mbind (mfold (\<lambda>_ m. m) () (args ?r)) (\<lambda>_. strace_result ?r) h2)"
    using h1(1) h2(1) by (simp add: strace_def traced_def mbind_def [of mget] mbind_def [of "strace_func _ _"] mget_def
        split: result.split)
  have on: "fst (strace name body args h) = ?r \<and> erase (snd (strace name body args h)) = erase ?h0"
    using np v h2(2) f unfolding run
    by (cases ?r) (auto simp: mbind_def strace_result_state)
  show "fst (strace name body args h) = fst (strace name body args (erase h)) \<and>
      erase (snd (strace name body args h)) = erase (snd (strace name body args (erase h)))"
    using on off by simp
qed

lemma transparent_wrapper_args:
  "transparent (wrapper_args_get a0 a1)" "transparent (wrapper_args_sizes_get a0 a1)"
  "transparent (wrapper_environ_get a0 a1)" "transparent (wrapper_environ_sizes_get a0 a1)"
  "transparent (wrapper_clock_res_get P a0 a1)" "transparent (wrapper_clock_time_get P a0 w0 a1)"
  unfolding wrapper_args_get_def wrapper_args_sizes_get_def wrapper_environ_get_def wrapper_environ_sizes_get_def
    wrapper_clock_res_get_def wrapper_clock_time_get_def
  by (intro transparent_strace transparent_blind blind_intros | simp add: quiet_args filestat_time_def)+

lemma transparent_wrapper_fd:
  "transparent (wrapper_fd_pread a0 a1 a2 w0 a3)" "transparent (wrapper_fd_read a0 a1 a2 a3)"
  "transparent (wrapper_fd_advise T a0 w0 w1 b0)" "transparent (wrapper_fd_allocate a0 w0 w1)"
  "transparent (wrapper_fd_close a0)" "transparent (wrapper_fd_datasync a0)" "transparent (wrapper_fd_fdstat_get T a0 a1)"
  "transparent (wrapper_fd_fdstat_set_flags T a0 h0)" "transparent (wrapper_fd_fdstat_set_rights T a0 w0 w1)"
  "transparent (wrapper_fd_filestat_get T a0 a1)" "transparent (wrapper_fd_filestat_set_size a0 w0)"
  "transparent (wrapper_fd_filestat_set_times T P a0 w0 w1 h0)" 
  "transparent (wrapper_fd_prestat_get T a0 a1)" "transparent (wrapper_fd_prestat_dir_name a0 a1 a2)"
  "transparent (wrapper_fd_pwrite (ec_crates X) a0 a1 a2 w0 a3)"
  "transparent (wrapper_fd_readdir T a0 a1 a2 w0 a3)" "transparent (wrapper_fd_renumber a0 a1)"
  "transparent (wrapper_fd_seek T a0 w0 b0 a1)" "transparent (wrapper_fd_sync a0)" "transparent (wrapper_fd_tell a0 a1)"
  "transparent (wrapper_fd_write (ec_crates X) a0 a1 a2 a3)"
  unfolding wrapper_fd_pread_def wrapper_fd_read_def wrapper_fd_advise_def wrapper_fd_allocate_def wrapper_fd_close_def wrapper_fd_datasync_def
    wrapper_fd_fdstat_get_def wrapper_fd_fdstat_set_flags_def wrapper_fd_fdstat_set_rights_def
    wrapper_fd_filestat_get_def wrapper_fd_filestat_set_size_def wrapper_fd_filestat_set_times_def
    wrapper_fd_prestat_get_def wrapper_fd_prestat_dir_name_def wrapper_fd_pwrite_def
    wrapper_fd_readdir_def wrapper_fd_renumber_def wrapper_fd_seek_def wrapper_fd_sync_def
    wrapper_fd_tell_def wrapper_fd_write_def
  by (intro transparent_strace transparent_blind blind_intros | simp add: quiet_args filestat_time_def)+

lemma transparent_wrapper_path:
  "transparent (wrapper_path_create_directory a0 a1 a2)" "transparent (wrapper_path_filestat_get T a0 a1 a2 a3 a4)"
  "transparent (wrapper_path_filestat_set_times T P a0 a1 a2 a3 w0 w1 h0)"
  "transparent (wrapper_path_link T a0 a1 a2 a3 a4 a5 a6)"
  "transparent (wrapper_path_open T a0 a1 a2 a3 h0 w0 w1 h1 a4)"
  "transparent (wrapper_path_readlink a0 a1 a2 a3 a4 a5)" "transparent (wrapper_path_remove_directory a0 a1 a2)"
  "transparent (wrapper_path_rename a0 a1 a2 a3 a4 a5)" "transparent (wrapper_path_symlink a0 a1 a2 a3 a4)"
  "transparent (wrapper_path_unlink_file a0 a1 a2)"
  unfolding wrapper_path_create_directory_def wrapper_path_filestat_get_def wrapper_path_filestat_set_times_def
    wrapper_path_link_def wrapper_path_open_def wrapper_path_readlink_def wrapper_path_remove_directory_def
    wrapper_path_rename_def wrapper_path_symlink_def wrapper_path_unlink_file_def
  by (intro transparent_strace transparent_blind blind_intros | simp add: quiet_args filestat_time_def)+

lemma transparent_wrapper_rest:
  "transparent (wrapper_poll_oneoff T a0 a1 a2 a3)"
  "transparent (wrapper_proc_raise T b0)" "transparent wrapper_sched_yield" "transparent (wrapper_random_get P a0 a1)"
  "transparent (wrapper_sock_recv T a0 a1 a2 h0 a3 a4)" "transparent (wrapper_sock_send T a0 a1 a2 h0 a3)"
  "transparent (wrapper_sock_shutdown T a0 b0)" "transparent (wrapper_fd_create a0)"
  unfolding wrapper_poll_oneoff_def wrapper_proc_raise_def wrapper_sched_yield_def
    wrapper_random_get_def wrapper_sock_recv_def wrapper_sock_send_def wrapper_sock_shutdown_def
    wrapper_fd_create_def
  by (intro transparent_strace transparent_blind blind_intros | simp add: quiet_args filestat_time_def)+

lemma transparent_proc_exit: "transparent (wrapper_proc_exit a0)"
  by (simp add: transparent_def wrapper_proc_exit_def strace_func_def info_def erase_def monad_defs mbind_def)

lemmas transparent_wrapper = transparent_proc_exit transparent_wrapper_args transparent_wrapper_fd transparent_wrapper_path transparent_wrapper_rest

lemma transparent_call: "transparent (wrapper_call X P index args)"
proof (cases index)
  case (WasiAPI n)
  then show ?thesis unfolding wrapper_call_def by (cases n) (simp_all add: transparent_wrapper)
qed (simp add: wrapper_call_def transparent_wrapper)

end
