(* ===== verification/Lookup.thy ===== *)
theory Lookup
  imports Inodes
begin

text \<open>
  Name resolution: what a path leads to after a directory or a file was created. Creating entries
  never hides an existing name (\<open>dir_le\<close>), \<open>add_all_dir\<close> returns the inode its path leads to, and a
  file created by \<open>add_file\<close> is found under its path.
\<close>

definition lookup :: "'p InodeTable \<Rightarrow> Inode \<Rightarrow> component \<Rightarrow> Inode option" where
  "lookup t i c =
     (case table t i of
        Some e \<Rightarrow> (case node_data e of Directory d \<Rightarrow> hm_get components d (component_str c) | _ \<Rightarrow> None)
      | None \<Rightarrow> None)"

text \<open>Every name that can be resolved in \<open>t\<close> is resolved to the same inode in \<open>t'\<close>.\<close>

definition dir_le :: "'p InodeTable \<Rightarrow> 'p InodeTable \<Rightarrow> bool" where
  "dir_le t t' = (\<forall>i c j. wf_components [c] \<longrightarrow> lookup t i c = Some j \<longrightarrow> lookup t' i c = Some j)"

lemma dir_le_refl [simp]: "dir_le t t"
  by (simp add: dir_le_def)

lemma dir_le_trans: "dir_le t u \<Longrightarrow> dir_le u v \<Longrightarrow> dir_le t v"
  by (simp add: dir_le_def)

lemma walk_step: "walk t i (c # cs) = Ok j \<longleftrightarrow> (\<exists>k. lookup t i c = Some k \<and> walk t k cs = Ok j)"
proof -
  have "entry_get_inode_by_path e (component_str c) = Ok k \<longleftrightarrow>
      (\<exists>d. node_data e = Directory d \<and> hm_get components d (component_str c) = Some k)" for e k
    by (cases "node_data e") (auto simp: entry_get_inode_by_path_def ok_or_def split: option.splits)
  then show ?thesis
    unfolding walk_Cons_Ok lookup_def by (auto split: option.splits InodeImpl.splits)
qed

lemma walk_append: "walk t i (cs @ ds) = Ok j \<longleftrightarrow> (\<exists>k. walk t i cs = Ok k \<and> walk t k ds = Ok j)"
  by (induction cs arbitrary: i) (auto simp: walk_step simp del: walk.simps(2))

lemma walk_dir_le:
  "dir_le t t' \<Longrightarrow> (\<And>c. c \<in> set cs \<Longrightarrow> wf_components [c]) \<Longrightarrow> walk t i cs = Ok j \<Longrightarrow> walk t' i cs = Ok j"
  by (induction cs arbitrary: i) (auto simp: walk_step dir_le_def simp del: walk.simps(2))

lemma walk_single: "walk t i [c] = Ok j \<longleftrightarrow> lookup t i c = Some j"
  by (simp add: walk_step del: walk.simps(2))

section \<open>Linking a name\<close>

text \<open>The table after an entry was added under a fresh inode and linked into a directory.\<close>

lemma lookup_link:
  assumes "table t parent = Some e" and "node_data e = Directory d" and "parent \<noteq> i" and "table t i = None"
    and "components name = [c]" and "wf_components [c]"
    and "t' = t\<lparr>table := (table t)(i \<mapsto> n, parent \<mapsto> e\<lparr>node_data := Directory (hm_put components d name i)\<rparr>)\<rparr>"
  shows "lookup t' parent c = Some i"
    and "j \<noteq> i \<Longrightarrow> (j, b) \<noteq> (parent, c) \<Longrightarrow> wf_components [b] \<Longrightarrow> lookup t' j b = lookup t j b"
proof -
  have str: "components (component_str b) = [b]" if "wf_components [b]" for b
    using that by (intro components_component_str) (simp add: wf_components_def)
  show "lookup t' parent c = Some i"
    using assms by (simp add: lookup_def str)
  show "lookup t' j b = lookup t j b" if "j \<noteq> i" "(j, b) \<noteq> (parent, c)" "wf_components [b]"
    using assms that str [OF that(3)] by (auto simp: lookup_def)
qed

lemma link_dir_le:
  assumes "table t parent = Some e" and "node_data e = Directory d" and "parent \<noteq> i" and "table t i = None"
    and "components name = [c]" and "wf_components [c]" and "lookup t parent c = None"
    and "t' = t\<lparr>table := (table t)(i \<mapsto> n, parent \<mapsto> e\<lparr>node_data := Directory (hm_put components d name i)\<rparr>)\<rparr>"
  shows "dir_le t t'"
  unfolding dir_le_def
proof (intro allI impI)
  fix j b k
  assume b: "wf_components [b]" and k: "lookup t j b = Some k"
  have "j \<noteq> i" using k assms(4) by (auto simp: lookup_def)
  moreover have "(j, b) \<noteq> (parent, c)" using k assms(7) by auto
  ultimately show "lookup t' j b = Some k" using lookup_link(2) [OF assms(1-6,8)] b k by simp
qed

lemma entry_insert_Ok:
  "entry_insert p j e = Ok e' \<longleftrightarrow>
     (\<exists>d. node_data e = Directory d \<and> e' = e\<lparr>node_data := Directory (hm_put components d p j)\<rparr>)"
  by (cases "node_data e") (auto simp: entry_insert_def)

section \<open>Creating directories\<close>

definition dots_only :: "'p InodeTable \<Rightarrow> Inode \<Rightarrow> bool" where
  "dots_only t i = (\<forall>s. plain (Normal s) \<longrightarrow> lookup t i (Normal s) = None)"

lemma add_dir_lookup:
  assumes "add_dir parent s i t = (Ok (), t')" and "fresh t i" and "parent \<noteq> i" and "plain (Normal s)"
    and "lookup t parent (Normal s) = None"
  shows "dir_le t t' \<and> lookup t' parent (Normal s) = Some i \<and> dots_only t' i"
proof -
  let ?n = "\<lparr>file_stat = mk_file_stat i DirectoryType 0, node_data = new_directory i parent\<rparr>"
  obtain e d where e: "table t parent = Some e" "node_data e = Directory d"
      and t': "t' = t\<lparr>table := (table t)(parent \<mapsto> e\<lparr>node_data := Directory (hm_put components d s i)\<rparr>, i \<mapsto> ?n)\<rparr>"
    using assms(1,3)
    by (auto simp: add_dir_def update_entry_def table_get_def table_insert_def mbind_def monad_defs ok_or_def
        entry_insert_Ok split: option.splits result.splits)
  have t'': "t' = t\<lparr>table := (table t)(i \<mapsto> ?n, parent \<mapsto> e\<lparr>node_data := Directory (hm_put components d s i)\<rparr>)\<rparr>"
    unfolding t' using assms(3) by (simp add: fun_upd_twist)
  have c: "components s = [Normal s]" "wf_components [Normal s]"
    using assms(4) by (simp_all add: wf_components_def)
  have none: "table t i = None" using assms(2) by (simp add: fresh_def)
  have "dir_le t t'" using link_dir_le [OF e assms(3) none c assms(5) t''] .
  moreover have "lookup t' parent (Normal s) = Some i"
    using lookup_link(1) [OF e assms(3) none c t''] .
  moreover have "dots_only t' i"
    by (auto simp: dots_only_def lookup_def t' new_directory_def hm_get_Cons component_str_def)
  ultimately show ?thesis by blast
qed

lemma get_inode_NoEnt:
  assumes "inode_inv t" and "get_inode_by_inode_path t parent s = Err NoEnt" and "plain (Normal s)"
  shows "lookup t parent (Normal s) = None"
proof (cases "lookup t parent (Normal s)")
  case (Some k)
  then obtain e d where e: "table t parent = Some e" "node_data e = Directory d"
    and k: "hm_get components d s = Some k"
    by (auto simp: lookup_def component_str_def split: option.splits InodeImpl.splits)
  have "table t k \<noteq> None"
    using entry_get_exists [OF inode_invD(1) [OF assms(1) e(1)], of s k] e k
    by (auto simp: entry_get_inode_by_path_def ok_or_def)
  with e k assms(2,3) show ?thesis
    by (auto simp: get_inode_by_inode_path_def entry_get_inode_by_path_def ok_or_def component_str_def)
qed

lemma add_all_dir_step_lookup:
  assumes inv: "inode_inv t" and ex: "table t parent \<noteq> None" and wf: "wf_components [c]"
    and step: "add_all_dir_step parent c t = (Ok j, t')"
  shows "dir_le t t' \<and> lookup t' parent c = Some j \<and>
     (t' = t \<or> lookup t parent c = None \<and> dots_only t' j)"
proof -
  obtain s where c: "c = Normal s"
    using step by (cases c) (auto simp: add_all_dir_step_def mthrow_def)
  have s: "plain (Normal s)" using wf c by (simp add: wf_components_def)
  show ?thesis
  proof (cases "get_inode_by_inode_path t parent s")
    case (Ok r)
    then have "t' = t" "lookup t parent c = Some j"
      using step c s by (cases r; auto simp: add_all_dir_step_def get_inode_Ok walk_single mreturn_def
          simp del: walk.simps(2))+
    then show ?thesis by simp
  next
    case (Err x)
    then have x: "x = NoEnt" using step c by (cases x) (auto simp: add_all_dir_step_def mthrow_def)
    have none: "lookup t parent c = None" using get_inode_NoEnt [OF inv _ s] Err x c by simp
    obtain i t1 where i: "new_inode t = (Ok i, t1)" "add_dir parent s i t1 = (Ok (), t')" "j = i"
      using step Err x c by (auto simp: add_all_dir_step_def mreturn_def elim!: mbind_OkE)
    have t1: "inode_inv t1 \<and> ns_le t t1 \<and> alloc_le t t1 \<and> table t1 = table t \<and> fresh t1 i \<and> \<not> fresh t i"
      using wp_Ok [OF new_inode_wp [OF inv] i(1)] .
    then have same: "lookup t1 = lookup t" by (intro ext) (simp add: lookup_def)
    have "parent \<noteq> i" using ex t1 by (auto simp: fresh_def)
    then have "dir_le t1 t' \<and> lookup t' parent (Normal s) = Some i \<and> dots_only t' i"
      using add_dir_lookup [OF i(2)] t1 s none same c by simp
    then show ?thesis using none c i(3) same by (simp add: dir_le_def)
  qed (use step c in \<open>auto simp: add_all_dir_step_def mpanic_def mstuck_def\<close>)
qed

lemma add_all_dir_lookup:
  assumes "inode_inv t" and "table t parent \<noteq> None" and "\<And>c. c \<in> set cs \<Longrightarrow> wf_components [c]"
    and "add_all_dir parent cs t = (Ok j, t')"
  shows "inode_inv t' \<and> ns_le t t' \<and> table t' j \<noteq> None \<and> dir_le t t' \<and> walk t' parent cs = Ok j \<and>
     (t' = t \<or> dots_only t' j)"
  using assms(3,4)
proof (induction cs arbitrary: j t' rule: rev_induct)
  case Nil
  then show ?case using assms(1,2) by (auto simp: add_all_dir_def mreturn_def)
next
  case (snoc c cs)
  obtain k u where k: "add_all_dir parent cs t = (Ok k, u)" "add_all_dir_step k c u = (Ok j, t')"
    using snoc.prems(2) unfolding add_all_dir_def mfold_append
    by (auto elim!: mbind_OkE simp: mreturn_def)
  have IH: "inode_inv u" "ns_le t u" "table u k \<noteq> None" "dir_le t u" "walk u parent cs = Ok k"
      "u = t \<or> dots_only u k"
    using snoc.IH [OF _ k(1)] snoc.prems(1) by auto
  have c: "wf_components [c]" using snoc.prems(1) by simp
  have st: "dir_le u t' \<and> lookup t' k c = Some j \<and> (t' = u \<or> lookup u k c = None \<and> dots_only t' j)"
    using add_all_dir_step_lookup [OF IH(1,3) c k(2)] .
  have inv': "ns_step u t' \<and> table t' j \<noteq> None"
    using wp_Ok [OF add_all_dir_step_wp [OF IH(1) c] k(2)] .
  have "walk t' parent cs = Ok k"
    by (rule walk_dir_le [OF conjunct1 [OF st] _ IH(5)]) (simp add: snoc.prems(1))
  then have "walk t' parent (cs @ [c]) = Ok j"
    using st by (auto simp: walk_append walk_single simp del: walk.simps(2))
  moreover have "t' = t \<or> dots_only t' j"
  proof (rule ccontr)
    assume "\<not> ?thesis"
    then have "t' = u" "dots_only u k" using st IH(6) by auto
    moreover obtain s where "c = Normal s"
      using k(2) by (cases c) (auto simp: add_all_dir_step_def mthrow_def)
    ultimately show False using st c by (simp add: dots_only_def wf_components_def)
  qed
  moreover have "ns_le t t'" using IH(2) inv' by (auto simp: ns_step_def intro: ns_le_trans)
  moreover have "dir_le t t'" using IH(4) st by (auto intro: dir_le_trans)
  ultimately show ?case using inv' by (simp add: ns_step_def)
qed

section \<open>Creating files\<close>

lemma add_file_walk:
  assumes inv: "inode_inv t" and fresh: "fresh t i" and ex: "table t parent \<noteq> None"
    and new: "\<And>j. walk t parent (components p) \<noteq> Ok j"
    and add: "add_file parent p i raw t = (Ok (), t')"
  shows "walk t' parent (components p) = Ok i"
proof -
  let ?n = "\<lparr>file_stat = mk_file_stat i RegularFile (of_nat (length raw)), node_data = File raw\<rparr>"
  obtain d name u where u: "add_file_parent parent p t = (Ok (d, name), u)"
    and rest: "mbind (table_insert i ?n) (\<lambda>_. if d \<noteq> i
        then update_entry d (\<lambda>e. no_value (entry_insert name i e)) else mreturn ()) u = (Ok (), t')"
    using add unfolding add_file_def by (auto elim!: mbind_OkE)
  obtain pp c where cs: "components p = pp @ [c]" and c: "c \<noteq> RootDir" "wf_components [c]"
      and pp: "parent_components (components p) = Some pp"
    using u parent_components_prefix [of "components p"] wf_components_each [OF wf_components_components, of _ p]
    by (cases "parent_components (components p)") (auto simp: add_file_parent_def mthrow_def)
  have wf: "\<And>b. b \<in> set pp \<Longrightarrow> wf_components [b]"
    using wf_components_each [OF wf_components_components, of _ p] cs by simp
  have par: "inode_inv u \<and> fresh u i \<and> table u d \<noteq> None \<and> walk u parent pp = Ok d \<and> components name = [c] \<and>
      lookup u d c = None"
  proof (cases "pp = []")
    case True
    then have "d = parent" "name = p" "u = t"
      using u pp by (auto simp: add_file_parent_def mreturn_def)
    then show ?thesis using True cs inv fresh ex new
      by (cases "lookup t parent c") (auto simp: walk_single simp del: walk.simps(2))
  next
    case False
    obtain s j e where s: "c = Normal s" "name = s" and j: "add_all_dir parent pp t = (Ok j, u)"
      and d: "get_inode_by_inode_path u parent (path_of pp) = Ok (d, e)"
      using u pp False cs by (auto simp: add_file_parent_def file_name_def monad_defs
          split: component.splits elim!: mbind_OkE)
    have dirs: "inode_inv u" "ns_le t u" "walk u parent pp = Ok j" "u = t \<or> dots_only u j"
      using add_all_dir_lookup [OF inv ex wf j] by auto
    have "components (path_of pp) = pp"
      using wf_components_components [of p] cs by (intro components_path_of) (metis wf_components_prefix)
    then have dj: "d = j" "table u d \<noteq> None" using d dirs(3) by (auto simp: get_inode_Ok)
    have name: "components name = [c]" using s c(2) by (simp add: wf_components_def)
    have "lookup u d c = None"
    proof (cases "u = t")
      case True
      with new dirs(3) dj show ?thesis
        by (cases "lookup t d c") (auto simp: cs walk_append walk_single simp del: walk.simps(2))
    qed (use dirs(4) dj s c(2) in \<open>auto simp: dots_only_def wf_components_def\<close>)
    moreover have "fresh u i"
      using wp_Ok [OF add_all_dir_wp [OF inv] j] fresh wf_components_components [of p] cs
      by (auto simp: ns_step_def alloc_le_def dest: wf_components_prefix)
    ultimately show ?thesis using dirs dj name by simp
  qed
  have di: "d \<noteq> i" using par by (auto simp: fresh_def)
  obtain e dd where e: "table u d = Some e" "node_data e = Directory dd"
    and t': "t' = u\<lparr>table := (table u)(i \<mapsto> ?n, d \<mapsto> e\<lparr>node_data := Directory (hm_put components dd name i)\<rparr>)\<rparr>"
    using rest di by (auto simp: update_entry_def table_get_def table_insert_def mbind_def monad_defs ok_or_def
        entry_insert_Ok split: option.splits result.splits)
  have none: "table u i = None" using par by (simp add: fresh_def)
  have name: "components name = [c]" "lookup u d c = None" using par by simp_all
  have le: "dir_le u t'" using link_dir_le [OF e di none name(1) c(2) name(2) t'] .
  have "walk u parent pp = Ok d" using par by simp
  with le wf have "walk t' parent pp = Ok d" by (rule walk_dir_le)
  moreover have "lookup t' d c = Some i"
    using lookup_link(1) [OF e di none name(1) c(2) t'] .
  ultimately show ?thesis unfolding cs by (auto simp: walk_append walk_single simp del: walk.simps(2))
qed

end
