(* ===== verification/FileSpec.thy ===== *)
theory FileSpec
  imports Handles Lookup
begin

text \<open>
  The functional behaviour of the operations on files: what reading, writing, seeking and opening
  return and leave behind, on every branch, with the byte contents of a file as the abstract state.
\<close>

section \<open>Bytes of a file\<close>

text \<open>
  \<open>overlay off data b\<close>: the bytes of a file after \<open>data\<close> was written at \<open>off\<close>; a gap between the end
  of the file and \<open>off\<close> is filled with zeros.
\<close>

definition overlay :: "nat \<Rightarrow> byte list \<Rightarrow> byte list \<Rightarrow> byte list" where
  "overlay off data b = copy_at off data (b @ replicate (off + length data - length b) 0)"

lemma length_overlay [simp]: "length (overlay off data b) = max (length b) (off + length data)"
  by (simp add: overlay_def)

lemma overlay_read: "take (length data) (drop off (overlay off data b)) = data"
  by (simp add: overlay_def)

lemma nth_overlay:
  "i < max (length b) (off + length data) \<Longrightarrow>
     overlay off data b ! i =
       (if off \<le> i \<and> i < off + length data then data ! (i - off) else if i < length b then b ! i else 0)"
  by (subst overlay_def, subst nth_copy_at) (auto simp: nth_append)

lemma overlay_append: "overlay (off + length xs) ys (overlay off xs b) = overlay off (xs @ ys) b"
  by (rule nth_equalityI) (auto simp: nth_overlay nth_append)

lemma overlay_start: "overlay 0 data [] = data"
  by (simp add: overlay_def copy_at_def)

lemma write_bytes_eq:
  assumes "unat off + length data \<le> isize_max"
  shows "write_bytes b data off = Ok (overlay (unat off) data b)"
proof -
  have l: "unat (of_nat (length data) :: u64) = length data" "unat off + length data < 2 ^ 64"
    using assms by (auto simp: isize_max_def)
  have e: "unat (off + of_nat (length data)) = unat off + length data"
    using l by (simp add: unat_word_ariths)
  then have le: "off \<le> off + of_nat (length data)" by (simp add: word_le_nat_alt)
  show ?thesis
    using assms le
    by (auto simp: write_bytes_def Let_def e vec_resize_def overlay_def)
qed

lemma read_bytes_eq:
  "read_bytes_from_offset b buf off =
     (if unat off \<le> length b
      then let n = min (length buf) (length b - unat off) in Ok (n, take n (drop (unat off) b) @ drop n buf)
      else Panic)"
  by (simp add: read_bytes_from_offset_def copy_at_def Let_def)

fun bytes_of :: "InodeImpl \<Rightarrow> byte list option" where
  "bytes_of (File b) = Some b"
| "bytes_of (NativeModule s b) = Some b"
| "bytes_of (Directory d) = None"

fun set_bytes :: "byte list \<Rightarrow> InodeImpl \<Rightarrow> InodeImpl" where
  "set_bytes b (File _) = File b"
| "set_bytes b (NativeModule s _) = NativeModule s b"
| "set_bytes b (Directory d) = Directory d"

definition put_bytes :: "byte list \<Rightarrow> InodeEntry \<Rightarrow> InodeEntry" where
  "put_bytes b x = x\<lparr>node_data := set_bytes b (node_data x),
     file_stat := (file_stat x)\<lparr>stat_file_size := of_nat (length b)\<rparr>\<rparr>"

lemma bytes_of_set_bytes [simp]: "bytes_of (set_bytes b d) = map_option (\<lambda>_. b) (bytes_of d)"
  by (cases d) auto

lemma set_bytes_twice [simp]: "set_bytes b (set_bytes c d) = set_bytes b d"
  by (cases d) auto

lemma put_bytes_simps [simp]:
  "bytes_of (node_data (put_bytes b x)) = map_option (\<lambda>_. b) (bytes_of (node_data x))"
  "put_bytes b (put_bytes c x) = put_bytes b x"
  "stat_file_size (file_stat (put_bytes b x)) = of_nat (length b)"
  "stat_file_type (file_stat (put_bytes b x)) = stat_file_type (file_stat x)"
  "entry_is_service (put_bytes b x) = entry_is_service x"
  "entry_is_dir (put_bytes b x) = entry_is_dir x"
  by (cases "node_data x"; simp add: put_bytes_def entry_is_service_def entry_is_dir_def)+

lemma bytes_of_dir: "bytes_of (node_data x) = Some b \<Longrightarrow> \<not> entry_is_dir x"
  by (cases "node_data x") (auto simp: entry_is_dir_def)

lemma not_dir_bytes: "\<not> entry_is_dir x \<Longrightarrow> \<exists>b. bytes_of (node_data x) = Some b"
  by (cases "node_data x") (auto simp: entry_is_dir_def)

lemma entry_write_file_eq:
  assumes "bytes_of (node_data x) = Some b" and "unat off + length data \<le> isize_max"
  shows "entry_write_file data off x = Ok (length data, put_bytes (overlay (unat off) data b) x)"
  using assms by (cases "node_data x") (auto simp: entry_write_file_def write_bytes_eq put_bytes_def)

lemma entry_read_file_eq:
  "bytes_of (node_data x) = Some b \<Longrightarrow> entry_read_file x buf off = read_bytes_from_offset b buf off"
  by (cases "node_data x") (auto simp: entry_read_file_def)

lemma entry_truncate_file_eq:
  "bytes_of (node_data x) = Some b \<Longrightarrow> entry_truncate_file x = Ok (put_bytes [] x)"
  by (cases "node_data x") (auto simp: entry_truncate_file_def put_bytes_def)

lemma entry_ok_bytes:
  assumes "entry_ok D i x" and "bytes_of (node_data x) = Some b"
  shows "length b \<le> isize_max" and "stat_file_size (file_stat x) = of_nat (length b)"
    and "unat (stat_file_size (file_stat x)) = length b" and "stat_inode (file_stat x) = i"
proof -
  show "length b \<le> isize_max" "stat_file_size (file_stat x) = of_nat (length b)" "stat_inode (file_stat x) = i"
    using assms by (cases "node_data x"; auto simp: entry_ok_def)+
  then show "unat (stat_file_size (file_stat x)) = length b"
    using isize_max_less(2) by simp
qed

lemma write_bufs_eq:
  assumes "table t i = Some x" and "bytes_of (node_data x) = Some b"
    and "unat off + length (concat bufs) \<le> isize_max"
  shows "mfold (write_buf i) (off, n) bufs t =
    (Ok (off + of_nat (length (concat bufs)), n + length (concat bufs)),
     if bufs = [] then t
     else t\<lparr>table := (table t)(i \<mapsto> put_bytes (overlay (unat off) (concat bufs) b) x)\<rparr>)"
  using assms
proof (induction bufs arbitrary: t x b off n)
  case Nil
  then show ?case by (simp add: mreturn_def)
next
  case (Cons buf bufs)
  let ?b = "overlay (unat off) buf b" and ?off = "off + of_nat (length buf)"
  let ?x = "put_bytes ?b x"
  let ?t = "t\<lparr>table := (table t)(i \<mapsto> ?x)\<rparr>"
  have len: "unat off + length buf + length (concat bufs) \<le> isize_max" using Cons.prems(3) by simp
  then have buf: "unat off + length buf \<le> isize_max" by linarith
  then have "length buf < 2 ^ 64" "unat off + length buf < 2 ^ 64" by (simp_all add: isize_max_def)
  then have off: "unat ?off = unat off + length buf" by (simp add: unat_word_ariths)
  have "write_buf i (off, n) buf t = (Ok (?off, n + length buf), ?t)"
    using Cons.prems(1) entry_write_file_eq [OF Cons.prems(2) buf]
    by (simp add: write_buf_def update_entry_def table_get_def table_insert_def mbind_def monad_defs ok_or_def)
  moreover have "mfold (write_buf i) (?off, n + length buf) bufs ?t =
    (Ok (?off + of_nat (length (concat bufs)), n + length buf + length (concat bufs)),
     if bufs = [] then ?t
     else ?t\<lparr>table := (table ?t)(i \<mapsto> put_bytes (overlay (unat ?off) (concat bufs) ?b) ?x)\<rparr>)"
    using Cons.prems(2) len by (intro Cons.IH) (simp_all add: off)
  ultimately show ?case
    by (simp add: off overlay_append mbind_def add.assoc)
qed

lemma read_bufs_exact:
  assumes "bytes_of (node_data x) = Some b" and "length b \<le> isize_max" and "map length bufs = map length chunks"
    and "unat off + length (concat chunks) \<le> length b"
    and "take (length (concat chunks)) (drop (unat off) b) = concat chunks"
  shows "read_bufs x bufs off = Ok (length (concat chunks), chunks)"
  using assms(3-5)
proof (induction chunks arbitrary: bufs off)
  case Nil
  then show ?case by simp
next
  case (Cons ch chunks)
  then obtain buf rest where bufs: "bufs = buf # rest" "length buf = length ch" "map length rest = map length chunks"
    by (cases bufs) auto
  let ?off = "off + of_nat (length ch)"
  have "length ch < 2 ^ 64" "unat off + length ch < 2 ^ 64"
    using Cons.prems(2) assms(2) isize_max_less(2) [of "length b"] by simp_all
  then have off: "unat ?off = unat off + length ch" by (simp add: unat_word_ariths)
  have app: "take (length ch + length (concat chunks)) (drop (unat off) b) = ch @ concat chunks"
    using Cons.prems(3) by simp
  have "take (length ch) (drop (unat off) b) = take (length ch) (ch @ concat chunks)"
    unfolding app [symmetric] by simp
  then have fst: "take (length ch) (drop (unat off) b) = ch" by simp
  have "take (length (concat chunks)) (drop (length ch) (drop (unat off) b)) = drop (length ch) (ch @ concat chunks)"
    unfolding app [symmetric] by (simp add: drop_take)
  then have snd: "take (length (concat chunks)) (drop (unat ?off) b) = concat chunks"
    by (simp add: off add.commute)
  have "read_bytes_from_offset b buf off = Ok (length ch, ch)"
    using Cons.prems(2) bufs(2) fst by (simp add: read_bytes_eq Let_def)
  then show ?case
    using Cons.IH [OF bufs(3), of ?off] snd Cons.prems(2) assms(1) bufs(1) off
    by (simp add: entry_read_file_eq)
qed

section \<open>Reading and writing through a descriptor\<close>

lemma check_right_Ok:
  "fd_table fs fd = Some e \<Longrightarrow> r \<subseteq> rights_base (fd_stat e) \<Longrightarrow> check_right fd r fs = (Ok (), fs)"
  by (simp add: check_right_def fd_entry_def mbind_def monad_defs ok_or_def)

lemma check_right_Err:
  "check_right fd r fs = (case fd_table fs fd of None \<Rightarrow> (Err BadF, fs)
     | Some e \<Rightarrow> if r \<subseteq> rights_base (fd_stat e) then (Ok (), fs) else (Err Access, fs))"
  by (simp add: check_right_def fd_entry_def mbind_def monad_defs ok_or_def split: option.split)

lemma fd_entry_eq: "fd_entry fd fs = (ok_or BadF (fd_table fs fd), fs)"
  by (simp add: fd_entry_def mlift_def)

lemma inode_get_eq: "inode_get i fs = (ok_or NoEnt (table (inode_table fs) i), fs)"
  by (simp add: inode_get_def with_inodes_def table_get_def mzoom_def mlift_def)

lemma get_inode_by_fd_eq: "fd_table fs fd = Some e \<Longrightarrow> get_inode_by_fd fd fs = (Ok (fd_inode e), fs)"
  by (simp add: get_inode_by_fd_def fd_entry_eq mbind_def mreturn_def ok_or_def)

lemma is_dir_inode_eq: "is_dir_inode i fs = (Ok (table_is_dir (inode_table fs) i), fs)"
  by (simp add: is_dir_inode_def mreturn_def)

lemma with_inodes_eq: "with_inodes m fs = (fst (m (inode_table fs)), adopt (snd (m (inode_table fs))) fs)"
  by (simp add: with_inodes_def mzoom_def)

lemma update_entry_eq:
  "table t i = Some x \<Longrightarrow> f x = Ok (a, x') \<Longrightarrow>
     update_entry i f t = (Ok a, t\<lparr>table := (table t)(i \<mapsto> x')\<rparr>)"
  by (simp add: update_entry_def table_get_def table_insert_def mbind_def monad_defs ok_or_def)

lemmas run_simps = fd_entry_eq inode_get_eq is_dir_inode_eq with_inodes_eq ok_or_def mbind_def monad_defs Let_def

lemma fd_pread_eq:
  assumes "fd_table fs fd = Some e" and "FD_READ \<in> rights_base (fd_stat e)"
    and "table (inode_table fs) (fd_inode e) = Some x"
  shows "fd_pread fd bufs off fs = (read_bufs x bufs off, fs)"
  using assms by (simp add: fd_pread_def check_right_Ok get_inode_by_fd_eq run_simps)

lemma fd_pwrite_eq:
  assumes "fd_table fs fd = Some e" and "FD_WRITE \<in> rights_base (fd_stat e)"
    and "table (inode_table fs) (fd_inode e) = Some x" and "node_data x = File b"
    and "unat off + length (concat bufs) \<le> isize_max" and "bufs \<noteq> []"
  shows "fd_pwrite C fd bufs off fs =
    (Ok (length (concat bufs)), set_entry (fd_inode e) (put_bytes (overlay (unat off) (concat bufs) b) x) fs)"
proof -
  have "mfold (write_buf (fd_inode e)) (off, 0) bufs (inode_table fs) =
    (Ok (off + of_nat (length (concat bufs)), length (concat bufs)),
     (inode_table fs)\<lparr>table := (table (inode_table fs))(fd_inode e \<mapsto> put_bytes (overlay (unat off) (concat bufs) b) x)\<rparr>)"
    using write_bufs_eq [OF assms(3) _ assms(5), of b 0] assms(4,6) by simp
  moreover have "\<not> entry_is_service (put_bytes c x)" for c
    using assms(4) by (simp add: entry_is_service_def put_bytes_def)
  ultimately show ?thesis using assms(1-3)
    by (simp add: fd_pwrite_def fd_pwrite_with_def trigger_service_def check_right_Ok get_inode_by_fd_eq
        run_simps set_entry_def)
qed

lemma pwrite_then_pread:
  assumes "fs_inv fs" and "fd_table fs fd = Some e" and "{FD_READ, FD_WRITE} \<subseteq> rights_base (fd_stat e)"
    and "table (inode_table fs) (fd_inode e) = Some x" and "node_data x = File b"
    and "bufs \<noteq> []" and "unat off + length (concat bufs) \<le> isize_max"
    and "map length bufs' = map length bufs"
  shows "\<exists>fs'. fd_pwrite C fd bufs off fs = (Ok (length (concat bufs)), fs') \<and>
    fd_pread fd bufs' off fs' = (Ok (length (concat bufs), bufs), fs')"
proof -
  let ?b = "overlay (unat off) (concat bufs) b"
  let ?fs = "set_entry (fd_inode e) (put_bytes ?b x) fs"
  have w: "fd_pwrite C fd bufs off fs = (Ok (length (concat bufs)), ?fs)"
    using assms by (intro fd_pwrite_eq) simp_all
  have "length b \<le> isize_max"
    using entry_ok_bytes(1) [OF inode_invD(1) [OF fs_inv_table [OF assms(1)] assms(4)]] assms(5) by simp
  then have "read_bufs (put_bytes ?b x) bufs' off = Ok (length (concat bufs), bufs)"
    using assms by (intro read_bufs_exact [where b = ?b]) (simp_all add: overlay_read)
  then have "fd_pread fd bufs' off ?fs = (Ok (length (concat bufs), bufs), ?fs)"
    using fd_pread_eq [of ?fs fd e "put_bytes ?b x"] assms(2,3) by simp
  with w show ?thesis by blast
qed

section \<open>Seeking\<close>

lemma word_of_unat: "unat w = n \<Longrightarrow> w = of_nat n" for w :: u64
  by auto

lemma i64_of_int:
  fixes w :: i64
  shows "w = of_int (sint w)" "- (2 ^ 63) \<le> sint w" "sint w < 2 ^ 63"
  using sint_greater_eq [of w] sint_less [of w] by simp_all

lemma sint_of_small: "- (2 ^ 63) \<le> k \<Longrightarrow> k < 2 ^ 63 \<Longrightarrow> sint (of_int k :: i64) = k"
  by (simp add: signed_of_int signed_take_bit_int_eq_self)

lemma unat_of_small: "0 \<le> k \<Longrightarrow> k < 2 ^ 64 \<Longrightarrow> int (unat (of_int k :: u64)) = k"
  by (simp add: uint_word_of_int_eq take_bit_int_eq_self)

lemma i64_abs_spec:
  assumes "sint delta \<noteq> - (2 ^ 63)"
  shows "\<exists>d. u64_try_from_i64 Inval (i64_abs delta) = Ok d \<and> int (unat d) = \<bar>sint delta\<bar>"
proof (cases "sint delta < 0")
  case True
  let ?k = "- sint delta"
  have k: "0 \<le> ?k" "?k < 2 ^ 63" using True assms i64_of_int(2) [of delta] by linarith+
  have "- delta = of_int ?k" using i64_of_int(1) [of delta] by (metis of_int_minus)
  then have "i64_abs delta = of_int ?k" using True by (simp add: i64_abs_def)
  moreover have "sint (of_int ?k :: i64) = ?k" using k by (intro sint_of_small) auto
  moreover have "int (unat (of_int ?k :: u64)) = ?k" using k by (intro unat_of_small) auto
  ultimately show ?thesis using True k by (auto simp: u64_try_from_i64_def)
next
  case False
  have "int (unat (of_int (sint delta) :: u64)) = sint delta"
    using False i64_of_int(3) [of delta] by (intro unat_of_small) auto
  then have "int (unat delta) = sint delta" using i64_of_int(1) [of delta] by metis
  then show ?thesis using False by (auto simp: u64_try_from_i64_def i64_abs_def)
qed

lemma entry_resize_file_eq:
  assumes "bytes_of (node_data x) = Some b"
  shows "entry_resize_file sz 0 x =
    (if unat sz \<le> isize_max then Ok (put_bytes (take (unat sz) b @ replicate (unat sz - length b) 0) x) else Panic)"
proof -
  have "min (length b) (unat sz) + (unat sz - length b) = unat sz" by simp
  then have "(of_nat (min (length b) (unat sz)) + of_nat (unat sz - length b) :: u64) = sz"
    by (metis of_nat_add word_of_unat)
  then show ?thesis
    using assms by (cases "node_data x") (auto simp: entry_resize_file_def vec_resize_def put_bytes_def)
qed

lemma set_size_eq:
  assumes "fd_table fs fd = Some e" and "table (inode_table fs) (fd_inode e) = Some x"
    and "bytes_of (node_data x) = Some b"
  shows "fd_filestat_set_size fd sz fs =
    (if FD_FILESTAT_SET_SIZE \<notin> rights_base (fd_stat e) then (Err Access, fs)
     else if unat sz \<le> isize_max
     then (Ok (), set_entry (fd_inode e) (put_bytes (take (unat sz) b @ replicate (unat sz - length b) 0) x) fs)
     else (Panic, fs))"
  using assms
  by (simp add: fd_filestat_set_size_def check_right_Err get_inode_by_fd_eq run_simps update_entry_def
      table_get_def table_insert_def entry_resize_file_eq no_value_def set_entry_def)

text \<open>The descriptor \<open>fd\<close> with another offset.\<close>

definition at_offset :: "Fd \<Rightarrow> nat \<Rightarrow> 'p FileSystem \<Rightarrow> 'p FileSystem" where
  "at_offset fd n fs = fs\<lparr>fd_table := (fd_table fs)(fd := map_option (\<lambda>e. e\<lparr>fd_offset := of_nat n\<rparr>) (fd_table fs fd))\<rparr>"

lemma set_offset_eq: "fd_table fs fd = Some e \<Longrightarrow> set_offset fd (of_nat n) fs = (Ok (of_nat n), at_offset fd n fs)"
  by (simp add: set_offset_def set_fd_entry_def run_simps at_offset_def)

definition seek_from :: "Whence \<Rightarrow> FdEntry \<Rightarrow> byte list \<Rightarrow> nat" where
  "seek_from whence e b = (case whence of Current \<Rightarrow> unat (fd_offset e) | End \<Rightarrow> length b | Start \<Rightarrow> 0)"

lemma fd_seek_file:
  fixes whence :: Whence
  assumes inv: "fs_inv fs" and e: "fd_table fs fd = Some e" "FD_SEEK \<in> rights_base (fd_stat e)"
    and x: "table (inode_table fs) (fd_inode e) = Some x" "bytes_of (node_data x) = Some b"
    and delta: "sint delta \<noteq> - (2 ^ 63)"
  defines "target \<equiv> int (seek_from whence e b) + sint delta"
  shows "fd_seek fd delta whence fs =
    (if target < 0 then (Err SPipe, fs)
     else if sint delta < 0 \<or> nat target \<le> length b
     then (Ok (of_nat (nat target)), at_offset fd (nat target) fs)
     else if FD_FILESTAT_SET_SIZE \<notin> rights_base (fd_stat e) then (Err Access, fs)
     else if nat target \<le> isize_max
     then (Ok (of_nat (nat target)), at_offset fd (nat target)
            (set_entry (fd_inode e) (put_bytes (b @ replicate (nat target - length b) 0) x) fs))
     else (Panic, fs))"
proof -
  let ?sz = "stat_file_size (file_stat x)" and ?base = "seek_base whence e (stat_file_size (file_stat x))"
  have b: "unat ?sz = length b" "length b \<le> isize_max"
    using entry_ok_bytes [OF inode_invD(1) [OF fs_inv_table [OF inv] x(1)] x(2)] by simp_all
  have base: "unat ?base = seek_from whence e b" "unat ?base \<le> isize_max"
    using b fs_inv_offset [OF inv e(1)] by (simp_all add: seek_base_def seek_from_def split: Whence.split)
  obtain d where d: "u64_try_from_i64 Inval (i64_abs delta) = Ok d" "int (unat d) = \<bar>sint delta\<bar>"
    using i64_abs_spec [OF delta] by blast
  have ud: "unat d = nat \<bar>sint delta\<bar>" using d(2) by (metis nat_int)
  have run: "fd_seek fd delta whence fs = mbind (seek_offset fd delta ?base ?sz) (set_offset fd) fs"
    using e x by (simp add: fd_seek_def check_right_Ok run_simps)
  show ?thesis
  proof (cases "sint delta \<ge> 0")
    case True
    have sum: "unat (?base + d) = nat target"
      using True base i64_of_int(3) [of delta]
      by (simp add: unat_word_ariths ud target_def isize_max_def nat_add_distrib)
    have w: "?base + d = of_nat (nat target)" using sum by (rule word_of_unat)
    have cmp: "?base + d > ?sz \<longleftrightarrow> length b < nat target"
      by (simp add: word_less_nat_alt sum b(1))
    have pos: "\<not> target < 0" using True by (simp add: target_def)
    show ?thesis
      unfolding run using True pos cmp sum e x set_size_eq [OF e(1) x, of "?base + d"]
        set_offset_eq [OF e(1), of "nat target"]
        set_offset_eq [of "set_entry (fd_inode e) (put_bytes (b @ replicate (nat target - length b) 0) x) fs" fd e "nat target"]
      by (simp add: seek_offset_def d(1) Let_def mbind_def monad_defs flip: w)
  next
    case False
    have gt: "d > ?base \<longleftrightarrow> target < 0"
      using False base by (auto simp: word_less_nat_alt ud target_def)
    have w: "?base - d = of_nat (nat target)" if "\<not> d > ?base"
    proof -
      have "unat (?base - d) = nat target"
        using that False base by (simp add: unat_sub word_le_nat_alt not_less ud target_def nat_diff_distrib)
      then show ?thesis by (rule word_of_unat)
    qed
    show ?thesis
      unfolding run using False gt w set_offset_eq [OF e(1), of "nat target"]
      by (auto simp: seek_offset_def d(1) mbind_def monad_defs)
  qed
qed

section \<open>Sequential reading and writing\<close>

lemma set_entry_put_inv:
  assumes inv: "fs_inv fs" and x: "table (inode_table fs) i = Some x" "bytes_of (node_data x) = Some b"
    and "length c \<le> isize_max"
  shows "fs_inv (set_entry i (put_bytes c x) fs)"
proof -
  have "entry_ok D i (put_bytes c x) \<and> kind_kept x (put_bytes c x)" if "entry_ok D i x" for D
    using that x(2) assms(4)
    by (cases "node_data x") (auto simp: entry_ok_def put_bytes_def kind_kept_def)
  from set_entry_change [OF inv x(1) this] show ?thesis by simp
qed

lemma sint_of_nat_small: "n \<le> isize_max \<Longrightarrow> sint (of_nat n :: i64) = int n"
  using sint_of_small [of "int n"] by (simp add: isize_max_def)

lemma fd_seek_forward:
  assumes inv: "fs_inv fs" and e: "fd_table fs fd = Some e" "FD_SEEK \<in> rights_base (fd_stat e)"
    and x: "table (inode_table fs) (fd_inode e) = Some x" "bytes_of (node_data x) = Some b"
    and n: "unat (fd_offset e) + n \<le> length b"
  shows "fd_seek fd (of_nat n) Current fs =
    (Ok (of_nat (unat (fd_offset e) + n)), at_offset fd (unat (fd_offset e) + n) fs)"
proof -
  have "length b \<le> isize_max"
    using entry_ok_bytes(1) [OF inode_invD(1) [OF fs_inv_table [OF inv] x(1)] x(2)] .
  then have d: "sint (of_nat n :: i64) = int n" using n by (intro sint_of_nat_small) simp
  define m where "m = unat (fd_offset e) + n"
  have t: "int (seek_from Current e b) + sint (of_nat n :: i64) = int m"
    by (simp add: d seek_from_def m_def)
  have m: "sint (of_nat n :: i64) \<noteq> - (2 ^ 63)" by (simp add: d)
  show ?thesis
    using fd_seek_file [OF inv e x m, of Current] n unfolding t nat_int m_def [symmetric] by simp
qed

lemma fd_write_eq:
  assumes inv: "fs_inv fs" and e: "fd_table fs fd = Some e" "{FD_WRITE, FD_SEEK} \<subseteq> rights_base (fd_stat e)"
    and x: "table (inode_table fs) (fd_inode e) = Some x" "node_data x = File b"
    and len: "unat (fd_offset e) + length (concat bufs) \<le> isize_max" "bufs \<noteq> []"
  shows "fd_write C fd bufs fs =
    (Ok (length (concat bufs)), at_offset fd (unat (fd_offset e) + length (concat bufs))
       (set_entry (fd_inode e) (put_bytes (overlay (unat (fd_offset e)) (concat bufs) b) x) fs))"
proof -
  let ?o = "unat (fd_offset e)" and ?n = "length (concat bufs)"
  let ?b = "overlay ?o (concat bufs) b"
  let ?fs = "set_entry (fd_inode e) (put_bytes ?b x) fs"
  have xb: "bytes_of (node_data x) = Some b" using x(2) by simp
  have b: "length b \<le> isize_max"
    using entry_ok_bytes(1) [OF inode_invD(1) [OF fs_inv_table [OF inv] x(1)] xb] .
  have inv': "fs_inv ?fs" using b len(1) by (intro set_entry_put_inv [OF inv x(1) xb]) simp
  have w: "fd_pwrite_with C all_services (serve C all_services) fd bufs (fd_offset e) fs = (Ok ?n, ?fs)"
    using fd_pwrite_eq [OF e(1) _ x len] e(2) by (simp add: fd_pwrite_def)
  have "fd_seek fd (of_nat ?n) Current ?fs = (Ok (of_nat (?o + ?n)), at_offset fd (?o + ?n) ?fs)"
    using e xb by (intro fd_seek_forward [OF inv', where x = "put_bytes ?b x" and b = ?b]) simp_all
  then show ?thesis using e w
    by (simp add: fd_write_def fd_write_with_def check_right_Ok run_simps)
qed

lemma fd_read_eq:
  fixes buf :: "byte list"
  assumes inv: "fs_inv fs" and e: "fd_table fs fd = Some e" "{FD_READ, FD_SEEK} \<subseteq> rights_base (fd_stat e)"
    and x: "table (inode_table fs) (fd_inode e) = Some x" "bytes_of (node_data x) = Some b"
    and len: "unat (fd_offset e) \<le> length b"
  defines "n \<equiv> min (length buf) (length b - unat (fd_offset e))"
  shows "fd_read fd [buf] fs =
    (Ok (n, [take n (drop (unat (fd_offset e)) b) @ drop n buf]), at_offset fd (unat (fd_offset e) + n) fs)"
proof -
  let ?o = "unat (fd_offset e)"
  have r: "read_bufs x [buf] (fd_offset e) = Ok (n, [take n (drop ?o b) @ drop n buf])"
    using x(2) len by (simp add: entry_read_file_eq read_bytes_eq Let_def n_def)
  have n: "?o + n \<le> length b" using len by (simp add: n_def)
  have "fd_seek fd (of_nat n) Current fs = (Ok (of_nat (?o + n)), at_offset fd (?o + n) fs)"
    using e(2) n by (intro fd_seek_forward [OF inv e(1) _ x]) simp_all
  then show ?thesis using e fd_pread_eq [OF e(1) _ x(1), of "[buf]"] r
    by (simp add: fd_read_def check_right_Ok run_simps)
qed

section \<open>Opening files\<close>

lemma open_inode_Ok:
  assumes inv: "fs_inv fs" and fd: "fd_table fs fd = Some pe" and dir: "table_is_dir (inode_table fs) (fd_inode pe)"
    and op: "open_inode fd (fd_inode pe) p oflags fs = (Ok i, fs1)"
  obtains t x where "fs1 = adopt t fs" and "walk t (fd_inode pe) (components p) = Ok i" and "table t i = Some x"
    and "t = inode_table fs \<or> node_data x = File []"
proof (cases "get_inode_by_inode_path (inode_table fs) (fd_inode pe) p")
  case (Ok r)
  then have "fs1 = fs" "i = fst r"
    using op fd by (auto simp: open_inode_def mcatch_def fst_get_inode_by_fd_path get_inode_by_fd_path_pure
        is_dir_inode_def mthrow_def mreturn_def split: if_splits)
  then show ?thesis using that [of "inode_table fs" "snd r"] Ok by (cases r) (simp add: get_inode_Ok)
next
  case (Err e)
  obtain t1 t where t1: "new_inode (inode_table fs) = (Ok i, t1)" and t: "add_file (fd_inode pe) p i [] t1 = (Ok (), t)"
    and fs1: "fs1 = adopt t fs"
    using op fd Err
    by (auto simp: open_inode_def mcatch_def fst_get_inode_by_fd_path get_inode_by_fd_path_pure with_inodes_eq
        monad_defs check_right_Err split: if_splits elim!: mbind_OkE) (metis prod.collapse)
  have new: "inode_inv t1 \<and> ns_le (inode_table fs) t1 \<and> alloc_le (inode_table fs) t1 \<and>
      table t1 = table (inode_table fs) \<and> fresh t1 i \<and> \<not> fresh (inode_table fs) i"
    using wp_Ok [OF new_inode_wp [OF fs_inv_table [OF inv]] t1] .
  have same: "walk t1 j cs = walk (inode_table fs) j cs" for j cs
    using new by (induction cs arbitrary: j) (simp_all split: option.split result.split)
  have no: "walk t1 (fd_inode pe) (components p) \<noteq> Ok j" for j
  proof
    assume "walk t1 (fd_inode pe) (components p) = Ok j"
    then have w: "walk (inode_table fs) (fd_inode pe) (components p) = Ok j" by (simp add: same)
    have "table (inode_table fs) (fd_inode pe) \<noteq> None"
      using dir by (auto simp: table_is_dir_def split: option.splits)
    from walk_exists [OF w fs_inv_table [OF inv] this] w Err show False
      by (auto simp: get_inode_by_inode_path_def)
  qed
  have "walk t (fd_inode pe) (components p) = Ok i"
    using new dir no by (intro add_file_walk [OF _ _ _ _ t]) (auto simp: table_is_dir_def split: option.splits)
  moreover have "components p \<noteq> [CurDir]" using get_inode_error [OF fs_inv_table [OF inv] dir Err] .
  then have "table t i = Some \<lparr>file_stat = mk_file_stat i RegularFile (of_nat (length [])), node_data = File []\<rparr>"
    using wp_Ok [OF add_file_wp [of t1 i "[]" p "fd_inode pe"] t] new by simp
  ultimately show ?thesis using that [OF fs1] by simp
qed (use op fd in \<open>auto simp: open_inode_def mcatch_def fst_get_inode_by_fd_path get_inode_by_fd_path_pure\<close>)

text \<open>The handle after \<^verbatim>\<open>path_open\<close>: the table, and a new descriptor for inode \<open>i\<close>.\<close>

definition with_fd :: "Fd \<Rightarrow> FdEntry \<Rightarrow> 'p InodeTable \<Rightarrow> 'p FileSystem \<Rightarrow> 'p FileSystem" where
  "with_fd fd e t fs = (adopt t fs)\<lparr>next_fd_candidate := next_fd_candidate fs + 1, fd_table := (fd_table fs)(fd \<mapsto> e)\<rparr>"

lemma with_fd_simps [simp]:
  "fd_table (with_fd fd e t fs) = (fd_table fs)(fd \<mapsto> e)" "inode_table (with_fd fd e t fs) = t"
  "prestat_table (with_fd fd e t fs) = prestat_table fs"
  "next_fd_candidate (with_fd fd e t fs) = next_fd_candidate fs + 1"
  by (simp_all add: with_fd_def)

lemma walk_set_file:
  assumes "table t i = Some x" and "\<not> entry_is_dir x" and "\<not> entry_is_dir x'"
  shows "walk (t\<lparr>table := (table t)(i \<mapsto> x')\<rparr>) j cs = Ok k \<longleftrightarrow> walk t j cs = Ok k"
proof -
  have "lookup (t\<lparr>table := (table t)(i \<mapsto> x')\<rparr>) = lookup t"
    using assms by (intro ext) (auto simp: lookup_def entry_is_dir_def split: InodeImpl.splits)
  then show ?thesis by (induction cs arbitrary: j) (simp_all add: walk_step del: walk.simps(2))
qed

definition opened_fd :: "Inode \<Rightarrow> InodeEntry \<Rightarrow> Rights \<Rightarrow> Rights \<Rightarrow> FdFlags \<Rightarrow> FdEntry" where
  "opened_fd i x base inh fl =
     \<lparr>fd_inode = i, fd_stat = mk_fd_stat (stat_file_type (file_stat x)) fl base inh, fd_offset = 0,
      fd_advice = [(0, stat_file_size (file_stat x), NormalAdvice)]\<rparr>"

lemma opened_fd_simps [simp]:
  "fd_inode (opened_fd i x base inh fl) = i" "fd_offset (opened_fd i x base inh fl) = 0"
  "rights_base (fd_stat (opened_fd i x base inh fl)) = base"
  "rights_inheriting (fd_stat (opened_fd i x base inh fl)) = inh"
  by (simp_all add: opened_fd_def mk_fd_stat_def)

text \<open>Opening an existing file without truncating it.\<close>

lemma path_open_plain:
  assumes "fd_table fs fd = Some pe" and "PATH_OPEN \<in> rights_base (fd_stat pe)"
    and "table_is_dir (inode_table fs) (fd_inode pe)"
    and "walk (inode_table fs) (fd_inode pe) (components p) = Ok i" and "table (inode_table fs) i = Some x"
    and "\<not> bit (next_fd_candidate fs) 31" and "fd_table fs (next_fd_candidate fs) = None"
    and "oflags \<subseteq> {CREATE}"
  shows "path_open fd lf p oflags base inh fl fs =
    (Ok (next_fd_candidate fs), with_fd (next_fd_candidate fs)
       (opened_fd i x (base \<inter> rights_inheriting (fd_stat pe)) (inh \<inter> rights_inheriting (fd_stat pe)) fl)
       (inode_table fs) fs)"
proof -
  have "get_inode_by_fd_path fd p fs = (Ok i, fs)"
    using assms(1,4,5) get_inode_by_fd_path_pure [of fd p fs] fst_get_inode_by_fd_path [of fd p fs]
    by (simp add: prod_eq_iff get_inode_by_inode_path_def)
  moreover have "EXCL \<notin> oflags" "DIRECTORY \<notin> oflags" "TRUNC \<notin> oflags" using assms(8) by auto
  ultimately have "open_inode fd (fd_inode pe) p oflags fs = (Ok i, fs)" "TRUNC \<notin> oflags"
    by (simp_all add: open_inode_def mcatch_def run_simps)
  then show ?thesis using assms(1-7)
    by (simp add: path_open_def check_right_Ok get_inode_by_fd_eq run_simps open_at_def new_fd_def
        set_fd_entry_def opened_fd_def with_fd_def)
qed

lemmas path_open_existing = path_open_plain [where oflags = "{}", OF _ _ _ _ _ _ _ empty_subsetI]

text \<open>A successful opening with \<^verbatim>\<open>CREATE\<close> and \<^verbatim>\<open>TRUNC\<close> leaves an empty file under the path.\<close>

lemma path_open_truncated:
  assumes inv: "fs_inv fs" and fd: "fd_table fs fd = Some pe"
    and op: "path_open fd lf p {CREATE, TRUNC} base inh fl fs = (Ok nfd, fs1)"
  obtains t i x where "fs1 = with_fd nfd (opened_fd i x (base \<inter> rights_inheriting (fd_stat pe))
        (inh \<inter> rights_inheriting (fd_stat pe)) fl) t fs"
    and "nfd = next_fd_candidate fs" and "fd_table fs nfd = None"
    and "PATH_OPEN \<in> rights_base (fd_stat pe)" and "table_is_dir (inode_table fs) (fd_inode pe)"
    and "walk t (fd_inode pe) (components p) = Ok i" and "table t i = Some x" and "bytes_of (node_data x) = Some []"
    and "node_data x = File [] \<or> (\<exists>y. walk (inode_table fs) (fd_inode pe) (components p) = Ok i \<and>
           table (inode_table fs) i = Some y \<and> entry_is_service y)"
proof -
  have po: "PATH_OPEN \<in> rights_base (fd_stat pe)"
    using op fd by (auto simp: path_open_def check_right_Err mbind_def split: if_splits)
  have dir: "table_is_dir (inode_table fs) (fd_inode pe)"
    using op fd po by (auto simp: path_open_def check_right_Ok get_inode_by_fd_eq run_simps split: if_splits)
  let ?inh = "rights_inheriting (fd_stat pe)"
  have "mbind (open_inode fd (fd_inode pe) p {CREATE, TRUNC})
      (\<lambda>i. open_at fd i {CREATE, TRUNC} (base \<inter> ?inh) (inh \<inter> ?inh) fl) fs = (Ok nfd, fs1)"
    using op fd po dir by (simp add: path_open_def check_right_Ok get_inode_by_fd_eq run_simps)
  then obtain i fs2 where i: "open_inode fd (fd_inode pe) p {CREATE, TRUNC} fs = (Ok i, fs2)"
    and rest: "open_at fd i {CREATE, TRUNC} (base \<inter> ?inh) (inh \<inter> ?inh) fl fs2 = (Ok nfd, fs1)"
    by (auto elim!: mbind_OkE)
  obtain u y where fs2: "fs2 = adopt u fs" and w: "walk u (fd_inode pe) (components p) = Ok i"
    and y: "table u i = Some y" and old: "u = inode_table fs \<or> node_data y = File []"
    by (rule open_inode_Ok [OF inv fd dir i])
  obtain b where b: "bytes_of (node_data y) = Some b"
    using rest fd y by (cases "node_data y")
      (auto simp: open_at_def fs2 check_right_Err run_simps update_entry_def table_get_def
        no_value_def entry_truncate_file_def split: if_splits)
  let ?x = "put_bytes [] y"
  let ?t = "u\<lparr>table := (table u)(i \<mapsto> ?x)\<rparr>"
  have fs1: "fs1 = with_fd nfd (opened_fd i ?x (base \<inter> ?inh) (inh \<inter> ?inh) fl) ?t fs"
    and nfd: "nfd = next_fd_candidate fs" "fd_table fs nfd = None"
    using rest fd y entry_truncate_file_eq [OF b]
    by (auto simp: open_at_def fs2 check_right_Err run_simps update_entry_def table_get_def table_insert_def
        no_value_def new_fd_def set_fd_entry_def with_fd_def opened_fd_def split: if_splits)
  have nd: "\<not> entry_is_dir y" "\<not> entry_is_dir ?x" using bytes_of_dir [OF b] by simp_all
  have "walk ?t (fd_inode pe) (components p) = Ok i"
    using walk_set_file [OF y nd] w by simp
  moreover have "node_data ?x = File [] \<or> (\<exists>y. walk (inode_table fs) (fd_inode pe) (components p) = Ok i \<and>
           table (inode_table fs) i = Some y \<and> entry_is_service y)"
    using old w y b by (cases "node_data y") (auto simp: put_bytes_def entry_is_service_def)
  ultimately show ?thesis using that [OF fs1 nfd po dir] b by simp
qed

section \<open>Whole files\<close>

lemma fd_close_file:
  assumes "fd_table fs fd = Some e" and "table (inode_table fs) (fd_inode e) = Some x" and "\<not> entry_is_service x"
  shows "fd_close fd fs = (Ok (), fs\<lparr>fd_table := (fd_table fs)(fd := None)\<rparr>)"
  using assms by (simp add: fd_close_def get_inode_by_fd_eq run_simps)

lemma open_for_eq:
  assumes "find_prestat fs p = Ok (fd, name)"
    and "path_open fd 0 name oflags UNIV UNIV 0 fs = (Ok nfd, fs1)" and "fd_table fs1 nfd = Some e"
  shows "open_for p oflags needed fs =
    (if needed \<subseteq> rights_base (fd_stat e) then (Ok nfd, fs1) else (Err Access, fs1))"
  using assms by (simp add: open_for_def run_simps)

lemma open_for_Ok:
  assumes "find_prestat fs p = Ok (fd, name)" and "open_for p oflags needed fs = (Ok nfd, fs1)"
  shows "path_open fd 0 name oflags UNIV UNIV 0 fs = (Ok nfd, fs1)"
    and "\<exists>e. fd_table fs1 nfd = Some e \<and> needed \<subseteq> rights_base (fd_stat e)"
  using assms by (auto simp: open_for_def fd_entry_eq ok_or_def monad_defs split: if_splits option.splits
      elim!: mbind_OkE)

lemma find_prestat_same: "prestat_table fs = prestat_table fs' \<Longrightarrow> find_prestat fs p = find_prestat fs' p"
  by (simp add: find_prestat_def)

lemma read_file_eq:
  assumes inv: "fs_inv fs" and pre: "find_prestat fs p = Ok (fd, name)" and fd: "fd_table fs fd = Some pe"
    and rights: "PATH_OPEN \<in> rights_base (fd_stat pe)" "{FD_READ, FD_SEEK} \<subseteq> rights_inheriting (fd_stat pe)"
    and dir: "table_is_dir (inode_table fs) (fd_inode pe)"
    and fl: "walk (inode_table fs) (fd_inode pe) (components name) = Ok i" "table (inode_table fs) i = Some x"
      "bytes_of (node_data x) = Some b" "\<not> entry_is_service x"
    and free: "\<not> bit (next_fd_candidate fs) 31" "fd_table fs (next_fd_candidate fs) = None"
  shows "read_file_by_absolute_path p fs = (Ok b, fs\<lparr>next_fd_candidate := next_fd_candidate fs + 1\<rparr>)"
proof -
  let ?nfd = "next_fd_candidate fs" and ?inh = "rights_inheriting (fd_stat pe)"
  let ?e = "opened_fd i x (UNIV \<inter> ?inh) (UNIV \<inter> ?inh) 0"
  let ?fs = "with_fd ?nfd ?e (inode_table fs) fs"
  have op: "path_open fd 0 name {} UNIV UNIV 0 fs = (Ok ?nfd, ?fs)"
    by (rule path_open_existing [OF fd rights(1) dir fl(1,2) free])
  then have inv': "fs_inv ?fs"
    using evolves_inv [OF safeD [OF safe_path_open [of fd 0 name "{}" UNIV UNIV 0] inv] inv] by simp
  have len: "length b \<le> isize_max" "unat (stat_file_size (file_stat x)) = length b"
    using entry_ok_bytes [OF inode_invD(1) [OF fs_inv_table [OF inv] fl(2)] fl(3)] by simp_all
  have "open_for p {} {FD_READ, FD_SEEK} fs = (Ok ?nfd, ?fs)"
    using open_for_eq [OF pre op, of ?e] rights(2) by simp
  moreover have "fd_filestat_get ?nfd ?fs = (Ok (file_stat x), ?fs)"
    using fl(2) by (simp add: fd_filestat_get_def get_inode_by_fd_eq run_simps)
  moreover have "vec_resize (length b) 0 [] = (Ok (replicate (length b) 0) :: (ErrNo, byte list) result)"
    using len by (simp add: vec_resize_def)
  moreover have "fd_read ?nfd [replicate (length b) 0] ?fs = (Ok (length b, [b]), at_offset ?nfd (length b) ?fs)"
    using fd_read_eq [OF inv', of ?nfd ?e x b "replicate (length b) 0"] rights(2) fl by simp
  moreover have "fd_close ?nfd (at_offset ?nfd (length b) ?fs) =
      (Ok (), fs\<lparr>next_fd_candidate := next_fd_candidate fs + 1\<rparr>)"
    using fl(2,4) free(2)
    by (subst fd_close_file [where e = "?e\<lparr>fd_offset := of_nat (length b)\<rparr>" and x = x])
      (auto simp: at_offset_def with_fd_def fun_upd_idem)
  ultimately show ?thesis
    using len(2) by (simp add: read_file_by_absolute_path_def mbind_def monad_defs)
qed

lemma write_file_Ok:
  assumes inv: "fs_inv fs" and pre: "find_prestat fs p = Ok (fd, name)" and fd: "fd_table fs fd = Some pe"
    and plain: "\<And>i y. walk (inode_table fs) (fd_inode pe) (components name) = Ok i \<Longrightarrow>
        table (inode_table fs) i = Some y \<Longrightarrow> \<not> entry_is_service y"
    and len: "length data \<le> isize_max"
    and wr: "write_file_by_absolute_path C p data False fs = (Ok (), fs')"
  obtains i x where "fd_table fs' = fd_table fs" and "prestat_table fs' = prestat_table fs"
    and "next_fd_candidate fs' = next_fd_candidate fs + 1"
    and "PATH_OPEN \<in> rights_base (fd_stat pe)" and "table_is_dir (inode_table fs') (fd_inode pe)"
    and "walk (inode_table fs') (fd_inode pe) (components name) = Ok i"
    and "table (inode_table fs') i = Some x" and "node_data x = File data"
proof -
  obtain nfd fs1 where op: "open_for p {CREATE, TRUNC} {FD_WRITE, FD_SEEK} fs = (Ok nfd, fs1)"
    and rest: "mbind (fd_write C nfd [data]) (\<lambda>_. fd_close nfd) fs1 = (Ok (), fs')"
    using wr unfolding write_file_by_absolute_path_def write_file_by_absolute_path_with_def
    by (auto simp: fd_write_def monad_defs elim!: mbind_OkE)
  note po = open_for_Ok [OF pre op]
  let ?inh = "rights_inheriting (fd_stat pe)"
  obtain t i x where fs1: "fs1 = with_fd nfd (opened_fd i x (UNIV \<inter> ?inh) (UNIV \<inter> ?inh) 0) t fs"
    and nfd: "nfd = next_fd_candidate fs" "fd_table fs nfd = None"
    and o: "PATH_OPEN \<in> rights_base (fd_stat pe)" and d: "table_is_dir (inode_table fs) (fd_inode pe)"
    and w: "walk t (fd_inode pe) (components name) = Ok i" and x: "table t i = Some x"
      "bytes_of (node_data x) = Some []"
    and srv: "node_data x = File [] \<or> (\<exists>y. walk (inode_table fs) (fd_inode pe) (components name) = Ok i \<and>
           table (inode_table fs) i = Some y \<and> entry_is_service y)"
    by (rule path_open_truncated [OF inv fd po(1)])
  have ev: "fs_inv fs1 \<and> table_le (inode_table fs) (inode_table fs1)"
    using evolves_inv [OF safeD [OF safe_path_open inv, of fd 0 name "{CREATE, TRUNC}" UNIV UNIV 0] inv] po(1) by simp
  have emp: "node_data x = File []" using srv plain by blast
  have r: "{FD_WRITE, FD_SEEK} \<subseteq> ?inh" using po(2) by (simp add: fs1)
  have wrt: "fd_write C nfd [data] fs1 = (Ok (length data), at_offset nfd (length data) (set_entry i (put_bytes data x) fs1))"
    using fd_write_eq [of fs1 nfd "opened_fd i x (UNIV \<inter> ?inh) (UNIV \<inter> ?inh) 0" x "[]" "[data]" C] ev r x emp len
    by (simp add: fs1 overlay_start)
  let ?fs2 = "at_offset nfd (length data) (set_entry i (put_bytes data x) fs1)"
  have close: "fd_close nfd ?fs2 = (Ok (), ?fs2\<lparr>fd_table := (fd_table ?fs2)(nfd := None)\<rparr>)"
    using emp by (intro fd_close_file [where e = "(opened_fd i x (UNIV \<inter> ?inh) (UNIV \<inter> ?inh) 0)\<lparr>fd_offset := of_nat (length data)\<rparr>"
          and x = "put_bytes data x"]) (simp_all add: fs1 at_offset_def entry_is_service_def put_bytes_def)
  have fs': "fs' = ?fs2\<lparr>fd_table := (fd_table ?fs2)(nfd := None)\<rparr>"
    using rest wrt close by (simp add: mbind_def)
  have t': "inode_table fs' = t\<lparr>table := (table t)(i \<mapsto> put_bytes data x)\<rparr>"
    by (simp add: fs' fs1 at_offset_def set_entry_def with_fd_def)
  have nd: "\<not> entry_is_dir x" "\<not> entry_is_dir (put_bytes data x)" using bytes_of_dir [OF x(2)] by simp_all
  show ?thesis
  proof (rule that)
    show "fd_table fs' = fd_table fs"
      using nfd(2) by (auto simp: fs' fs1 at_offset_def fun_eq_iff)
    show "prestat_table fs' = prestat_table fs" "next_fd_candidate fs' = next_fd_candidate fs + 1"
      by (simp_all add: fs' fs1 at_offset_def set_entry_def)
    show "walk (inode_table fs') (fd_inode pe) (components name) = Ok i"
      using walk_set_file [OF x(1) nd] w by (simp add: t')
    have "table_is_dir t (fd_inode pe)" using ev d table_le_is_dir by (auto simp: fs1)
    then show "table_is_dir (inode_table fs') (fd_inode pe)"
      using nd x(1) by (auto simp: t' table_is_dir_def)
    show "table (inode_table fs') i = Some (put_bytes data x)" by (simp add: t')
    show "node_data (put_bytes data x) = File data" using emp by (simp add: put_bytes_def)
  qed (rule o)
qed

section \<open>Services that are running\<close>

text \<open>A write to the file of a service whose lock is taken waits for ever.\<close>

lemma locked_pwrite:
  assumes "fd_table fs fd = Some e" and "FD_WRITE \<in> rights_base (fd_stat e)"
    and "table (inode_table fs) (fd_inode e) = Some x" and "node_data x = NativeModule s b" and "s \<notin> set us"
    and "unat off + length (concat bufs) \<le> isize_max"
  shows "fst (fd_pwrite_with C us sv fd bufs off fs) = Stuck"
proof -
  let ?t = "snd (mfold (write_buf (fd_inode e)) (off, 0) bufs (inode_table fs))"
  have "fst (mfold (write_buf (fd_inode e)) (off, 0) bufs (inode_table fs)) =
      Ok (off + of_nat (length (concat bufs)), length (concat bufs))"
    using write_bufs_eq [OF assms(3) _ assms(6), of b 0] assms(4) by simp
  moreover obtain y c where "table ?t (fd_inode e) = Some y" "node_data y = NativeModule s c"
    using write_bufs_eq [OF assms(3) _ assms(6), of b 0] assms(3,4) by (cases "bufs = []") (auto simp: put_bytes_def)
  ultimately show ?thesis using assms(1,2,3,5)
    by (simp add: fd_pwrite_with_def trigger_service_def check_right_Ok get_inode_by_fd_eq run_simps adopt_def
        entry_is_service_def service_valid_input_def mstuck_def)
qed

lemma with_fd_inv:
  assumes "fs_inv fs" and "table (inode_table fs) i = Some x"
  shows "fs_inv (with_fd n (opened_fd i x r r' fl) (inode_table fs) fs)"
  using assms by (auto simp: fs_inv_def isize_max_def)

lemma locked_write_file:
  assumes inv: "fs_inv fs" and pre: "find_prestat fs p = Ok (fd, name)" and fd: "fd_table fs fd = Some pe"
    and rights: "PATH_OPEN \<in> rights_base (fd_stat pe)" "{FD_WRITE, FD_SEEK} \<subseteq> rights_inheriting (fd_stat pe)"
    and dir: "table_is_dir (inode_table fs) (fd_inode pe)"
    and fl: "walk (inode_table fs) (fd_inode pe) (components name) = Ok i" "table (inode_table fs) i = Some x"
      "node_data x = NativeModule s b" "s \<notin> set us"
    and free: "\<not> bit (next_fd_candidate fs) 31" "fd_table fs (next_fd_candidate fs) = None"
    and len: "length b + length data \<le> isize_max"
  shows "fst (write_file_by_absolute_path_with C us sv p data True fs) = Stuck"
proof -
  let ?n = "next_fd_candidate fs"
  let ?e = "opened_fd i x (UNIV \<inter> rights_inheriting (fd_stat pe)) (UNIV \<inter> rights_inheriting (fd_stat pe)) 0"
  let ?fs = "with_fd ?n ?e (inode_table fs) fs"
  have op: "open_for p {CREATE} {FD_WRITE, FD_SEEK} fs = (Ok ?n, ?fs)"
    using path_open_plain [OF fd rights(1) dir fl(1,2) free, of "{CREATE}" 0 UNIV UNIV 0] rights(2)
      open_for_eq [OF pre, of "{CREATE}" ?n ?fs ?e] by simp
  have s: "int (seek_from End ?e b) + sint (0 :: i64) = int (length b)" by (simp add: seek_from_def)
  have "fd_seek ?n 0 End ?fs = (Ok (of_nat (length b)), at_offset ?n (length b) ?fs)"
    using fd_seek_file [OF with_fd_inv [OF inv fl(2)], where fd = ?n and delta = 0 and e = ?e and x = x and b = b
        and whence = End] rights(2) fl(2,3)
    unfolding s by simp
  then show ?thesis
    using locked_pwrite [of "at_offset ?n (length b) ?fs" ?n "?e\<lparr>fd_offset := of_nat (length b)\<rparr>" x s b us
        "of_nat (length b)" "[data]" C sv] op rights(2) fl(2-4) len isize_max_less(2) [of "length b"]
    by (simp add: write_file_by_absolute_path_with_def fd_write_with_def at_offset_def run_simps check_right_Ok)
qed

end
