(* ===== verification/FsProps.thy ===== *)
theory FsProps
  imports FileSpec
begin

text \<open>
  The properties of the virtual filesystem: invariants of all runs, confinement and integrity,
  round trips, the exact behaviour of seeking, allocation, and the places where the code differs
  from its documentation.
\<close>

section \<open>An example\<close>

text \<open>
  A small filesystem for the examples: the file \<^verbatim>\<open>/data/in\<close> with three bytes, the handle \<open>demo_fs\<close> of the
  superuser, and the handle \<open>demo_handle\<close> of principal 7, who may read below \<^verbatim>\<open>/data\<close>. \<open>fs_eval\<close> collects
  the equations that run the operations on concrete handles.
\<close>

lemmas fs_eval =
  install_prestat_def install_standard_streams_fd_def std_streams_table_def List.map_filter_def
  install_standard_stream_fd_def install_fd_def not_std_stream_def path_eq_def install_prestat_dir_def
  u32_try_from_usize_def strip_root_slash_def add_all_dir_def add_all_dir_step_def
  get_inode_by_inode_path_def entry_get_inode_by_path_def hm_get_Cons component_str_def new_inode_Ok
  add_dir_def update_entry_def table_get_def table_insert_def no_value_def entry_insert_def
  new_directory_def adopt_def empty_handle_def spawn_def get_rights_def run_simps
  open_for_def path_open_def find_prestat_def ancestors.simps check_right_Err get_inode_by_fd_eq
  open_inode_def mcatch_def fst_get_inode_by_fd_path get_inode_by_fd_path_pure full_fd_def mk_fd_stat_def
  table_is_dir_def entry_is_dir_def add_file_def add_file_parent_def parent_components_def file_name_def
  open_at_def entry_truncate_file_def new_fd_def set_fd_entry_def fd_write_with_def fd_pwrite_with_def
  write_buf_def entry_write_file_def write_bytes_eq trigger_service_def entry_is_service_def fd_seek_def
  seek_offset_def seek_base_def u64_try_from_i64_def i64_abs_def set_offset_def fd_close_def
  mk_file_stat_def path_create_directory_def create_directory_step_def read_file_by_absolute_path_def
  fd_filestat_get_def fd_read_def fd_pread_def entry_read_file_def read_bytes_eq vec_resize_def
  write_file_by_absolute_path_def write_file_by_absolute_path_with_def fd_create_def opened_fd_def
  with_fd_def fd_filestat_set_size_def entry_resize_file_def

definition demo_crates :: crates where
  "demo_crates = \<lparr>postcard_aes = (\<lambda>_. None), postcard_structs = (\<lambda>_. Some []),
     json_structs = (\<lambda>_. Some [91, 93]), psa_ctr = (\<lambda>enc key iv input. Some (input, length input))\<rparr>"

definition demo_rights :: "nat rights_table" where
  "demo_rights = [(7, [(''/data'', {FD_READ, FD_SEEK, PATH_OPEN})])]"

definition demo_table :: "nat InodeTable" where
  "demo_table =
     \<lparr>table =
        [3 \<mapsto> \<lparr>file_stat = mk_file_stat 3 RegularFile 0, node_data = File []\<rparr>,
         4 \<mapsto> \<lparr>file_stat = mk_file_stat 4 RegularFile 0, node_data = File []\<rparr>,
         5 \<mapsto> \<lparr>file_stat = mk_file_stat 5 RegularFile 0, node_data = File []\<rparr>,
         2 \<mapsto> \<lparr>file_stat = mk_file_stat 2 DirectoryType 0,
               node_data = Directory [(''.'', 2), (''..'', 2), (''data'', 6)]\<rparr>,
         6 \<mapsto> \<lparr>file_stat = mk_file_stat 6 DirectoryType 0,
               node_data = Directory [(''.'', 6), (''..'', 2), (''in'', 7)]\<rparr>,
         7 \<mapsto> \<lparr>file_stat = mk_file_stat 7 RegularFile 3, node_data = File [1, 2, 3]\<rparr>],
      rights_table = demo_rights, stdin_inode = 3, stdout_inode = 4, stderr_inode = 5,
      next_inode_candidate = 8, aes_service = aes_new\<rparr>"

definition demo_fs :: "nat FileSystem" where
  "demo_fs = adopt demo_table (superuser_fs demo_rights)"

definition demo_handle :: "nat FileSystem" where
  "demo_handle =
     \<lparr>fd_table = [3 \<mapsto> \<lparr>fd_inode = 6, fd_stat = mk_fd_stat Unknown 0 {FD_READ, FD_SEEK, PATH_OPEN} {FD_READ, FD_SEEK, PATH_OPEN},
        fd_offset = 0, fd_advice = []\<rparr>],
      next_fd_candidate = 4, inode_table = demo_table, prestat_table = [(3, ''/data'')]\<rparr>"

lemma demo_components:
  "components ''/data'' = [RootDir, Normal ''data'']" "components ''data'' = [Normal ''data'']"
  "components ''in'' = [Normal ''in'']"
  "components (path_of [Normal ''data'']) = [Normal ''data'']"
  by (simp_all add: components_def has_root_def parse_component_def path_of_def join_path_def component_str_def)

lemma demo_inv: "fs_inv demo_fs"
  by (auto simp: demo_fs_def superuser_fs_def demo_table_def full_fd_def fs_inv_def inode_inv_def table_is_dir_def
      is_file_at_def entry_is_dir_def entry_ok_def mk_file_stat_def hm_get_Cons hm_wf_def demo_components isize_max_def)

lemma demo_spawn: "spawn flag_codec 7 demo_fs = (Ok demo_handle, demo_fs)"
  by (simp add: demo_fs_def superuser_fs_def demo_table_def demo_rights_def demo_handle_def
      demo_components components_std fs_eval)

lemma demo_create:
  "exec C (OnFd FdCreate) demo_handle =
     with_fd 4 (opened_fd 8 \<lparr>file_stat = mk_file_stat 8 RegularFile 0, node_data = File []\<rparr> UNIV UNIV 0)
       (demo_table\<lparr>next_inode_candidate := 9, table := (table demo_table)(8 \<mapsto>
          \<lparr>file_stat = mk_file_stat 8 RegularFile 0, node_data = File []\<rparr>)\<rparr>) demo_handle"
  by (simp add: demo_handle_def demo_table_def fs_eval)

lemma demo_granted: "get_rights 7 (inode_table demo_fs) = Ok [(''/data'', {FD_READ, FD_SEEK, PATH_OPEN})]"
  by (simp add: get_rights_def demo_fs_def demo_table_def demo_rights_def hm_get_Cons ok_or_def)

lemma demo_paths:
  "components ''/data/new'' = [RootDir, Normal ''data'', Normal ''new'']"
  "components (path_of [Normal ''data'', Normal ''new'']) = [Normal ''data'', Normal ''new'']"
  "components ''new'' = [Normal ''new'']"
  by (simp_all add: components_def has_root_def parse_component_def path_of_def join_path_def component_str_def)

lemma demo_write: "\<exists>fs'. write_file_by_absolute_path C ''/data/new'' [7, 8] False demo_fs = (Ok (), fs')"
  by (simp add: demo_fs_def superuser_fs_def demo_table_def demo_components demo_paths isize_max_def fs_eval)

section \<open>Runs\<close>

text \<open>
  C21. A new filesystem can always be built, and every sequence of calls through its handle keeps the
  invariant: every inode recorded in a directory or a descriptor exists, recorded sizes are the
  lengths of the contents, directories have their dot entries, offsets stay below \<open>2^63\<close>.
\<close>

theorem fs_new_runs:
  assumes "codec_ok W"
  shows "\<exists>fs. fs_new W rt = Ok fs \<and> (\<forall>C calls. fs_inv (fold (exec C) calls fs))"
  using fs_new_eq [OF assms] wf.run.inv_run [OF superuser_inv] by blast

theorem fs_new_runs_witness:
  "\<exists>fs. fs_new flag_codec [(7 :: nat, [(''/data'', {FD_READ})])] = Ok fs \<and>
     (\<forall>C calls. fs_inv (fold (exec C) calls fs))"
  by (rule fs_new_runs [OF flag_codec_ok])



section \<open>Confinement and integrity of a principal\<close>

lemma opened_confined:
  assumes "opened rt t h"
  shows "confined (\<Union> (snd ` set rt)) (inode_table h) h"
  using assms by (fastforce simp: opened_def confined_def fd_confined_def granted_def)

lemma spawn_Ok:
  assumes "codec_ok W" and "fs_inv fs" and "spawn W pr fs = (Ok h, fs')"
  obtains rt where "get_rights pr (inode_table fs) = Ok rt" and "opened rt (inode_table fs) h"
    and "inode_table fs' = inode_table h"
  using wp_Ok [OF spawn_wp [OF assms(1,2)] assms(3)] by auto

text \<open>
  C3. Rights never grow. However a program uses the handle that was spawned for a principal, every
  descriptor it holds carries only rights that the rights table grants the principal, unless the
  descriptor refers to a file that did not exist when the handle was spawned.
\<close>

theorem spawn_confined:
  assumes "codec_ok W" and "fs_inv fs" and "spawn W pr fs = (Ok h, fs')"
    and "get_rights pr (inode_table fs) = Ok rt"
    and "fd_table (fold (exec C) calls h) fd = Some e"
  shows "rights_base (fd_stat e) \<union> rights_inheriting (fd_stat e) \<subseteq> \<Union> (snd ` set rt) \<or>
    table (inode_table fs') (fd_inode e) = None"
proof -
  obtain rt' where "get_rights pr (inode_table fs) = Ok rt'" and op: "opened rt' (inode_table fs) h"
    and t: "inode_table fs' = inode_table h"
    by (rule spawn_Ok [OF assms(1-3)])
  then have "rt' = rt" using assms(4) by simp
  then have "confined (\<Union> (snd ` set rt)) (inode_table h) (fold (exec C) calls h)"
    using confinement.run.inv_run [OF opened_confined [OF op]] by simp
  from confinedD [OF this assms(5)] show ?thesis unfolding fd_confined_def t by (elim disjE conjE) simp_all
qed

theorem spawn_confined_witness:
  "\<exists>e. fd_table (fold (exec demo_crates) [OnFd FdCreate] demo_handle) 4 = Some e \<and> rights_base (fd_stat e) = UNIV \<and>
     (rights_base (fd_stat e) \<union> rights_inheriting (fd_stat e) \<subseteq>
        \<Union> (snd ` set [(''/data'', {FD_READ, FD_SEEK, PATH_OPEN})]) \<or>
      table (inode_table demo_fs) (fd_inode e) = None)"
proof -
  let ?e = "opened_fd 8 \<lparr>file_stat = mk_file_stat 8 RegularFile 0, node_data = File []\<rparr> UNIV UNIV 0"
  have e: "fd_table (fold (exec demo_crates) [OnFd FdCreate] demo_handle) 4 = Some ?e"
    using demo_create [of demo_crates] by simp
  show ?thesis
    by (intro exI [of _ ?e] conjI e spawn_confined [OF flag_codec_ok demo_inv demo_spawn demo_granted e]) simp
qed

text \<open>
  C4. Integrity. A principal whose rights include none of \<^verbatim>\<open>FD_WRITE\<close>, \<^verbatim>\<open>FD_FILESTAT_SET_SIZE\<close> and
  \<^verbatim>\<open>PATH_FILESTAT_SET_SIZE\<close> cannot change the contents of a file that exists when its handle is
  spawned, by any sequence of calls, not even through a service.
\<close>

theorem spawn_read_only:
  assumes "codec_ok W" and "fs_inv fs" and "spawn W pr fs = (Ok h, fs')"
    and "get_rights pr (inode_table fs) = Ok rt" and "\<Union> (snd ` set rt) \<inter> writing_rights = {}"
    and "table (inode_table fs') i = Some x" and "node_data x = File b"
  shows "\<exists>x'. table (inode_table (fold (exec C) calls h)) i = Some x' \<and> node_data x' = File b"
proof -
  obtain rt' where "get_rights pr (inode_table fs) = Ok rt'" and op: "opened rt' (inode_table fs) h"
    and t: "inode_table fs' = inode_table h"
    by (rule spawn_Ok [OF assms(1-3)])
  then have eq: "rt' = rt" using assms(4) by simp
  have G: "\<Union> (snd ` set rt) - writing_rights = \<Union> (snd ` set rt)" using assms(5) by blast
  have "frozen (\<Union> (snd ` set rt) - writing_rights) (inode_table h) h"
    using opened_confined [OF op] by (simp add: frozen_def files_kept_def G eq)
  then have "frozen (\<Union> (snd ` set rt) - writing_rights) (inode_table h) (fold (exec C) calls h)"
    by (rule integrity.run.inv_run)
  then have "files_kept (inode_table h) (inode_table (fold (exec C) calls h))" by (simp add: frozen_def)
  then show ?thesis using assms(6,7) unfolding files_kept_def t by blast
qed

theorem spawn_read_only_witness:
  "\<exists>x'. table (inode_table (fold (exec demo_crates)
       [Runtime (WriteFileByAbsolutePath ''/data/in'' [9] False), OnFd (FdFilestatSetSize 3 0)] demo_handle)) 7 = Some x' \<and>
     node_data x' = File [1, 2, 3]"
  by (rule spawn_read_only [OF flag_codec_ok demo_inv demo_spawn demo_granted])
    (auto simp: writing_rights_def demo_fs_def demo_table_def)

section \<open>Round trips\<close>

text \<open>
  C10. What \<^verbatim>\<open>fd_pwrite\<close> writes, \<^verbatim>\<open>fd_pread\<close> reads back at the same offset, for any number of buffers, with
  buffers of the same sizes on both sides.
\<close>

theorem pwrite_pread:
  assumes "fs_inv fs" and "fd_table fs fd = Some e" and "{FD_READ, FD_WRITE} \<subseteq> rights_base (fd_stat e)"
    and "table (inode_table fs) (fd_inode e) = Some x" and "node_data x = File b"
    and "bufs \<noteq> []" and "unat off + length (concat bufs) \<le> isize_max"
    and "map length bufs' = map length bufs"
  shows "\<exists>fs'. fd_pwrite C fd bufs off fs = (Ok (length (concat bufs)), fs') \<and>
    fd_pread fd bufs' off fs' = (Ok (length (concat bufs), bufs), fs')"
  using assms by (rule pwrite_then_pread)

theorem pwrite_pread_witness:
  "\<exists>fs'. fd_pwrite demo_crates 0 [[1, 2], [3]] 4 (superuser_fs ([] :: nat rights_table)) = (Ok 3, fs') \<and>
     fd_pread 0 [[0, 0], [0]] 4 fs' = (Ok (3, [[1, 2], [3]]), fs')"
proof -
  have "\<exists>fs'. fd_pwrite demo_crates 0 [[1, 2], [3]] 4 (superuser_fs ([] :: nat rights_table)) =
        (Ok (length (concat [[1, 2], [3 :: byte]])), fs') \<and>
     fd_pread 0 [[0, 0], [0]] 4 fs' = (Ok (length (concat [[1, 2], [3 :: byte]]), [[1, 2], [3]]), fs')"
    by (rule pwrite_pread [OF superuser_inv, where e = "full_fd RegularFile 3" and b = "[]" and
          x = "\<lparr>file_stat = mk_file_stat 3 RegularFile 0, node_data = File []\<rparr>"])
      (simp_all add: superuser_fs_def superuser_table_def full_fd_def mk_fd_stat_def isize_max_def)
  then show ?thesis by (simp add: numeral_3_eq_3)
qed

text \<open>
  C26. A file written with \<^verbatim>\<open>write_file_by_absolute_path\<close> (not appending) is read back unchanged by
  \<^verbatim>\<open>read_file_by_absolute_path\<close>, whether the path existed before or was created on the way. The
  handle needs the rights to read, a free descriptor, and the path must not be a special file.
\<close>

theorem write_then_read:
  assumes "fs_inv fs" and "find_prestat fs p = Ok (fd, name)" and "fd_table fs fd = Some pe"
    and "\<And>i y. walk (inode_table fs) (fd_inode pe) (components name) = Ok i \<Longrightarrow>
        table (inode_table fs) i = Some y \<Longrightarrow> \<not> entry_is_service y"
    and "length data \<le> isize_max"
    and "write_file_by_absolute_path C p data False fs = (Ok (), fs')"
    and "{FD_READ, FD_SEEK} \<subseteq> rights_inheriting (fd_stat pe)"
    and "\<not> bit (next_fd_candidate fs + 1) 31" and "fd_table fs (next_fd_candidate fs + 1) = None"
  shows "\<exists>fs''. read_file_by_absolute_path p fs' = (Ok data, fs'')"
proof -
  obtain i x where r: "fd_table fs' = fd_table fs" "prestat_table fs' = prestat_table fs"
      "next_fd_candidate fs' = next_fd_candidate fs + 1" "PATH_OPEN \<in> rights_base (fd_stat pe)"
      "table_is_dir (inode_table fs') (fd_inode pe)"
      "walk (inode_table fs') (fd_inode pe) (components name) = Ok i"
      "table (inode_table fs') i = Some x" "node_data x = File data"
    by (rule write_file_Ok [OF assms(1-6)])
  have "fs_inv fs'"
    using evolves_inv [OF safeD [OF _ assms(1)] assms(1)] safe_writes(3) assms(6) by (metis snd_conv)
  moreover have "find_prestat fs' p = Ok (fd, name)"
    using find_prestat_same [OF r(2)] assms(2) by simp
  ultimately show ?thesis
    using read_file_eq [of fs' p fd name pe i x data] r assms(3,7-9)
    by (simp add: entry_is_service_def)
qed

theorem write_then_read_witness:
  "\<exists>fs' fs''. write_file_by_absolute_path demo_crates ''/data/new'' [7, 8] False demo_fs = (Ok (), fs') \<and>
     read_file_by_absolute_path ''/data/new'' fs' = (Ok [7, 8], fs'')"
proof -
  obtain fs' where w: "write_file_by_absolute_path demo_crates ''/data/new'' [7, 8] False demo_fs = (Ok (), fs')"
    using demo_write by blast
  have "find_prestat demo_fs ''/data/new'' = Ok (3, path_of [Normal ''data'', Normal ''new''])"
    by (simp add: demo_fs_def superuser_fs_def demo_paths fs_eval)
  moreover have "fd_table demo_fs 3 = Some (full_fd Unknown 2)" by (simp add: demo_fs_def superuser_fs_def)
  ultimately have "\<exists>fs''. read_file_by_absolute_path ''/data/new'' fs' = (Ok [7, 8], fs'')"
    by (rule write_then_read [OF demo_inv _ _ _ _ w])
      (auto simp: demo_fs_def superuser_fs_def demo_table_def demo_components demo_paths isize_max_def fs_eval)
  with w show ?thesis by blast
qed

section \<open>Seeking and allocation\<close>



text \<open>
  Inode numbers are never reused. \<^verbatim>\<open>new_inode\<close> returns a number that no entry has and that is smaller
  than the next candidate, and changes no entry; it fails, with \<^verbatim>\<open>NFile\<close> and without any effect, exactly when
  the candidate is the largest 64-bit number.
\<close>

theorem new_inode_spec:
  assumes "inode_inv t"
  shows "if next_inode_candidate t = - 1 then new_inode t = (Err NFile, t)
     else \<exists>t'. new_inode t = (Ok (next_inode_candidate t), t') \<and> fresh t' (next_inode_candidate t) \<and>
            table t' = table t \<and> inode_inv t'"
proof -
  let ?c = "next_inode_candidate t"
  have free: "table t ?c = None"
    using inode_invD(2) [OF assms, of ?c] by (cases "table t ?c") auto
  have max: "?c = - 1 \<longleftrightarrow> \<not> unat ?c + 1 < 2 ^ 64"
  proof
    assume "\<not> unat ?c + 1 < 2 ^ 64"
    moreover have "unat ?c < 2 ^ 64" using unsigned_less [of ?c] by simp
    ultimately have "unat ?c = 2 ^ 64 - 1" by simp
    then show "?c = - 1" using word_of_unat [of ?c "2 ^ 64 - 1"] by simp
  qed (simp add: unsigned_minus_1_eq_mask mask_eq_exp_minus_1)
  show ?thesis
  proof (cases "?c = - 1")
    case True
    then show ?thesis using free max by (simp add: new_inode_def Let_def checked_add_u64_def mthrow_def)
  next
    case False
    then have ok: "new_inode t = (Ok ?c, t\<lparr>next_inode_candidate := ?c + 1\<rparr>)"
      using new_inode_Ok [OF free] max by blast
    from wp_Ok [OF new_inode_wp [OF assms] ok] show ?thesis using False ok by simp
  qed
qed

section \<open>Where the code differs from its documentation\<close>

text \<open>
  \<^verbatim>\<open>fd_fdstat_set_rights\<close> changes nothing: on an open descriptor it reports success and leaves the handle as
  it is.
\<close>

theorem set_rights_noop:
  "fd_fdstat_set_rights fd base inh fs = (if fd_table fs fd = None then (Err BadF, fs) else (Ok (), fs))"
  by (auto simp: fd_fdstat_set_rights_def run_simps)

text \<open>
  \<^verbatim>\<open>fd_filestat_set_times\<close> looks at one flag only. When a program asks for both the access time and the
  modification time to be set, the modification time stays as it was.
\<close>

theorem set_times_one_flag:
  assumes "fd_table fs fd = Some e" and "FD_FILESTAT_SET_TIMES \<in> rights_base (fd_stat e)"
    and "table (inode_table fs) (fd_inode e) = Some x"
  shows "\<exists>fs' x'. fd_filestat_set_times fd atime mtime {ATIME, MTIME} now fs = (Ok (), fs') \<and>
    table (inode_table fs') (fd_inode e) = Some x' \<and>
    stat_atime (file_stat x') = atime \<and> stat_mtime (file_stat x') = stat_mtime (file_stat x)"
  using assms
  by (simp add: fd_filestat_set_times_def check_right_Ok get_inode_by_fd_eq with_inodes_eq update_entry_eq
      mbind_def set_times_def)

theorem set_times_one_flag_witness:
  "\<exists>fs' x'. fd_filestat_set_times 3 5 6 {ATIME, MTIME} 9 demo_fs = (Ok (), fs') \<and>
    table (inode_table fs') 2 = Some x' \<and> stat_atime (file_stat x') = 5 \<and> stat_mtime (file_stat x') = 0"
  using set_times_one_flag [of demo_fs 3 "full_fd Unknown 2" "\<lparr>file_stat = mk_file_stat 2 DirectoryType 0,
        node_data = Directory [(''.'', 2), (''..'', 2), (''data'', 6)]\<rparr>" 5 6 9]
  by (simp add: demo_fs_def demo_table_def superuser_fs_def full_fd_def mk_fd_stat_def mk_file_stat_def)

text \<open>
  Reading at an offset past the end of a file panics, where the WASI interface asks for zero bytes.
\<close>

theorem pread_past_end:
  assumes "fd_table fs fd = Some e" and "FD_READ \<in> rights_base (fd_stat e)"
    and "table (inode_table fs) (fd_inode e) = Some x" and "bytes_of (node_data x) = Some b"
    and "length b < unat off"
  shows "fd_pread fd (buf # bufs) off fs = (Panic, fs)"
  using assms by (simp add: fd_pread_eq entry_read_file_eq read_bytes_eq)

theorem pread_past_end_witness:
  "fd_pread 0 [[0]] 1 (superuser_fs ([] :: nat rights_table)) = (Panic, superuser_fs [])"
  by (rule pread_past_end [where e = "full_fd RegularFile 3" and b = "[]" and
        x = "\<lparr>file_stat = mk_file_stat 3 RegularFile 0, node_data = File []\<rparr>"])
    (simp_all add: superuser_fs_def superuser_table_def full_fd_def mk_fd_stat_def)

text \<open>
  A descriptor renumbered to the next candidate blocks the allocation of descriptors: every later call
  of \<^verbatim>\<open>new_fd\<close> fails with \<^verbatim>\<open>NFile\<close> although descriptors are free.
\<close>

theorem renumber_blocks:
  assumes "fd_renumber old (next_fd_candidate fs) fs = (Ok (), fs')"
  shows "new_fd fs' = (Err NFile, fs')"
proof -
  obtain e where "fd_table fs old = Some e" "fd_table fs (next_fd_candidate fs) = None"
    "fs' = fs\<lparr>fd_table := ((fd_table fs)(next_fd_candidate fs \<mapsto> e))(old := None)\<rparr>"
    using assms by (auto simp: fd_renumber_def run_simps split: option.splits if_splits)
  moreover from this have "old \<noteq> next_fd_candidate fs" by auto
  ultimately show ?thesis by (simp add: new_fd_def run_simps)
qed

theorem renumber_blocks_witness:
  "\<exists>fs'. fd_renumber 0 7 demo_fs = (Ok (), fs') \<and> new_fd fs' = (Err NFile, fs')"
proof -
  obtain fs' where "fd_renumber 0 (next_fd_candidate demo_fs) demo_fs = (Ok (), fs')"
    by (simp add: fd_renumber_def run_simps demo_fs_def superuser_fs_def adopt_def)
  with renumber_blocks [OF this] show ?thesis by (auto simp: demo_fs_def superuser_fs_def)
qed

text \<open>
  C40. A service that writes to its own file never returns. The AES service takes the paths of its input and its output from the
  bytes a program writes; it keeps its lock while it runs. When the output path leads to the file of the service
  itself, the write at the end waits for this lock: the call does not return.
\<close>

theorem aes_deadlock:
  assumes "read_file_by_absolute_path (aes_input_path (aes_service (inode_table fs))) fs = (Ok input, h)"
    and "psa_ctr C (aes_is_encryption (aes_service (inode_table fs))) (aes_key (aes_service (inode_table fs)))
        (aes_iv (aes_service (inode_table fs))) input = Some (output, len)"
    and "fs_inv h" and "find_prestat h (aes_output_path (aes_service (inode_table fs))) = Ok (fd, name)"
    and "fd_table h fd = Some pe" and "PATH_OPEN \<in> rights_base (fd_stat pe)"
    and "{FD_WRITE, FD_SEEK} \<subseteq> rights_inheriting (fd_stat pe)" and "table_is_dir (inode_table h) (fd_inode pe)"
    and "walk (inode_table h) (fd_inode pe) (components name) = Ok i" and "table (inode_table h) i = Some x"
    and "node_data x = NativeModule AesService b" and "length b + len \<le> isize_max"
    and "\<not> bit (next_fd_candidate h) 31" and "fd_table h (next_fd_candidate h) = None"
  shows "fst (serve C all_services AesService bytes fs) = Stuck"
proof -
  obtain out where out: "vec_resize len 0 output = (Ok out :: (ErrNo, byte list) result)" "length out = len"
    using assms(12) by (auto simp: vec_resize_def)
  have "AesService \<notin> set (removeAll AesService all_services)" by simp
  then have "fst (write_file_by_absolute_path_with C (removeAll AesService all_services) sv
      (aes_output_path (aes_service (inode_table fs))) out True h) = Stuck" for sv
    using locked_write_file [OF assms(3-11) _ assms(13,14)] out(2) assms(12) by blast
  then have "fst (encryption_decryption C
      (write_file_by_absolute_path_with C (removeAll AesService all_services) (serve C (removeAll AesService all_services)))
      (aes_service (inode_table fs)) fs) = Stuck"
    using assms(1,2) out(1) by (simp add: encryption_decryption_def mbind_def monad_defs ok_or_def)
  then show ?thesis
    by (simp add: serve.simps [of C all_services] aes_serve_def Let_def mbind_def [of mget] mget_def mcatch_def)
      (simp add: all_services_def)
qed

definition demo_aes :: AesCounterModeService where
  "demo_aes = \<lparr>aes_key = [], aes_iv = [], aes_input_path = ''/services/postcard_string.dat'',
     aes_output_path = ''/services/aesctr.dat'', aes_is_encryption = True\<rparr>"

definition demo_serving :: "nat FileSystem" where
  "demo_serving = adopt ((superuser_table [])\<lparr>aes_service := demo_aes\<rparr>) (superuser_fs [])"

lemma demo_serving_read:
  "\<exists>h. read_file_by_absolute_path ''/services/postcard_string.dat'' demo_serving = (Ok [], h) \<and>
     prestat_table h = [(3, ''/'')] \<and> fd_table h 3 = Some (full_fd Unknown 2) \<and> next_fd_candidate h = 8 \<and>
     fd_table h 8 = None \<and> table (inode_table h) 2 = table (superuser_table ([] :: nat rights_table)) 2 \<and>
     table (inode_table h) 7 = table (superuser_table ([] :: nat rights_table)) 7 \<and>
     table (inode_table h) 8 = table (superuser_table ([] :: nat rights_table)) 8"
  by (simp add: demo_serving_def superuser_fs_def superuser_table_def components_services fs_eval)

lemma demo_serving_inv: "fs_inv demo_serving"
  by (auto simp: demo_serving_def superuser_fs_def superuser_table_def full_fd_def fs_inv_def inode_inv_def table_is_dir_def
      is_file_at_def entry_is_dir_def entry_ok_def mk_file_stat_def hm_get_Cons hm_wf_def components_services)

theorem aes_deadlock_witness: "fst (serve demo_crates all_services AesService [] demo_serving) = Stuck"
proof -
  have a: "aes_service (inode_table demo_serving) = demo_aes" by (simp add: demo_serving_def)
  obtain h where h: "read_file_by_absolute_path ''/services/postcard_string.dat'' demo_serving = (Ok [], h)"
     "prestat_table h = [(3, ''/'')]" "fd_table h 3 = Some (full_fd Unknown 2)" "next_fd_candidate h = 8"
     "fd_table h 8 = None" and t: "table (inode_table h) 2 = table (superuser_table ([] :: nat rights_table)) 2"
     "table (inode_table h) 7 = table (superuser_table ([] :: nat rights_table)) 7"
     "table (inode_table h) 8 = table (superuser_table ([] :: nat rights_table)) 8"
    using demo_serving_read by blast
  have "fs_inv h" using evolves_inv [OF safeD [OF safe_read_file demo_serving_inv] demo_serving_inv] h(1) by (metis snd_conv)
  moreover have "read_file_by_absolute_path (aes_input_path (aes_service (inode_table demo_serving))) demo_serving = (Ok [], h)"
    using h(1) by (simp add: a demo_aes_def)
  moreover have "find_prestat h ''/services/aesctr.dat'' = Ok (3, path_of [Normal ''services'', Normal ''aesctr.dat''])"
    using h(2) by (simp add: components_services fs_eval)
  ultimately show ?thesis
    using h(3-5) t
    by (intro aes_deadlock [of demo_serving "[]" h demo_crates "[]" 0 3 "path_of [Normal ''services'', Normal ''aesctr.dat'']"
          "full_fd Unknown 2" 8
          "\<lparr>file_stat = mk_file_stat 8 RegularFile 0, node_data = NativeModule AesService []\<rparr>" "[]" "[]"])
      (simp_all add: a demo_aes_def demo_crates_def components_services table_is_dir_def entry_is_dir_def full_fd_def
        mk_fd_stat_def superuser_table_def entry_get_inode_by_path_def component_str_def hm_get_Cons ok_or_def isize_max_def)
qed

end
