(* ===== verification/EngineProps.thy ===== *)
theory EngineProps
  imports Tracing FsProps
begin

text \<open>
  The properties of the engines and of the WASI wrapper: programs reach the filesystem only through its calls, host
  calls return and keep the size of the memory, both engines link the same functions and agree on their host calls.
\<close>

section \<open>An example\<close>

text \<open>
  Packages for the examples, with the sizes of the WASI documentation, and a machine with one program. The program
  writes the three bytes at address 8 to the standard output, exits with code 7, and returns.
\<close>

definition demo_wasi :: wasi_crate where
  "demo_wasi =
     \<lparr>advice_of = (\<lambda>b. if b = 0 then Some NormalAdvice else if b < 6 then Some (OtherAdvice b) else None),
      fd_flags_of = Some, lookup_flags_of = Some,
      open_flags_of = (\<lambda>w. if w = 0 then Some {} else if w = 1 then Some {CREATE} else None),
      set_time_flags_of = (\<lambda>w. if w = 0 then Some {} else None),
      whence_of = (\<lambda>b. if b = 0 then Some Current else if b = 1 then Some End else if b = 2 then Some Start else None),
      rights_of = rights_from_bits flag_codec, signal_valid = (\<lambda>b. b < 31), ri_flags_valid = (\<lambda>w. w < 4),
      si_flags_valid = (\<lambda>w. w = 0), sd_flags_valid = (\<lambda>b. b < 4), clock_id_valid = (\<lambda>w. w < 4), clock_realtime = 0,
      errno_of = (\<lambda>w. if w = 0 then Some Success else None),
      event_type_of = (\<lambda>b. if b = 1 then Some FdReadEvent else if b = 2 then Some FdWriteEvent else None),
      event_rw_flags_valid = (\<lambda>w. w < 2),
      errno_code = (\<lambda>e. if e = Success then 0 else if e = BadF then 8 else if e = Inval then 28 else 1),
      cursor_error = Inval, subscription_size = 48, event_size = 32, dirent_size = 24,
      fdstat_bytes = (\<lambda>_. replicate 24 0), filestat_bytes = (\<lambda>_. replicate 64 0),
      filestat_result_bytes = (\<lambda>_. replicate 72 0), prestat_bytes = to_le_bytes,
      dirent_bytes = (\<lambda>_. replicate 24 0)\<rparr>"

definition demo_engine :: engine_crates where
  "demo_engine =
     \<lparr>ec_wasi = demo_wasi, ec_crates = demo_crates,
      value_u8 = (\<lambda>v. case v of I32 w \<Rightarrow> if w < 256 then Some (ucast w) else None | _ \<Rightarrow> None),
      value_u16 = (\<lambda>v. case v of I32 w \<Rightarrow> if w < 65536 then Some (ucast w) else None | _ \<Rightarrow> None),
      value_u32 = (\<lambda>v. case v of I32 w \<Rightarrow> Some w | _ \<Rightarrow> None),
      value_u64 = (\<lambda>v. case v of I64 w \<Rightarrow> Some w | _ \<Rightarrow> None),
      value_i64 = (\<lambda>v. case v of I64 w \<Rightarrow> Some w | _ \<Rightarrow> None)\<rparr>"

definition demo_memory :: "byte list" where
  "demo_memory = [8, 0, 0, 0, 3, 0, 0, 0, 65, 66, 67, 0, 0, 0, 0, 0, 24, 0, 0, 0, 3, 0, 0, 0] @ replicate 8 0"

definition demo_host :: "bool \<Rightarrow> nat host" where
  "demo_host tracing =
     \<lparr>guest_memory = Some demo_memory, guest_strace = \<lparr>strace_enabled = False, strace_state = TraceFunc\<rparr>, guest_log = [],
      host_wasi = (wrapper_new (superuser_fs []) False)\<lparr>wasi_enable_strace := tracing\<rparr>\<rparr>"

definition demo_module :: "nat wasm_module" where
  "demo_module =
     \<lparr>module_imports =
        [\<lparr>import_module = WASI_SNAPSHOT_MODULE_NAME, import_field = ''fd_write'',
          import_signature = \<lparr>sig_params = [TI32, TI32, TI32, TI32], sig_return = Some TI32\<rparr>\<rparr>,
         \<lparr>import_module = WASI_SNAPSHOT_MODULE_NAME, import_field = ''proc_exit'',
          import_signature = \<lparr>sig_params = [TI32], sig_return = None\<rparr>\<rparr>],
      module_imports_other = False, module_start = None, module_memory = Some demo_memory,
      module_entry = Some (ExportFunc \<lparr>sig_params = [], sig_return = None\<rparr>), module_invoke = (\<lambda>_. 0)\<rparr>"

definition demo_machine :: "nat wasm_machine" where
  "demo_machine =
     \<lparr>wasm_parse = (\<lambda>b. if b = [] then None else Some demo_module),
      wasm_advance = (\<lambda>m mem.
        (if m = 0 then HostCall ''fd_write'' [I32 1, I32 0, I32 1, I32 12] (\<lambda>_. 1)
         else if m = 1 then HostCall ''proc_exit'' [I32 7] (\<lambda>_. 2) else Done None, mem))\<rparr>"

definition demo_platform :: platform where
  "demo_platform = \<lparr>platform_getrandom = (\<lambda>_. Unavailable), platform_getclockres = (\<lambda>_. Unavailable),
     platform_getclocktime = (\<lambda>_. Unavailable)\<rparr>"



lemma demo_iovecs:
  "iovec_at demo_memory 0 0 = Ok (8, [65, 66, 67])"
  "iovec_at (copy_at 12 (le_bytes 4 3) demo_memory) 16 0 = Ok (24, [0, 0, 0])"
proof -
  show "iovec_at demo_memory 0 0 = Ok (8, [65, 66, 67])" by code_simp
  have "le_bytes 4 3 = [3, 0, 0, 0]" by (simp add: le_bytes_def upt_rec)
  then have m: "copy_at 12 (le_bytes 4 3) demo_memory =
      [8, 0, 0, 0, 3, 0, 0, 0, 65, 66, 67, 0, 3, 0, 0, 0, 24, 0, 0, 0, 3, 0, 0, 0] @ replicate 8 0"
    by (simp add: copy_at_def demo_memory_def)
  show "iovec_at (copy_at 12 (le_bytes 4 3) demo_memory) 16 0 = Ok (24, [0, 0, 0])" unfolding m by code_simp
qed

lemma demo_values: "values_ok demo_engine"
  by (auto simp: demo_engine_def demo_wasi_def values_ok_def to_u8_def to_u16_def word_less_nat_alt)

lemma demo_link: "link_import (module_imports demo_module ! 0) = Some (WasiAPI API_FD_WRITE)"
  by code_simp

lemma demo_host_simps:
  "guest_memory (demo_host tracing) = Some demo_memory" "length demo_memory = 32"
  "wasi_filesystem (host_wasi (demo_host tracing)) = superuser_fs []"
  "wasi_enable_strace (host_wasi (demo_host tracing)) = tracing"
  by (simp_all add: demo_host_def wrapper_new_def demo_memory_def)

section \<open>Properties\<close>


text \<open>
  C23. Types. Every import that \<^verbatim>\<open>wasmtime\<close> links is accepted by \<^verbatim>\<open>wasmi\<close> as well, with a number that leads back to the same host
  call, and both engines give the call the same parameter types.
\<close>

theorem link_resolve:
  assumes "link_import i = Some name"
  shows "resolvable i \<and> resolve_func (import_field i) (import_signature i) = Some (to_u64 name) \<and>
    from_u64 (to_u64 name) = Some name \<and> sig_params (import_signature i) = get_params name"
  using link_import_linked [OF assms] linked_functions_ok by (auto simp: list_all_iff resolvable_def)

theorem link_resolve_witness:
  "resolvable (module_imports demo_module ! 0) \<and>
     resolve_func (import_field (module_imports demo_module ! 0)) (import_signature (module_imports demo_module ! 0)) =
       Some (to_u64 (WasiAPI API_FD_WRITE))"
  using link_resolve [OF demo_link] by blast

text \<open>
  C5. Equivalence of the engines. A host call with arguments of the right types, in range, of a module with a memory does
  the same in both engines: the same result for the program, the same memory, the same filesystem. The exception
  is \<^verbatim>\<open>proc_exit\<close>, for which \<^verbatim>\<open>wasmi\<close> returns a value the signature does not have.
\<close>

theorem engines_agree:
  assumes "values_ok X" and "find (\<lambda>i. import_field i = f) imports = Some i" and "link_import i = Some name"
    and "map value_type args = get_params name" and "in_range name args" and "name \<noteq> WasiAPI API_PROC_EXIT"
    and "guest_memory h \<noteq> None"
  shows "wasmi_host_call X Ps imports n f args h = wasmtime_host_call X Ps imports n f args h"
proof -
  have f: "import_field i = f" using assms(2) by (auto simp: find_Some_iff)
  have "wasmi_host_call X Ps imports n f args h =
      mbind (wasmi_call X (Ps n) name args) (\<lambda>e. mreturn (Some (I32 (scast (errno_code (ec_wasi X) e))))) h"
    using link_import_linked [OF assms(3)] linked_functions_ok assms(2) f
    by (auto simp: wasmi_host_call_def invoke_index_def list_all_iff)
  also have "\<dots> = with_code (convert_to_errno X (wrapper_call X (Ps n) name args)) h"
    using with_memory_code [OF assms(1,7)] by (simp add: wasmi_call_typed [OF assms(1,4,5)])
  also have "\<dots> = wasmtime_host_call X Ps imports n f args h"
    using assms(2,3) by (simp add: wasmtime_host_call_def wasmtime_call_typed [OF assms(4,5,6)])
  finally show ?thesis .
qed

theorem engines_agree_witness:
  "wasmi_host_call demo_engine (\<lambda>_. demo_platform) (module_imports demo_module) 0 ''fd_write'' [I32 1, I32 0, I32 1, I32 12]
     (demo_host False) =
   wasmtime_host_call demo_engine (\<lambda>_. demo_platform) (module_imports demo_module) 0 ''fd_write''
     [I32 1, I32 0, I32 1, I32 12] (demo_host False)"
  by (rule engines_agree [OF demo_values _ demo_link])
    (simp_all add: demo_module_def get_params_def in_range_def narrow_def demo_host_simps)

text \<open>
  C22. No host call changes the size of the memory of the program, in either engine, with any arguments and also when it fails.
\<close>

theorem host_calls_keep_size:
  "map_option length (guest_memory (snd (wasmi_call X P index args h))) = map_option length (guest_memory h) \<and>
   map_option length (guest_memory (snd (wasmtime_call X P index args h))) = map_option length (guest_memory h)"
proof -
  have "same_size h (snd (wasmi_call X P index args h))"
    by (rule memory_size.related_wasmi_call [unfolded memory_size.related_def, THEN spec])
  moreover have "same_size h (snd (wasmtime_call X P index args h))"
    by (rule memory_size.related_wasmtime_call [unfolded memory_size.related_def, THEN spec])
  ultimately show ?thesis by (simp add: same_size_def)
qed



text \<open>
  C25. Tracing is transparent. A host call that does not panic has the same result with and without tracing, and leaves the
  same memory, filesystem and options; only the log differs.
\<close>

theorem tracing_transparent:
  assumes "fst (wrapper_call X P index args h) \<noteq> Panic"
  shows "fst (wrapper_call X P index args h) = fst (wrapper_call X P index args (erase h)) \<and>
    erase (snd (wrapper_call X P index args h)) = erase (snd (wrapper_call X P index args (erase h)))"
  using assms by (rule transparent_call [unfolded transparent_def, THEN spec, THEN mp])

theorem tracing_transparent_witness:
  "fst (wrapper_call demo_engine demo_platform (WasiAPI API_FD_CLOSE) [I32 0] (demo_host True)) =
   fst (wrapper_call demo_engine demo_platform (WasiAPI API_FD_CLOSE) [I32 0] (erase (demo_host True)))"
proof -
  have "fst (wrapper_call demo_engine demo_platform (WasiAPI API_FD_CLOSE) [I32 0] (demo_host True)) \<noteq> Panic"
    by (simp add: wrapper_call_def wrapper_fd_close_def strace_def traced_def demo_host_def wrapper_new_def
        superuser_fs_def superuser_table_def val32_def strace_func_def info_def monad_defs mbind_def on_fs_def mzoom_def
        fs_eval arg_dec_def when_enabled_def arg_print_comma_def set_trace_def strace_result_def entry_is_service_def)
  then show ?thesis using tracing_transparent by blast
qed

definition memory_at :: "'p host \<Rightarrow> u32 \<Rightarrow> nat \<Rightarrow> byte list option" where
  "memory_at h a n = map_option (\<lambda>m. take n (drop (unat a) m)) (guest_memory h)"

text \<open>
  C6. Files through the memory of a program. A program that writes a buffer of its memory to a file and reads the same range of the file
  into another buffer finds the same bytes there, when the place for the number of bytes read does not overlap the buffer.
\<close>

theorem guest_write_read:
  assumes "\<not> wasi_enable_strace (host_wasi h)" and "guest_memory h = Some m" and "length m < 2 ^ 32"
    and "fs_inv (wasi_filesystem (host_wasi h))" and "fd_table (wasi_filesystem (host_wasi h)) fd = Some e"
    and "{FD_READ, FD_WRITE} \<subseteq> rights_base (fd_stat e)"
    and "table (inode_table (wasi_filesystem (host_wasi h))) (fd_inode e) = Some x" and "node_data x = File b"
    and "unat off + length data \<le> isize_max"
    and "iovec_at m src 0 = Ok (p, data)" and "unat adr + 4 \<le> length m"
    and "iovec_at (copy_at (unat adr) (le_bytes 4 (length data)) m) dst 0 = Ok (q, old)" and "length old = length data"
    and "unat adr' + 4 \<le> length m" and "unat adr' + 4 \<le> unat q \<or> unat q + length data \<le> unat adr'"
  shows "\<exists>h'. mbind (wrapper_fd_pwrite C fd src 1 off adr) (\<lambda>_. wrapper_fd_pread fd dst 1 off adr') h = (Ok (), h') \<and>
    memory_at h' q (length data) = Some data"
proof -
  let ?fs = "wasi_filesystem (host_wasi h)" and ?m = "copy_at (unat adr) (le_bytes 4 (length data)) m"
  obtain fs' where w: "fd_pwrite C fd [data] off ?fs = (Ok (length data), fs')"
    and r: "fd_pread fd [old] off fs' = (Ok (length data, [data]), fs')"
    using pwrite_then_pread [OF assms(4-8), of "[data]" off "[old]" C] assms(9,13) by auto
  let ?off = "\<lparr>strace_enabled = False, strace_state = TraceFunc\<rparr>"
  let ?h = "h\<lparr>guest_strace := ?off, guest_memory := Some ?m, host_wasi := (host_wasi h)\<lparr>wasi_filesystem := fs'\<rparr>\<rparr>"
  have len: "unat (of_nat (length data) :: u32) = length data"
    using iovec_at_inside [OF assms(10)] assms(3) by (simp add: unat_of_nat take_bit_nat_eq_self)
  have pw: "wrapper_fd_pwrite C fd src 1 off adr h = (Ok (), ?h)"
    unfolding wrapper_fd_pwrite_def
    by (subst strace_off [OF assms(1)], (intro blind_intros | simp add: quiet_args)+)
      (simp add: mbind_def on_memory_def on_fs_def mzoom_def assms(2) unpack_one [OF assms(3,10)] w write_u32_Ok assms(11) len)
  have m: "length ?m = length m" "length ?m < 2 ^ 32" using assms(3,11) by simp_all
  have q: "unat q + length data \<le> length m" using iovec_at_inside [OF assms(12)] assms(13) m(1) by simp
  let ?m' = "copy_at (unat adr') (le_bytes 4 (length data)) (copy_at (unat q) data ?m)"
  have pr: "wrapper_fd_pread fd dst 1 off adr' ?h = (Ok (), ?h\<lparr>guest_memory := Some ?m'\<rparr>)"
    unfolding wrapper_fd_pread_def
    by (subst strace_off, simp add: assms(1), (intro blind_intros | simp add: quiet_args)+)
      (simp add: mbind_def mmodify_def mreturn_def on_memory_def on_fs_def mzoom_def unpack_one [OF m(2) assms(12)] r
        write_u32_Ok assms(13,14) m(1) q len)
  have "take (length data) (drop (unat q) ?m') = data"
    using copy_at_disjoint [of "unat adr'" "le_bytes 4 (length data)" "copy_at (unat q) data ?m" "unat q" "length data"]
      assms(14,15) m(1) q by auto
  then show ?thesis using pw pr by (simp add: mbind_def memory_at_def)
qed

theorem guest_write_read_witness:
  "\<exists>h'. mbind (wrapper_fd_pwrite demo_crates 0 0 1 0 12) (\<lambda>_. wrapper_fd_pread 0 16 1 0 28) (demo_host False) = (Ok (), h') \<and>
     memory_at h' 24 3 = Some [65, 66, 67]"
proof -
  have "fd_table (superuser_fs ([] :: nat rights_table)) 0 = Some (full_fd RegularFile 3)"
    "table (inode_table (superuser_fs ([] :: nat rights_table))) 3 =
       Some \<lparr>file_stat = mk_file_stat 3 RegularFile 0, node_data = File []\<rparr>"
    by (simp_all add: superuser_fs_def superuser_table_def)
  then have "\<exists>h'. mbind (wrapper_fd_pwrite demo_crates 0 0 1 0 12) (\<lambda>_. wrapper_fd_pread 0 16 1 0 28) (demo_host False) =
        (Ok (), h') \<and> memory_at h' 24 (length [65, 66, 67 :: byte]) = Some [65, 66, 67]"
    by (intro guest_write_read [where e = "full_fd RegularFile 3" and b = "[]" and m = demo_memory and p = 8 and
          old = "[0, 0, 0]" and x = "\<lparr>file_stat = mk_file_stat 3 RegularFile 0, node_data = File []\<rparr>"])
      (simp_all add: demo_host_simps superuser_inv demo_iovecs(1) demo_iovecs(2) [unfolded numeral_3_eq_3] full_fd_def mk_fd_stat_def isize_max_def)
  then show ?thesis by (simp add: numeral_3_eq_3)
qed

text \<open>
  \<^verbatim>\<open>fd_filestat_get\<close> of the wrapper hides errors: it does not unpack the result of the filesystem but copies it into the memory. For a
  descriptor that does not exist the program gets the code for success.
\<close>

theorem filestat_get_hides_error:
  assumes "fd_table (wasi_filesystem (host_wasi h)) fd = None" and "\<not> wasi_enable_strace (host_wasi h)"
    and "guest_memory h = Some m" and "unat adr + length (filestat_result_bytes T (Err BadF)) \<le> length m"
    and "length (filestat_result_bytes T (Err BadF)) < 2 ^ 32"
  shows "fst (on_fs (fd_filestat_get fd) h) = Err BadF \<and> fst (wrapper_fd_filestat_get T fd adr h) = Ok ()"
proof -
  let ?b = "filestat_result_bytes T (Err BadF)"
  have f: "fd_filestat_get fd (wasi_filesystem (host_wasi h)) = (Err BadF, wasi_filesystem (host_wasi h))"
    using assms(1) by (simp add: fd_filestat_get_def get_inode_by_fd_def fd_entry_def ok_or_def monad_defs mbind_def)
  have "unat (of_nat (length ?b) :: u32) = length ?b"
    using assms(5) by (simp add: unat_of_nat take_bit_nat_eq_self)
  then have w: "write_struct adr ?b (Some m) = (Ok (), Some (copy_at (unat adr) ?b m))"
    using assms(4,5)
    by (simp add: write_struct_def write_buffer_def u32_try_from_usize_def mbind_def mlift_def set_slice_def)
  show ?thesis
    unfolding wrapper_fd_filestat_get_def
    by (subst strace_off [OF assms(2)], (intro blind_intros | simp add: quiet_args)+)
      (simp add: on_fs_def on_memory_def mzoom_def mcatch_def assms(3) f w)
qed

theorem filestat_get_hides_error_witness:
  "fst (on_fs (fd_filestat_get 99) (demo_host False)) = Err BadF \<and>
   fst (wrapper_fd_filestat_get (demo_wasi\<lparr>filestat_result_bytes := (\<lambda>_. replicate 16 0)\<rparr>) 99 0 (demo_host False)) = Ok ()"
  by (rule filestat_get_hides_error [where m = demo_memory]) (simp_all add: demo_host_simps superuser_fs_def)

end
