(* ===== verification/RuntimeProps.thy ===== *)
theory RuntimeProps
  imports RuntimeManager EngineProps
begin

text \<open>
  What the runtime manager guarantees: the invariant of the protocol state in every run of the message loop,
  the authority a client request acts with, the digests of protected files, the right to execute,
  shutdown, and the consequences of loading a policy.
\<close>

section \<open>Acting through a spawned handle\<close>

text \<open>
  \<open>vfs_step R t t'\<close>: a change of the shared table that only handles of the principals in \<open>R\<close> made. If none of
  them has a writing right, every file keeps its contents.
\<close>

definition read_only :: "'p set \<Rightarrow> 'p InodeTable \<Rightarrow> bool" where
  "read_only R t \<longleftrightarrow> (\<forall>pr \<in> R. \<forall>rt. get_rights pr t = Ok rt \<longrightarrow> \<Union> (snd ` set rt) \<inter> writing_rights = {})"

definition vfs_step :: "'p set \<Rightarrow> 'p InodeTable \<Rightarrow> 'p InodeTable \<Rightarrow> bool" where
  "vfs_step R t t' \<longleftrightarrow> inode_inv t' \<and> table_le t t' \<and> (read_only R t \<longrightarrow> files_kept t t')"

lemma files_kept_trans: "files_kept t u \<Longrightarrow> files_kept u v \<Longrightarrow> files_kept t v"
  unfolding files_kept_def by meson

lemma table_le_rights: "table_le t t' \<Longrightarrow> rights_table t' = rights_table t"
  by (simp add: table_le_def globals_same_def)

lemma read_only_table_le: "table_le t t' \<Longrightarrow> read_only R t' = read_only R t"
  by (simp add: read_only_def get_rights_def table_le_rights)

lemma vfs_step_refl: "inode_inv t \<Longrightarrow> vfs_step R t t"
  by (auto simp: vfs_step_def files_kept_def)

lemma vfs_step_trans: "vfs_step R t u \<Longrightarrow> vfs_step R u v \<Longrightarrow> vfs_step R t v"
  unfolding vfs_step_def using table_le_trans [of t u v] files_kept_trans [of t u v] read_only_table_le [of t u R]
  by blast

lemma vfs_step_mono: "vfs_step R t u \<Longrightarrow> R \<subseteq> S \<Longrightarrow> vfs_step S t u"
  unfolding vfs_step_def read_only_def by blast

lemma ns_le_vfs_step: "inode_inv t' \<Longrightarrow> ns_le t t' \<Longrightarrow> vfs_step R t t'"
  using files_kept_ns_le [of t t t'] by (simp add: vfs_step_def ns_le_table_le files_kept_def)

text \<open>What a safe operation does through the handle of a principal.\<close>

lemma handle_step:
  assumes "opened rt t h" and "safe m" and "get_rights pr t = Ok rt"
  shows "vfs_step {pr} t (inode_table (snd (m h)))"
proof -
  have h: "fs_inv h" "ns_le t (inode_table h)" using assms(1) by (simp_all add: opened_def)
  have ev: "evolves h (snd (m h))" using assms(2) h(1) by (rule safeD)
  have inv: "fs_inv (snd (m h))" "table_le (inode_table h) (inode_table (snd (m h)))"
    using evolves_inv [OF ev h(1)] by simp_all
  have "files_kept t (inode_table (snd (m h)))" if "read_only {pr} t"
  proof -
    let ?G = "\<Union> (snd ` set rt)"
    have G: "?G - writing_rights = ?G" using that assms(3) by (auto simp: read_only_def)
    have "frozen (?G - writing_rights) (inode_table h) h"
      using opened_confined [OF assms(1)] by (simp add: frozen_def files_kept_def G)
    from integrity.inv_safe [OF assms(2) this]
    have "files_kept (inode_table h) (inode_table (snd (m h)))" by (simp add: frozen_def)
    moreover have "files_kept t (inode_table h)"
      using files_kept_ns_le [OF _ h(2), of t] by (simp add: files_kept_def)
    ultimately show ?thesis using files_kept_trans by blast
  qed
  moreover have "table_le t (inode_table (snd (m h)))"
    using table_le_trans [OF ns_le_table_le [OF h(2)] inv(2)] .
  ultimately show ?thesis using fs_inv_table [OF inv(1)] by (simp add: vfs_step_def)
qed

lemma with_spawned_step:
  assumes "codec_ok W" and "fs_inv fs" and "safe m"
  shows "\<exists>t. snd (with_spawned W pr m f fs) = adopt t fs \<and> vfs_step {pr} (inode_table fs) t"
proof (cases "spawn W pr fs")
  case (Pair r fs1)
  show ?thesis
  proof (cases "\<exists>h. r = Ok h")
    case True
    then obtain h where h: "spawn W pr fs = (Ok h, fs1)" using Pair by auto
    obtain rt where rt: "get_rights pr (inode_table fs) = Ok rt" "opened rt (inode_table fs) h"
      and eq: "fs1 = adopt (inode_table h) fs"
      using wp_Ok [OF spawn_wp [OF assms(1,2)] h] by auto
    have "snd (with_spawned W pr m f fs) = adopt (inode_table (snd (m h))) fs"
      using h eq by (simp add: with_spawned_def mbind_def merr_def mzoom_def)
    then show ?thesis using handle_step [OF rt(2) assms(3) rt(1)] by blast
  next
    case False
    then have "snd (with_spawned W pr m f fs) = fs1"
      using Pair by (cases r) (auto simp: with_spawned_def mbind_def merr_def)
    moreover obtain t where "fs1 = adopt t fs" "inode_inv t" "ns_le (inode_table fs) t"
      using spawn_wp [OF assms(1,2), of pr] Pair False by (cases r) (auto simp: wp_def)
    ultimately show ?thesis using ns_le_vfs_step by blast
  qed
qed

section \<open>The authority of an operation on the protocol state\<close>

definition ps_step :: "Principal set \<Rightarrow> ProtocolState \<Rightarrow> ProtocolState \<Rightarrow> bool" where
  "ps_step R ps ps' \<longleftrightarrow>
     (\<exists>t. ps' = ps\<lparr>vfs := adopt t (vfs ps)\<rparr> \<and> vfs_step R (inode_table (vfs ps)) t)"

definition acts_as :: "Principal set \<Rightarrow> (ProtocolState, 'e, 'a) sm \<Rightarrow> bool" where
  "acts_as R m \<longleftrightarrow> (\<forall>ps. fs_inv (vfs ps) \<longrightarrow> ps_step R ps (snd (m ps)))"

named_theorems acts_intros \<open>operations that act with the authority of given principals\<close>

lemma ps_step_inv: "ps_step R ps ps' \<Longrightarrow> fs_inv (vfs ps) \<Longrightarrow> fs_inv (vfs ps')"
  by (auto simp: ps_step_def vfs_step_def intro: fs_inv_adopt)

lemma ps_step_refl: "fs_inv (vfs ps) \<Longrightarrow> ps_step R ps ps"
  unfolding ps_step_def by (rule exI [of _ "inode_table (vfs ps)"]) (simp add: vfs_step_refl fs_inv_table)

lemma ps_step_trans: "ps_step R ps ps' \<Longrightarrow> ps_step R ps' ps'' \<Longrightarrow> ps_step R ps ps''"
  unfolding ps_step_def using vfs_step_trans by fastforce

lemma ps_step_mono: "ps_step R ps ps' \<Longrightarrow> R \<subseteq> S \<Longrightarrow> ps_step S ps ps'"
  unfolding ps_step_def using vfs_step_mono by blast

lemma acts_asD: "acts_as R m \<Longrightarrow> fs_inv (vfs ps) \<Longrightarrow> ps_step R ps (snd (m ps))"
  by (simp add: acts_as_def)

lemma acts_as_mono: "acts_as R m \<Longrightarrow> R \<subseteq> S \<Longrightarrow> acts_as S m"
  unfolding acts_as_def using ps_step_mono by blast

lemma acts_as_pure [acts_intros]: "(\<And>ps. snd (m ps) = ps) \<Longrightarrow> acts_as R m"
  by (simp add: acts_as_def ps_step_refl)

lemma acts_as_mbind [acts_intros]:
  assumes "acts_as R m" and "\<And>a. acts_as R (f a)"
  shows "acts_as R (mbind m f)"
  unfolding acts_as_def
proof (intro allI impI)
  fix ps :: ProtocolState
  assume inv: "fs_inv (vfs ps)"
  let ?ps = "snd (m ps)"
  have one: "ps_step R ps ?ps" using assms(1) inv by (rule acts_asD)
  have "snd (mbind m f ps) = ?ps \<or> (\<exists>a. snd (mbind m f ps) = snd (f a ?ps))"
    by (cases "fst (m ps)") auto
  then show "ps_step R ps (snd (mbind m f ps))"
    using one ps_step_trans [OF one acts_asD [OF assms(2) ps_step_inv [OF one inv]]] by auto
qed

lemma pure_ops:
  "snd (mreturn a s) = s" "snd (mthrow e s) = s" "snd (mpanic s) = s" "snd (mlift r s) = s" "snd (mget s) = s"
  "snd (unwrap_result r' s) = s" "snd (serialized r'' s) = s"
  by (simp_all add: monad_defs unwrap_result_def serialized_def merr_def mbind_def split: result.split)

lemma acts_as_ops [acts_intros]:
  "acts_as R (mreturn a)" "acts_as R (mthrow e)" "acts_as R mpanic" "acts_as R (mlift r)" "acts_as R mget"
  "acts_as R (unwrap_result r')" "acts_as R (serialized r'')"
  by (rule acts_as_pure, simp add: pure_ops)+

lemma acts_as_mzoom:
  assumes "\<And>fs. fs_inv fs \<Longrightarrow> \<exists>t. snd (m fs) = adopt t fs \<and> vfs_step R (inode_table fs) t"
  shows "acts_as R (mzoom vfs (\<lambda>fs ps. ps\<lparr>vfs := fs\<rparr>) m)"
  using assms by (fastforce simp: acts_as_def ps_step_def mzoom_def)

lemma acts_as_on_vfs:
  assumes "\<And>fs. fs_inv fs \<Longrightarrow> \<exists>t. snd (m fs) = adopt t fs \<and> vfs_step R (inode_table fs) t"
  shows "acts_as R (on_vfs m)"
  using acts_as_mzoom [OF assms] by (simp add: acts_as_def on_vfs_def merr_def)

lemma acts_as_on_handle [acts_intros]:
  assumes "codec_ok (env_rights E)" and "safe m" and "pr \<in> R"
  shows "acts_as R (on_handle E pr m)"
proof -
  have "acts_as {pr} (on_handle E pr m)"
    unfolding on_handle_def using with_spawned_step [OF assms(1) _ assms(2)] by (intro acts_as_on_vfs) blast
  then show ?thesis by (rule acts_as_mono) (use assms(3) in simp)
qed

text \<open>\<^verbatim>\<open>is_executable\<close> acts through a handle of the principal.\<close>

definition check_executable :: "path \<Rightarrow> ('p FileSystem, ErrNo, bool) sm" where
  "check_executable p =
     mbind mget (\<lambda>vfs.
     mbind (mlift (find_prestat vfs p)) (\<lambda>(fd, name).
     mbind (path_open fd 0 name {} DEFAULT_RIGHTS DEFAULT_RIGHTS 0) (\<lambda>fd.
     mbind (check_right fd {FD_EXECUTE}) (\<lambda>_.
     mreturn True))))"

lemma merr_id: "merr id m = m"
proof
  show "merr id m s = m s" for s by (cases "m s"; cases "fst (m s)") (auto simp: merr_def)
qed

lemma is_executable_spawned: "is_executable W pr p = with_spawned W pr (check_executable p) id"
  by (simp add: is_executable_def with_spawned_def check_executable_def merr_id)

lemma safe_check_executable: "safe (check_executable p)"
  unfolding check_executable_def by (intro safe_intros)

lemma acts_as_is_executable [acts_intros]:
  fixes E :: "('b, 'g, 'c, 'm) runtime_env"
  assumes "codec_ok (env_rights E)" and "pr \<in> R"
  shows "acts_as R (on_vfs (is_executable (env_rights E) pr p))"
  using acts_as_on_handle [OF assms(1) safe_check_executable assms(2)]
  by (simp add: on_handle_def is_executable_spawned)

text \<open>An engine touches the filesystem only by calls of the handle it is given.\<close>

lemma fold_evolves: "fs_inv h \<Longrightarrow> evolves h (fold (exec C) calls h)"
proof (induction calls arbitrary: h)
  case (Cons c calls)
  have ev: "evolves h (exec C c h)" using Cons.prems by (rule exec_evolves)
  with Cons show ?case using evolves_trans evolves_inv by (metis fold_simps(2))
qed (simp add: evolves.stay)

lemma safe_execute: "safe (\<lambda>fs. merr f (execute X (Ps fs) M st options program) fs)"
  unfolding safe_def using fold_evolves execute_calls by (metis merr_def snd_conv)

lemma acts_as_run_program [acts_intros]:
  assumes "codec_ok (env_rights E)" and "pr \<in> R"
  shows "acts_as R (run_program E pr st options program)"
proof -
  have "acts_as {pr} (run_program E pr st options program)"
    unfolding run_program_def
    by (intro acts_as_mzoom with_spawned_step [OF assms(1) _ safe_execute])
  then show ?thesis by (rule acts_as_mono) (use assms(2) in simp)
qed

section \<open>The authority of client requests\<close>

text \<open>The principals in whose name a request touches the filesystem.\<close>

definition request_principals :: "u64 \<Rightarrow> RequestMessage \<Rightarrow> Principal set" where
  "request_principals client request =
     (case request of
        WriteFile _ \<Rightarrow> {Participant client}
      | AppendFile _ \<Rightarrow> {Participant client}
      | ReadFile _ \<Rightarrow> {Participant client}
      | RequestResult name \<Rightarrow> {Participant client, InternalSuperUser, Program name}
      | _ \<Rightarrow> {})"

lemma acts_as_if [acts_intros]: "(b \<Longrightarrow> acts_as R m) \<Longrightarrow> (\<not> b \<Longrightarrow> acts_as R n) \<Longrightarrow> acts_as R (if b then m else n)"
  by simp

lemma acts_as_option [acts_intros]:
  "acts_as R m \<Longrightarrow> (\<And>x. acts_as R (f x)) \<Longrightarrow> acts_as R (case y of None \<Rightarrow> m | Some x \<Rightarrow> f x)"
  by (cases y) simp_all

lemma acts_as_files:
  assumes "codec_ok (env_rights E)" and "pr \<in> R"
  shows "acts_as R (ps_write_file E pr name data)" and "acts_as R (ps_append_file E pr name data)"
    and "acts_as R (ps_read_file E pr name)"
  unfolding ps_write_file_def ps_append_file_def ps_read_file_def
  by (intro acts_intros safe_intros assms)+

lemma acts_as_execute:
  assumes "codec_ok (env_rights E)"
    and "pr \<in> R" and "InternalSuperUser \<in> R" and "Program name \<in> R"
  shows "acts_as R (ps_execute E pr name)"
  unfolding ps_execute_def Let_def response_error_code_returned_def
  by (intro acts_intros acts_as_files assms)

lemma acts_as_dispatch:
  assumes "codec_ok (env_rights E)"
  shows "acts_as (request_principals client request) (dispatch_on_state E client request)"
  unfolding dispatch_on_state_def request_principals_def dispatch_on_write_def dispatch_on_append_def
    dispatch_on_read_def dispatch_on_result_def dispatch_on_policy_hash_def response_success_def
    response_invalid_request_def
  by (cases request) (simp_all, (intro acts_intros acts_as_files acts_as_execute assms; simp)+)

section \<open>The invariant of the runtime\<close>

text \<open>
  The protocol state belongs to its policy: the rights table and the digests are those of the policy, the
  super user may read everything, and the filesystem is well-formed.
\<close>

definition ps_ok :: "('b, 'g, 'c, 'm) runtime_env \<Rightarrow> ProtocolState \<Rightarrow> bool" where
  "ps_ok E ps \<longleftrightarrow> fs_inv (vfs ps) \<and>
     rights_table (inode_table (vfs ps)) =
       hm_put id (get_rights_table (env_rights E) (global_policy ps)) InternalSuperUser superuser_read_rights \<and>
     get_file_hash_table (env_policy E) (global_policy ps) = Ok (digest_table ps) \<and>
     expected_shutdown_sources ps = map (\<lambda>i. ucast (identity_id i)) (identities (global_policy ps))"

definition rt_inv :: "('b, 'g, 'c, 'm) runtime_env \<Rightarrow> ('b, 'g, 'c) Globals \<Rightarrow> bool" where
  "rt_inv E G \<longleftrightarrow> (case protocol_state G of None \<Rightarrow> True | Some ps \<Rightarrow> ps_ok E ps)"

lemma shutdown_list: "expected_shutdown_list p = map (\<lambda>i. ucast (identity_id i)) (identities p)"
proof -
  have "foldl (\<lambda>acc i. acc @ [ucast (identity_id i)]) a l = a @ map (\<lambda>i. ucast (identity_id i)) l"
    for a :: "u64 list" and l :: "string Identity list"
    by (induction l arbitrary: a) auto
  then show ?thesis by (simp add: expected_shutdown_list_def)
qed

lemma superuser_fs_rights: "rights_table (inode_table (superuser_fs rt)) = rt"
  by (simp add: superuser_fs_def superuser_table_def)

lemma protocol_state_new_ok:
  assumes "codec_ok (env_rights E)" and "protocol_state_new E p h = Ok ps"
  shows "ps_ok E ps \<and> global_policy ps = p \<and> global_policy_hash ps = h"
  using assms(2) superuser_inv
  by (auto simp: protocol_state_new_def Let_def fs_new_eq [OF assms(1)] ps_ok_def shutdown_list superuser_fs_rights
      split: result.splits)

lemma ps_step_ok: "ps_step R ps ps' \<Longrightarrow> ps_ok E ps \<Longrightarrow> ps_ok E ps'"
  using ps_step_inv [of R ps ps'] table_le_rights
  by (fastforce simp: ps_step_def ps_ok_def vfs_step_def)

definition keeps :: "('b, 'g, 'c, 'm) runtime_env \<Rightarrow> (('b, 'g, 'c) Globals, 'e, 'a) sm \<Rightarrow> bool" where
  "keeps E m \<longleftrightarrow> (\<forall>G. rt_inv E G \<longrightarrow> rt_inv E (snd (m G)))"

named_theorems keeps_intros \<open>operations that keep the invariant of the runtime\<close>

lemma keeps_mbind [keeps_intros]:
  assumes "keeps E m" and "\<And>a. keeps E (f a)"
  shows "keeps E (mbind m f)"
proof -
  have "snd (mbind m f G) = snd (m G) \<or> (\<exists>a. snd (mbind m f G) = snd (f a (snd (m G))))" for G
    by (cases "fst (m G)") auto
  then show ?thesis using assms unfolding keeps_def by metis
qed

lemma keeps_same: "(\<And>G. protocol_state (snd (m G)) = protocol_state G) \<Longrightarrow> keeps E m"
  by (simp add: keeps_def rt_inv_def)

lemma keeps_ops [keeps_intros]:
  "keeps E (mreturn a)" "keeps E (mthrow e)" "keeps E mpanic" "keeps E (mlift r)" "keeps E mget"
  "keeps E (unwrap_result r')" "keeps E (serialized r'')"
  by (rule keeps_same, simp add: pure_ops)+

lemma keeps_if [keeps_intros]: "(b \<Longrightarrow> keeps E m) \<Longrightarrow> (\<not> b \<Longrightarrow> keeps E n) \<Longrightarrow> keeps E (if b then m else n)"
  by simp

lemma keeps_option [keeps_intros]:
  "keeps E m \<Longrightarrow> (\<And>x. keeps E (f x)) \<Longrightarrow> keeps E (case y of None \<Rightarrow> m | Some x \<Rightarrow> f x)"
  by (cases y) simp_all

lemma keeps_prod [keeps_intros]: "(\<And>x y. keeps E (f x y)) \<Longrightarrow> keeps E (case p of (x, y) \<Rightarrow> f x y)"
  by (cases p) simp

lemma keeps_or_fail [keeps_intros]: "keeps E m \<Longrightarrow> keeps E (or_fail m)"
  by (fastforce simp: keeps_def or_fail_def split: prod.split result.split)

lemma keeps_parts [keeps_intros]:
  "keeps E (on_session k m)" "keeps E (on_session_manager err m')" "keeps E (on_buffers m'')"
  "keeps E (close_session k)" "keeps E (parse_incoming_buffer E k input)" "keeps E (init_session_manager key)"
  by (rule keeps_same, simp add: on_session_def on_session_manager_def on_buffers_def close_session_def
      parse_incoming_buffer_def init_session_manager_def merr_def mzoom_def monad_defs mbind_def
      split: option.split result.split prod.split RuntimeManagerError.split TransportProtocolError.split)+

lemma keeps_on_protocol [keeps_intros]:
  assumes "acts_as R m"
  shows "keeps E (on_protocol m)"
  unfolding keeps_def
proof (intro allI impI)
  fix G
  assume inv: "rt_inv E G"
  show "rt_inv E (snd (on_protocol m G))"
  proof (cases "protocol_state G")
    case None
    then show ?thesis using inv by (simp add: on_protocol_def monad_defs mbind_def)
  next
    case (Some ps)
    then have ok: "ps_ok E ps" using inv by (simp add: rt_inv_def)
    then have "ps_step R ps (snd (m ps))" using assms by (auto simp: ps_ok_def intro: acts_asD)
    then have "ps_ok E (snd (m ps))" using ok by (rule ps_step_ok)
    then show ?thesis using Some by (simp add: on_protocol_def rt_inv_def monad_defs mbind_def)
  qed
qed

lemma keeps_clear: "keeps E (mmodify (\<lambda>G. G\<lparr>protocol_state := None\<rparr>))"
  by (simp add: keeps_def rt_inv_def mmodify_def)

lemma keeps_request:
  assumes "codec_ok (env_rights E)"
  shows "keeps E (dispatch_on_request E client request)"
proof -
  have "keeps E (on_protocol (\<lambda>ps. (Ok (request_and_check_shutdown client ps), ps)))"
    by (rule keeps_on_protocol [where R = "{}"], rule acts_as_pure) simp
  moreover have "keeps E (on_protocol (dispatch_on_state E client request))"
    by (rule keeps_on_protocol) (rule acts_as_dispatch [OF assms])
  ultimately show ?thesis
    unfolding dispatch_on_request_def response_success_def
    by (intro keeps_if keeps_mbind keeps_ops keeps_clear)
qed

lemma keeps_send_data:
  assumes "codec_ok (env_rights E)"
  shows "keeps E (send_data E k input)"
  unfolding send_data_def dispatch_on_incoming_data_def response_invalid_request_def
  by (intro keeps_intros keeps_request assms)

lemma keeps_load_policy:
  assumes "codec_ok (env_rights E)"
  shows "keeps E (load_policy E json)"
proof -
  have "keeps E (mbind (mlift (protocol_state_new E p h)) (\<lambda>ps. mmodify (\<lambda>G. G\<lparr>protocol_state := Some ps\<rparr>)))" for p h
    using protocol_state_new_ok [OF assms, of p h]
    by (auto simp: keeps_def rt_inv_def monad_defs mbind_def split: result.split)
  then have inst: "keeps E (mbind (mlift (protocol_state_new E p h)) (\<lambda>ps.
      mbind (mmodify (\<lambda>G. G\<lparr>protocol_state := Some ps\<rparr>)) (\<lambda>_. n)))" if "keeps E n" for p h and n
    unfolding mbind_assoc [symmetric] by (rule keeps_mbind) (rule that)
  have flag: "keeps E (mmodify (\<lambda>G. G\<lparr>debug_flag := b\<rparr>))" for b
    by (rule keeps_same) (simp add: mmodify_def)
  show ?thesis unfolding load_policy_def Let_def
    by (rule keeps_mbind [OF keeps_ops(4)], rule keeps_mbind [OF keeps_if [OF flag keeps_ops(1)]], rule inst,
        rule keeps_parts)
qed

lemma keeps_new_session: "keeps E (new_session E)"
  by (rule keeps_same) (simp add: new_session_def Let_def monad_defs mbind_def split: option.split result.split)

lemma keeps_message:
  assumes "codec_ok (env_rights E)"
  shows "keeps E (handle_message E measurement key request)"
proof -
  have "keeps E (rt_initialize key)" unfolding rt_initialize_def by (intro keeps_intros)
  then show ?thesis
    unfolding handle_message_def handle_attestation_def handle_initialize_def rt_generate_csr_def
      get_enclave_private_key_def load_cert_chain_def get_data_def get_data_needed_def
    by (cases request) (simp_all, (intro keeps_intros keeps_send_data keeps_load_policy keeps_new_session assms; simp)+)
qed

lemma keeps_loop:
  assumes "codec_ok (env_rights E)"
  shows "keeps E (linux_loop E measurement msgs)"
  by (induction msgs) (simp_all, (intro keeps_intros keeps_message assms; assumption)+)

text \<open>The rights a policy gives a principal, on whatever path.\<close>

definition policy_rights :: "rights_codec \<Rightarrow> Policy \<Rightarrow> Principal \<Rightarrow> Rights" where
  "policy_rights W p pr =
     (case hm_get id (get_rights_table W p) pr of None \<Rightarrow> {} | Some m \<Rightarrow> \<Union> (snd ` set m))"

lemma ps_ok_rights:
  assumes "ps_ok E ps" and "get_rights pr (inode_table (vfs ps)) = Ok rt"
  shows "\<Union> (snd ` set rt) =
    (if pr = InternalSuperUser then {PATH_OPEN, FD_READ, FD_SEEK, FD_READDIR}
     else policy_rights (env_rights E) (global_policy ps) pr)"
  using assms
  by (auto simp: ps_ok_def get_rights_def ok_or_def policy_rights_def superuser_read_rights_def split: option.splits
      if_splits)

lemma ps_ok_read_only:
  assumes "ps_ok E ps"
    and "\<And>pr. pr \<in> R \<Longrightarrow> pr \<noteq> InternalSuperUser \<Longrightarrow>
        policy_rights (env_rights E) (global_policy ps) pr \<inter> writing_rights = {}"
  shows "read_only R (inode_table (vfs ps))"
  unfolding read_only_def using ps_ok_rights [OF assms(1)] assms(2) by (auto simp: writing_rights_def)

lemma on_protocol_Some:
  "protocol_state G = Some ps \<Longrightarrow>
     on_protocol m G = (fst (m ps), G\<lparr>protocol_state := Some (snd (m ps))\<rparr>)"
  by (cases "m ps") (simp add: on_protocol_def monad_defs mbind_def)

lemma on_protocol_None: "protocol_state G = None \<Longrightarrow> on_protocol m G = (Err UninitializedProtocolState, G)"
  by (simp add: on_protocol_def monad_defs mbind_def)

lemma dispatch_shutdown:
  assumes "protocol_state G = Some ps"
  shows "dispatch_on_request E client RequestShutdown G =
    (case serialize_result (env_proto E) (status_i32 SUCCESS) None of Ok b \<Rightarrow> Ok (Some b) | _ \<Rightarrow> Panic,
     if client \<in> set (expected_shutdown_sources ps) then G\<lparr>protocol_state := None\<rparr> else G)"
  using assms
  by (auto simp: dispatch_on_request_def on_protocol_Some response_success_def unwrap_result_def
      request_and_check_shutdown_def monad_defs mbind_def split: result.split)

section \<open>An example\<close>

definition demo_json :: policy_crates where
  "demo_json = \<lparr>json_policy = (\<lambda>s. if s = ''policy'' then Some demo_policy else None), hex_encode = (\<lambda>b. ''h''),
     hex_decode = (\<lambda>s. Some [0]), sha256 = (\<lambda>b. [of_nat (length b)])\<rparr>"

definition demo_env :: "(unit, unit, byte list, nat) runtime_env" where
  "demo_env = \<lparr>env_rights = flag_codec, env_policy = demo_json, env_proto = demo_proto,
     env_tls = demo_tls, env_engine = demo_engine, env_platform = (\<lambda>_ _. demo_platform), env_machine = demo_machine,
     env_csr = Some,
     env_psa = demo_psa\<rparr>"

definition demo_rights_table :: RightsTable where
  "demo_rights_table = hm_put id (get_rights_table flag_codec demo_policy) InternalSuperUser superuser_read_rights"

definition demo_state :: ProtocolState where
  "demo_state = \<lparr>global_policy = demo_policy, global_policy_hash = ''h'', expected_shutdown_sources = [0, 7],
     vfs = superuser_fs demo_rights_table, digest_table = [(''/prog/p.wasm'', [0])]\<rparr>"

lemma demo_env_ok: "codec_ok (env_rights demo_env)"
  by (simp add: demo_env_def flag_codec_ok)

lemma demo_state_ok: "ps_ok demo_env demo_state"
  by (simp add: ps_ok_def demo_state_def superuser_inv superuser_fs_rights demo_rights_table_def demo_env_def
      get_file_hash_table_def demo_policy_def demo_json_def)

lemma demo_policy_json: "from_json demo_json ''policy'' = Ok (demo_policy\<lparr>policy_hash := Some ''h''\<rparr>)"
  by (simp add: from_json_def demo_json_def demo_policy_valid)

lemma demo_new: "\<exists>ps. protocol_state_new demo_env (demo_policy\<lparr>policy_hash := Some ''h''\<rparr>) ''h'' = Ok ps"
  by (simp add: protocol_state_new_def Let_def demo_env_def get_file_hash_table_def demo_policy_def demo_json_def
      fs_new_eq [OF flag_codec_ok])

definition demo_messages :: "((byte list \<times> byte list) option \<times> RmRequest) list" where
  "demo_messages = [(Some (replicate 30 0, [5]), Attestation (replicate 32 0) 0), (None, Initialize ''policy'' [])]"

lemma demo_set_policy:
  "\<exists>ps. \<forall>s. set_policy demo_tls (demo_policy\<lparr>policy_hash := Some ''h''\<rparr>) s =
     (Ok (), s\<lparr>server_config_builder := Some (), context_principals := Some ps,
        context_policy := Some (demo_policy\<lparr>policy_hash := Some ''h''\<rparr>)\<rparr>)"
  by (rule exI [of _ "[\<lparr>certificate = [65], identity_id = 0,
          identity_file_rights = [\<lparr>fr_file_name = ''/data'', fr_rights = 64\<rparr>]\<rparr>,
        \<lparr>certificate = [66], identity_id = 7, identity_file_rights = []\<rparr>]"])
    (simp add: set_policy_def convert_cert_buffer_def lookup_ciphersuite_def ok_or_def monad_defs mbind_def
      demo_tls_def demo_policy_def)

lemma demo_env_simps:
  "env_policy demo_env = demo_json" "env_tls demo_env = demo_tls" "env_csr demo_env = Some"
  "env_psa demo_env = demo_psa" "hex_encode demo_json = (\<lambda>b. ''h'')" "\<not> debug demo_policy"
  "with_single_cert demo_tls b c k = Some ()"
  by (simp_all add: demo_env_def demo_json_def demo_policy_def demo_tls_def)

lemmas run_initialize = handle_initialize_def on_session_manager_def load_policy_def load_cert_chain_def or_fail_def
  Let_def set_cert_chain_def ok_or_def monad_defs mbind_def demo_policy_json demo_env_simps

lemma demo_native_attestation:
  assumes "env_psa E = demo_psa" and "length challenge = 32" and "length measurement = 32" and "length (sha256 (env_policy E) csr) \<le> 32"
  shows "\<exists>token. native_attestation E csr challenge measurement = Ok token"
proof -
  obtain token where "psa_initial_attest_get_token demo_psa 1 measurement (sha256 (env_policy E) csr) [] challenge 2048 = (0, token)"
    using demo_psa_token [OF assms(2-4)] by blast
  moreover have "psa_initial_attest_load_key demo_psa ROOT_PRIVATE_KEY 0 = ((0, 1), 1)" "psa_initial_attest_remove_key demo_psa 1 = 0"
    by (simp_all add: psa_initial_attest_load_key_def psa_initial_attest_remove_key_def demo_psa_def)
  ultimately show ?thesis by (simp add: native_attestation_def assms(1))
qed

lemma demo_loop: "\<exists>ps. protocol_state (snd (linux_loop demo_env (replicate 32 0) demo_messages globals_init)) = Some ps"
proof -
  obtain ps where ps: "protocol_state_new demo_env (demo_policy\<lparr>policy_hash := Some ''h''\<rparr>) ''h'' = Ok ps"
    using demo_new by blast
  obtain pr where policy: "\<And>s. set_policy demo_tls (demo_policy\<lparr>policy_hash := Some ''h''\<rparr>) s =
     (Ok (), s\<lparr>server_config_builder := Some (), context_principals := Some pr,
        context_policy := Some (demo_policy\<lparr>policy_hash := Some ''h''\<rparr>)\<rparr>)"
    using demo_set_policy by blast
  obtain token where "native_attestation demo_env [5] (replicate 32 0) (replicate 32 0) = Ok token"
    using demo_native_attestation [of demo_env "replicate 32 0" "replicate 32 0" "[5]"] by (auto simp: demo_env_simps demo_json_def)
  then show ?thesis
    by (simp add: demo_messages_def handle_message_def handle_attestation_def rt_initialize_def
        init_session_manager_def session_context_new_def rt_generate_csr_def get_enclave_private_key_def
        run_initialize ps policy globals_init_def)
qed

section \<open>Properties\<close>

text \<open>
  C16. In every run of the message loop, whatever the host and the clients send, the protocol state belongs to its
  policy: the filesystem is well-formed, its rights table is the table of the policy (with read access
  for the super user), and the digests are those of the policy.
\<close>

theorem runtime_invariant:
  assumes "codec_ok (env_rights E)"
    and "protocol_state (snd (linux_loop E measurement msgs globals_init)) = Some ps"
  shows "fs_inv (vfs ps) \<and>
    rights_table (inode_table (vfs ps)) =
      hm_put id (get_rights_table (env_rights E) (global_policy ps)) InternalSuperUser superuser_read_rights \<and>
    get_file_hash_table (env_policy E) (global_policy ps) = Ok (digest_table ps)"
proof -
  have "rt_inv E (snd (linux_loop E measurement msgs globals_init))"
    using keeps_loop [OF assms(1), of measurement msgs] by (simp add: keeps_def rt_inv_def globals_init_def)
  then show ?thesis using assms(2) by (simp add: rt_inv_def ps_ok_def)
qed

theorem runtime_invariant_witness:
  "\<exists>ps. protocol_state (snd (linux_loop demo_env (replicate 32 0) demo_messages globals_init)) = Some ps \<and> fs_inv (vfs ps) \<and>
     get_file_hash_table demo_json (global_policy ps) = Ok (digest_table ps)"
proof -
  obtain ps where "protocol_state (snd (linux_loop demo_env (replicate 32 0) demo_messages globals_init)) = Some ps"
    using demo_loop by blast
  with runtime_invariant [OF demo_env_ok this] show ?thesis by (auto simp: demo_env_def)
qed

text \<open>
  C1. Integrity of client requests. A request to write, append or read acts only with the rights the policy gives the
  client, a request for a result also with those of the program: if these principals have no writing
  right, no request changes the contents of any file.
\<close>

theorem request_integrity:
  assumes "codec_ok (env_rights E)" and "rt_inv E G" and "protocol_state G = Some ps"
    and "\<And>pr. pr \<in> request_principals client request \<Longrightarrow> pr \<noteq> InternalSuperUser \<Longrightarrow>
        policy_rights (env_rights E) (global_policy ps) pr \<inter> writing_rights = {}"
    and "table (inode_table (vfs ps)) i = Some x" and "node_data x = File b"
    and "dispatch_on_request E client request G = (r, G')" and "protocol_state G' = Some ps'"
  shows "\<exists>x'. table (inode_table (vfs ps')) i = Some x' \<and> node_data x' = File b"
proof (cases "request = RequestShutdown")
  case True
  then have "ps' = ps" using dispatch_shutdown [OF assms(3), of E client] assms(3,7,8) by (auto split: if_splits)
  then show ?thesis using assms(5,6) by blast
next
  case False
  have ok: "ps_ok E ps" using assms(2,3) by (simp add: rt_inv_def)
  have ps': "ps' = snd (dispatch_on_state E client request ps)"
    using assms(3,7,8) False by (auto simp: dispatch_on_request_def on_protocol_Some)
  have "ps_step (request_principals client request) ps ps'"
    using acts_asD [OF acts_as_dispatch [OF assms(1)]] ok by (simp add: ps' ps_ok_def)
  then have "files_kept (inode_table (vfs ps)) (inode_table (vfs ps'))"
    using ps_ok_read_only [OF ok assms(4)] by (auto simp: ps_step_def vfs_step_def)
  then show ?thesis using assms(5,6) unfolding files_kept_def by blast
qed

theorem request_integrity_witness:
  "\<exists>r G' ps' x'. dispatch_on_request demo_env 7 (ReadFile ''stdout'') (globals_init\<lparr>protocol_state := Some demo_state\<rparr>) = (r, G') \<and>
     protocol_state G' = Some ps' \<and> table (inode_table (vfs ps')) 3 = Some x' \<and> node_data x' = File []"
proof -
  let ?G = "globals_init\<lparr>protocol_state := Some demo_state\<rparr>"
  obtain r G' where run: "dispatch_on_request demo_env 7 (ReadFile ''stdout'') ?G = (r, G')" by (rule prod.exhaust)
  then obtain ps' where ps': "protocol_state G' = Some ps'" by (auto simp: dispatch_on_request_def on_protocol_Some)
  have none: "policy_rights flag_codec demo_policy (Participant 7) = {}"
    by (simp add: policy_rights_def get_rights_table_get demo_policy_def identity_file_rights_map_def
        compute_right_map_def)
  have "\<exists>x'. table (inode_table (vfs ps')) 3 = Some x' \<and> node_data x' = File []"
  proof (rule request_integrity [OF demo_env_ok _ _ _ _ _ run ps'])
    show "rt_inv demo_env ?G" using demo_state_ok by (simp add: rt_inv_def)
    show "protocol_state ?G = Some demo_state" by simp
    show "table (inode_table (vfs demo_state)) 3 = Some \<lparr>file_stat = mk_file_stat 3 RegularFile 0, node_data = File []\<rparr>"
      by (simp add: demo_state_def superuser_fs_def superuser_table_def)
  qed (auto simp: request_principals_def demo_state_def demo_env_def none)
  then show ?thesis using run ps' by blast
qed

lemma digest_mismatch_iff: "digest_mismatch d x \<longleftrightarrow> x \<noteq> d"
proof -
  have "list_ex (\<lambda>(l, r). l \<noteq> r) (zip d x) \<longleftrightarrow> x \<noteq> d" if "length x = length d"
    using that by (induction d x rule: list_induct2') auto
  then show ?thesis by (auto simp: digest_mismatch_def)
qed

lemma protocol_state_same [simp]: "protocol_state G = Some ps \<Longrightarrow> G\<lparr>protocol_state := Some ps\<rparr> = G"
  by (cases G) simp

lemma ps_ok_digest:
  assumes "ps_ok E ps" and "find (\<lambda>f. path_eq (file_path f) name) (rev (file_hashes (global_policy ps))) = Some f"
  shows "\<exists>d. hex_decode (env_policy E) (hash f) = Some d \<and> hm_get components (digest_table ps) name = Some d"
proof -
  let ?fs = "file_hashes (global_policy ps)"
  have ok: "hash_table_from (env_policy E) [] ?fs = Ok (digest_table ps)"
    using assms(1) by (simp add: ps_ok_def get_file_hash_table_def)
  then have "hm_get components (digest_table ps) name = hex_decode (env_policy E) (hash f)"
    using hash_table_from_get [OF ok, of name] assms(2) by (simp add: path_eq_def)
  moreover have "f \<in> set ?fs" using assms(2) by (auto simp: find_Some_iff) (metis nth_mem set_rev length_rev)
  moreover have "list_all (\<lambda>f. hex_decode (env_policy E) (hash f) \<noteq> None) ?fs"
    using hash_table_from_Ok [of "env_policy E" "[]" ?fs] ok by blast
  ultimately show ?thesis by (auto simp: list_all_iff)
qed



lemma path_open_plain_rights:
  assumes "path_open fd 0 p {} UNIV UNIV 0 h = (Ok fd', h')"
  shows "\<exists>e e'. fd_table h fd = Some e \<and> PATH_OPEN \<in> rights_base (fd_stat e) \<and> fd_table h' fd' = Some e' \<and>
    rights_base (fd_stat e') = rights_inheriting (fd_stat e)"
proof -
  obtain e where e: "fd_table h fd = Some e" "PATH_OPEN \<in> rights_base (fd_stat e)"
    using assms by (cases "fd_table h fd")
      (auto simp: path_open_def check_right_def run_simps split: if_splits)
  have pure: "snd (open_inode fd (fd_inode e) p {} h) = h"
    using get_inode_by_fd_path_pure [of fd p h]
    by (auto simp: open_inode_def mcatch_def is_dir_inode_eq monad_defs mbind_def split: result.split)
  obtain i where i: "open_inode fd (fd_inode e) p {} h = (Ok i, h)"
    and "open_at fd i {} (rights_inheriting (fd_stat e)) (rights_inheriting (fd_stat e)) 0 h = (Ok fd', h')"
    using assms e pure
    by (cases "open_inode fd (fd_inode e) p {} h"; cases "fst (open_inode fd (fd_inode e) p {} h)")
      (auto simp: path_open_def check_right_Ok get_inode_by_fd_eq run_simps split: if_splits)
  then show ?thesis using e
    by (auto simp: open_at_def new_fd_def set_fd_entry_def inode_get_eq mk_fd_stat_def run_simps
        split: if_splits option.splits)
qed

lemma check_executable_right:
  assumes "check_executable p h = (Ok b, h')" and "opened rt t h"
  shows "\<exists>(q, r) \<in> set rt. {PATH_OPEN, FD_EXECUTE} \<subseteq> r"
proof -
  obtain fd name where "find_prestat h p = Ok (fd, name)"
    using assms(1) by (cases "find_prestat h p") (auto simp: check_executable_def monad_defs mbind_def)
  then obtain fd' h1 where "path_open fd 0 name {} UNIV UNIV 0 h = (Ok fd', h1)"
    and "fst (check_right fd' {FD_EXECUTE} h1) = Ok ()"
    using assms(1) by (cases "path_open fd 0 name {} UNIV UNIV 0 h")
      (auto simp: check_executable_def monad_defs mbind_def split: result.splits)
  then obtain e e' where "fd_table h fd = Some e" "PATH_OPEN \<in> rights_base (fd_stat e)"
    "fd_table h1 fd' = Some e'" "rights_base (fd_stat e') = rights_inheriting (fd_stat e)"
    "FD_EXECUTE \<in> rights_base (fd_stat e')"
    using path_open_plain_rights [of fd name h fd' h1]
    by (auto simp: check_right_def run_simps split: if_splits)
  moreover from this have "granted rt e" using assms(2) by (auto simp: opened_def)
  ultimately show ?thesis unfolding granted_def by fastforce
qed

lemma with_spawned_Ok:
  assumes "codec_ok W" and "fs_inv fs" and "with_spawned W pr m f fs = (Ok a, fs')"
  shows "\<exists>rt h h'. get_rights pr (inode_table fs) = Ok rt \<and> opened rt (inode_table fs) h \<and> m h = (Ok a, h')"
proof -
  obtain h fs1 where h: "spawn W pr fs = (Ok h, fs1)"
    using assms(3) by (cases "spawn W pr fs"; cases "fst (spawn W pr fs)")
      (auto simp: with_spawned_def mbind_def merr_def)
  obtain rt where "get_rights pr (inode_table fs) = Ok rt" "opened rt (inode_table fs) h"
    and eq: "fs1 = adopt (inode_table h) fs"
    using wp_Ok [OF spawn_wp [OF assms(1,2)] h] by auto
  moreover have "fst (m h) = Ok a"
    using assms(3) h eq by (simp add: with_spawned_def mbind_def merr_def mzoom_def)
  ultimately show ?thesis by (metis prod.collapse)
qed

text \<open>
  C11. Execution needs the right to execute. A client for whom the policy names no path with both \<^verbatim>\<open>PATH_OPEN\<close> and
  \<^verbatim>\<open>FD_EXECUTE\<close> gets no result of any program.
\<close>

theorem execute_needs_right:
  assumes "codec_ok (env_rights E)" and "rt_inv E G" and "protocol_state G = Some ps"
    and "\<And>m q r. hm_get id (get_rights_table (env_rights E) (global_policy ps)) (Participant client) = Some m \<Longrightarrow>
        (q, r) \<in> set m \<Longrightarrow> \<not> {PATH_OPEN, FD_EXECUTE} \<subseteq> r"
  shows "\<not> is_ok (fst (dispatch_on_request E client (RequestResult name) G))"
proof
  let ?x = "is_executable (env_rights E) (Participant client) name (vfs ps)"
  assume "is_ok (fst (dispatch_on_request E client (RequestResult name) G))"
  then have "is_ok (fst (ps_execute E (Participant client) name ps))"
    using assms(3) by (simp add: dispatch_on_request_def on_protocol_Some dispatch_on_state_def dispatch_on_result_def)
  then obtain b where "fst ?x = Ok b"
    by (cases "fst ?x") (auto simp: ps_execute_def Let_def on_vfs_def merr_def mzoom_def monad_defs mbind_def)
  then have run: "with_spawned (env_rights E) (Participant client) (check_executable name) id (vfs ps) = (Ok b, snd ?x)"
    by (simp add: prod_eq_iff is_executable_spawned)
  have ok: "ps_ok E ps" using assms(2,3) by (simp add: rt_inv_def)
  then have inv: "fs_inv (vfs ps)" by (simp add: ps_ok_def)
  obtain rt h h' where rt: "get_rights (Participant client) (inode_table (vfs ps)) = Ok rt"
    and h: "opened rt (inode_table (vfs ps)) h" "check_executable name h = (Ok b, h')"
    using with_spawned_Ok [OF assms(1) inv run] by blast
  obtain q r where qr: "(q, r) \<in> set rt" "{PATH_OPEN, FD_EXECUTE} \<subseteq> r"
    using check_executable_right [OF h(2,1)] by blast
  have "hm_get id (get_rights_table (env_rights E) (global_policy ps)) (Participant client) = Some rt"
    using rt ok by (simp add: get_rights_def ok_or_def ps_ok_def split: option.splits)
  from assms(4) [OF this qr(1)] qr(2) show False by simp
qed

theorem execute_needs_right_witness:
  "\<not> is_ok (fst (dispatch_on_request demo_env 7 (RequestResult ''/prog/p.wasm'')
     (globals_init\<lparr>protocol_state := Some demo_state\<rparr>)))"
proof (rule execute_needs_right [OF demo_env_ok])
  show "rt_inv demo_env (globals_init\<lparr>protocol_state := Some demo_state\<rparr>)" using demo_state_ok by (simp add: rt_inv_def)
  show "protocol_state (globals_init\<lparr>protocol_state := Some demo_state\<rparr>) = Some demo_state" by simp
  show "\<not> {PATH_OPEN, FD_EXECUTE} \<subseteq> r"
    if "hm_get id (get_rights_table (env_rights demo_env) (global_policy demo_state)) (Participant 7) = Some m"
      "(q, r) \<in> set m" for m q r
    using that by (simp add: demo_env_def demo_state_def get_rights_table_get demo_policy_def identity_file_rights_map_def
        compute_right_map_def)
qed



lemma on_session_manager_same:
  "sessions (snd (on_session_manager err m G)) = sessions G"
  "incoming_buffers (snd (on_session_manager err m G)) = incoming_buffers G"
  "protocol_state (snd (on_session_manager err m G)) = protocol_state G"
  by (simp_all add: on_session_manager_def monad_defs mbind_def split: option.split)

lemma load_policy_effect:
  "sessions (snd (load_policy E json G)) = sessions G \<and>
   incoming_buffers (snd (load_policy E json G)) = incoming_buffers G \<and>
   (fst (load_policy E json G) = Ok () \<longrightarrow>
      (\<exists>p ps. from_json (env_policy E) json = Ok p \<and>
         protocol_state_new E p (hex_encode (env_policy E) (sha256 (env_policy E) (as_bytes json))) = Ok ps \<and>
         protocol_state (snd (load_policy E json G)) = Some ps))"
  by (cases "from_json (env_policy E) json")
    (auto simp: load_policy_def Let_def on_session_manager_same monad_defs mbind_def split: result.splits)

text \<open>
  Loading a policy is not final. A later \<^verbatim>\<open>Initialize\<close> message replaces the protocol state by one for the new policy and
  leaves the open TLS sessions, authenticated under the old policy, in place.
\<close>

theorem initialize_replaces_policy:
  assumes "codec_ok (env_rights E)" and "handle_initialize E json chain G = (Ok response, G')"
  shows "sessions G' = sessions G \<and> incoming_buffers G' = incoming_buffers G \<and>
    (response = StatusResponse Success \<longrightarrow>
       (\<exists>ps. protocol_state G' = Some ps \<and> from_json (env_policy E) json = Ok (global_policy ps)))"
proof -
  obtain r G1 where lp: "load_policy E json G = (r, G1)" by (rule prod.exhaust)
  have eff: "sessions G1 = sessions G" "incoming_buffers G1 = incoming_buffers G"
    "r = Ok () \<Longrightarrow> \<exists>ps. protocol_state G1 = Some ps \<and> from_json (env_policy E) json = Ok (global_policy ps)"
    using load_policy_effect [of E json G] protocol_state_new_ok [OF assms(1)] by (auto simp: lp)
  show ?thesis
  proof (cases r)
    case (Ok u)
    then have "G' = snd (load_cert_chain E chain G1)"
      using assms(2) lp by (auto simp: handle_initialize_def or_fail_def monad_defs mbind_def split: result.splits)
    then show ?thesis using eff Ok by (simp add: load_cert_chain_def on_session_manager_same)
  qed (use assms(2) lp eff in \<open>auto simp: handle_initialize_def or_fail_def monad_defs mbind_def split: result.splits\<close>)
qed

definition demo_context :: "(unit, unit) SessionContext" where
  "demo_context = \<lparr>server_config_builder = None, server_config = None, context_policy = None,
     context_principals = None, server_private_key = [], server_public_key = []\<rparr>"

definition demo_globals :: "(unit, unit, byte list) Globals" where
  "demo_globals = globals_init\<lparr>my_session_manager := Some demo_context,
     sessions := [1 \<mapsto> \<lparr>tls_connection = [], session_principals = []\<rparr>]\<rparr>"

lemma demo_initialize:
  "\<exists>G'. handle_initialize demo_env ''policy'' [] demo_globals = (Ok (StatusResponse Success), G')"
proof -
  obtain ps where ps: "protocol_state_new demo_env (demo_policy\<lparr>policy_hash := Some ''h''\<rparr>) ''h'' = Ok ps"
    using demo_new by blast
  obtain pr where policy: "\<And>s. set_policy demo_tls (demo_policy\<lparr>policy_hash := Some ''h''\<rparr>) s =
     (Ok (), s\<lparr>server_config_builder := Some (), context_principals := Some pr,
        context_policy := Some (demo_policy\<lparr>policy_hash := Some ''h''\<rparr>)\<rparr>)"
    using demo_set_policy by blast
  show ?thesis by (simp add: run_initialize ps policy demo_globals_def)
qed

theorem initialize_replaces_policy_witness:
  "\<exists>G' ps. handle_initialize demo_env ''policy'' [] demo_globals = (Ok (StatusResponse Success), G') \<and>
     sessions G' 1 \<noteq> None \<and> protocol_state G' = Some ps"
proof -
  obtain G' where run: "handle_initialize demo_env ''policy'' [] demo_globals = (Ok (StatusResponse Success), G')"
    using demo_initialize by blast
  from initialize_replaces_policy [OF demo_env_ok run] show ?thesis using run by (auto simp: demo_globals_def)
qed

text \<open>
  A rejected policy stays. When the new policy is well-formed but the session context refuses it, the host is told that
  loading failed; yet the protocol state is already the one of the new policy, while the session context keeps the
  old one.
\<close>

theorem failed_policy_installed:
  assumes "from_json (env_policy E) json = Ok p"
    and "protocol_state_new E p (hex_encode (env_policy E) (sha256 (env_policy E) (as_bytes json))) = Ok ps"
    and "my_session_manager G = Some s" and "fst (set_policy (env_tls E) p s) = Err e"
  shows "\<exists>G'. handle_initialize E json chain G = (Ok (StatusResponse Fail), G') \<and>
    protocol_state G' = Some ps \<and> my_session_manager G' = Some s"
proof -
  have "snd (set_policy (env_tls E) p s) = s"
    using assms(4) by (cases rule: set_policy_cases [of "env_tls E" p s]) auto
  then show ?thesis
    using assms
    by (simp add: handle_initialize_def or_fail_def load_policy_def Let_def on_session_manager_def monad_defs
        mbind_def)
qed

theorem failed_policy_installed_witness:
  "\<exists>G' ps. handle_initialize (demo_env\<lparr>env_tls := demo_tls\<lparr>cipher_suite_value := (\<lambda>_. None)\<rparr>\<rparr>) ''policy'' [] demo_globals =
      (Ok (StatusResponse Fail), G') \<and>
    protocol_state G' = Some ps \<and> my_session_manager G' = Some demo_context"
proof -
  let ?E = "demo_env\<lparr>env_tls := demo_tls\<lparr>cipher_suite_value := (\<lambda>_. None)\<rparr>\<rparr>"
  let ?p = "demo_policy\<lparr>policy_hash := Some ''h''\<rparr>"
  obtain ps where "protocol_state_new demo_env ?p ''h'' = Ok ps" using demo_new by blast
  moreover have "protocol_state_new ?E ?p ''h'' = protocol_state_new demo_env ?p ''h''"
    by (simp add: protocol_state_new_def split: result.split)
  moreover have "fst (set_policy (env_tls ?E) ?p demo_context) = Err (TLSInvalidCiphersuiteError (ciphersuite ?p))"
    by (simp add: set_policy_def convert_cert_buffer_def lookup_ciphersuite_def ok_or_def monad_defs mbind_def
        demo_tls_def demo_policy_def)
  ultimately have "\<exists>G'. handle_initialize ?E ''policy'' [] demo_globals = (Ok (StatusResponse Fail), G') \<and>
      protocol_state G' = Some ps \<and> my_session_manager G' = Some demo_context"
    by (intro failed_policy_installed) (simp_all add: demo_env_simps demo_policy_json demo_globals_def)
  then show ?thesis by blast
qed

end
