(* ===== verification/IoUtils.thy ===== *)
theory IoUtils
  imports Transport
begin

text \<open>
  Input and output (\<^verbatim>\<open>io-utils/src/\<close>): buffers with a length over a byte stream (\<^verbatim>\<open>fd.rs\<close>), messages over such
  buffers (\<^verbatim>\<open>tcp.rs\<close>), requests to the attestation server over HTTP (\<^verbatim>\<open>http.rs\<close>); and the functions on strings of the Rust library
  that the client and the server share.

  A stream is a state with two operations: \<open>stream_write\<close> takes bytes and tells how many it has accepted, \<open>stream_read\<close> returns at
  most as many bytes as asked for.
\<close>

section \<open>Buffers over a byte stream\<close>

record 'f stream_ops =
  stream_write :: "byte list \<Rightarrow> ('f, unit, nat) sm"
  stream_read :: "nat \<Rightarrow> ('f, unit, byte list) sm"

text \<open>
  \<^verbatim>\<open>while sent_bytes < len { sent_bytes += fd.write(&buffer[sent_bytes..len])?; }\<close> and its counterpart for reading. A loop
  that does not end is \<open>None\<close>.
\<close>

partial_function (option) send_loop ::
  "(byte list \<Rightarrow> ('f, 'e, nat) sm) \<Rightarrow> byte list \<Rightarrow> nat \<Rightarrow> 'f \<Rightarrow> (('e, unit) result \<times> 'f) option" where
  "send_loop w buffer sent_bytes f =
     (if length buffer \<le> sent_bytes then Some (Ok (), f)
      else case w (drop sent_bytes buffer) f of
             (Ok n, f') \<Rightarrow> send_loop w buffer (sent_bytes + n) f'
           | (Err e, f') \<Rightarrow> Some (Err e, f')
           | (Panic, f') \<Rightarrow> Some (Panic, f')
           | (Stuck, f') \<Rightarrow> Some (Stuck, f'))"

partial_function (option) receive_loop ::
  "(nat \<Rightarrow> ('f, 'e, byte list) sm) \<Rightarrow> nat \<Rightarrow> byte list \<Rightarrow> 'f \<Rightarrow> (('e, byte list) result \<times> 'f) option" where
  "receive_loop r len received f =
     (if len \<le> length received then Some (Ok received, f)
      else case r (len - length received) f of
             (Ok b, f') \<Rightarrow> receive_loop r len (received @ b) f'
           | (Err e, f') \<Rightarrow> Some (Err e, f')
           | (Panic, f') \<Rightarrow> Some (Panic, f')
           | (Stuck, f') \<Rightarrow> Some (Stuck, f'))"

definition or_stuck :: "('s \<Rightarrow> (('e, 'a) result \<times> 's) option) \<Rightarrow> ('s, 'e, 'a) sm" where
  "or_stuck m s = (case m s of None \<Rightarrow> (Stuck, s) | Some r \<Rightarrow> r)"

text \<open>The length takes eight of the nine bytes of its buffer.\<close>

definition send_buffer :: "'f stream_ops \<Rightarrow> byte list \<Rightarrow> ('f, unit, unit) sm" where
  "send_buffer S buffer =
     mbind (or_stuck (send_loop (stream_write S) (le_bytes 8 (length buffer) @ [0]) 0)) (\<lambda>_.
     or_stuck (send_loop (stream_write S) buffer 0))"

definition receive_buffer :: "'f stream_ops \<Rightarrow> ('f, unit, byte list) sm" where
  "receive_buffer S =
     mbind (or_stuck (receive_loop (stream_read S) 9 [])) (\<lambda>buff.
     let len = from_le (take 8 buff) in
     if isize_max < len then mpanic else or_stuck (receive_loop (stream_read S) len []))"

text \<open>
  The variant for raw sockets (\<^verbatim>\<open>raw_fd.rs\<close>). Its errors are those of the operating system, of which \<^verbatim>\<open>EINTR\<close> is told apart, and
  others; in some places an error counts as no progress.
\<close>

datatype nix_error = NixEINTR | NixSys | NixOther

record 'f raw_ops =
  raw_send :: "byte list \<Rightarrow> ('f, nix_error, nat) sm"
  raw_recv :: "nat \<Rightarrow> ('f, nix_error, byte list) sm"

definition raw_send_buffer :: "'f raw_ops \<Rightarrow> byte list \<Rightarrow> ('f, nix_error, unit) sm" where
  "raw_send_buffer R buffer =
     mbind (or_stuck (send_loop (raw_send R) (le_bytes 8 (length buffer) @ [0]) 0)) (\<lambda>_.
     or_stuck (send_loop (\<lambda>b. mcatch (raw_send R b) mreturn (\<lambda>e. if e = NixOther then mthrow e else mreturn 0)) buffer 0))"

definition raw_receive_buffer :: "'f raw_ops \<Rightarrow> ('f, nix_error, byte list) sm" where
  "raw_receive_buffer R =
     (let recv = (\<lambda>n. mcatch (raw_recv R n) mreturn (\<lambda>e. if e = NixEINTR then mreturn [] else mthrow e)) in
      mbind (or_stuck (receive_loop recv 9 [])) (\<lambda>buf.
      let len = from_le (take 8 buf) in
      if isize_max < len then mpanic else or_stuck (receive_loop recv len [])))"

section \<open>Messages\<close>

datatype SocketError = BincodeError | SocketIOError

record 'm bincode =
  bincode_serialize :: "'m \<Rightarrow> byte list option"
  bincode_deserialize :: "byte list \<Rightarrow> 'm option"

definition send_message :: "'f stream_ops \<Rightarrow> 'm bincode \<Rightarrow> 'm \<Rightarrow> ('f, SocketError, unit) sm" where
  "send_message S c data =
     mbind (mlift (ok_or BincodeError (bincode_serialize c data))) (\<lambda>message.
     merr (\<lambda>_. SocketIOError) (send_buffer S message))"

definition receive_message :: "'f stream_ops \<Rightarrow> 'm bincode \<Rightarrow> ('f, SocketError, 'm) sm" where
  "receive_message S c =
     mbind (merr (\<lambda>_. SocketIOError) (receive_buffer S)) (\<lambda>response.
     mlift (ok_or BincodeError (bincode_deserialize c response)))"

section \<open>Requests over HTTP\<close>

datatype HttpError =
    CurlError
  | HttpSuccess
  | SerializationError TransportProtocolError
  | HttpBase64Error
  | HttpTransportProtocolError TransportProtocolError
  | AttestationError TransportProtocolError
  | ProtocolError ProxyAttestationServerResponse

text \<open>
  The network as the HTTP packages show it: \<open>curl_post\<close> gives the received header and body. The static table of partial
  buffers of the transport protocol is the other part of the state.
\<close>

record 'w http_crates =
  curl_post :: "string \<Rightarrow> string \<Rightarrow> ('w, unit, byte list \<times> byte list) sm"
  http_base64_encode :: "byte list \<Rightarrow> string"
  http_base64_decode :: "string \<Rightarrow> byte list option"

definition contains :: "string \<Rightarrow> string \<Rightarrow> bool" where
  "contains s t \<longleftrightarrow> list_ex (\<lambda>n. take (length t) (drop n s) = t) [0..<Suc (length s)]"

text \<open>\<open>utf8\<close> is \<^verbatim>\<open>from_utf8(..).unwrap_or_else(|_| panic!(..))\<close> on the pieces the package hands over.\<close>

definition post_buffer ::
  "'w http_crates \<Rightarrow> (byte list \<Rightarrow> string option) \<Rightarrow> string \<Rightarrow> string \<Rightarrow> ('w, HttpError, string) sm" where
  "post_buffer H utf8 url buffer =
     mbind (merr (\<lambda>_. CurlError) (curl_post H url buffer)) (\<lambda>(header, body).
     case (utf8 header, utf8 body) of
       (Some received_header, Some received_body) \<Rightarrow>
         if \<not> contains received_header (''HTTP/1.1 200 OK'' @ [CHR 0x0D]) then mthrow HttpSuccess
         else mreturn received_body
     | _ \<Rightarrow> mpanic)"

definition send_proxy_attestation_server_start ::
  "proto_crates \<Rightarrow> 'w http_crates \<Rightarrow> (byte list \<Rightarrow> string option) \<Rightarrow> string \<Rightarrow> string \<Rightarrow> string \<Rightarrow>
   ('w \<times> buffers, HttpError, i32 \<times> byte list) sm" where
  "send_proxy_attestation_server_start P H utf8 url_base protocol_name version =
     mbind (mlift (map_err SerializationError (serialize_start_msg P protocol_name version))) (\<lambda>start_msg.
     mbind (mzoom fst (\<lambda>w s. (w, snd s))
       (post_buffer H utf8 (url_base @ ''/Start'') (http_base64_encode H start_msg))) (\<lambda>response.
     mbind (mlift (ok_or HttpBase64Error (http_base64_decode H response))) (\<lambda>response_body.
     mbind (merr HttpTransportProtocolError (mzoom snd (\<lambda>h s. (fst s, h))
       (parse_proxy_attestation_server_response P None response_body))) (\<lambda>response.
     case proxy_response_oneof response of
       Some (PsaAttestationInit m) \<Rightarrow>
         mbind (mlift (map_err AttestationError (parse_psa_attestation_init m))) (\<lambda>(challenge, device_id).
         mreturn (device_id, challenge))
     | _ \<Rightarrow> mthrow (ProtocolError response)))))"

section \<open>Functions of the Rust library on strings\<close>

text \<open>White space and digits among the ASCII characters.\<close>

definition is_whitespace :: "char \<Rightarrow> bool" where
  "is_whitespace c \<longleftrightarrow> of_char c \<in> ({9, 10, 11, 12, 13, 32} :: nat set)"

definition is_digit :: "char \<Rightarrow> bool" where
  "is_digit c \<longleftrightarrow> (48 :: nat) \<le> of_char c \<and> of_char c \<le> (57 :: nat)"

fun words :: "string \<Rightarrow> string \<Rightarrow> string list" where
  "words acc [] = (if acc = [] then [] else [rev acc])"
| "words acc (c # cs) =
     (if is_whitespace c then (if acc = [] then words [] cs else rev acc # words [] cs) else words (c # acc) cs)"

definition split_whitespace :: "string \<Rightarrow> string list" where
  "split_whitespace s = words [] s"

text \<open>\<^verbatim>\<open>str::parse::<u32>\<close>.\<close>

definition parse_u32 :: "string \<Rightarrow> u32 option" where
  "parse_u32 s =
     (let digits = (case s of [] \<Rightarrow> [] | c # cs \<Rightarrow> if c = CHR ''+'' then cs else s);
          n = foldl (\<lambda>n c. 10 * n + (of_char c - 48)) 0 digits in
      if digits = [] \<or> \<not> list_all is_digit digits \<or> 2 ^ 32 \<le> n then None else Some (of_nat n))"

section \<open>Properties\<close>

text \<open>
  What \<^verbatim>\<open>std::io::Write\<close> and \<^verbatim>\<open>std::io::Read\<close> document for a stream that is not closed and has no errors: a write accepts a
  nonempty part of the bytes, a read returns a nonempty part of what there is.
\<close>

definition writes_stream :: "'f stream_ops \<Rightarrow> ('f \<Rightarrow> byte list) \<Rightarrow> bool" where
  "writes_stream S written \<longleftrightarrow>
     (\<forall>b f. b \<noteq> [] \<longrightarrow> (\<exists>n f'. stream_write S b f = (Ok n, f') \<and> 0 < n \<and> n \<le> length b \<and> written f' = written f @ take n b))"

definition reads_stream :: "'f stream_ops \<Rightarrow> ('f \<Rightarrow> byte list) \<Rightarrow> bool" where
  "reads_stream S unread \<longleftrightarrow>
     (\<forall>k f. 0 < k \<longrightarrow> unread f \<noteq> [] \<longrightarrow>
       (\<exists>b f'. stream_read S k f = (Ok b, f') \<and> b \<noteq> [] \<and> length b \<le> k \<and> unread f = b @ unread f'))"

lemma send_loop_all:
  assumes "writes_stream S written"
  shows "\<exists>f'. send_loop (stream_write S) buffer sent f = Some (Ok (), f') \<and> written f' = written f @ drop sent buffer"
proof (induction "length buffer - sent" arbitrary: sent f rule: less_induct)
  case less
  show ?case
  proof (cases "length buffer \<le> sent")
    case True
    then show ?thesis by (simp add: send_loop.simps)
  next
    case False
    then have "drop sent buffer \<noteq> []" by simp
    then obtain n f1 where w: "stream_write S (drop sent buffer) f = (Ok n, f1)" "0 < n"
      and f1: "n \<le> length (drop sent buffer)" "written f1 = written f @ take n (drop sent buffer)"
      using assms unfolding writes_stream_def by blast
    obtain f' where "send_loop (stream_write S) buffer (sent + n) f1 = Some (Ok (), f')"
      "written f' = written f1 @ drop (sent + n) buffer"
      using less [of "sent + n" f1] w(2) False by (metis add_gr_0 diff_less_mono2 less_add_same_cancel1 not_le)
    moreover have "take n (drop sent buffer) @ drop (sent + n) buffer = drop sent buffer"
      by (metis append_take_drop_id drop_drop add.commute)
    ultimately show ?thesis using w f1 False by (subst send_loop.simps) (simp add: append.assoc)
  qed
qed

lemma receive_loop_all:
  assumes "reads_stream S unread" and "unread f = b @ rest" and "len = length received + length b"
  shows "\<exists>f'. receive_loop (stream_read S) len received f = Some (Ok (received @ b), f') \<and> unread f' = rest"
  using assms(2,3)
proof (induction "length b" arbitrary: b received f rule: less_induct)
  case less
  show ?case
  proof (cases "b = []")
    case True
    then show ?thesis using less.prems by (simp add: receive_loop.simps)
  next
    case False
    then have "0 < len - length received" "unread f \<noteq> []" using less.prems by simp_all
    then obtain c f1 where r: "stream_read S (len - length received) f = (Ok c, f1)" "c \<noteq> []"
      and c: "length c \<le> len - length received" "unread f = c @ unread f1"
      using assms(1) unfolding reads_stream_def by blast
    have "length c \<le> length b" using c(1) less.prems(2) by simp
    then obtain d where d: "b = c @ d" "unread f1 = d @ rest"
      using c(2) less.prems(1) by (auto simp: append_eq_append_conv2)
    obtain f' where "receive_loop (stream_read S) len (received @ c) f1 = Some (Ok ((received @ c) @ d), f')" "unread f' = rest"
      using less.hyps [of d f1 "received @ c"] d r(2) less.prems(2) by auto
    then show ?thesis using r d less.prems(2) False by (subst receive_loop.simps) simp
  qed
qed

text \<open>
  C27. Buffers survive fragmentation. However the two ends of a byte stream split it into pieces, what \<^verbatim>\<open>send_buffer\<close> sends is sent
  completely, and \<^verbatim>\<open>receive_buffer\<close> at the other end returns the buffer and leaves the bytes that follow.
\<close>

theorem framing_roundtrip:
  assumes "writes_stream S written" and "reads_stream R unread" and "length buffer \<le> isize_max"
  shows "\<exists>f'. send_buffer S buffer f = (Ok (), f') \<and>
    (\<forall>g rest. written f @ unread g = written f' @ rest \<longrightarrow> (\<exists>g'. receive_buffer R g = (Ok buffer, g') \<and> unread g' = rest))"
proof -
  let ?head = "le_bytes 8 (length buffer) @ [0]"
  obtain f1 where f1: "send_loop (stream_write S) ?head 0 f = Some (Ok (), f1)" "written f1 = written f @ ?head"
    using send_loop_all [OF assms(1), of ?head 0 f] by auto
  obtain f' where f': "send_loop (stream_write S) buffer 0 f1 = Some (Ok (), f')" "written f' = written f1 @ buffer"
    using send_loop_all [OF assms(1), of buffer 0 f1] by auto
  have "length buffer < 256 ^ 8" using assms(3) by (simp add: isize_max_def)
  then have len: "from_le (take 8 ?head) = length buffer" by (simp add: from_le_bytes)
  have "\<exists>g'. receive_buffer R g = (Ok buffer, g') \<and> unread g' = rest" if "written f @ unread g = written f' @ rest" for g rest
  proof -
    have g: "unread g = ?head @ buffer @ rest" using that f1(2) f'(2) by simp
    obtain g1 where g1: "receive_loop (stream_read R) 9 [] g = Some (Ok ?head, g1)" "unread g1 = buffer @ rest"
      using receive_loop_all [OF assms(2) g, of 9 "[]"] by auto
    obtain g' where "receive_loop (stream_read R) (length buffer) [] g1 = Some (Ok buffer, g')" "unread g' = rest"
      using receive_loop_all [OF assms(2) g1(2), of "length buffer" "[]"] by auto
    then show ?thesis using g1(1) len assms(3) by (simp add: receive_buffer_def or_stuck_def mbind_def)
  qed
  moreover have "send_buffer S buffer f = (Ok (), f')"
    using f1(1) f'(1) by (simp add: send_buffer_def or_stuck_def mbind_def)
  ultimately show ?thesis by blast
qed

text \<open>A stream that passes one byte at a time.\<close>

definition demo_stream :: "byte list stream_ops" where
  "demo_stream = \<lparr>stream_write = (\<lambda>b f. (Ok 1, f @ take 1 b)), stream_read = (\<lambda>k f. (Ok (take 1 f), drop 1 f))\<rparr>"

lemma demo_stream_ok: "writes_stream demo_stream id" "reads_stream demo_stream id"
proof -
  show "writes_stream demo_stream id"
    by (auto simp: writes_stream_def demo_stream_def Suc_le_eq)
  show "reads_stream demo_stream id"
    by (auto simp: reads_stream_def demo_stream_def Suc_le_eq)
qed

theorem framing_roundtrip_witness:
  "\<exists>f'. send_buffer demo_stream [1, 2] [] = (Ok (), f') \<and> (\<exists>g'. receive_buffer demo_stream f' = (Ok [1, 2], g') \<and> g' = [])"
proof -
  obtain f' where "send_buffer demo_stream [1, 2] [] = (Ok (), f')"
    and "\<And>g rest. g = f' @ rest \<Longrightarrow> \<exists>g'. receive_buffer demo_stream g = (Ok [1, 2], g') \<and> g' = rest"
    using framing_roundtrip [OF demo_stream_ok, of "[1, 2]" "[]"] by (auto simp: isize_max_def)
  then show ?thesis by (metis append_Nil2)
qed

lemma receive_loop_eof:
  assumes "receive_loop r len received f = Some y" and "\<And>k. r k f = (Ok [], f)"
  shows "len \<le> length received"
  using assms
proof (induction rule: receive_loop.raw_induct [rotated, consumes 1, case_names step])
  case (step loop r len received f y)
  show ?case
  proof (rule ccontr)
    assume "\<not> len \<le> length received"
    then have "loop r len received f = Some y" using step.hyps step.prems by simp
    then show False using step.IH step.prems \<open>\<not> len \<le> length received\<close> by blast
  qed
qed

text \<open>
  C38. A closed stream is not noticed. When the other end has closed the stream, every read returns no bytes; \<^verbatim>\<open>receive_buffer\<close> then
  reads for ever.
\<close>

theorem receive_spins:
  assumes "\<And>k. stream_read S k f = (Ok [], f)"
  shows "receive_buffer S f = (Stuck, f)"
proof -
  have "receive_loop (stream_read S) 9 [] f = None"
    using receive_loop_eof [of "stream_read S" 9 "[]" f] assms by (cases "receive_loop (stream_read S) 9 [] f") auto
  then show ?thesis by (simp add: receive_buffer_def or_stuck_def)
qed

theorem receive_spins_witness: "receive_buffer demo_stream [] = (Stuck, [])"
  by (rule receive_spins) (simp add: demo_stream_def)

end
