(* ===== verification/Backends.thy ===== *)
theory Backends
  imports RuntimeManager IoUtils
begin

text \<open>
  The runtime manager on its channel to the host: the message loop of the Linux build with its socket
  (\<^verbatim>\<open>runtime_manager_linux.rs\<close>), the build for Nitro enclaves (\<^verbatim>\<open>runtime_manager_nitro.rs\<close>) and the build for IceCap
  (\<^verbatim>\<open>runtime_manager_icecap.rs\<close>), which share the managers; and the random numbers of IceCap.

  The channel is a byte stream: the socket operations for Linux and Nitro, two ring buffers for IceCap. One turn of a loop
  receives a message, handles it and sends the response.
\<close>

unbundle bit_operations_syntax

section \<open>Linux\<close>

text \<open>One turn of the loop, on the globals and the socket.\<close>

definition linux_turn ::
  "('b, 'g, 'c, 'm) runtime_env \<Rightarrow> byte list \<Rightarrow> (byte list \<times> byte list) option \<Rightarrow> RmRequest bincode \<Rightarrow> RmResponse bincode \<Rightarrow>
   'f stream_ops \<Rightarrow> (('b, 'g, 'c) Globals \<times> 'f, RuntimeManagerError, unit) sm" where
  "linux_turn E measurement key Q R S =
     mbind (merr (\<lambda>_. RmIOError) (mzoom snd (\<lambda>f s. (fst s, f)) (receive_buffer S))) (\<lambda>received_buffer.
     mbind (mlift (ok_or RmBincodeError (bincode_deserialize Q received_buffer))) (\<lambda>received_message.
     mbind (mzoom fst (\<lambda>g s. (g, snd s)) (handle_message E measurement key received_message)) (\<lambda>return_message.
     mbind (mlift (ok_or RmBincodeError (bincode_serialize R return_message))) (\<lambda>return_buffer.
     merr (\<lambda>_. RmIOError) (mzoom snd (\<lambda>f s. (fst s, f)) (send_buffer S return_buffer))))))"

section \<open>Nitro\<close>

text \<open>The library of the security module: a descriptor, and the attestation document for a request and a challenge.\<close>

record nsm_crates =
  nsm_lib_init :: i32
  nsm_get_attestation_doc :: "byte list \<Rightarrow> byte list \<Rightarrow> byte list option"

definition nitro_attestation ::
  "('b, 'g, 'c, 'm) runtime_env \<Rightarrow> nsm_crates \<Rightarrow> (byte list \<times> byte list) option \<Rightarrow> byte list \<Rightarrow> ('b, 'g, 'c, RmResponse) rt_op" where
  "nitro_attestation E N key challenge =
     mbind (init_session_manager key) (\<lambda>_.
     mbind (rt_generate_csr E) (\<lambda>csr.
     if sint (nsm_lib_init N) < 0 then mthrow (NsmLibError (nsm_lib_init N))
     else
     mbind (mlift (ok_or NsmErrorCode (nsm_get_attestation_doc N csr challenge))) (\<lambda>att_doc.
     mreturn (NitroAttestationData att_doc))))"

definition nitro_initialize ::
  "('b, 'g, 'c, 'm) runtime_env \<Rightarrow> string \<Rightarrow> byte list list \<Rightarrow> ('b, 'g, 'c, RmResponse) rt_op" where
  "nitro_initialize E policy_json cert_chain =
     mbind (load_policy E policy_json) (\<lambda>_.
     mbind (load_cert_chain E cert_chain) (\<lambda>_.
     mreturn (StatusResponse Success)))"

definition nitro_handle ::
  "('b, 'g, 'c, 'm) runtime_env \<Rightarrow> nsm_crates \<Rightarrow> (byte list \<times> byte list) option \<Rightarrow> RmRequest \<Rightarrow> ('b, 'g, 'c, RmResponse) rt_op" where
  "nitro_handle E N key request =
     (case request of
        Attestation challenge _ \<Rightarrow> nitro_attestation E N key challenge
      | Initialize policy_json certificate_chain \<Rightarrow> nitro_initialize E policy_json certificate_chain
      | NewTlsSession \<Rightarrow> or_fail (mbind (new_session E) (\<lambda>session_id. mreturn (TlsSession session_id)))
      | CloseTlsSession session \<Rightarrow> or_fail (mbind (close_session session) (\<lambda>_. mreturn (StatusResponse Success)))
      | GetTlsDataNeeded session \<Rightarrow> or_fail (mbind (get_data_needed E session) (\<lambda>needed. mreturn (TlsDataNeeded needed)))
      | SendTlsData session tls_data \<Rightarrow> or_fail (mbind (send_data E session tls_data) (\<lambda>_. mreturn (StatusResponse Success)))
      | GetTlsData session \<Rightarrow> or_fail (mbind (get_data E session) (\<lambda>(active, output_data). mreturn (TlsData output_data active)))
      | _ \<Rightarrow> mreturn (StatusResponse Unimplemented))"

definition nitro_turn ::
  "('b, 'g, 'c, 'm) runtime_env \<Rightarrow> nsm_crates \<Rightarrow> (byte list \<times> byte list) option \<Rightarrow> RmRequest bincode \<Rightarrow> RmResponse bincode \<Rightarrow>
   'f raw_ops \<Rightarrow> (('b, 'g, 'c) Globals \<times> 'f, RuntimeManagerError, unit) sm" where
  "nitro_turn E N key Q R S =
     mbind (merr (\<lambda>_. VeracruzSocketError) (mzoom snd (\<lambda>f s. (fst s, f)) (raw_receive_buffer S))) (\<lambda>received_buffer.
     mbind (mlift (ok_or RmBincodeError (bincode_deserialize Q received_buffer))) (\<lambda>received_message.
     mbind (mzoom fst (\<lambda>g s. (g, snd s)) (nitro_handle E N key received_message)) (\<lambda>return_message.
     mbind (mlift (ok_or RmBincodeError (bincode_serialize R return_message))) (\<lambda>return_buffer.
     merr (\<lambda>_. VeracruzSocketError) (mzoom snd (\<lambda>f s. (fst s, f)) (raw_send_buffer S return_buffer))))))"

text \<open>The loop over the messages received, each with the key pair the library would generate for it; it stops at the first error.\<close>

primrec nitro_loop ::
  "('b, 'g, 'c, 'm) runtime_env \<Rightarrow> nsm_crates \<Rightarrow> ((byte list \<times> byte list) option \<times> RmRequest) list \<Rightarrow>
   ('b, 'g, 'c, RmResponse list) rt_op" where
  "nitro_loop E N [] = mreturn []"
| "nitro_loop E N (x # xs) =
     mbind (nitro_handle E N (fst x) (snd x)) (\<lambda>r.
     mbind (nitro_loop E N xs) (\<lambda>rs.
     mreturn (r # rs)))"

section \<open>IceCap\<close>

definition EXAMPLE_HASH :: "byte list" where
  "EXAMPLE_HASH =
     [0xde, 0xad, 0xbe, 0xef, 0xde, 0xad, 0xbe, 0xef, 0xde, 0xad, 0xbe, 0xef, 0xde, 0xad, 0xbe, 0xef,
      0xf0, 0x0d, 0xca, 0xfe, 0xf0, 0x0d, 0xca, 0xfe, 0xf0, 0x0d, 0xca, 0xfe, 0xf0, 0x0d, 0xca, 0xfe]"

text \<open>The key is that of the Linux build. Each call of the library is under \<^verbatim>\<open>assert_eq!\<close>.\<close>

definition icecap_native_attestation ::
  "('b, 'g, 'c, 'm) runtime_env \<Rightarrow> byte list \<Rightarrow> byte list \<Rightarrow> (RuntimeManagerError, byte list) result" where
  "icecap_native_attestation E challenge csr =
     (let csr_hash = sha256 (env_policy E) csr;
          ((ret, root_key_handle), static) = psa_initial_attest_load_key (env_psa E) ROOT_PRIVATE_KEY 0 in
      if ret \<noteq> 0 then Panic
      else let (ret, token) = psa_initial_attest_get_token (env_psa E) static EXAMPLE_HASH csr_hash [] challenge 2048 in
        if ret \<noteq> 0 then Panic
        else if psa_initial_attest_remove_key (env_psa E) root_key_handle \<noteq> 0 then Panic
        else Ok token)"

text \<open>\<^verbatim>\<open>a.and(b)\<close>: the argument is evaluated whatever the first result is.\<close>

definition and_result :: "('s, 'e, 'a) sm \<Rightarrow> ('s, 'e, 'b) sm \<Rightarrow> ('s, 'e, 'b) sm" where
  "and_result m n s =
     (case m s of
        (Ok _, s') \<Rightarrow> n s'
      | (Err e, s') \<Rightarrow>
          (case n s' of
             (Ok _, s'') \<Rightarrow> (Err e, s'')
           | (Err _, s'') \<Rightarrow> (Err e, s'')
           | (Panic, s'') \<Rightarrow> (Panic, s'')
           | (Stuck, s'') \<Rightarrow> (Stuck, s''))
      | (Panic, s') \<Rightarrow> (Panic, s')
      | (Stuck, s') \<Rightarrow> (Stuck, s'))"

definition icecap_handle_attestation ::
  "('b, 'g, 'c, 'm) runtime_env \<Rightarrow> byte list \<Rightarrow> ('b, 'g, 'c, byte list \<times> byte list) rt_op" where
  "icecap_handle_attestation E challenge =
     mbind (rt_generate_csr E) (\<lambda>csr.
     mbind (mlift (icecap_native_attestation E challenge csr)) (\<lambda>token.
     mreturn (token, csr)))"

text \<open>The manager, with its globals and the two directions of its ring buffer.\<close>

record ('b, 'g, 'c) IceCapManager =
  ice_globals :: "('b, 'g, 'c) Globals"
  ice_active :: bool
  ice_input :: "byte list"
  ice_output :: "byte list"

definition on_ice_globals :: "('b, 'g, 'c, 'a) rt_op \<Rightarrow> (('b, 'g, 'c) IceCapManager, RuntimeManagerError, 'a) sm" where
  "on_ice_globals = mzoom ice_globals (\<lambda>g s. s\<lparr>ice_globals := g\<rparr>)"

definition icecap_handle ::
  "('b, 'g, 'c, 'm) runtime_env \<Rightarrow> (byte list \<times> byte list) option \<Rightarrow> RmRequest \<Rightarrow>
   (('b, 'g, 'c) IceCapManager, RuntimeManagerError, RmResponse) sm" where
  "icecap_handle E key request =
     (case request of
        Attestation challenge _ \<Rightarrow>
          or_fail (mbind (on_ice_globals (and_result (init_session_manager key) (icecap_handle_attestation E challenge)))
            (\<lambda>(token, csr). mreturn (AttestationData token csr)))
      | Initialize policy_json cert_chain \<Rightarrow>
          or_fail (mbind (on_ice_globals (and_result (load_policy E policy_json) (load_cert_chain E cert_chain)))
            (\<lambda>_. mreturn (StatusResponse Success)))
      | NewTlsSession \<Rightarrow> or_fail (mbind (on_ice_globals (new_session E)) (\<lambda>sess. mreturn (TlsSession sess)))
      | CloseTlsSession sess \<Rightarrow>
          or_fail (mbind (on_ice_globals (close_session sess)) (\<lambda>_. mreturn (StatusResponse Success)))
      | SendTlsData sess data \<Rightarrow>
          or_fail (mbind (on_ice_globals (send_data E sess data)) (\<lambda>_. mreturn (StatusResponse Success)))
      | GetTlsDataNeeded sess \<Rightarrow>
          or_fail (mbind (on_ice_globals (get_data_needed E sess)) (\<lambda>needed. mreturn (TlsDataNeeded needed)))
      | GetTlsData sess \<Rightarrow>
          or_fail (mbind (on_ice_globals (get_data E sess)) (\<lambda>(active, data).
            mbind (mmodify (\<lambda>s. s\<lparr>ice_active := active\<rparr>)) (\<lambda>_. mreturn (TlsData data active))))
      | ResetEnclave \<Rightarrow> mreturn (StatusResponse Success))"

text \<open>
  A message is preceded by its length in four bytes, the encoding of a \<^verbatim>\<open>u32\<close> by bincode. A request that is not complete yet
  stays in the ring buffer.
\<close>

definition icecap_process ::
  "('b, 'g, 'c, 'm) runtime_env \<Rightarrow> (byte list \<times> byte list) option \<Rightarrow> RmRequest bincode \<Rightarrow> RmResponse bincode \<Rightarrow>
   (('b, 'g, 'c) IceCapManager, RuntimeManagerError, unit) sm" where
  "icecap_process E key Q R =
     mbind mget (\<lambda>s.
     let size = from_le (take 4 (ice_input s)) in
     if length (ice_input s) < 4 then mreturn ()
     else if length (ice_input s) < 4 + size then mreturn ()
     else
     let raw_request = take size (drop 4 (ice_input s)) in
     mbind (mmodify (\<lambda>s. s\<lparr>ice_input := drop (4 + size) (ice_input s)\<rparr>)) (\<lambda>_.
     mbind (mlift (ok_or RmBincodeError (bincode_deserialize Q raw_request))) (\<lambda>request.
     mbind (icecap_handle E key request) (\<lambda>response.
     mbind (mlift (ok_or RmBincodeError (bincode_serialize R response))) (\<lambda>raw_response.
     if 2 ^ 32 \<le> length raw_response then mpanic
     else mmodify (\<lambda>s. s\<lparr>ice_output := ice_output s @ le_bytes 4 (length raw_response) @ raw_response\<rparr>))))))"

text \<open>
  The loop over the events: each adds the bytes that have arrived to the ring buffer, and the manager handles at most one
  request. It ends when a response says that the runtime is no longer active.
\<close>

primrec icecap_run ::
  "('b, 'g, 'c, 'm) runtime_env \<Rightarrow> RmRequest bincode \<Rightarrow> RmResponse bincode \<Rightarrow>
   ((byte list \<times> byte list) option \<times> byte list) list \<Rightarrow> (('b, 'g, 'c) IceCapManager, RuntimeManagerError, unit) sm" where
  "icecap_run E Q R [] = mreturn ()"
| "icecap_run E Q R (x # xs) =
     mbind (mmodify (\<lambda>s. s\<lparr>ice_input := ice_input s @ snd x\<rparr>)) (\<lambda>_.
     mbind (icecap_process E (fst x) Q R) (\<lambda>_.
     mbind mget (\<lambda>s.
     if \<not> ice_active s then mreturn () else icecap_run E Q R xs)))"

text \<open>The placeholder for random numbers: the state is a counter of 64 bits.\<close>

primrec icecap_getrandom :: "nat \<Rightarrow> u64 \<Rightarrow> byte list \<times> u64" where
  "icecap_getrandom 0 state = ([], state)"
| "icecap_getrandom (Suc n) state =
     (let b = le_bytes 8 (unat state) ! unat (state AND 7);
          (bs, state') = icecap_getrandom n (state + 1) in
      (b # bs, state'))"

end
