(* ===== verification/BackendProps.thy ===== *)
theory BackendProps
  imports Backends RuntimeProps
begin

text \<open>
  The builds for Nitro and IceCap against the build for Linux: they handle the messages of sessions alike, and they keep the
  same invariant.
\<close>

section \<open>Agreement of the builds\<close>

text \<open>The requests about sessions and their data.\<close>

definition session_request :: "RmRequest \<Rightarrow> bool" where
  "session_request q \<longleftrightarrow>
     (case q of Attestation _ _ \<Rightarrow> False | Initialize _ _ \<Rightarrow> False | ResetEnclave \<Rightarrow> False | _ \<Rightarrow> True)"

lemma nitro_handle_session: "session_request q \<Longrightarrow> nitro_handle E N k q = handle_message E m k q"
  by (cases q) (simp_all add: session_request_def nitro_handle_def handle_message_def)

text \<open>A step of the manager for IceCap that acts on its globals as an operation of the runtime.\<close>

definition globals_step :: "(('b, 'g, 'c) IceCapManager, 'e, 'a) sm \<Rightarrow> (('b, 'g, 'c) Globals, 'e, 'a) sm \<Rightarrow> bool" where
  "globals_step m n \<longleftrightarrow>
     (\<forall>s. fst (m s) = fst (n (ice_globals s)) \<and> ice_globals (snd (m s)) = snd (n (ice_globals s)))"

lemma globals_step_on: "globals_step (on_ice_globals n) n"
  by (simp add: globals_step_def on_ice_globals_def mzoom_def split: prod.split)

lemma globals_step_return: "globals_step (mreturn a) (mreturn a)"
  by (simp add: globals_step_def mreturn_def)

lemma globals_step_active: "globals_step (mbind (mmodify (\<lambda>s. s\<lparr>ice_active := b\<rparr>)) (\<lambda>_. mreturn a)) (mreturn a)"
  by (simp add: globals_step_def mbind_def mmodify_def mreturn_def)

lemma globals_step_mbind:
  assumes "globals_step m n" and "\<And>a. globals_step (f a) (g a)"
  shows "globals_step (mbind m f) (mbind n g)"
  unfolding globals_step_def
proof
  fix s
  obtain r s1 where m: "m s = (r, s1)" by (rule prod.exhaust)
  then have n: "n (ice_globals s) = (r, ice_globals s1)"
    using assms(1) unfolding globals_step_def by (metis fst_conv prod.collapse snd_conv)
  show "fst (mbind m f s) = fst (mbind n g (ice_globals s)) \<and>
      ice_globals (snd (mbind m f s)) = snd (mbind n g (ice_globals s))"
    using m n assms(2) by (cases r) (simp_all add: mbind_def globals_step_def)
qed

lemma globals_step_or_fail:
  assumes "globals_step m n"
  shows "globals_step (or_fail m) (or_fail n)"
  unfolding globals_step_def
proof
  fix s
  obtain r s1 where m: "m s = (r, s1)" by (rule prod.exhaust)
  then have n: "n (ice_globals s) = (r, ice_globals s1)"
    using assms unfolding globals_step_def by (metis fst_conv prod.collapse snd_conv)
  show "fst (or_fail m s) = fst (or_fail n (ice_globals s)) \<and> ice_globals (snd (or_fail m s)) = snd (or_fail n (ice_globals s))"
    using m n by (cases r) (simp_all add: or_fail_def)
qed

lemma icecap_handle_session: "session_request q \<Longrightarrow> globals_step (icecap_handle E k q) (handle_message E m k q)"
  by (cases q)
    (auto simp: session_request_def icecap_handle_def handle_message_def
      intro!: globals_step_or_fail globals_step_mbind globals_step_on globals_step_return globals_step_active split: prod.split)

section \<open>The invariant\<close>

lemma keeps_csr: "keeps E (rt_generate_csr E)"
  unfolding rt_generate_csr_def get_enclave_private_key_def by (intro keeps_intros)

lemma keeps_load_cert_chain: "keeps E (load_cert_chain E chain)"
  unfolding load_cert_chain_def by (intro keeps_intros)

lemma keeps_and_result: "keeps E m \<Longrightarrow> keeps E n \<Longrightarrow> keeps E (and_result m n)"
  by (fastforce simp: keeps_def and_result_def split: result.split prod.split)

lemma keeps_nitro:
  assumes "codec_ok (env_rights E)"
  shows "keeps E (nitro_handle E N key request)"
proof (cases "session_request request")
  case True
  then show ?thesis using nitro_handle_session keeps_message [OF assms] by metis
next
  case False
  then show ?thesis
    by (cases request)
      (simp_all add: session_request_def nitro_handle_def nitro_attestation_def nitro_initialize_def keeps_ops,
       (intro keeps_intros keeps_csr keeps_load_policy keeps_load_cert_chain assms)+)
qed

lemma keeps_nitro_loop:
  assumes "codec_ok (env_rights E)"
  shows "keeps E (nitro_loop E N msgs)"
  by (induction msgs) (simp_all, (intro keeps_intros keeps_nitro assms; assumption)+)

definition ice_keeps :: "('b, 'g, 'c, 'm) runtime_env \<Rightarrow> (('b, 'g, 'c) IceCapManager, 'e, 'a) sm \<Rightarrow> bool" where
  "ice_keeps E m \<longleftrightarrow> (\<forall>s. rt_inv E (ice_globals s) \<longrightarrow> rt_inv E (ice_globals (snd (m s))))"

lemma ice_keeps_step: "globals_step m n \<Longrightarrow> keeps E n \<Longrightarrow> ice_keeps E m"
  by (simp add: globals_step_def keeps_def ice_keeps_def)

lemma ice_keeps_same: "(\<And>s. ice_globals (snd (m s)) = ice_globals s) \<Longrightarrow> ice_keeps E m"
  by (simp add: ice_keeps_def)

lemma ice_keeps_mbind: "ice_keeps E m \<Longrightarrow> (\<And>a. ice_keeps E (f a)) \<Longrightarrow> ice_keeps E (mbind m f)"
  by (fastforce simp: ice_keeps_def mbind_def split: result.split prod.split)

lemma ice_keeps_globals: "keeps E n \<Longrightarrow> ice_keeps E (on_ice_globals n)"
  by (rule ice_keeps_step [OF globals_step_on])

lemma ice_keeps_or_fail: "ice_keeps E m \<Longrightarrow> ice_keeps E (or_fail m)"
  by (fastforce simp: ice_keeps_def or_fail_def split: prod.split result.split)

lemma ice_keeps_ops:
  "ice_keeps E (mreturn a)" "ice_keeps E mget" "ice_keeps E mpanic" "ice_keeps E (mlift r)"
  "ice_keeps E (mmodify (\<lambda>s. s\<lparr>ice_input := f s\<rparr>))" "ice_keeps E (mmodify (\<lambda>s. s\<lparr>ice_output := f s\<rparr>))"
  by (rule ice_keeps_same, simp add: monad_defs)+

lemma ice_keeps_handle:
  assumes "codec_ok (env_rights E)"
  shows "ice_keeps E (icecap_handle E key request)"
proof (cases "session_request request")
  case True
  then show ?thesis using ice_keeps_step [OF icecap_handle_session keeps_message [OF assms]] by blast
next
  case False
  have "keeps E (icecap_handle_attestation E challenge)" for challenge
    unfolding icecap_handle_attestation_def by (intro keeps_intros keeps_csr)
  then show ?thesis
    using False
    by (cases request)
      (auto simp: session_request_def icecap_handle_def intro!: ice_keeps_or_fail ice_keeps_mbind ice_keeps_globals keeps_and_result
        ice_keeps_ops keeps_parts keeps_load_policy keeps_load_cert_chain assms split: prod.split)
qed

lemma ice_keeps_run:
  assumes "codec_ok (env_rights E)"
  shows "ice_keeps E (icecap_run E Q R events)"
proof (induction events)
  case (Cons x xs)
  have "ice_keeps E (icecap_process E key Q R)" for key
    unfolding icecap_process_def Let_def
    by (intro ice_keeps_mbind ice_keeps_ops; auto intro!: ice_keeps_mbind ice_keeps_ops ice_keeps_handle assms)
  then show ?case
    unfolding icecap_run.simps by (intro ice_keeps_mbind ice_keeps_ops) (use Cons.IH in \<open>auto simp: ice_keeps_ops\<close>)
qed (simp add: ice_keeps_ops)

section \<open>Properties\<close>

text \<open>
  C18. The three builds serve sessions alike. On the requests about sessions and their data the loop of the Nitro build returns and
  does what the loop of the Linux build does, and the manager of the IceCap build gives the same response and has the same effect on the
  managers.
\<close>

theorem backends_agree:
  "(list_all (\<lambda>x. session_request (snd x)) msgs \<longrightarrow> nitro_loop E N msgs = linux_loop E measurement msgs) \<and>
   (session_request q \<longrightarrow>
      fst (icecap_handle E key q s) = fst (handle_message E measurement key q (ice_globals s)) \<and>
      ice_globals (snd (icecap_handle E key q s)) = snd (handle_message E measurement key q (ice_globals s)))"
proof -
  have "nitro_loop E N msgs = linux_loop E measurement msgs" if "list_all (\<lambda>x. session_request (snd x)) msgs"
    using that by (induction msgs) (simp_all add: nitro_handle_session [where m = measurement])
  then show ?thesis using icecap_handle_session [of q E key measurement] by (simp add: globals_step_def)
qed

definition demo_nsm :: nsm_crates where
  "demo_nsm = \<lparr>nsm_lib_init = 3, nsm_get_attestation_doc = (\<lambda>csr challenge. Some (csr @ challenge))\<rparr>"

definition demo_manager :: "(unit, unit, byte list) IceCapManager" where
  "demo_manager = \<lparr>ice_globals = globals_init, ice_active = True, ice_input = [], ice_output = []\<rparr>"

theorem backends_agree_witness:
  "nitro_loop demo_env demo_nsm [(None, NewTlsSession), (None, SendTlsData 1 [7])] =
     linux_loop demo_env [] [(None, NewTlsSession), (None, SendTlsData 1 [7])] \<and>
   fst (icecap_handle demo_env None (GetTlsData 1) demo_manager) = fst (handle_message demo_env [] None (GetTlsData 1) globals_init)"
  using backends_agree [of "[(None, NewTlsSession), (None, SendTlsData 1 [7])]" demo_env demo_nsm "[]" "GetTlsData 1" None demo_manager]
  by (simp add: session_request_def demo_manager_def)

text \<open>
  C17. The builds for Nitro and IceCap keep the invariant of the runtime: whatever messages or bytes arrive, the protocol
  state belongs to its policy. The filesystem is well-formed, its rights table is the table of the policy (with read access for the
  super user), and the digests are those of the policy.
\<close>

theorem backends_invariant:
  assumes "codec_ok (env_rights E)"
    and "protocol_state (snd (nitro_loop E N msgs globals_init)) = Some ps \<or>
      ice_globals s = globals_init \<and> protocol_state (ice_globals (snd (icecap_run E Q R events s))) = Some ps"
  shows "fs_inv (vfs ps) \<and>
    rights_table (inode_table (vfs ps)) =
      hm_put id (get_rights_table (env_rights E) (global_policy ps)) InternalSuperUser superuser_read_rights \<and>
    get_file_hash_table (env_policy E) (global_policy ps) = Ok (digest_table ps)"
proof -
  have "rt_inv E (globals_init)" by (simp add: rt_inv_def globals_init_def)
  then have "rt_inv E (snd (nitro_loop E N msgs globals_init))"
    "ice_globals s = globals_init \<Longrightarrow> rt_inv E (ice_globals (snd (icecap_run E Q R events s)))"
    using keeps_nitro_loop [OF assms(1), of N msgs] ice_keeps_run [OF assms(1), of Q R events]
    by (simp_all add: keeps_def ice_keeps_def)
  then show ?thesis using assms(2) by (auto simp: rt_inv_def ps_ok_def)
qed

lemma demo_nitro: "\<exists>ps. protocol_state (snd (nitro_loop demo_env demo_nsm demo_messages globals_init)) = Some ps"
proof -
  obtain ps where ps: "protocol_state_new demo_env (demo_policy\<lparr>policy_hash := Some ''h''\<rparr>) ''h'' = Ok ps"
    using demo_new by blast
  obtain pr where policy: "\<And>s. set_policy demo_tls (demo_policy\<lparr>policy_hash := Some ''h''\<rparr>) s =
     (Ok (), s\<lparr>server_config_builder := Some (), context_principals := Some pr,
        context_policy := Some (demo_policy\<lparr>policy_hash := Some ''h''\<rparr>)\<rparr>)"
    using demo_set_policy by blast
  show ?thesis
    by (simp add: demo_messages_def nitro_handle_def nitro_attestation_def nitro_initialize_def demo_nsm_def
        init_session_manager_def session_context_new_def rt_generate_csr_def get_enclave_private_key_def
        run_initialize ps policy globals_init_def)
qed

theorem backends_invariant_witness:
  "\<exists>ps. protocol_state (snd (nitro_loop demo_env demo_nsm demo_messages globals_init)) = Some ps \<and> fs_inv (vfs ps) \<and>
     get_file_hash_table demo_json (global_policy ps) = Ok (digest_table ps)"
proof -
  obtain ps where ps: "protocol_state (snd (nitro_loop demo_env demo_nsm demo_messages globals_init)) = Some ps"
    using demo_nitro by blast
  with backends_invariant [OF demo_env_ok, of demo_nsm demo_messages ps demo_manager
      "\<lparr>bincode_serialize = (\<lambda>_. None), bincode_deserialize = (\<lambda>_. None)\<rparr>"
      "\<lparr>bincode_serialize = (\<lambda>_. None), bincode_deserialize = (\<lambda>_. None)\<rparr>" "[]"] show ?thesis
    by (auto simp: demo_env_def)
qed

end
