(* ===== verification/Attestation.thy ===== *)
theory Attestation
  imports Transport PolicyUtils
begin

text \<open>
  The proxy attestation server (\<^verbatim>\<open>proxy-attestation-server/src/\<close>): it hands out challenges, checks the attestation
  tokens that come back and issues a certificate for the key of the attested runtime.

  The cryptographic packages are the fields of \<open>pas_crates\<close>. The static variables are the fields of
  \<open>PasState\<close>. The builds differ in the protocols they know: \<open>B\<close> is the platform of the build. The server handles requests in
  several threads; \<open>pas_step\<close> is the relation of their interleavings.
\<close>

section \<open>Packages\<close>

record 'p CertificateRequest =
  req_subject :: "(nat \<times> string) list"
  req_public_key :: 'p

text \<open>The contents of the certificate under construction. Times are days from now.\<close>

record 'p Certificate =
  cert_version :: nat
  cert_not_before :: int
  cert_not_after :: int
  cert_serial_number :: nat
  cert_issuer :: "(nat \<times> string) list"
  cert_subject :: "(nat \<times> string) list"
  cert_public_key :: 'p
  cert_dns :: string
  cert_critical :: bool
  cert_ca :: bool
  cert_pathlen :: nat
  cert_extension :: "string \<times> string"

text \<open>What the package for Nitro reports of an authentic document.\<close>

record AttestationDocument =
  doc_pcrs :: "byte list list"
  doc_nonce :: "byte list option"
  doc_user_data :: "byte list option"

text \<open>
  \<open>subject_of\<close> gives the entries of the subject of a certificate, each with its text unless it has none;
  \<open>cose_verify\<close> the status and the payload of a signed token.
\<close>

record ('k, 'p) pas_crates =
  base64_encode :: "byte list \<Rightarrow> string"
  base64_decode :: "string \<Rightarrow> byte list option"
  pas_sha256 :: "byte list \<Rightarrow> byte list"
  pas_hex_encode :: "byte list \<Rightarrow> string"
  cert_der_from_pem :: "byte list \<Rightarrow> byte list option"
  key_from_pem :: "byte list \<Rightarrow> 'k option"
  subject_of :: "byte list \<Rightarrow> (nat \<times> string option) list option"
  csr_from_der :: "byte list \<Rightarrow> 'p CertificateRequest option"
  csr_verify :: "byte list \<Rightarrow> 'p \<Rightarrow> bool option"
  x509_sign :: "'k \<Rightarrow> 'p Certificate \<Rightarrow> byte list option"
  cose_load_key :: "byte list \<Rightarrow> u32 \<times> u32"
  cose_verify :: "u32 \<Rightarrow> byte list \<Rightarrow> u32 \<times> byte list"
  authenticate_document :: "byte list \<Rightarrow> byte list \<Rightarrow> AttestationDocument option"

section \<open>Errors and state\<close>

text \<open>The errors the handlers raise, without the payloads of other packages.\<close>

datatype ProxyAttestationServerError =
    Base64Error
  | PasTransportError TransportProtocolError
  | OpenSSLError
  | MismatchError string "byte list" "byte list"
  | PasUnsafeCallError string u32
  | NoDeviceError i32
  | MissingFieldError string
  | UnknownAttestationTokenError
  | UnimplementedRequestError
  | UnsupportedRequestError
  | CborError
  | CsrVerifyError
  | IOError
  | BadStateError

text \<open>The numbers of the HTTP status codes.\<close>

definition status_code :: "ProxyAttestationServerError \<Rightarrow> nat" where
  "status_code e =
     (case e of
        UnimplementedRequestError \<Rightarrow> 501
      | UnknownAttestationTokenError \<Rightarrow> 501
      | UnsupportedRequestError \<Rightarrow> 404
      | _ \<Rightarrow> 500)"

record AttestationContext =
  firmware_version :: string
  challenge :: "byte list"

record 'k PasState =
  device_id_counter :: i32
  ca_cert_der :: "byte list option"
  ca_key_pkey :: "'k option"
  psa_context :: "i32 \<rightharpoonup> AttestationContext"
  nitro_context :: "i32 \<rightharpoonup> AttestationContext"
  pas_buffers :: buffers

definition pas_init :: "'k PasState" where
  "pas_init = \<lparr>device_id_counter = 1, ca_cert_der = None, ca_key_pkey = None, psa_context = Map.empty,
     nitro_context = Map.empty, pas_buffers = Map.empty\<rparr>"

type_synonym ('k, 'a) pas_op = "('k PasState, ProxyAttestationServerError, 'a) sm"

section \<open>The certificate authority\<close>

text \<open>The argument is what reading the file gave.\<close>

definition load_ca_certificate :: "('k, 'p) pas_crates \<Rightarrow> byte list option \<Rightarrow> ('k, unit) pas_op" where
  "load_ca_certificate X contents =
     mbind (mlift (ok_or IOError contents)) (\<lambda>buffer.
     mbind (mlift (ok_or OpenSSLError (cert_der_from_pem X buffer))) (\<lambda>der.
     mbind mget (\<lambda>s.
     if ca_cert_der s \<noteq> None then mthrow BadStateError
     else mmodify (\<lambda>s. s\<lparr>ca_cert_der := Some der\<rparr>))))"

definition get_ca_certificate :: "('k, byte list) pas_op" where
  "get_ca_certificate = mbind mget (\<lambda>s. mlift (ok_or BadStateError (ca_cert_der s)))"

definition load_ca_key :: "('k, 'p) pas_crates \<Rightarrow> byte list option \<Rightarrow> ('k, unit) pas_op" where
  "load_ca_key X contents =
     mbind (mlift (ok_or IOError contents)) (\<lambda>buffer.
     mbind (mlift (ok_or OpenSSLError (key_from_pem X buffer))) (\<lambda>key.
     mbind mget (\<lambda>s.
     if ca_key_pkey s \<noteq> None then mthrow BadStateError
     else mmodify (\<lambda>s. s\<lparr>ca_key_pkey := Some key\<rparr>))))"

definition get_ca_key :: "('k, 'k) pas_op" where
  "get_ca_key = mbind mget (\<lambda>s. mlift (ok_or BadStateError (ca_key_pkey s)))"

definition VERACRUZ_RUNTIME_HASH_EXTENSION_ID :: "byte list" where
  "VERACRUZ_RUNTIME_HASH_EXTENSION_ID = [2, 5, 30, 1]"

definition extension_name :: string where
  "extension_name =
     join_with CHR ''.'' (map (\<lambda>b. show_nat (unat b)) VERACRUZ_RUNTIME_HASH_EXTENSION_ID)"

text \<open>
  The calls of the builder that fail only for want of memory are taken to succeed; signing, and reading the certificate
  of the authority, may fail.
\<close>

definition new_certificate :: "('k, 'p) pas_crates \<Rightarrow> 'p CertificateRequest \<Rightarrow> (nat \<times> string) list \<Rightarrow> byte list \<Rightarrow> 'p Certificate" where
  "new_certificate X csr issuer_name enclave_hash =
     \<lparr>cert_version = 2, cert_not_before = 0, cert_not_after = 1, cert_serial_number = 23, cert_issuer = issuer_name,
      cert_subject = req_subject csr, cert_public_key = req_public_key csr, cert_dns = ''ComputeEnclave.dev'',
      cert_critical = True, cert_ca = False, cert_pathlen = 1,
      cert_extension = (extension_name, ''DER:'' @ pas_hex_encode X enclave_hash)\<rparr>"

definition convert_csr_to_certificate :: "('k, 'p) pas_crates \<Rightarrow> byte list \<Rightarrow> byte list \<Rightarrow> ('k, byte list) pas_op" where
  "convert_csr_to_certificate X csr_der enclave_hash =
     mbind (mlift (ok_or OpenSSLError (csr_from_der X csr_der))) (\<lambda>csr.
     mbind (mlift (ok_or OpenSSLError (csr_verify X csr_der (req_public_key csr)))) (\<lambda>verified.
     if \<not> verified then mthrow CsrVerifyError
     else
     mbind get_ca_certificate (\<lambda>ca_der.
     mbind (mlift (ok_or OpenSSLError (subject_of X ca_der))) (\<lambda>entries.
     mbind (mlift (ok_or OpenSSLError (those (map (\<lambda>(nid, text). map_option (Pair nid) text) entries)))) (\<lambda>issuer_name.
     mbind get_ca_key (\<lambda>private_key.
     mlift (ok_or OpenSSLError (x509_sign X private_key (new_certificate X csr issuer_name enclave_hash)))))))))"

section \<open>Challenges\<close>

definition on_pas_buffers :: "(buffers, TransportProtocolError, 'a) sm \<Rightarrow> ('k, 'a) pas_op" where
  "on_pas_buffers m = merr PasTransportError (mzoom pas_buffers (\<lambda>h s. s\<lparr>pas_buffers := h\<rparr>) m)"

text \<open>Both protocols start in the same way, each with its own table. The challenge is what the random generator fills in.\<close>

definition psa_start :: "proto_crates \<Rightarrow> ('k, 'p) pas_crates \<Rightarrow> byte list \<Rightarrow> string \<Rightarrow> i32 \<Rightarrow> ('k, string) pas_op" where
  "psa_start P X random version device_id =
     mbind (mmodify (\<lambda>s. s\<lparr>psa_context := (psa_context s)(device_id \<mapsto>
       \<lparr>firmware_version = version, challenge = random\<rparr>)\<rparr>)) (\<lambda>_.
     mbind (mlift (map_err PasTransportError (serialize_psa_attestation_init P random device_id))) (\<lambda>serialized.
     mreturn (base64_encode X serialized)))"

definition nitro_start :: "proto_crates \<Rightarrow> ('k, 'p) pas_crates \<Rightarrow> byte list \<Rightarrow> string \<Rightarrow> i32 \<Rightarrow> ('k, string) pas_op" where
  "nitro_start P X random version device_id =
     mbind (mmodify (\<lambda>s. s\<lparr>nitro_context := (nitro_context s)(device_id \<mapsto>
       \<lparr>firmware_version = version, challenge = random\<rparr>)\<rparr>)) (\<lambda>_.
     mbind (mlift (map_err PasTransportError (serialize_psa_attestation_init P random device_id))) (\<lambda>serialized.
     mreturn (base64_encode X serialized)))"

text \<open>Decoding of the body, common to the three handlers.\<close>

definition parse_body :: "proto_crates \<Rightarrow> ('k, 'p) pas_crates \<Rightarrow> string \<Rightarrow> ('k, ProxyAttestationServerRequest) pas_op" where
  "parse_body P X body =
     mbind (mlift (ok_or Base64Error (base64_decode X body))) (\<lambda>received_bytes.
     on_pas_buffers (parse_proxy_attestation_server_request P None received_bytes))"

definition attestation_start ::
  "proto_crates \<Rightarrow> ('k, 'p) pas_crates \<Rightarrow> Platform \<Rightarrow> byte list \<Rightarrow> string \<Rightarrow> ('k, string) pas_op" where
  "attestation_start P X B random body =
     mbind (parse_body P X body) (\<lambda>parsed.
     case proxy_request_oneof parsed of
       Some (StartMsg _) \<Rightarrow>
         let (protocol, version) = parse_start_msg parsed in
         mbind mget (\<lambda>s.
         let device_id = device_id_counter s in
         mbind (mmodify (\<lambda>s. s\<lparr>device_id_counter := device_id_counter s + 1\<rparr>)) (\<lambda>_.
         if protocol = ''psa'' \<and> B \<in> {Linux, IceCap} then psa_start P X random version device_id
         else if protocol = ''nitro'' \<and> B = Nitro then nitro_start P X random version device_id
         else mthrow UnknownAttestationTokenError))
     | _ \<Rightarrow> mthrow (MissingFieldError ''start msg''))"

section \<open>Tokens\<close>

definition PUBLIC_KEY :: "byte list" where
  "PUBLIC_KEY =
     [0x4, 0x5f, 0x5, 0x5d, 0x39, 0xd9, 0xad, 0x60, 0x89, 0xf1, 0x33, 0x7e, 0x6c, 0xf9, 0x57, 0xe,
      0x6f, 0x84, 0x25, 0x5f, 0x16, 0xf8, 0xcd, 0x9c, 0xe4, 0xa0, 0xa2, 0x8d, 0x7a, 0x4f, 0xb7, 0xe4,
      0xd3, 0x60, 0x37, 0x2a, 0x81, 0x4f, 0x7, 0xc2, 0x5a, 0x24, 0x85, 0xbf, 0x47, 0xbc, 0x84, 0x47,
      0x40, 0xc5, 0x9b, 0xff, 0xff, 0xd2, 0x76, 0x32, 0x82, 0x4d, 0x76, 0x4d, 0xb4, 0x50, 0xee, 0x9f,
      0x22]"

text \<open>\<^verbatim>\<open>payload[lo..hi]\<close>, which panics when the payload is too short.\<close>

definition payload_range :: "byte list \<Rightarrow> nat \<Rightarrow> nat \<Rightarrow> ('s, 'e, byte list) sm" where
  "payload_range payload lo hi = (if hi \<le> length payload then mreturn (take (hi - lo) (drop lo payload)) else mpanic)"

definition respond_with_chain :: "proto_crates \<Rightarrow> ('k, 'p) pas_crates \<Rightarrow> byte list \<Rightarrow> ('k, string) pas_op" where
  "respond_with_chain P X cert =
     mbind get_ca_certificate (\<lambda>root_cert_der.
     mbind (mlift (map_err PasTransportError (serialize_cert_chain P cert root_cert_der))) (\<lambda>response_bytes.
     mreturn (base64_encode X response_bytes)))"

text \<open>
  The handler for a token up to the point where it has its response. Only the lock of the table is held while the context is
  read; the entry is removed at the end, under the lock again.
\<close>

definition psa_check_token :: "proto_crates \<Rightarrow> ('k, 'p) pas_crates \<Rightarrow> string \<Rightarrow> ('k, i32 \<times> string) pas_op" where
  "psa_check_token P X body =
     mbind (parse_body P X body) (\<lambda>parsed.
     case proxy_request_oneof parsed of
       Some (NativePsaAttestationToken m) \<Rightarrow>
         let (token, csr, device_id) = parse_native_psa_attestation_token m in
         mbind mget (\<lambda>s.
         mbind (mlift (ok_or (NoDeviceError device_id) (psa_context s device_id))) (\<lambda>context.
         let (lpk_ret, key_handle) = cose_load_key X PUBLIC_KEY in
         if lpk_ret \<noteq> 0 then mthrow (PasUnsafeCallError ''attestation_token t_cose_sign1_verify_load_public_key'' lpk_ret)
         else let (sv_ret, payload) = cose_verify X key_handle token in
         if sv_ret \<noteq> 0 then mthrow (PasUnsafeCallError ''attestation_token t_cose_sign1_verify'' sv_ret)
         else
         mbind (payload_range payload 8 40) (\<lambda>received_challenge.
         if challenge context \<noteq> received_challenge
         then mthrow (MismatchError ''payload_vec[8..40]'' (challenge context) received_challenge)
         else
         mbind (payload_range payload 86 118) (\<lambda>received_csr_hash.
         if received_csr_hash \<noteq> pas_sha256 X csr
         then mthrow (MismatchError ''received_csr_hash'' (pas_sha256 X csr) received_csr_hash)
         else
         mbind (payload_range payload 47 79) (\<lambda>received_enclave_hash.
         mbind (convert_csr_to_certificate X csr received_enclave_hash) (\<lambda>cert.
         mbind (respond_with_chain P X cert) (\<lambda>response_b64.
         mreturn (device_id, response_b64))))))))
     | _ \<Rightarrow> mthrow (MissingFieldError ''native_psa_attestation_token''))"

definition psa_forget :: "i32 \<Rightarrow> ('k, unit) pas_op" where
  "psa_forget device_id = mmodify (\<lambda>s. s\<lparr>psa_context := (psa_context s)(device_id := None)\<rparr>)"

definition psa_attestation_token :: "proto_crates \<Rightarrow> ('k, 'p) pas_crates \<Rightarrow> string \<Rightarrow> ('k, string) pas_op" where
  "psa_attestation_token P X body =
     mbind (psa_check_token P X body) (\<lambda>(device_id, response_b64).
     mbind (psa_forget device_id) (\<lambda>_.
     mreturn response_b64))"

definition AWS_NITRO_ROOT_CERTIFICATE :: "byte list" where
  "AWS_NITRO_ROOT_CERTIFICATE =
     [0x30, 0x82, 0x02, 0x11, 0x30, 0x82, 0x01, 0x96, 0xa0, 0x03, 0x02, 0x01, 0x02, 0x02, 0x11, 0x00,
      0xf9, 0x31, 0x75, 0x68, 0x1b, 0x90, 0xaf, 0xe1, 0x1d, 0x46, 0xcc, 0xb4, 0xe4, 0xe7, 0xf8, 0x56,
      0x30, 0x0a, 0x06, 0x08, 0x2a, 0x86, 0x48, 0xce, 0x3d, 0x04, 0x03, 0x03, 0x30, 0x49, 0x31, 0x0b,
      0x30, 0x09, 0x06, 0x03, 0x55, 0x04, 0x06, 0x13, 0x02, 0x55, 0x53, 0x31, 0x0f, 0x30, 0x0d, 0x06,
      0x03, 0x55, 0x04, 0x0a, 0x0c, 0x06, 0x41, 0x6d, 0x61, 0x7a, 0x6f, 0x6e, 0x31, 0x0c, 0x30, 0x0a,
      0x06, 0x03, 0x55, 0x04, 0x0b, 0x0c, 0x03, 0x41, 0x57, 0x53, 0x31, 0x1b, 0x30, 0x19, 0x06, 0x03,
      0x55, 0x04, 0x03, 0x0c, 0x12, 0x61, 0x77, 0x73, 0x2e, 0x6e, 0x69, 0x74, 0x72, 0x6f, 0x2d, 0x65,
      0x6e, 0x63, 0x6c, 0x61, 0x76, 0x65, 0x73, 0x30, 0x1e, 0x17, 0x0d, 0x31, 0x39, 0x31, 0x30, 0x32,
      0x38, 0x31, 0x33, 0x32, 0x38, 0x30, 0x35, 0x5a, 0x17, 0x0d, 0x34, 0x39, 0x31, 0x30, 0x32, 0x38,
      0x31, 0x34, 0x32, 0x38, 0x30, 0x35, 0x5a, 0x30, 0x49, 0x31, 0x0b, 0x30, 0x09, 0x06, 0x03, 0x55,
      0x04, 0x06, 0x13, 0x02, 0x55, 0x53, 0x31, 0x0f, 0x30, 0x0d, 0x06, 0x03, 0x55, 0x04, 0x0a, 0x0c,
      0x06, 0x41, 0x6d, 0x61, 0x7a, 0x6f, 0x6e, 0x31, 0x0c, 0x30, 0x0a, 0x06, 0x03, 0x55, 0x04, 0x0b,
      0x0c, 0x03, 0x41, 0x57, 0x53, 0x31, 0x1b, 0x30, 0x19, 0x06, 0x03, 0x55, 0x04, 0x03, 0x0c, 0x12,
      0x61, 0x77, 0x73, 0x2e, 0x6e, 0x69, 0x74, 0x72, 0x6f, 0x2d, 0x65, 0x6e, 0x63, 0x6c, 0x61, 0x76,
      0x65, 0x73, 0x30, 0x76, 0x30, 0x10, 0x06, 0x07, 0x2a, 0x86, 0x48, 0xce, 0x3d, 0x02, 0x01, 0x06,
      0x05, 0x2b, 0x81, 0x04, 0x00, 0x22, 0x03, 0x62, 0x00, 0x04, 0xfc, 0x02, 0x54, 0xeb, 0xa6, 0x08,
      0xc1, 0xf3, 0x68, 0x70, 0xe2, 0x9a, 0xda, 0x90, 0xbe, 0x46, 0x38, 0x32, 0x92, 0x73, 0x6e, 0x89,
      0x4b, 0xff, 0xf6, 0x72, 0xd9, 0x89, 0x44, 0x4b, 0x50, 0x51, 0xe5, 0x34, 0xa4, 0xb1, 0xf6, 0xdb,
      0xe3, 0xc0, 0xbc, 0x58, 0x1a, 0x32, 0xb7, 0xb1, 0x76, 0x07, 0x0e, 0xde, 0x12, 0xd6, 0x9a, 0x3f,
      0xea, 0x21, 0x1b, 0x66, 0xe7, 0x52, 0xcf, 0x7d, 0xd1, 0xdd, 0x09, 0x5f, 0x6f, 0x13, 0x70, 0xf4,
      0x17, 0x08, 0x43, 0xd9, 0xdc, 0x10, 0x01, 0x21, 0xe4, 0xcf, 0x63, 0x01, 0x28, 0x09, 0x66, 0x44,
      0x87, 0xc9, 0x79, 0x62, 0x84, 0x30, 0x4d, 0xc5, 0x3f, 0xf4, 0xa3, 0x42, 0x30, 0x40, 0x30, 0x0f,
      0x06, 0x03, 0x55, 0x1d, 0x13, 0x01, 0x01, 0xff, 0x04, 0x05, 0x30, 0x03, 0x01, 0x01, 0xff, 0x30,
      0x1d, 0x06, 0x03, 0x55, 0x1d, 0x0e, 0x04, 0x16, 0x04, 0x14, 0x90, 0x25, 0xb5, 0x0d, 0xd9, 0x05,
      0x47, 0xe7, 0x96, 0xc3, 0x96, 0xfa, 0x72, 0x9d, 0xcf, 0x99, 0xa9, 0xdf, 0x4b, 0x96, 0x30, 0x0e,
      0x06, 0x03, 0x55, 0x1d, 0x0f, 0x01, 0x01, 0xff, 0x04, 0x04, 0x03, 0x02, 0x01, 0x86, 0x30, 0x0a,
      0x06, 0x08, 0x2a, 0x86, 0x48, 0xce, 0x3d, 0x04, 0x03, 0x03, 0x03, 0x69, 0x00, 0x30, 0x66, 0x02,
      0x31, 0x00, 0xa3, 0x7f, 0x2f, 0x91, 0xa1, 0xc9, 0xbd, 0x5e, 0xe7, 0xb8, 0x62, 0x7c, 0x16, 0x98,
      0xd2, 0x55, 0x03, 0x8e, 0x1f, 0x03, 0x43, 0xf9, 0x5b, 0x63, 0xa9, 0x62, 0x8c, 0x3d, 0x39, 0x80,
      0x95, 0x45, 0xa1, 0x1e, 0xbc, 0xbf, 0x2e, 0x3b, 0x55, 0xd8, 0xae, 0xee, 0x71, 0xb4, 0xc3, 0xd6,
      0xad, 0xf3, 0x02, 0x31, 0x00, 0xa2, 0xf3, 0x9b, 0x16, 0x05, 0xb2, 0x70, 0x28, 0xa5, 0xdd, 0x4b,
      0xa0, 0x69, 0xb5, 0x01, 0x6e, 0x65, 0xb4, 0xfb, 0xde, 0x8f, 0xe0, 0x06, 0x1d, 0x6a, 0x53, 0x19,
      0x7f, 0x9c, 0xda, 0xf5, 0xd9, 0x43, 0xbc, 0x61, 0xfc, 0x2b, 0xeb, 0x03, 0xcb, 0x6f, 0xee, 0x8d,
      0x23, 0x02, 0xf3, 0xdf, 0xf6]"

definition nitro_attestation_token :: "proto_crates \<Rightarrow> ('k, 'p) pas_crates \<Rightarrow> string \<Rightarrow> ('k, string) pas_op" where
  "nitro_attestation_token P X body =
     mbind (parse_body P X body) (\<lambda>parsed.
     case proxy_request_oneof parsed of
       Some (NitroAttestationDoc m) \<Rightarrow>
         let (att_doc_data, device_id) = parse_nitro_attestation_doc m in
         mbind (mlift (ok_or CborError (authenticate_document X att_doc_data AWS_NITRO_ROOT_CERTIFICATE))) (\<lambda>document.
         mbind mget (\<lambda>s.
         mbind (mmodify (\<lambda>s. s\<lparr>nitro_context := (nitro_context s)(device_id := None)\<rparr>)) (\<lambda>_.
         mbind (mlift (ok_or (NoDeviceError device_id) (nitro_context s device_id))) (\<lambda>context.
         mbind (mlift (ok_or (MissingFieldError ''nonce'') (doc_nonce document))) (\<lambda>nonce.
         if nonce \<noteq> challenge context then mthrow (MismatchError ''nonce/challenge'' (challenge context) nonce)
         else if doc_pcrs document = [] then mpanic
         else
         mbind (mlift (ok_or (MissingFieldError ''public_key'') (doc_user_data document))) (\<lambda>csr.
         mbind (payload_range (doc_pcrs document ! 0) 0 32) (\<lambda>received_enclave_hash.
         mbind (convert_csr_to_certificate X csr received_enclave_hash) (\<lambda>cert.
         respond_with_chain P X cert))))))))
     | _ \<Rightarrow> mthrow (MissingFieldError ''nitro_attestation_doc''))"

section \<open>The routes\<close>

definition psa_router :: "proto_crates \<Rightarrow> ('k, 'p) pas_crates \<Rightarrow> Platform \<Rightarrow> string \<Rightarrow> string \<Rightarrow> ('k, string) pas_op" where
  "psa_router P X B psa_request input_data =
     (if B \<in> {Linux, IceCap}
      then if psa_request = ''AttestationToken'' then psa_attestation_token P X input_data
           else mthrow UnsupportedRequestError
      else mthrow UnimplementedRequestError)"

definition nitro_router :: "proto_crates \<Rightarrow> ('k, 'p) pas_crates \<Rightarrow> Platform \<Rightarrow> string \<Rightarrow> string \<Rightarrow> ('k, string) pas_op" where
  "nitro_router P X B nitro_request input_data =
     (if B = Nitro
      then if nitro_request = ''AttestationToken'' then nitro_attestation_token P X input_data
           else mthrow UnsupportedRequestError
      else mthrow UnimplementedRequestError)"

text \<open>A request with the path it is posted to, and the random bytes a start message would draw.\<close>

datatype PasRequest = StartRequest "byte list" string | PsaRequest string string | NitroRequest string string

definition pas_server :: "('k, 'p) pas_crates \<Rightarrow> byte list option \<Rightarrow> byte list option \<Rightarrow> ('k, unit) pas_op" where
  "pas_server X ca_cert ca_key = mbind (load_ca_certificate X ca_cert) (\<lambda>_. load_ca_key X ca_key)"

definition pas_route :: "proto_crates \<Rightarrow> ('k, 'p) pas_crates \<Rightarrow> Platform \<Rightarrow> PasRequest \<Rightarrow> ('k, string) pas_op" where
  "pas_route P X B request =
     (case request of
        StartRequest random body \<Rightarrow> attestation_start P X B random body
      | PsaRequest path body \<Rightarrow> psa_router P X B path body
      | NitroRequest path body \<Rightarrow> nitro_router P X B path body)"

section \<open>Requests in several threads\<close>

text \<open>
  The state of the server with the requests that have their response but have not yet removed their context, and the
  certificates sent so far, each with its device. A handler shares with others only the tables under locks, so its steps are
  the ones between two locks; the handlers other than that for PSA tokens take the lock of a context once.
\<close>

record 'k PasThreads =
  pas_state :: "'k PasState"
  in_flight :: "(i32 \<times> string) list"
  sent :: "(i32 \<times> string) list"

inductive pas_step ::
  "proto_crates \<Rightarrow> ('k, 'p) pas_crates \<Rightarrow> Platform \<Rightarrow> 'k PasThreads \<Rightarrow> 'k PasThreads \<Rightarrow> bool" for P X B where
  handle: "(\<And>path body. request \<noteq> PsaRequest path body) \<Longrightarrow>
     pas_step P X B t (t\<lparr>pas_state := snd (pas_route P X B request (pas_state t))\<rparr>)"
| check: "B \<in> {Linux, IceCap} \<Longrightarrow> psa_check_token P X body (pas_state t) = (Ok r, s) \<Longrightarrow>
     pas_step P X B t (t\<lparr>pas_state := s, in_flight := r # in_flight t\<rparr>)"
| refuse: "B \<in> {Linux, IceCap} \<Longrightarrow> psa_check_token P X body (pas_state t) = (e, s) \<Longrightarrow> \<not> is_ok e \<Longrightarrow>
     pas_step P X B t (t\<lparr>pas_state := s\<rparr>)"
| finish: "in_flight t = rs @ r # rs' \<Longrightarrow>
     pas_step P X B t (t\<lparr>pas_state := snd (psa_forget (fst r) (pas_state t)), in_flight := rs @ rs', sent := r # sent t\<rparr>)"

section \<open>Lemmas\<close>

lemma parse_body_Ok:
  assumes "parse_body P X body s = (Ok parsed, s')"
  obtains bytes where "base64_decode X body = Some bytes"
    and "parse_proxy_attestation_server_request P None bytes (pas_buffers s) = (Ok parsed, pas_buffers s')"
    and "s' = s\<lparr>pas_buffers := pas_buffers s'\<rparr>"
proof -
  obtain bytes where b: "base64_decode X body = Some bytes"
    using assms by (cases "base64_decode X body") (auto simp: parse_body_def ok_or_def mlift_def mbind_def)
  obtain r h where m: "parse_proxy_attestation_server_request P None bytes (pas_buffers s) = (r, h)" by fastforce
  have "map_err PasTransportError r = Ok parsed" "s' = s\<lparr>pas_buffers := h\<rparr>"
    using assms by (simp_all add: parse_body_def b ok_or_def mlift_def mbind_def on_pas_buffers_def merr_def mzoom_def m)
  then show ?thesis using b m that by (cases r) auto
qed

lemma handle_buffer_None:
  assumes "handle_protocol_buffer None input h = (Ok full, h')" and "h 0 = None"
  shows "h' = h"
  using assms
  by (auto simp: handle_protocol_buffer_def Let_def monad_defs mbind_def get_length_prefix_def split: if_splits)

lemma parse_body_same:
  assumes "parse_body P X body s = (Ok parsed, s')" and "pas_buffers s 0 = None"
  shows "s' = s"
proof -
  obtain bytes where "parse_message (proxy_request_codec P) None bytes (pas_buffers s) = (Ok parsed, pas_buffers s')"
    and s': "s' = s\<lparr>pas_buffers := pas_buffers s'\<rparr>"
    using parse_body_Ok [OF assms(1)] by (auto simp: parse_proxy_attestation_server_request_def)
  then have "pas_buffers s' = pas_buffers s"
    using handle_buffer_None [of _ "pas_buffers s"] assms(2) by (auto simp: parse_message_def mlift_def elim!: mbind_OkE)
  then show ?thesis using s' by (metis PasState.surjective PasState.update_convs(6))
qed

lemma payload_range_Ok:
  "payload_range payload lo hi s = (Ok b, s') \<longleftrightarrow> hi \<le> length payload \<and> b = take (hi - lo) (drop lo payload) \<and> s' = s"
  by (auto simp: payload_range_def monad_defs)

lemma mlift_Ok_iff: "mlift r s = (Ok a, s') \<longleftrightarrow> r = Ok a \<and> s' = s"
  by (auto simp: mlift_def)

lemma ok_or_Ok_iff: "ok_or e x = Ok a \<longleftrightarrow> x = Some a"
  by (cases x) (auto simp: ok_or_def)

lemma get_ca_Ok:
  "get_ca_certificate s = (Ok der, s') \<longleftrightarrow> ca_cert_der s = Some der \<and> s' = s"
  "get_ca_key s = (Ok key, s'') \<longleftrightarrow> ca_key_pkey s = Some key \<and> s'' = s"
  by (auto simp: get_ca_certificate_def get_ca_key_def mlift_Ok_iff ok_or_Ok_iff)

lemma mbind_lift_Ok: "mbind (mlift r) f s = (Ok b, s') \<longleftrightarrow> (\<exists>a. r = Ok a \<and> f a s = (Ok b, s'))"
  by (cases r) (auto simp: mbind_def mlift_def)

lemma map_err_Ok_iff: "map_err f r = Ok a \<longleftrightarrow> r = Ok a"
  by (cases r) auto

lemma mbind_ca_Ok:
  "mbind get_ca_certificate f s = (Ok b, s') \<longleftrightarrow> (\<exists>der. ca_cert_der s = Some der \<and> f der s = (Ok b, s'))"
  "mbind get_ca_key g s = (Ok c, s'') \<longleftrightarrow> (\<exists>key. ca_key_pkey s = Some key \<and> g key s = (Ok c, s''))"
  by (cases "ca_cert_der s"; cases "ca_key_pkey s";
      simp add: get_ca_certificate_def get_ca_key_def ok_or_def mbind_def mlift_def mget_def)+

lemma convert_csr_Ok:
  assumes "convert_csr_to_certificate X csr_der h s = (Ok der, s')"
  shows "\<exists>csr key issuer. csr_from_der X csr_der = Some csr \<and> csr_verify X csr_der (req_public_key csr) = Some True \<and>
    ca_key_pkey s = Some key \<and> x509_sign X key (new_certificate X csr issuer h) = Some der \<and> s' = s"
proof -
  obtain csr where 1: "csr_from_der X csr_der = Some csr" "csr_verify X csr_der (req_public_key csr) = Some True"
    using assms by (auto simp: convert_csr_to_certificate_def mbind_lift_Ok ok_or_Ok_iff mthrow_def split: if_splits)
  then obtain issuer key where "ca_key_pkey s = Some key" "x509_sign X key (new_certificate X csr issuer h) = Some der" "s' = s"
    using assms by (auto simp: convert_csr_to_certificate_def mbind_lift_Ok mbind_ca_Ok mlift_Ok_iff ok_or_Ok_iff)
  then show ?thesis using 1 by blast
qed

lemma respond_Ok:
  "respond_with_chain P X cert s = (Ok r, s') \<longleftrightarrow>
     (\<exists>root bytes. ca_cert_der s = Some root \<and> serialize_cert_chain P cert root = Ok bytes \<and> r = base64_encode X bytes \<and> s' = s)"
  by (auto simp: respond_with_chain_def mbind_ca_Ok mbind_lift_Ok map_err_Ok_iff mreturn_def)

lemma mbind_range_Ok:
  "mbind (payload_range payload lo hi) f s = (Ok b, s') \<longleftrightarrow>
     hi \<le> length payload \<and> f (take (hi - lo) (drop lo payload)) s = (Ok b, s')"
  by (auto simp: payload_range_def mpanic_def mbind_def mreturn_def)

text \<open>What a successful check of a token has found.\<close>

lemma check_token_Ok:
  assumes "psa_check_token P X body s = (Ok (device_id, response), s')"
  shows "\<exists>parsed m context handle payload der root bytes.
    parse_body P X body s = (Ok parsed, s') \<and> proxy_request_oneof parsed = Some (NativePsaAttestationToken m) \<and>
    device_id = native_device_id m \<and> psa_context s device_id = Some context \<and>
    cose_load_key X PUBLIC_KEY = (0, handle) \<and> cose_verify X handle (native_token m) = (0, payload) \<and> 118 \<le> length payload \<and>
    take 32 (drop 8 payload) = challenge context \<and> take 32 (drop 86 payload) = pas_sha256 X (native_csr m) \<and>
    convert_csr_to_certificate X (native_csr m) (take 32 (drop 47 payload)) s' = (Ok der, s') \<and>
    ca_cert_der s = Some root \<and> serialize_cert_chain P der root = Ok bytes \<and> response = base64_encode X bytes"
proof -
  obtain parsed s1 where parsed: "parse_body P X body s = (Ok parsed, s1)"
    using assms unfolding psa_check_token_def by (rule mbind_OkE) blast
  have same: "psa_context s1 = psa_context s" "ca_cert_der s1 = ca_cert_der s"
    using parse_body_Ok [OF parsed] by (metis PasState.ext_inject PasState.surjective PasState.update_convs(6))+
  obtain m where m: "proxy_request_oneof parsed = Some (NativePsaAttestationToken m)"
    using assms parsed by (auto simp: psa_check_token_def mbind_def mthrow_def split: option.splits ProxyRequestMessage.splits)
  obtain lpk handle where lpk: "cose_load_key X PUBLIC_KEY = (lpk, handle)" by fastforce
  obtain sv payload where sv: "cose_verify X handle (native_token m) = (sv, payload)" by fastforce
  note run = assms [unfolded psa_check_token_def] parsed m lpk sv
  obtain ctx where c: "psa_context s1 (native_device_id m) = Some ctx"
    using run by (auto simp: parse_native_psa_attestation_token_def mbind_lift_Ok ok_or_Ok_iff)
  have zero: "lpk = 0" "sv = 0"
    using run c by (auto simp: parse_native_psa_attestation_token_def mbind_lift_Ok ok_or_Ok_iff mthrow_def split: if_splits)
  have payload: "118 \<le> length payload" "take 32 (drop 8 payload) = challenge ctx"
    "take 32 (drop 86 payload) = pas_sha256 X (native_csr m)"
    using run c zero
    by (auto simp: parse_native_psa_attestation_token_def mbind_lift_Ok ok_or_Ok_iff mbind_range_Ok mthrow_def split: if_splits)
  have "mbind (convert_csr_to_certificate X (native_csr m) (take 32 (drop 47 payload))) (\<lambda>cert.
      mbind (respond_with_chain P X cert) (\<lambda>r. mreturn (native_device_id m, r))) s1 = (Ok (device_id, response), s')"
    using run c zero payload
    by (auto simp: parse_native_psa_attestation_token_def mbind_lift_Ok ok_or_Ok_iff mbind_range_Ok split: if_splits)
  then obtain der s2 where der: "convert_csr_to_certificate X (native_csr m) (take 32 (drop 47 payload)) s1 = (Ok der, s2)"
    and rest: "mbind (respond_with_chain P X der) (\<lambda>r. mreturn (native_device_id m, r)) s2 = (Ok (device_id, response), s')"
    by (rule mbind_OkE)
  have s2: "s2 = s1" using convert_csr_Ok [OF der] by blast
  obtain r s3 where r: "respond_with_chain P X der s1 = (Ok r, s3)" "device_id = native_device_id m" "response = r" "s' = s3"
    using rest s2 by (auto simp: mreturn_def elim!: mbind_OkE)
  then show ?thesis using parsed m c lpk sv zero payload der s2 same by (auto simp: respond_Ok)
qed

text \<open>A message that is not complete leaves its bytes in the buffer all requests share.\<close>

lemma handle_buffer_more:
  assumes "h 0 = Some (n, received)" and "length received + length input < unat n"
  shows "handle_protocol_buffer None input h = (Err (PartialBuffer 0), h(0 \<mapsto> (n, received @ input)))"
  using assms by (simp add: handle_protocol_buffer_def monad_defs mbind_def)

lemma parse_body_more:
  assumes "pas_buffers s 0 = Some (n, received)" and "base64_decode X body = Some input"
    and "length received + length input < unat n"
  shows "parse_body P X body s =
    (Err (PasTransportError (PartialBuffer 0)), s\<lparr>pas_buffers := (pas_buffers s)(0 \<mapsto> (n, received @ input))\<rparr>)"
  using assms
  by (simp add: parse_body_def ok_or_def mlift_def mbind_def on_pas_buffers_def merr_def mzoom_def
      parse_proxy_attestation_server_request_def parse_message_def handle_buffer_more)

lemma mbind_stops: "m s = (Err e, s') \<Longrightarrow> mbind m f s = (Err e, s')"
  by (simp add: mbind_def)

definition request_body :: "PasRequest \<Rightarrow> string" where
  "request_body request = (case request of StartRequest _ body \<Rightarrow> body | PsaRequest _ body \<Rightarrow> body | NitroRequest _ body \<Rightarrow> body)"

text \<open>The bytes the requests of a sequence carry.\<close>

definition carried :: "('k, 'p) pas_crates \<Rightarrow> PasRequest list \<Rightarrow> nat" where
  "carried X requests = sum_list (map (\<lambda>r. case base64_decode X (request_body r) of None \<Rightarrow> 0 | Some b \<Rightarrow> length b) requests)"

primrec serve_all ::
  "proto_crates \<Rightarrow> ('k, 'p) pas_crates \<Rightarrow> Platform \<Rightarrow> PasRequest list \<Rightarrow> 'k PasState \<Rightarrow>
   (ProxyAttestationServerError, string) result list" where
  "serve_all P X B [] s = []"
| "serve_all P X B (r # rs) s = (case pas_route P X B r s of (x, s') \<Rightarrow> x # serve_all P X B rs s')"

lemma route_body:
  "(\<exists>e. pas_route P X B r = mthrow e) \<or> (\<exists>f. pas_route P X B r = mbind (parse_body P X (request_body r)) f)"
proof (cases r)
  case (StartRequest random body)
  then show ?thesis unfolding pas_route_def request_body_def attestation_start_def by auto
next
  case (PsaRequest path body)
  then show ?thesis
    unfolding pas_route_def request_body_def psa_router_def psa_attestation_token_def psa_check_token_def mbind_assoc by auto
next
  case (NitroRequest path body)
  then show ?thesis unfolding pas_route_def request_body_def nitro_router_def nitro_attestation_token_def by auto
qed

lemma parse_body_bad:
  "base64_decode X body = None \<Longrightarrow> parse_body P X body s = (Err Base64Error, s)"
  by (simp add: parse_body_def ok_or_def mlift_def mbind_def)

lemma route_Err:
  assumes "parse_body P X (request_body r) s = (Err e, s')"
  shows "\<exists>e s''. pas_route P X B r s = (Err e, s'') \<and> s'' \<in> {s, s'}"
  using route_body [of P X B r] assms by (auto simp: mbind_stops mthrow_def)

lemma serve_blocked:
  assumes "pas_buffers s 0 = Some (n, received)" and "length received + carried X rs < unat n"
  shows "\<forall>x \<in> set (serve_all P X B rs s). \<exists>e. x = Err e"
  using assms
proof (induction rs arbitrary: s received)
  case (Cons r rs)
  show ?case
  proof (cases "base64_decode X (request_body r)")
    case None
    then obtain e where "pas_route P X B r s = (Err e, s)"
      using route_Err [of P X r s Base64Error s B] parse_body_bad by blast
    then show ?thesis using Cons.IH [of s received] Cons.prems None by (simp add: carried_def)
  next
    case (Some input)
    have few: "length received + length input < unat n" using Cons.prems(2) Some by (simp add: carried_def)
    obtain e s' where r: "pas_route P X B r s = (Err e, s')"
      and s': "s' = s \<or> s' = s\<lparr>pas_buffers := (pas_buffers s)(0 \<mapsto> (n, received @ input))\<rparr>"
      using route_Err [OF parse_body_more [OF Cons.prems(1) Some few], of P B] by blast
    have "\<exists>received'. pas_buffers s' 0 = Some (n, received') \<and> length received' + carried X rs < unat n"
      using s' Cons.prems Some by (auto simp: carried_def)
    then show ?thesis using Cons.IH r by auto
  qed
qed simp

lemma check_token_state:
  assumes "psa_check_token P X body s = (Ok r, s')"
  shows "psa_context s' = psa_context s" and "pas_buffers s 0 = None \<Longrightarrow> s' = s"
proof -
  obtain parsed where parsed: "parse_body P X body s = (Ok parsed, s')"
    using check_token_Ok [of P X body s "fst r" "snd r" s'] assms by auto
  show "psa_context s' = psa_context s"
    using parse_body_Ok [OF parsed] by (metis PasState.ext_inject PasState.surjective PasState.update_convs(6))
  show "s' = s" if "pas_buffers s 0 = None" using parse_body_same [OF parsed that] .
qed

lemma attestation_token_run:
  assumes "psa_check_token P X body s = (Ok (d, response), s')"
  shows "psa_attestation_token P X body s = (Ok response, s'\<lparr>psa_context := (psa_context s)(d := None)\<rparr>)"
  using assms check_token_state(1) [OF assms] by (simp add: psa_attestation_token_def psa_forget_def mbind_def monad_defs)

lemma attestation_token_Ok:
  assumes "psa_attestation_token P X body s = (Ok response, s')"
  obtains d s1 where "psa_check_token P X body s = (Ok (d, response), s1)"
    and "s' = s1\<lparr>psa_context := (psa_context s)(d := None)\<rparr>"
proof -
  obtain d response' s1 where c: "psa_check_token P X body s = (Ok (d, response'), s1)"
    using assms unfolding psa_attestation_token_def by (auto elim!: mbind_OkE)
  then show ?thesis using attestation_token_run [OF c] assms that by auto
qed

lemma check_token_device:
  assumes "psa_check_token P X body s = (Ok (d, response), s')" and "pas_buffers t = pas_buffers s" and "psa_context t d = None"
    and "pas_buffers s 0 = None"
  shows "psa_check_token P X body t = (Err (NoDeviceError d), t)"
proof -
  obtain parsed m where parsed: "parse_body P X body s = (Ok parsed, s')"
    and m: "proxy_request_oneof parsed = Some (NativePsaAttestationToken m)" "d = native_device_id m"
    using check_token_Ok [OF assms(1)] by blast
  obtain bytes where b: "base64_decode X body = Some bytes"
    and p: "parse_proxy_attestation_server_request P None bytes (pas_buffers s) = (Ok parsed, pas_buffers s')"
    using parse_body_Ok [OF parsed] by blast
  have "pas_buffers s' = pas_buffers s" using parse_body_same [OF parsed assms(4)] by simp
  then have "parse_body P X body t = (Ok parsed, t)"
    using b p assms(2)
    by (simp add: parse_body_def ok_or_def mlift_def mbind_def on_pas_buffers_def merr_def mzoom_def)
  then show ?thesis
    using m assms(3)
    by (simp add: psa_check_token_def mbind_def parse_native_psa_attestation_token_def mget_def mlift_def ok_or_def)
qed

section \<open>One certificate for each challenge\<close>

text \<open>The handler for Nitro removes the challenge when it reads it.\<close>

definition reads_only :: "('s, 'e, 'a) sm \<Rightarrow> bool" where
  "reads_only m \<longleftrightarrow> (\<forall>s. snd (m s) = s)"

lemma reads_only_intros:
  "reads_only (mlift r)" "reads_only (mreturn a)" "reads_only (mthrow e)" "reads_only mpanic" "reads_only mget"
  "reads_only m \<Longrightarrow> (\<And>a. reads_only (f a)) \<Longrightarrow> reads_only (mbind m f)"
  by (auto simp: reads_only_def monad_defs mbind_def split: result.splits prod.splits)

lemma answer_reads_only:
  "reads_only (payload_range payload lo hi)" "reads_only (convert_csr_to_certificate X csr h)"
  "reads_only (respond_with_chain P X cert)"
  unfolding payload_range_def convert_csr_to_certificate_def respond_with_chain_def get_ca_certificate_def get_ca_key_def
  by (auto intro!: reads_only_intros)

lemma parse_body_frame: "parse_body P X body s = (x, s') \<Longrightarrow> \<exists>h. s' = s\<lparr>pas_buffers := h\<rparr>"
  by (cases "base64_decode X body")
    (auto simp: parse_body_def ok_or_def mlift_def mbind_def on_pas_buffers_def merr_def mzoom_def split: prod.splits
      intro: exI [of _ "pas_buffers s"])

lemma reads_only_run: "reads_only m \<Longrightarrow> m s = (x, s') \<Longrightarrow> s' = s"
  unfolding reads_only_def by (metis snd_conv)

lemma nitro_token_run:
  assumes "nitro_attestation_token P X body s = (x, s')"
  shows "\<exists>d. (nitro_context s' = nitro_context s \<and> \<not> is_ok x) \<or>
    (nitro_context s' = (nitro_context s)(d := None) \<and> (is_ok x \<longrightarrow> nitro_context s d \<noteq> None))"
proof -
  obtain px s1 where p: "parse_body P X body s = (px, s1)" by fastforce
  have s1: "nitro_context s1 = nitro_context s" using parse_body_frame [OF p] by auto
  show ?thesis
  proof (cases "\<exists>parsed m document. px = Ok parsed \<and> proxy_request_oneof parsed = Some (NitroAttestationDoc m) \<and>
      authenticate_document X (fst (parse_nitro_attestation_doc m)) AWS_NITRO_ROOT_CERTIFICATE = Some document")
    case False
    then have "nitro_context s' = nitro_context s1 \<and> \<not> is_ok x"
      using assms p
      by (auto simp: nitro_attestation_token_def mbind_def mthrow_def mlift_def ok_or_def
          split: result.splits option.splits ProxyRequestMessage.splits prod.splits)
    then show ?thesis using s1 by simp
  next
    case True
    then obtain parsed m document where m: "px = Ok parsed" "proxy_request_oneof parsed = Some (NitroAttestationDoc m)"
      "authenticate_document X (fst (parse_nitro_attestation_doc m)) AWS_NITRO_ROOT_CERTIFICATE = Some document" by blast
    obtain doc d where md: "parse_nitro_attestation_doc m = (doc, d)" by fastforce
    let ?s = "s1\<lparr>nitro_context := (nitro_context s1)(d := None)\<rparr>"
    define rest where "rest = (\<lambda>context :: AttestationContext.
         mbind (mlift (ok_or (MissingFieldError ''nonce'') (doc_nonce document))) (\<lambda>nonce.
         if nonce \<noteq> challenge context then mthrow (MismatchError ''nonce/challenge'' (challenge context) nonce)
         else if doc_pcrs document = [] then mpanic
         else
         mbind (mlift (ok_or (MissingFieldError ''public_key'') (doc_user_data document))) (\<lambda>csr.
         mbind (payload_range (doc_pcrs document ! 0) 0 32) (\<lambda>received_enclave_hash.
         mbind (convert_csr_to_certificate X csr received_enclave_hash) (\<lambda>cert.
         respond_with_chain P X cert)))))"
    have ro: "reads_only (rest c)" for c
      unfolding rest_def by (auto intro!: reads_only_intros answer_reads_only)
    have run: "mbind (mlift (ok_or (NoDeviceError d) (nitro_context s1 d))) rest ?s = (x, s')"
      using assms p m md by (simp add: nitro_attestation_token_def rest_def mbind_def mlift_def ok_or_def monad_defs)
    have "reads_only (mbind (mlift (ok_or (NoDeviceError d) (nitro_context s1 d))) rest)"
      by (intro reads_only_intros ro)
    then have "s' = ?s" using run by (rule reads_only_run)
    moreover have "nitro_context s1 d \<noteq> None" if "is_ok x"
      using run that by (cases "nitro_context s1 d") (auto simp: mbind_def mlift_def ok_or_def)
    ultimately show ?thesis using s1 by auto
  qed
qed

lemma start_run:
  assumes "attestation_start P X B random body s = (x, s')"
  shows "dom (nitro_context s') \<subseteq> insert (device_id_counter s) (dom (nitro_context s))"
proof -
  obtain px s1 where p: "parse_body P X body s = (px, s1)" by fastforce
  have s1: "nitro_context s1 = nitro_context s" "device_id_counter s1 = device_id_counter s"
    using parse_body_frame [OF p] by auto
  have "dom (nitro_context s') \<subseteq> insert (device_id_counter s1) (dom (nitro_context s1))"
    using assms p
    by (auto simp: attestation_start_def psa_start_def nitro_start_def mbind_def monad_defs mlift_def Let_def
        split: result.splits option.splits ProxyRequestMessage.splits prod.splits if_splits)
  then show ?thesis using s1 by simp
qed

fun is_start :: "PasRequest \<Rightarrow> bool" where
  "is_start (StartRequest _ _) = True"
| "is_start _ = False"

lemma route_challenges:
  assumes r: "pas_route P X Nitro r s = (x, s')" and "finite (dom (nitro_context s))"
  shows "finite (dom (nitro_context s')) \<and>
    card (dom (nitro_context s')) + (if \<not> is_start r \<and> is_ok x then 1 else 0) \<le>
    card (dom (nitro_context s)) + (if is_start r then 1 else 0)"
proof (cases r)
  case (StartRequest random body)
  then have sub: "dom (nitro_context s') \<subseteq> insert (device_id_counter s) (dom (nitro_context s))"
    using start_run [of P X Nitro random body s x s'] r by (simp add: pas_route_def)
  have "card (dom (nitro_context s')) \<le> Suc (card (dom (nitro_context s)))"
    using card_mono [OF _ sub] assms(2) card_insert_le_m1 by (simp add: card_insert_if split: if_splits)
  then show ?thesis using assms(2) StartRequest finite_subset [OF sub] by simp
next
  case (PsaRequest path body)
  then show ?thesis using r assms(2) by (auto simp: pas_route_def psa_router_def mthrow_def)
next
  case (NitroRequest path body)
  then consider "x = Err UnsupportedRequestError" "s' = s" | "nitro_attestation_token P X body s = (x, s')"
    using r by (auto simp: pas_route_def nitro_router_def mthrow_def split: if_splits)
  then show ?thesis
  proof cases
    case 2
    then obtain d where "(nitro_context s' = nitro_context s \<and> \<not> is_ok x) \<or>
        (nitro_context s' = (nitro_context s)(d := None) \<and> (is_ok x \<longrightarrow> nitro_context s d \<noteq> None))"
      using nitro_token_run by blast
    moreover have "nitro_context s d \<noteq> None \<Longrightarrow> 0 < card (dom (nitro_context s))"
      using assms(2) by (auto simp: card_gt_0_iff)
    ultimately show ?thesis using assms(2) NitroRequest
      by (auto simp: dom_fun_upd card_Diff_singleton_if split: if_splits)
  qed (use NitroRequest assms(2) in auto)
qed

section \<open>Properties\<close>

text \<open>A server that knows one signed token, for the examples.\<close>

definition demo_native_token :: NativePsaToken where
  "demo_native_token = \<lparr>native_token = [1], native_device_id = 5, native_csr = [2]\<rparr>"

definition demo_pas_proto :: proto_crates where
  "demo_pas_proto = \<lparr>request_codec = one_message demo_request,
     response_codec = one_message (new_response FAILED_NOT_READY None),
     proxy_request_codec = one_message (new_proxy_request (NativePsaAttestationToken demo_native_token)),
     proxy_response_codec = one_message (new_proxy_response (CertChain \<lparr>root_cert = [3], enclave_cert = [4]\<rparr>))\<rparr>"

definition demo_pas :: "(nat, nat) pas_crates" where
  "demo_pas = \<lparr>base64_encode = (\<lambda>_. ''chain''),
     base64_decode = (\<lambda>t. if t = ''token'' then Some [0, 0, 0, 0, 0, 0, 0, 3, 7, 7, 7]
       else if t = ''part'' then Some [1, 0, 0, 0, 0, 0, 0, 0] else None),
     pas_sha256 = (\<lambda>_. replicate 32 6), pas_hex_encode = (\<lambda>_. ''08''), cert_der_from_pem = Some, key_from_pem = (\<lambda>_. Some 1),
     subject_of = (\<lambda>_. Some []), csr_from_der = (\<lambda>_. Some \<lparr>req_subject = [], req_public_key = 2\<rparr>),
     csr_verify = (\<lambda>_ _. Some True), x509_sign = (\<lambda>_ _. Some [4]), cose_load_key = (\<lambda>_. (0, 1)),
     cose_verify = (\<lambda>_ _. (0, replicate 8 0 @ replicate 32 9 @ replicate 7 0 @ replicate 32 8 @ replicate 7 0 @ replicate 32 6)),
     authenticate_document = (\<lambda>_ _. None)\<rparr>"

definition demo_pas_state :: "nat PasState" where
  "demo_pas_state = \<lparr>device_id_counter = 6, ca_cert_der = Some [3], ca_key_pkey = Some 1,
     psa_context = [5 \<mapsto> \<lparr>firmware_version = [], challenge = replicate 32 9\<rparr>], nitro_context = Map.empty, pas_buffers = Map.empty\<rparr>"

lemma demo_check:
  "psa_check_token demo_pas_proto demo_pas ''token'' demo_pas_state = (Ok (5, ''chain''), demo_pas_state)"
  by (simp add: psa_check_token_def parse_body_def on_pas_buffers_def parse_proxy_attestation_server_request_def
      parse_message_def handle_protocol_buffer_def get_length_prefix_def monad_defs mbind_def merr_def mzoom_def ok_or_def
      demo_pas_def demo_pas_state_def demo_pas_proto_def demo_native_token_def one_message_def new_proxy_request_def new_proxy_response_def
      parse_native_psa_attestation_token_def payload_range_def convert_csr_to_certificate_def respond_with_chain_def
      get_ca_certificate_def get_ca_key_def serialize_cert_chain_def serialize_def from_be_bytes_def)

text \<open>
  C12. When the server answers a PSA token with a certificate chain, it had a challenge outstanding for the device, the token
  carries a signature under the built-in public key, the signed payload holds that challenge and the digest of the certificate
  request, the request is signed by the key it names, and the leaf of the chain is signed by the key of the authority and
  carries the key of the request and the measurement of the payload. The challenge is used up.
\<close>

theorem psa_certificate_issued:
  assumes "psa_attestation_token P X body s = (Ok response, s')"
  shows "\<exists>parsed m context handle payload csr issuer key der root bytes s1.
    parse_body P X body s = (Ok parsed, s1) \<and> proxy_request_oneof parsed = Some (NativePsaAttestationToken m) \<and>
    psa_context s (native_device_id m) = Some context \<and>
    cose_load_key X PUBLIC_KEY = (0, handle) \<and> cose_verify X handle (native_token m) = (0, payload) \<and> 118 \<le> length payload \<and>
    take 32 (drop 8 payload) = challenge context \<and> take 32 (drop 86 payload) = pas_sha256 X (native_csr m) \<and>
    csr_from_der X (native_csr m) = Some csr \<and> csr_verify X (native_csr m) (req_public_key csr) = Some True \<and>
    ca_key_pkey s = Some key \<and> x509_sign X key (new_certificate X csr issuer (take 32 (drop 47 payload))) = Some der \<and>
    ca_cert_der s = Some root \<and> serialize_cert_chain P der root = Ok bytes \<and> response = base64_encode X bytes \<and>
    psa_context s' = (psa_context s)(native_device_id m := None)"
proof -
  obtain d s1 where check: "psa_check_token P X body s = (Ok (d, response), s1)"
    and s': "s' = s1\<lparr>psa_context := (psa_context s)(d := None)\<rparr>"
    using assms by (rule attestation_token_Ok)
  obtain parsed m ctx handle payload der root bytes where token:
    "parse_body P X body s = (Ok parsed, s1)" "proxy_request_oneof parsed = Some (NativePsaAttestationToken m)"
    "d = native_device_id m" "psa_context s d = Some ctx"
    "cose_load_key X PUBLIC_KEY = (0, handle)" "cose_verify X handle (native_token m) = (0, payload)" "118 \<le> length payload"
    "take 32 (drop 8 payload) = challenge ctx" "take 32 (drop 86 payload) = pas_sha256 X (native_csr m)"
    "convert_csr_to_certificate X (native_csr m) (take 32 (drop 47 payload)) s1 = (Ok der, s1)"
    "ca_cert_der s = Some root" "serialize_cert_chain P der root = Ok bytes" "response = base64_encode X bytes"
    using check_token_Ok [OF check] by blast
  moreover have "ca_key_pkey s1 = ca_key_pkey s"
    using parse_body_Ok [OF token(1)] by (metis PasState.ext_inject PasState.surjective PasState.update_convs(6))
  moreover have "psa_context s' = (psa_context s)(native_device_id m := None)" using s' token(3) by simp
  ultimately show ?thesis using convert_csr_Ok [OF token(10)] by metis
qed

theorem psa_certificate_issued_witness:
  "psa_attestation_token demo_pas_proto demo_pas ''token'' demo_pas_state =
     (Ok ''chain'', demo_pas_state\<lparr>psa_context := (psa_context demo_pas_state)(5 := None)\<rparr>) \<and>
   (\<exists>(m :: NativePsaToken) context payload. psa_context demo_pas_state (native_device_id m) = Some context \<and>
      cose_verify demo_pas 1 (native_token m) = (0, payload) \<and> take 32 (drop 8 payload) = challenge context)"
proof -
  have run: "psa_attestation_token demo_pas_proto demo_pas ''token'' demo_pas_state =
      (Ok ''chain'', demo_pas_state\<lparr>psa_context := (psa_context demo_pas_state)(5 := None)\<rparr>)"
    by (rule attestation_token_run [OF demo_check])
  obtain m :: NativePsaToken and ctx handle payload where found: "psa_context demo_pas_state (native_device_id m) = Some ctx"
    "cose_load_key demo_pas PUBLIC_KEY = (0, handle)" "cose_verify demo_pas handle (native_token m) = (0, payload)"
    "take 32 (drop 8 payload) = challenge ctx"
    using psa_certificate_issued [OF run] by blast
  have "handle = 1" using found(2) by (simp add: demo_pas_def)
  then show ?thesis using found run by blast
qed

text \<open>
  C30. A challenge is meant for one certificate, and is when requests come one after the other: once a token has been
  answered, another for the same device is refused. But the challenge is removed only after the answer is ready. When the
  requests come together, both are answered with a certificate.
\<close>

theorem psa_token_race:
  assumes "psa_check_token P X body1 s = (Ok (d, response1), s1)" and "psa_check_token P X body2 s = (Ok (d, response2), s2)"
    and "pas_buffers s 0 = None" and "B \<in> {Linux, IceCap}"
  shows "fst (psa_attestation_token P X body2 (snd (psa_attestation_token P X body1 s))) = Err (NoDeviceError d) \<and>
    (\<exists>t. (pas_step P X B)\<^sup>*\<^sup>* \<lparr>pas_state = s, in_flight = [], sent = []\<rparr> t \<and> in_flight t = [] \<and>
      sent t = [(d, response2), (d, response1)])"
proof
  have same: "s1 = s" "s2 = s" using check_token_state(2) assms by blast+
  define s' where "s' = s\<lparr>psa_context := (psa_context s)(d := None)\<rparr>"
  have first: "psa_attestation_token P X body1 s = (Ok response1, s')"
    using attestation_token_run [OF assms(1)] same by (simp add: s'_def)
  have "psa_check_token P X body2 s' = (Err (NoDeviceError d), s')"
    by (rule check_token_device [OF assms(2)]) (use assms(3) in \<open>simp_all add: s'_def\<close>)
  then show "fst (psa_attestation_token P X body2 (snd (psa_attestation_token P X body1 s))) = Err (NoDeviceError d)"
    unfolding first by (simp add: psa_attestation_token_def mbind_def)
  let ?t = "\<lambda>f r. \<lparr>pas_state = s, in_flight = f, sent = r\<rparr>"
  have steps: "pas_step P X B (?t [] []) (?t [(d, response1)] [])"
    "pas_step P X B (?t [(d, response1)] []) (?t [(d, response2), (d, response1)] [])"
    using pas_step.check [OF assms(4), of P X body1 "?t [] []"] assms(1)
      pas_step.check [OF assms(4), of P X body2 "?t [(d, response1)] []"] assms(2) same by auto
  have "pas_step P X B (?t [(d, response2), (d, response1)] [])
      \<lparr>pas_state = s', in_flight = [(d, response2)], sent = [(d, response1)]\<rparr>"
    using pas_step.finish [of "?t [(d, response2), (d, response1)] []" "[(d, response2)]" "(d, response1)" "[]" P X B]
    by (simp add: psa_forget_def mmodify_def s'_def)
  moreover have "pas_step P X B \<lparr>pas_state = s', in_flight = [(d, response2)], sent = [(d, response1)]\<rparr>
      \<lparr>pas_state = s', in_flight = [], sent = [(d, response2), (d, response1)]\<rparr>"
    using pas_step.finish [of "\<lparr>pas_state = s', in_flight = [(d, response2)], sent = [(d, response1)]\<rparr>"
        "[]" "(d, response2)" "[]" P X B]
    by (simp add: psa_forget_def mmodify_def s'_def)
  ultimately have "(pas_step P X B)\<^sup>*\<^sup>* (?t [] []) \<lparr>pas_state = s', in_flight = [], sent = [(d, response2), (d, response1)]\<rparr>"
    using steps by (meson converse_rtranclp_into_rtranclp rtranclp.rtrancl_refl)
  then show "\<exists>t. (pas_step P X B)\<^sup>*\<^sup>* (?t [] []) t \<and> in_flight t = [] \<and> sent t = [(d, response2), (d, response1)]"
    by (intro exI [of _ "\<lparr>pas_state = s', in_flight = [], sent = [(d, response2), (d, response1)]\<rparr>"])
      (simp add: PasThreads.select_convs)
qed

theorem psa_token_race_witness:
  "\<exists>t. (pas_step demo_pas_proto demo_pas Linux)\<^sup>*\<^sup>* \<lparr>pas_state = demo_pas_state, in_flight = [], sent = []\<rparr> t \<and>
     in_flight t = [] \<and> sent t = [(5, ''chain''), (5, ''chain'')]"
  by (rule conjunct2 [OF psa_token_race [OF demo_check demo_check]]) (simp_all add: demo_pas_state_def)

text \<open>
  C31. All requests share one reassembly buffer. After a request that announces more bytes than it has sent, every request is
  refused, whoever sends it and whatever it holds, until the announced number of bytes has arrived.
\<close>

theorem partial_request_blocks:
  assumes "base64_decode X body = Some (to_be_bytes n @ rest)" and "length rest + carried X rs < unat n"
    and "pas_buffers s 0 = None"
  shows "\<forall>y \<in> set (serve_all P X B (StartRequest random body # rs) s). \<exists>e. y = Err e"
proof -
  let ?s = "s\<lparr>pas_buffers := (pas_buffers s)(0 \<mapsto> (n, rest))\<rparr>"
  have "parse_body P X body s = (Err (PasTransportError (PartialBuffer 0)), ?s)"
    using assms
    by (simp add: parse_body_def ok_or_def mlift_def mbind_def on_pas_buffers_def merr_def mzoom_def get_length_prefix_def
      parse_proxy_attestation_server_request_def parse_message_def handle_protocol_buffer_def monad_defs)
  then have "pas_route P X B (StartRequest random body) s = (Err (PasTransportError (PartialBuffer 0)), ?s)"
    by (simp add: pas_route_def attestation_start_def mbind_stops)
  then show ?thesis using serve_blocked [of ?s n rest X rs P B] assms(2) by simp
qed

theorem partial_request_blocks_witness:
  "list_all (\<lambda>y. \<exists>e. y = Err e) (serve_all demo_pas_proto demo_pas Linux
     [StartRequest [] ''part'', PsaRequest ''AttestationToken'' ''token'', StartRequest [] ''token''] demo_pas_state)"
proof -
  have "base64_decode demo_pas ''part'' = Some (to_be_bytes 72057594037927936 @ [])"
    by (simp add: demo_pas_def to_be_bytes_def upt_rec)
  moreover have "length ([] :: byte list) + carried demo_pas [PsaRequest ''AttestationToken'' ''token'', StartRequest [] ''token''] <
      unat (72057594037927936 :: u64)"
    by (simp add: carried_def demo_pas_def request_body_def)
  moreover have "pas_buffers demo_pas_state 0 = None" by (simp add: demo_pas_state_def)
  ultimately show ?thesis unfolding list_all_iff by (rule partial_request_blocks)
qed

text \<open>
  C29. With Nitro, however requests are ordered, the server issues no more certificates than it has been asked for challenges,
  counting the challenges outstanding at the start: a challenge is removed when it is read, also when the check then fails.
\<close>

theorem nitro_certificates_bounded:
  assumes "finite (dom (nitro_context s))"
  shows "length (filter is_ok (map snd (filter (\<lambda>(r, x). \<not> is_start r) (zip rs (serve_all P X Nitro rs s))))) \<le>
    card (dom (nitro_context s)) + length (filter is_start rs)"
  using assms
proof (induction rs arbitrary: s)
  case (Cons r rs)
  obtain x s' where r: "pas_route P X Nitro r s = (x, s')" by fastforce
  then show ?case using route_challenges [OF r Cons.prems] Cons.IH [of s'] by auto
qed simp

definition demo_nitro_state :: "nat PasState" where
  "demo_nitro_state = demo_pas_state\<lparr>nitro_context := [5 \<mapsto> \<lparr>firmware_version = [], challenge = [9]\<rparr>]\<rparr>"

definition demo_nitro_proto :: proto_crates where
  "demo_nitro_proto = demo_pas_proto\<lparr>proxy_request_codec :=
     one_message (new_proxy_request (NitroAttestationDoc \<lparr>nitro_doc = [1], nitro_device_id = 5\<rparr>))\<rparr>"

definition demo_nitro :: "(nat, nat) pas_crates" where
  "demo_nitro = demo_pas\<lparr>authenticate_document :=
     (\<lambda>_ _. Some \<lparr>doc_pcrs = [replicate 48 8], doc_nonce = Some [9], doc_user_data = Some [2]\<rparr>)\<rparr>"

lemma demo_nitro_token:
  "nitro_attestation_token demo_nitro_proto demo_nitro ''token'' demo_nitro_state =
     (Ok ''chain'', demo_nitro_state\<lparr>nitro_context := Map.empty\<rparr>)"
  "nitro_attestation_token demo_nitro_proto demo_nitro ''token'' (demo_nitro_state\<lparr>nitro_context := Map.empty\<rparr>) =
     (Err (NoDeviceError 5), demo_nitro_state\<lparr>nitro_context := Map.empty\<rparr>)"
  by (simp_all add: nitro_attestation_token_def parse_body_def on_pas_buffers_def parse_proxy_attestation_server_request_def
      parse_message_def handle_protocol_buffer_def get_length_prefix_def monad_defs mbind_def merr_def mzoom_def ok_or_def
      demo_pas_def demo_nitro_def demo_nitro_state_def demo_pas_state_def demo_nitro_proto_def demo_pas_proto_def
      one_message_def new_proxy_request_def new_proxy_response_def
      parse_nitro_attestation_doc_def payload_range_def convert_csr_to_certificate_def respond_with_chain_def
      get_ca_certificate_def get_ca_key_def serialize_cert_chain_def serialize_def from_be_bytes_def)

theorem nitro_certificates_bounded_witness:
  "serve_all demo_nitro_proto demo_nitro Nitro (replicate 2 (NitroRequest ''AttestationToken'' ''token'')) demo_nitro_state =
     [Ok ''chain'', Err (NoDeviceError 5)] \<and>
   length (filter is_ok (map snd (filter (\<lambda>(r, x). \<not> is_start r)
     (zip (replicate 2 (NitroRequest ''AttestationToken'' ''token''))
        (serve_all demo_nitro_proto demo_nitro Nitro (replicate 2 (NitroRequest ''AttestationToken'' ''token'')) demo_nitro_state))))) \<le> 1"
proof
  have "pas_route demo_nitro_proto demo_nitro Nitro (NitroRequest ''AttestationToken'' ''token'') =
      nitro_attestation_token demo_nitro_proto demo_nitro ''token''"
    by (simp add: pas_route_def nitro_router_def)
  then show "serve_all demo_nitro_proto demo_nitro Nitro (replicate 2 (NitroRequest ''AttestationToken'' ''token'')) demo_nitro_state =
     [Ok ''chain'', Err (NoDeviceError 5)]"
    by (simp add: numeral_2_eq_2 demo_nitro_token)
  have "dom (nitro_context demo_nitro_state) = {5}" by (simp add: demo_nitro_state_def)
  then show "length (filter is_ok (map snd (filter (\<lambda>(r, x). \<not> is_start r)
     (zip (replicate 2 (NitroRequest ''AttestationToken'' ''token''))
        (serve_all demo_nitro_proto demo_nitro Nitro (replicate 2 (NitroRequest ''AttestationToken'' ''token'')) demo_nitro_state))))) \<le> 1"
    using nitro_certificates_bounded [of demo_nitro_state "replicate 2 (NitroRequest ''AttestationToken'' ''token'')"
        demo_nitro_proto demo_nitro]
    by (simp add: numeral_2_eq_2)
qed

end
