(* ===== verification/Client.thy ===== *)
theory Client
  imports IoUtils PolicyUtils Memory
begin

text \<open>
  The client (\<^verbatim>\<open>veracruz-client/src/veracruz_client.rs\<close>): the connection through the untrusted server, the checks of the
  certificates, of the policy and of the runtime, and the requests.

  The TLS package is a state machine that reads and writes through the connection until a call is done; it and
  the other packages are the fields of \<open>client_crates\<close>. Paths are strings of valid UTF-8.
\<close>

section \<open>Errors and packages\<close>

text \<open>The errors raised here, without the payloads of other packages.\<close>

datatype VeracruzClientError =
    ClientHexError
  | ClientUtf8Error
  | ClientIOError
  | TLSUnspecifiedError
  | ClientInvalidCiphersuiteError string
  | MbedTLSError
  | X509ParserPEMError
  | X509ParserError
  | WebpkiError
  | ClientTransportError TransportProtocolError
  | ClientPolicyError PolicyError
  | CertificateExpireError string
  | ClientMismatchError string "byte list" "byte list"
  | InvalidLengthError string nat
  | ResponseError string ResponseStatus
  | VeracruzServerResponseNoResultError
  | NoPeerCertificatesError
  | UnexpectedCertificateError
  | RuntimeHashExtensionMissingError
  | NoMatchingRuntimeIsolateHash

text \<open>
  The calls of the TLS context and what \<open>tls_advance\<close> can report: it writes to the connection and goes on with the
  result, it reads at most some number of bytes and goes on with them, the call is done with the bytes it has read, it
  fails, or it never comes to an end.
\<close>

datatype tls_call = Establish | WriteAll "byte list" | ReadToEnd

datatype 't tls_event =
    TlsSend "byte list" "bool \<Rightarrow> 't"
  | TlsRecv nat "byte list \<Rightarrow> 't"
  | TlsDone "byte list" 't
  | TlsFail 't
  | TlsWait

text \<open>The configuration of the context: the suites, the certificates of the authority, the certificate and the key of the client.\<close>

record ('c, 'k) tls_config =
  tls_ciphersuites :: "int list"
  tls_ca_list :: "'c list"
  tls_own_cert :: "'c list"
  tls_own_key :: 'k

record ('t, 'w, 'c, 'k) client_crates =
  client_policy_crates :: policy_crates
  client_proto :: proto_crates
  client_base64_encode :: "byte list \<Rightarrow> string"
  client_base64_decode :: "string \<Rightarrow> byte list option"
  http_post :: "string \<Rightarrow> string \<Rightarrow> 'w \<Rightarrow> string option \<times> 'w"
  from_pem_multiple :: "byte list \<Rightarrow> 'c list option"
  pk_from_private_key :: "byte list \<Rightarrow> 'k option"
  pk_from_public_key :: "byte list \<Rightarrow> 'k option"
  write_public_der :: "'k \<Rightarrow> byte list option"
  pem_read :: "byte list \<Rightarrow> byte list option"
  parse_x509 :: "byte list \<Rightarrow> (byte list \<times> bool) option"
  mbedtls_ciphersuite :: "string \<Rightarrow> int option"
  tls_new :: "('c, 'k) tls_config \<Rightarrow> 't"
  tls_begin :: "tls_call \<Rightarrow> 't \<Rightarrow> 't"
  tls_advance :: "'t \<Rightarrow> 't tls_event"
  peer_cert :: "'t \<Rightarrow> byte list list option option"
  ee_extensions :: "byte list \<Rightarrow> (byte list \<rightharpoonup> byte list) option"

section \<open>The connection\<close>

record InsecureConnection =
  conn_read_buffer :: "byte list"
  conn_server_url :: string
  conn_session_id :: "u32 option"

text \<open>\<open>network\<close> is the world behind the URL of the server; \<open>client_buffers\<close> the static table of the transport protocol.\<close>

record ('t, 'w) VeracruzClient =
  tls_context :: 't
  connection :: InsecureConnection
  client_policy :: Policy
  client_policy_hash :: string
  client_buffers :: buffers
  network :: 'w

type_synonym ('t, 'w, 'a) client_op = "(('t, 'w) VeracruzClient, VeracruzClientError, 'a) sm"

definition connection_read :: "nat \<Rightarrow> InsecureConnection \<Rightarrow> byte list \<times> InsecureConnection" where
  "connection_read len conn =
     (let n = min len (length (conn_read_buffer conn)) in
      (take n (conn_read_buffer conn), conn\<lparr>conn_read_buffer := drop n (conn_read_buffer conn)\<rparr>))"

text \<open>The bodies that follow the session number are decoded and appended one after the other, up to the first that cannot be decoded.\<close>

definition append_items ::
  "('t, 'w, 'c, 'k) client_crates \<Rightarrow> string list \<Rightarrow> (InsecureConnection, unit, unit) sm" where
  "append_items X items =
     mfold (\<lambda>_ item.
       mbind (mlift (ok_or () (client_base64_decode X item))) (\<lambda>this_body_data.
       mmodify (\<lambda>conn. conn\<lparr>conn_read_buffer := conn_read_buffer conn @ this_body_data\<rparr>))) () items"

definition connection_write ::
  "('t, 'w, 'c, 'k) client_crates \<Rightarrow> byte list \<Rightarrow> (InsecureConnection \<times> 'w, unit, nat) sm" where
  "connection_write X data =
     mbind mget (\<lambda>(conn, w).
     let session_id = (case conn_session_id conn of None \<Rightarrow> 0 | Some n \<Rightarrow> n);
         combined_string = show_nat (unat session_id) @ '' '' @ client_base64_encode X data;
         (answer, w') = http_post X (''http://'' @ conn_server_url conn @ ''/runtime_manager'') combined_string w in
     mbind (mmodify (\<lambda>(conn, _). (conn, w'))) (\<lambda>_.
     mbind (mlift (ok_or () answer)) (\<lambda>body.
     mbind (case split_whitespace body of
              [] \<Rightarrow> mreturn ()
            | number # items \<Rightarrow>
                mbind (mlift (ok_or () (parse_u32 number))) (\<lambda>received_session_id.
                mzoom fst (\<lambda>conn s. (conn, snd s))
                  (mbind (mmodify (\<lambda>conn. conn\<lparr>conn_session_id := Some received_session_id\<rparr>)) (\<lambda>_.
                   append_items X items)))) (\<lambda>_.
     mreturn (length data)))))"

text \<open>A call of the TLS context, with the connection and the network it runs on. \<open>None\<close> is a call that does not end.\<close>

partial_function (option) run_tls ::
  "('t, 'w, 'c, 'k) client_crates \<Rightarrow> 't \<Rightarrow> InsecureConnection \<times> 'w \<Rightarrow>
   ((unit, byte list) result \<times> 't \<times> InsecureConnection \<times> 'w) option" where
  "run_tls X t cw =
     (case tls_advance X t of
        TlsSend data k \<Rightarrow>
          (case connection_write X data cw of
             (Ok _, cw') \<Rightarrow> run_tls X (k True) cw'
           | (Err _, cw') \<Rightarrow> run_tls X (k False) cw'
           | (_, cw') \<Rightarrow> None)
      | TlsRecv n k \<Rightarrow> run_tls X (k (fst (connection_read n (fst cw)))) (snd (connection_read n (fst cw)), snd cw)
      | TlsDone b t' \<Rightarrow> Some (Ok b, t', cw)
      | TlsFail t' \<Rightarrow> Some (Err (), t', cw)
      | TlsWait \<Rightarrow> None)"

definition tls_operation ::
  "('t, 'w, 'c, 'k) client_crates \<Rightarrow> tls_call \<Rightarrow> (('t, 'w) VeracruzClient, unit, byte list) sm" where
  "tls_operation X call c =
     (case run_tls X (tls_begin X call (tls_context c)) (connection c, network c) of
        None \<Rightarrow> (Stuck, c)
      | Some (r, t, conn, w) \<Rightarrow> (r, c\<lparr>tls_context := t, connection := conn, network := w\<rparr>))"

section \<open>Creation of a client\<close>

text \<open>The arguments are what reading the files gave.\<close>

definition read_cert :: "('t, 'w, 'c, 'k) client_crates \<Rightarrow> byte list option \<Rightarrow> (VeracruzClientError, 'c list) result" where
  "read_cert X contents =
     rbind (ok_or ClientIOError contents) (\<lambda>buffer.
     rbind (ok_or TLSUnspecifiedError (from_pem_multiple X (buffer @ [0]))) (\<lambda>cert_vec.
     if length cert_vec = 1 then Ok cert_vec else Err (InvalidLengthError ''cert_vec'' 1)))"

definition read_private_key :: "('t, 'w, 'c, 'k) client_crates \<Rightarrow> byte list option \<Rightarrow> (VeracruzClientError, 'k) result" where
  "read_private_key X contents =
     rbind (ok_or ClientIOError contents) (\<lambda>buffer.
     ok_or TLSUnspecifiedError (pk_from_private_key X (buffer @ [0])))"

definition check_certificate_validity ::
  "('t, 'w, 'c, 'k) client_crates \<Rightarrow> string \<Rightarrow> byte list option \<Rightarrow> 'k \<Rightarrow> (VeracruzClientError, unit) result" where
  "check_certificate_validity X filename contents public_key =
     rbind (ok_or ClientIOError contents) (\<lambda>cert_file.
     rbind (ok_or X509ParserPEMError (pem_read X cert_file)) (\<lambda>pem.
     rbind (ok_or X509ParserError (parse_x509 X pem)) (\<lambda>(subject_public_key, not_expired).
     rbind (ok_or MbedTLSError (pk_from_public_key X subject_public_key)) (\<lambda>pk.
     rbind (ok_or MbedTLSError (write_public_der X pk)) (\<lambda>cert_public_key_der.
     rbind (ok_or MbedTLSError (write_public_der X public_key)) (\<lambda>public_key_der.
     if cert_public_key_der \<noteq> public_key_der
     then Err (ClientMismatchError ''public_key'' cert_public_key_der public_key_der)
     else if \<not> not_expired then Err (CertificateExpireError filename)
     else Ok ()))))))"

definition lookup_ciphersuite_mbedtls :: "('t, 'w, 'c, 'k) client_crates \<Rightarrow> string \<Rightarrow> int option" where
  "lookup_ciphersuite_mbedtls X suite_string =
     mbedtls_ciphersuite X (map (\<lambda>c. if c = CHR ''_'' then CHR ''-'' else c) suite_string)"

definition with_policy_and_hash ::
  "('t, 'w, 'c, 'k) client_crates \<Rightarrow> string \<Rightarrow> byte list option \<Rightarrow> byte list option \<Rightarrow> Policy \<Rightarrow> string \<Rightarrow> 'w \<Rightarrow>
   (VeracruzClientError, ('t, 'w) VeracruzClient) result" where
  "with_policy_and_hash X cert_filename cert_file key_file policy h w =
     rbind (read_cert X cert_file) (\<lambda>client_cert.
     rbind (read_private_key X key_file) (\<lambda>client_priv_key.
     rbind (check_certificate_validity X cert_filename cert_file client_priv_key) (\<lambda>_.
     rbind (ok_or X509ParserError (from_pem_multiple X (as_bytes (proxy_service_cert policy) @ [0]))) (\<lambda>ca_list.
     rbind (ok_or (ClientInvalidCiphersuiteError (ciphersuite policy))
       (lookup_ciphersuite_mbedtls X (ciphersuite policy))) (\<lambda>policy_ciphersuite.
     let config = \<lparr>tls_ciphersuites = [policy_ciphersuite, 0], tls_ca_list = ca_list,
           tls_own_cert = client_cert, tls_own_key = client_priv_key\<rparr>;
         client = \<lparr>tls_context = tls_new X config,
           connection = \<lparr>conn_read_buffer = [], conn_server_url = veracruz_server_url policy, conn_session_id = Some 0\<rparr>,
           client_policy = policy, client_policy_hash = h, client_buffers = Map.empty, network = w\<rparr> in
     case merr (\<lambda>_. MbedTLSError) (tls_operation X Establish) client of
       (Ok _, client) \<Rightarrow> Ok client
     | (Err e, _) \<Rightarrow> Err e
     | (Panic, _) \<Rightarrow> Panic
     | (Stuck, _) \<Rightarrow> Stuck)))))"

definition client_new ::
  "('t, 'w, 'c, 'k) client_crates \<Rightarrow> string \<Rightarrow> byte list option \<Rightarrow> byte list option \<Rightarrow> string \<Rightarrow> 'w \<Rightarrow>
   (VeracruzClientError, ('t, 'w) VeracruzClient) result" where
  "client_new X cert_filename cert_file key_file policy_json w =
     rbind (map_err ClientPolicyError (from_json (client_policy_crates X) policy_json)) (\<lambda>policy.
     case policy_hash policy of
       None \<Rightarrow> Panic
     | Some h \<Rightarrow> with_policy_and_hash X cert_filename cert_file key_file policy h w)"

section \<open>Requests\<close>

definition client_send :: "('t, 'w, 'c, 'k) client_crates \<Rightarrow> byte list \<Rightarrow> ('t, 'w, byte list) client_op" where
  "client_send X data =
     merr (\<lambda>_. ClientIOError)
       (mbind (tls_operation X (WriteAll data)) (\<lambda>_. tls_operation X ReadToEnd))"

definition parse_response ::
  "('t, 'w, 'c, 'k) client_crates \<Rightarrow> byte list \<Rightarrow> ('t, 'w, RuntimeManagerResponse) client_op" where
  "parse_response X response =
     mbind mget (\<lambda>c.
     merr ClientTransportError (mzoom client_buffers (\<lambda>h c. c\<lparr>client_buffers := h\<rparr>)
       (parse_runtime_manager_response (client_proto X) (conn_session_id (connection c)) response)))"

text \<open>Serialise, send, parse.\<close>

definition exchange ::
  "('t, 'w, 'c, 'k) client_crates \<Rightarrow> (TransportProtocolError, byte list) result \<Rightarrow> ('t, 'w, RuntimeManagerResponse) client_op" where
  "exchange X serialized =
     mbind (mlift (map_err ClientTransportError serialized)) (\<lambda>request.
     mbind (client_send X request) (\<lambda>response.
     parse_response X response))"

definition check_policy_hash :: "('t, 'w, 'c, 'k) client_crates \<Rightarrow> ('t, 'w, unit) client_op" where
  "check_policy_hash X =
     mbind (exchange X (serialize_request_policy_hash (client_proto X))) (\<lambda>parsed_response.
     if response_status parsed_response \<noteq> SUCCESS
     then mthrow (ResponseError ''check_policy_hash'' (response_status parsed_response))
     else
     let data = (case response_oneof parsed_response of Some (PolicyHash h) \<Rightarrow> h | _ \<Rightarrow> []) in
     mbind (mlift (ok_or ClientUtf8Error (from_utf8 data))) (\<lambda>received_hash.
     mbind mget (\<lambda>c.
     if client_policy_hash c \<noteq> received_hash
     then mthrow (ClientMismatchError ''check_policy_hash'' (as_bytes (client_policy_hash c)) (as_bytes received_hash))
     else mreturn ())))"

text \<open>The loop over the platforms. A platform without a hash is skipped; a hash that is not hexadecimal ends the loop.\<close>

fun compare_hashes :: "policy_crates \<Rightarrow> Policy \<Rightarrow> byte list \<Rightarrow> Platform list \<Rightarrow> (VeracruzClientError, unit) result" where
  "compare_hashes J policy received [] = Err NoMatchingRuntimeIsolateHash"
| "compare_hashes J policy received (platform # platforms) =
     (case runtime_manager_hash policy platform of
        Ok expected \<Rightarrow>
          rbind (ok_or ClientHexError (hex_decode J expected)) (\<lambda>expected_bytes.
          if received = expected_bytes then Ok () else compare_hashes J policy received platforms)
      | _ \<Rightarrow> compare_hashes J policy received platforms)"

definition compare_runtime_hash ::
  "('t, 'w, 'c, 'k) client_crates \<Rightarrow> byte list \<Rightarrow> ('t, 'w) VeracruzClient \<Rightarrow> (VeracruzClientError, unit) result" where
  "compare_runtime_hash X received c =
     compare_hashes (client_policy_crates X) (client_policy c) received [Linux, Nitro, IceCap]"

definition check_runtime_hash :: "('t, 'w, 'c, 'k) client_crates \<Rightarrow> ('t, 'w, unit) client_op" where
  "check_runtime_hash X c =
     ((case peer_cert X (tls_context c) of
         None \<Rightarrow> Err NoPeerCertificatesError
       | Some None \<Rightarrow> Err UnexpectedCertificateError
       | Some (Some []) \<Rightarrow> Err UnexpectedCertificateError
       | Some (Some (cert # _)) \<Rightarrow>
           rbind (ok_or WebpkiError (ee_extensions X cert)) (\<lambda>ues.
           let encoded_extension_id = [2 * 40 + 5, 30, 1] in
           case ues encoded_extension_id of
             None \<Rightarrow> Err RuntimeHashExtensionMissingError
           | Some extension_data \<Rightarrow> compare_runtime_hash X extension_data c)), c)"

definition checked :: "('t, 'w, 'c, 'k) client_crates \<Rightarrow> ('t, 'w, 'a) client_op \<Rightarrow> ('t, 'w, 'a) client_op" where
  "checked X m = mbind (check_policy_hash X) (\<lambda>_. mbind (check_runtime_hash X) (\<lambda>_. m))"

definition expect_success :: "string \<Rightarrow> RuntimeManagerResponse \<Rightarrow> ('t, 'w, unit) client_op" where
  "expect_success name parsed_response =
     (if response_status parsed_response = SUCCESS then mreturn ()
      else mthrow (ResponseError name (response_status parsed_response)))"

definition expect_result :: "RuntimeManagerResponse \<Rightarrow> ('t, 'w, byte list) client_op" where
  "expect_result parsed_response =
     (case response_oneof parsed_response of
        Some (ResultData data) \<Rightarrow> mreturn data
      | _ \<Rightarrow> mthrow VeracruzServerResponseNoResultError)"

definition send_program :: "('t, 'w, 'c, 'k) client_crates \<Rightarrow> string \<Rightarrow> byte list \<Rightarrow> ('t, 'w, unit) client_op" where
  "send_program X path program =
     checked X
       (mbind (exchange X (serialize_program (client_proto X) program (enforce_leading_backslash path)))
         (expect_success ''send_program''))"

definition client_send_data :: "('t, 'w, 'c, 'k) client_crates \<Rightarrow> string \<Rightarrow> byte list \<Rightarrow> ('t, 'w, unit) client_op" where
  "client_send_data X path data =
     checked X
       (mbind (exchange X (serialize_program_data (client_proto X) data (enforce_leading_backslash path)))
         (expect_success ''send_data''))"

definition request_compute :: "('t, 'w, 'c, 'k) client_crates \<Rightarrow> string \<Rightarrow> ('t, 'w, byte list) client_op" where
  "request_compute X path =
     checked X
       (mbind (exchange X (serialize_request_result (client_proto X) (enforce_leading_backslash path))) (\<lambda>r.
        mbind (expect_success ''request_compute'' r) (\<lambda>_. expect_result r)))"

definition get_results :: "('t, 'w, 'c, 'k) client_crates \<Rightarrow> string \<Rightarrow> ('t, 'w, byte list) client_op" where
  "get_results X path =
     checked X
       (mbind (exchange X (serialize_read_file (client_proto X) (enforce_leading_backslash path))) (\<lambda>r.
        mbind (expect_success ''get_result'' r) (\<lambda>_. expect_result r)))"

definition client_request_shutdown :: "('t, 'w, 'c, 'k) client_crates \<Rightarrow> ('t, 'w, unit) client_op" where
  "client_request_shutdown X =
     mbind (mlift (map_err ClientTransportError (serialize_request_shutdown (client_proto X)))) (\<lambda>request.
     mbind (client_send X request) (\<lambda>_.
     mreturn ()))"

section \<open>Lemmas\<close>

lemma compare_hashes_Ok:
  "compare_hashes J policy received ps = Ok () \<Longrightarrow>
     \<exists>p \<in> set ps. \<exists>expected. runtime_manager_hash policy p = Ok expected \<and> hex_decode J expected = Some received"
  by (induction ps) (auto simp: ok_or_def split: result.splits option.splits if_splits)

lemma compare_hashes_accepts:
  assumes "\<And>q e. q \<in> set ps \<Longrightarrow> runtime_manager_hash policy q = Ok e \<Longrightarrow> hex_decode J e \<noteq> None"
    and "p \<in> set ps" and "runtime_manager_hash policy p = Ok expected" and "hex_decode J expected = Some received"
  shows "compare_hashes J policy received ps = Ok ()"
  using assms
proof (induction ps)
  case (Cons q ps)
  have IH: "p \<in> set ps \<Longrightarrow> compare_hashes J policy received ps = Ok ()" using Cons by auto
  show ?case
  proof (cases "runtime_manager_hash policy q")
    case (Ok e)
    then obtain b where "hex_decode J e = Some b" using Cons.prems(1) [of q e] by auto
    then show ?thesis using Ok IH Cons.prems by (auto simp: ok_or_def)
  qed (use IH Cons.prems in auto)
qed simp

lemma check_runtime_hash_state [simp]: "snd (check_runtime_hash X c) = c"
  by (simp add: check_runtime_hash_def)

lemma check_runtime_hash_Ok:
  "check_runtime_hash X c = (Ok (), c') \<longleftrightarrow> c' = c \<and>
     (\<exists>cert chain ues h. peer_cert X (tls_context c) = Some (Some (cert # chain)) \<and> ee_extensions X cert = Some ues \<and>
        ues [85, 30, 1] = Some h \<and> compare_runtime_hash X h c = Ok ())"
  by (auto simp: check_runtime_hash_def ok_or_def split: option.splits list.splits)

lemma checked_blocked:
  assumes "\<not> (\<exists>c'. check_policy_hash X c = (Ok (), c') \<and> check_runtime_hash X c' = (Ok (), c'))"
  shows "snd (checked X m c) = snd (check_policy_hash X c)" and "\<not> is_ok (fst (checked X m c))"
proof -
  obtain r c1 where r: "check_policy_hash X c = (r, c1)" by fastforce
  obtain r' where r': "check_runtime_hash X c1 = (r', c1)" using check_runtime_hash_state by (metis prod.collapse)
  have "\<not> (is_ok r \<and> is_ok r')" using assms r r' by (cases r; cases r') auto
  then show "snd (checked X m c) = snd (check_policy_hash X c)" "\<not> is_ok (fst (checked X m c))"
    using r r' by (cases r; cases r'; simp add: checked_def mbind_def)+
qed

lemma check_policy_hash_Ok:
  "check_policy_hash X c = (Ok (), c') \<Longrightarrow>
     \<exists>response h. exchange X (serialize_request_policy_hash (client_proto X)) c = (Ok response, c') \<and>
       response_status response = SUCCESS \<and> from_utf8 h = Some (client_policy_hash c') \<and>
       h = (case response_oneof response of Some (PolicyHash b) \<Rightarrow> b | _ \<Rightarrow> [])"
  by (auto simp: check_policy_hash_def Let_def monad_defs ok_or_def elim!: mbind_OkE split: if_splits option.splits)

section \<open>Properties\<close>

text \<open>
  C13. A program, data or a request for a result goes to the server only after both checks. When one of these
  operations succeeds, or does anything beyond asking for the hash of the policy, then the runtime answered with the hash of
  the client's policy, and its certificate carries in the extension of Veracruz a hash the policy lists for some platform.
\<close>

theorem client_sends_after_checks:
  assumes "m \<in> {send_program X path d, client_send_data X path d, mbind (request_compute X path) (\<lambda>_. mreturn ()),
      mbind (get_results X path) (\<lambda>_. mreturn ())}"
    and "is_ok (fst (m c)) \<or> snd (m c) \<noteq> snd (check_policy_hash X c)"
  shows "\<exists>c' response cert chain ues h p expected.
    exchange X (serialize_request_policy_hash (client_proto X)) c = (Ok response, c') \<and> response_status response = SUCCESS \<and>
    from_utf8 (case response_oneof response of Some (PolicyHash b) \<Rightarrow> b | _ \<Rightarrow> []) = Some (client_policy_hash c') \<and>
    peer_cert X (tls_context c') = Some (Some (cert # chain)) \<and> ee_extensions X cert = Some ues \<and> ues [85, 30, 1] = Some h \<and>
    p \<in> {Linux, Nitro, IceCap} \<and> runtime_manager_hash (client_policy c') p = Ok expected \<and>
    hex_decode (client_policy_crates X) expected = Some h"
proof -
  obtain m' where m': "m = checked X m'"
    using assms(1)
    by (auto simp: send_program_def client_send_data_def request_compute_def get_results_def checked_def mbind_assoc)
  obtain c' where c': "check_policy_hash X c = (Ok (), c')" "check_runtime_hash X c' = (Ok (), c')"
    using checked_blocked [of X c m'] assms(2) m' by blast
  then obtain cert chain ues h where h: "peer_cert X (tls_context c') = Some (Some (cert # chain))" "ee_extensions X cert = Some ues"
    "ues [85, 30, 1] = Some h" "compare_runtime_hash X h c' = Ok ()"
    by (auto simp: check_runtime_hash_Ok)
  then show ?thesis using compare_hashes_Ok [of _ _ h "[Linux, Nitro, IceCap]"] check_policy_hash_Ok [OF c'(1)]
    unfolding compare_runtime_hash_def by fastforce
qed

text \<open>A TLS package that sends what it is given and finds the same answer each time, for the examples.\<close>

definition demo_answer :: RuntimeManagerResponse where
  "demo_answer = new_response SUCCESS (Some (PolicyHash []))"

definition demo_client_crates :: "(nat, int, unit, unit) client_crates" where
  "demo_client_crates =
     \<lparr>client_policy_crates = \<lparr>json_policy = (\<lambda>_. None), hex_encode = (\<lambda>_. []), hex_decode = (\<lambda>_. Some [8]), sha256 = id\<rparr>,
      client_proto = \<lparr>request_codec = \<lparr>write_to_bytes = (\<lambda>_. Some [1]), parse_from_bytes = (\<lambda>_. None)\<rparr>,
        response_codec = one_message demo_answer,
        proxy_request_codec = one_message (new_proxy_request (SgxMsg1 [])),
        proxy_response_codec = one_message (new_proxy_response (SgxAttestationInit []))\<rparr>,
      client_base64_encode = (\<lambda>_. ''a''), client_base64_decode = (\<lambda>_. Some []),
      http_post = (\<lambda>_ _ w. (Some [], w + 1)), from_pem_multiple = (\<lambda>_. Some [()]), pk_from_private_key = (\<lambda>_. Some ()),
      pk_from_public_key = (\<lambda>_. Some ()), write_public_der = (\<lambda>_. Some []), pem_read = Some, parse_x509 = (\<lambda>_. Some ([], True)),
      mbedtls_ciphersuite = (\<lambda>_. Some 1), tls_new = (\<lambda>_. 0),
      tls_begin = (\<lambda>call _. case call of Establish \<Rightarrow> 0 | WriteAll _ \<Rightarrow> 3 | ReadToEnd \<Rightarrow> 2),
      tls_advance = (\<lambda>t. if t = 3 then TlsSend [1] (\<lambda>_. 0) else if t = 2 then TlsDone [0, 0, 0, 0, 0, 0, 0, 3, 7, 7, 7] 0
        else TlsDone [] 0),
      peer_cert = (\<lambda>_. Some (Some [[1]])), ee_extensions = (\<lambda>_. Some [[85, 30, 1] \<mapsto> [8]])\<rparr>"

definition demo_client :: "(nat, int) VeracruzClient" where
  "demo_client = \<lparr>tls_context = 0,
     connection = \<lparr>conn_read_buffer = [], conn_server_url = [], conn_session_id = Some 0\<rparr>,
     client_policy = demo_policy\<lparr>runtime_manager_hash_nitro := Some ''08''\<rparr>, client_policy_hash = [], client_buffers = Map.empty, network = 0\<rparr>"

lemma demo_run_tls:
  "run_tls demo_client_crates 0 cw = Some (Ok [], 0, cw)"
  "run_tls demo_client_crates 2 cw = Some (Ok [0, 0, 0, 0, 0, 0, 0, 3, 7, 7, 7], 0, cw)"
  by (subst run_tls.simps, simp add: demo_client_crates_def)+

lemma demo_client_write: "connection_write demo_client_crates [1] (conn, w) = (Ok 1, conn, w + 1)"
  by (simp add: demo_client_crates_def connection_write_def split_whitespace_def mbind_def monad_defs ok_or_def Let_def)

lemma demo_run_tls_write: "run_tls demo_client_crates 3 (conn, w) = Some (Ok [], 0, conn, w + 1)"
proof -
  have "tls_advance demo_client_crates 3 = TlsSend [1] (\<lambda>_. 0)" by (simp add: demo_client_crates_def)
  then show ?thesis by (subst run_tls.simps) (simp add: demo_client_write demo_run_tls)
qed

lemma demo_begin:
  "tls_begin demo_client_crates (WriteAll d) t = 3" "tls_begin demo_client_crates ReadToEnd t = 2"
  by (simp_all add: demo_client_crates_def)

lemma demo_tls:
  "tls_operation demo_client_crates (WriteAll d) c = (Ok [], c\<lparr>tls_context := 0, network := network c + 1\<rparr>)"
  "tls_operation demo_client_crates ReadToEnd c = (Ok [0, 0, 0, 0, 0, 0, 0, 3, 7, 7, 7], c\<lparr>tls_context := 0\<rparr>)"
  by (simp_all add: tls_operation_def demo_begin demo_run_tls demo_run_tls_write)

lemma demo_response_codec: "response_codec (client_proto demo_client_crates) = one_message demo_answer"
  by (simp add: demo_client_crates_def)

lemma demo_exchange:
  "conn_session_id (connection c) = Some 0 \<Longrightarrow> client_buffers c = Map.empty \<Longrightarrow>
   exchange demo_client_crates (Ok f) c = (Ok demo_answer, c\<lparr>tls_context := 0, network := network c + 1\<rparr>)"
  by (simp add: exchange_def client_send_def mbind_def merr_def monad_defs demo_tls parse_response_def mzoom_def
      parse_runtime_manager_response_def parse_message_def handle_protocol_buffer_def get_length_prefix_def from_be_bytes_def
      ok_or_def demo_response_codec one_message_def)

lemma demo_serialize:
  "serialize_request_policy_hash (client_proto demo_client_crates) = Ok (set_length_prefix [1])"
  "serialize_program_data (client_proto demo_client_crates) d path = Ok (set_length_prefix [1])"
  by (simp_all add: serialize_request_policy_hash_def serialize_program_data_def serialize_def demo_client_crates_def)

lemma demo_send:
  "client_send_data demo_client_crates ''in'' [5] demo_client = (Ok (), demo_client\<lparr>network := 2\<rparr>)"
proof -
  have tls: "demo_client\<lparr>tls_context := 0\<rparr> = demo_client" by (simp add: demo_client_def)
  have "check_policy_hash demo_client_crates demo_client = (Ok (), demo_client\<lparr>network := 1\<rparr>)"
    by (simp add: check_policy_hash_def demo_serialize demo_exchange mbind_def monad_defs ok_or_def demo_answer_def new_response_def
        from_utf8_def demo_client_def utf8_valid.simps)
  moreover have "check_runtime_hash demo_client_crates (demo_client\<lparr>network := 1\<rparr>) = (Ok (), demo_client\<lparr>network := 1\<rparr>)"
    by (simp add: check_runtime_hash_def compare_runtime_hash_def demo_client_def demo_client_crates_def runtime_manager_hash_def
        ok_or_def demo_policy_def)
  ultimately show ?thesis
    by (simp add: client_send_data_def checked_def mbind_def demo_serialize demo_exchange expect_success_def monad_defs
        demo_answer_def new_response_def demo_client_def)
qed

theorem client_sends_after_checks_witness:
  "client_send_data demo_client_crates ''in'' [5] demo_client = (Ok (), demo_client\<lparr>network := 2\<rparr>) \<and>
   (\<exists>p expected. p \<in> {Linux, Nitro, IceCap} \<and> runtime_manager_hash (client_policy demo_client) p = Ok expected \<and>
      hex_decode (client_policy_crates demo_client_crates) expected = Some [8])"
proof -
  have "is_ok (fst (client_send_data demo_client_crates ''in'' [5] demo_client))" by (simp add: demo_send)
  then obtain c cert ues h p expected r where found:
    "exchange demo_client_crates (serialize_request_policy_hash (client_proto demo_client_crates)) demo_client = (Ok r, c)"
    "ee_extensions demo_client_crates cert = Some ues" "ues [85, 30, 1] = Some h" "p \<in> {Linux, Nitro, IceCap}"
    "runtime_manager_hash (client_policy c) p = Ok expected" "hex_decode (client_policy_crates demo_client_crates) expected = Some h"
    using client_sends_after_checks [of "client_send_data demo_client_crates ''in'' [5]" demo_client_crates "''in''" "[5]" demo_client]
    by blast
  have "h = [8]" using found(2,3) by (auto simp: demo_client_crates_def)
  moreover have "client_policy c = client_policy demo_client"
    using found(1) by (auto simp: demo_serialize demo_exchange demo_client_def)
  ultimately show ?thesis using found(4-6) demo_send by metis
qed

end
