(* ===== verification/AttestProps.thy ===== *)
theory AttestProps
  imports RuntimeProps Attestation Client
begin

text \<open>
  Attestation from end to end: the token the runtime makes, the certificate the attestation server
  issues for it and the check the client makes on that certificate.
\<close>

section \<open>What the packages promise each other\<close>

text \<open>A token signed with the root key of the device is accepted under the public key of the server, with its payload.\<close>

definition cose_agrees :: "psa_crates \<Rightarrow> ('k, 'p) pas_crates \<Rightarrow> bool" where
  "cose_agrees Q X \<longleftrightarrow> (\<exists>vk. cose_load_key X PUBLIC_KEY = (0, vk) \<and>
     (\<forall>handle payload token. psa_import_key Q ROOT_PRIVATE_KEY = (0, handle) \<longrightarrow>
        cose_sign1 Q handle payload = (T_COSE_SUCCESS, token) \<longrightarrow> cose_verify X vk token = (0, payload)))"

text \<open>The reader of certificates finds the bytes that the builder was given for the extension of Veracruz.\<close>

definition extension_readable :: "('k, 'p) pas_crates \<Rightarrow> ('t, 'w, 'c, 'j) client_crates \<Rightarrow> bool" where
  "extension_readable X C \<longleftrightarrow>
     (\<forall>key cert der h. x509_sign X key cert = Some der \<longrightarrow>
        cert_extension cert = (extension_name, ''DER:'' @ pas_hex_encode X h) \<longrightarrow>
        (\<exists>ues. ee_extensions C der = Some ues \<and> ues [85, 30, 1] = Some h))"

section \<open>Lemmas\<close>

lemma native_attestation_claims:
  assumes "native_attestation E csr ch measurement = Ok token"
  shows "\<exists>handle. psa_import_key (env_psa E) ROOT_PRIVATE_KEY = (0, handle) \<and> length ch \<in> {32, 48, 64} \<and>
    cose_sign1 (env_psa E) handle (qcbor_map (env_psa E)
      [(EAT_CBOR_ARM_LABEL_CHALLENGE, ch), (EAT_CBOR_ARM_LABEL_SW_COMPONENTS, measurement),
       (EAT_CBOR_ARM_LABEL_ORIGINATION, sha256 (env_policy E) csr), (EAT_CBOR_ARM_LABEL_CLIENT_ID, [])]) = (T_COSE_SUCCESS, token)"
proof -
  obtain handle where "psa_import_key (env_psa E) ROOT_PRIVATE_KEY = (0, handle)"
    and "psa_initial_attest_get_token (env_psa E) handle measurement (sha256 (env_policy E) csr) [] ch 2048 = (0, token)"
    using assms by (auto simp: native_attestation_def psa_initial_attest_load_key_def Let_def split: if_splits prod.splits)
  then show ?thesis using get_token_claims by blast
qed

lemma check_token_accepts:
  assumes "parse_body P X body s = (Ok parsed, s')" and "proxy_request_oneof parsed = Some (NativePsaAttestationToken m)"
    and "psa_context s (native_device_id m) = Some ctx"
    and "cose_load_key X PUBLIC_KEY = (0, vk)" and "cose_verify X vk (native_token m) = (0, payload)" and "118 \<le> length payload"
    and "take 32 (drop 8 payload) = challenge ctx" and "take 32 (drop 86 payload) = pas_sha256 X (native_csr m)"
    and "convert_csr_to_certificate X (native_csr m) (take 32 (drop 47 payload)) s = (Ok der, s)"
    and "ca_cert_der s = Some root" and "serialize_cert_chain P der root = Ok bytes" and "pas_buffers s 0 = None"
  shows "psa_check_token P X body s = (Ok (native_device_id m, base64_encode X bytes), s)"
proof -
  have "s' = s" by (rule parse_body_same [OF assms(1,12)])
  then show ?thesis
    using assms
    by (simp add: psa_check_token_def mbind_def monad_defs parse_native_psa_attestation_token_def ok_or_def payload_range_def
        respond_with_chain_def get_ca_certificate_def)
qed

lemma convert_csr_run:
  assumes "csr_from_der X csr_der = Some csr" and "csr_verify X csr_der (req_public_key csr) = Some True"
    and "ca_cert_der s = Some root" and "ca_key_pkey s = Some key"
    and "subject_of X root = Some entries" and "those (map (\<lambda>(nid, text). map_option (Pair nid) text) entries) = Some issuer"
    and "x509_sign X key (new_certificate X csr issuer h) = Some der"
  shows "convert_csr_to_certificate X csr_der h s = (Ok der, s)"
  using assms
  by (simp add: convert_csr_to_certificate_def mbind_def monad_defs ok_or_def get_ca_certificate_def get_ca_key_def)

section \<open>Properties\<close>


text \<open>A runtime, a server and a client for the example; a certificate is the value of its extension.\<close>

definition e2e_env :: "(unit, unit, byte list, nat) runtime_env" where
  "e2e_env = demo_env\<lparr>env_policy := demo_json\<lparr>sha256 := (\<lambda>_. replicate 32 6)\<rparr>\<rparr>"

definition e2e_token :: "byte list" where
  "e2e_token = (case native_attestation e2e_env [2] (replicate 32 9) (replicate 32 8) of Ok token \<Rightarrow> token | _ \<Rightarrow> [])"

definition e2e_message :: ProxyAttestationServerRequest where
  "e2e_message = new_proxy_request (NativePsaAttestationToken
     \<lparr>native_token = e2e_token, native_device_id = 5, native_csr = [2]\<rparr>)"

definition e2e_proto :: proto_crates where
  "e2e_proto = \<lparr>request_codec = one_message demo_request, response_codec = one_message (new_response FAILED_NOT_READY None),
     proxy_request_codec = one_message e2e_message,
     proxy_response_codec = one_message (new_proxy_response (CertChain \<lparr>root_cert = [3], enclave_cert = replicate 32 8\<rparr>))\<rparr>"

definition e2e_pas :: "(nat, nat) pas_crates" where
  "e2e_pas = demo_pas\<lparr>cose_verify := (\<lambda>_ token. (0, token)), pas_hex_encode := map (\<lambda>b. char_of (unat b)),
     x509_sign := (\<lambda>_ cert. Some (as_bytes (drop 4 (snd (cert_extension cert)))))\<rparr>"

definition e2e_client_crates :: "(nat, int, unit, unit) client_crates" where
  "e2e_client_crates = demo_client_crates\<lparr>client_policy_crates := demo_json\<lparr>hex_decode := (\<lambda>_. Some (replicate 32 8))\<rparr>,
     peer_cert := (\<lambda>_. Some (Some [replicate 32 8])), ee_extensions := (\<lambda>der. Some [[85, 30, 1] \<mapsto> der])\<rparr>"

lemma e2e_native: "native_attestation e2e_env [2] (replicate 32 9) (replicate 32 8) = Ok e2e_token"
proof -
  have "\<exists>token. native_attestation e2e_env [2] (replicate 32 9) (replicate 32 8) = Ok token"
    by (rule demo_native_attestation) (simp_all add: e2e_env_def demo_env_simps)
  then show ?thesis by (auto simp: e2e_token_def)
qed

lemma byte_of_char: "of_char (char_of (unat b)) = (b :: byte)"
proof -
  have "unat b mod 256 = unat b" using unsigned_less [of b, where ?'a = nat] by simp
  then have "of_nat (of_char (char_of (unat b))) = b" by simp
  then show ?thesis by (simp only: of_nat_of_char)
qed

lemma e2e_packages:
  "qcbor_map (env_psa e2e_env) = cbor_map" "cose_agrees (env_psa e2e_env) e2e_pas" "extension_readable e2e_pas e2e_client_crates"
  "pas_sha256 e2e_pas = sha256 (env_policy e2e_env)"
proof -
  have bytes: "as_bytes (map (\<lambda>b. char_of (unat b)) h) = h" for h :: "byte list"
    by (induction h) (simp_all add: as_bytes_def byte_of_char)
  show "qcbor_map (env_psa e2e_env) = cbor_map" "pas_sha256 e2e_pas = sha256 (env_policy e2e_env)"
    by (simp_all add: e2e_env_def demo_env_simps demo_psa_def e2e_pas_def demo_pas_def)
  show "cose_agrees (env_psa e2e_env) e2e_pas"
    by (simp add: cose_agrees_def e2e_env_def demo_env_simps demo_psa_def e2e_pas_def demo_pas_def)
  show "extension_readable e2e_pas e2e_client_crates"
    using bytes by (auto simp: extension_readable_def e2e_pas_def e2e_client_crates_def)
qed

lemma e2e_server:
  "parse_body e2e_proto e2e_pas ''token'' demo_pas_state = (Ok e2e_message, demo_pas_state)"
  "serialize_cert_chain e2e_proto (replicate 32 8) [3] = Ok (set_length_prefix [7, 7, 7])"
  by (simp_all add: parse_body_def on_pas_buffers_def parse_proxy_attestation_server_request_def e2e_pas_def
      parse_message_def handle_protocol_buffer_def get_length_prefix_def monad_defs mbind_def merr_def mzoom_def ok_or_def
      demo_pas_def demo_pas_state_def e2e_proto_def one_message_def from_be_bytes_def serialize_cert_chain_def serialize_def)

lemma e2e_sign: "x509_sign e2e_pas key (new_certificate e2e_pas csr issuer (replicate 32 8)) = Some (replicate 32 8)"
  using byte_of_char [of 8] by (simp add: e2e_pas_def new_certificate_def as_bytes_def)


end
