(* ===== verification/Enclaves.thy ===== *)
theory Enclaves
  imports IoUtils Memory
begin

text \<open>
  Enclaves of AWS Nitro seen from the host: connecting to a virtual socket (\<^verbatim>\<open>io-utils/src/vsocket.rs\<close>), and starting and
  terminating an enclave with the command-line tool of the platform (\<^verbatim>\<open>io-utils/src/nitro.rs\<close>).

  The system calls and the tool are fields of \<open>nitro_crates\<close>, on a world \<open>'w\<close>. Waiting has no effect on it.
\<close>

section \<open>Virtual sockets\<close>

datatype sockopt = ReuseAddr | ReusePort

text \<open>\<open>nitro_cli\<close> runs the tool: it fails if the tool cannot be started, and else gives its success, output and error output.\<close>

record 'w nitro_crates =
  sys_socket :: "('w, nix_error, i32) sm"
  sys_setsockopt :: "i32 \<Rightarrow> sockopt \<Rightarrow> ('w, nix_error, unit) sm"
  sys_connect :: "i32 \<Rightarrow> u32 \<Rightarrow> u32 \<Rightarrow> ('w, nix_error, unit) sm"
  sys_shutdown :: "i32 \<Rightarrow> ('w, nix_error, unit) sm"
  sys_close :: "i32 \<Rightarrow> ('w, nix_error, unit) sm"
  nitro_cli :: "string \<Rightarrow> string list \<Rightarrow> ('w, unit, bool \<times> byte list \<times> byte list) sm"
  enclave_json :: "string \<Rightarrow> (u32 option option \<times> string) option"

definition MAX_CONNECTION_ATTEMPTS :: nat where
  "MAX_CONNECTION_ATTEMPTS = 5"

definition ignored :: "('w, 'e, unit) sm \<Rightarrow> ('w, 'f, unit) sm" where
  "ignored m = mcatch m mreturn (\<lambda>_. mreturn ())"

definition drop_vsocket :: "'w nitro_crates \<Rightarrow> i32 \<Rightarrow> ('w, 'e, unit) sm" where
  "drop_vsocket Y socket_fd = mbind (ignored (sys_shutdown Y socket_fd)) (\<lambda>_. ignored (sys_close Y socket_fd))"

text \<open>An early return drops the socket.\<close>

definition or_drop_vsocket :: "'w nitro_crates \<Rightarrow> i32 \<Rightarrow> ('w, nix_error, 'a) sm \<Rightarrow> ('w, nix_error, 'a) sm" where
  "or_drop_vsocket Y socket_fd m = mcatch m mreturn (\<lambda>e. mbind (drop_vsocket Y socket_fd) (\<lambda>_. mthrow e))"

primrec connect_attempts :: "'w nitro_crates \<Rightarrow> u32 \<Rightarrow> u32 \<Rightarrow> nat \<Rightarrow> nix_error \<Rightarrow> ('w, nix_error, i32) sm" where
  "connect_attempts Y cid port 0 err = mthrow err"
| "connect_attempts Y cid port (Suc n) err =
     mbind (sys_socket Y) (\<lambda>vsocket.
     mbind (or_drop_vsocket Y vsocket (sys_setsockopt Y vsocket ReuseAddr)) (\<lambda>_.
     mbind (or_drop_vsocket Y vsocket (sys_setsockopt Y vsocket ReusePort)) (\<lambda>_.
     mcatch (sys_connect Y vsocket cid port) (\<lambda>_. mreturn vsocket)
       (\<lambda>e. mbind (drop_vsocket Y vsocket) (\<lambda>_. connect_attempts Y cid port n e)))))"

text \<open>The error that is there before the first attempt stands for an operation that is not supported.\<close>

definition vsocket_connect :: "'w nitro_crates \<Rightarrow> u32 \<Rightarrow> u32 \<Rightarrow> ('w, nix_error, i32) sm" where
  "vsocket_connect Y cid port = connect_attempts Y cid port MAX_CONNECTION_ATTEMPTS NixOther"

section \<open>Enclaves\<close>

datatype NitroError =
    NitroSerdeError
  | NitroSerdeJsonError
  | NitroNixError nix_error
  | NitroVeracruzSocketError nix_error
  | NitroUtf8Error

record NitroEnclave =
  enclave_id :: string
  vsocksocket :: i32
  nitro_cli_path :: string

definition VERACRUZ_PORT :: u32 where
  "VERACRUZ_PORT = 5005"

text \<open>The tool is run until it succeeds. A loop that does not end is \<open>None\<close>.\<close>

partial_function (option) run_until_started ::
  "('w, unit, bool \<times> byte list \<times> byte list) sm \<Rightarrow> 'w \<Rightarrow> ((NitroError, byte list) result \<times> 'w) option" where
  "run_until_started cli w =
     (case cli w of
        (Err _, w') \<Rightarrow> run_until_started cli w'
      | (Ok (success, out, err), w') \<Rightarrow>
          if success then Some (Ok out, w')
          else if from_utf8 err = None then Some (Err NitroUtf8Error, w')
          else run_until_started cli w'
      | (Panic, w') \<Rightarrow> Some (Panic, w')
      | (Stuck, w') \<Rightarrow> Some (Stuck, w'))"

definition trim_matches :: "char \<Rightarrow> string \<Rightarrow> string" where
  "trim_matches c s = rev (dropWhile (\<lambda>x. x = c) (rev (dropWhile (\<lambda>x. x = c) s)))"

text \<open>
  \<open>enclave_json\<close> gives the field \<^verbatim>\<open>EnclaveCID\<close> of the output, if it is a number, as an integer of 32 bits, if it is one, and the
  printed field \<^verbatim>\<open>EnclaveID\<close>.
\<close>

definition nitro_enclave_new ::
  "'w nitro_crates \<Rightarrow> bool \<Rightarrow> string \<Rightarrow> bool \<Rightarrow> u32 \<Rightarrow> ('w, NitroError, NitroEnclave) sm" where
  "nitro_enclave_new Y nitro_sbin eif_path debug max_memory_mib =
     (let args = [''run-enclave'', ''--eif-path'', eif_path, ''--cpu-count'', ''2'', ''--memory'', show_nat (unat max_memory_mib)] @
            (if debug then [''--debug-mode=true''] else []);
          path = (if nitro_sbin then ''/usr/sbin/nitro-cli'' else ''/usr/bin/nitro-cli'') in
      mbind (or_stuck (run_until_started (nitro_cli Y path args))) (\<lambda>stdout.
      mbind (mlift (ok_or NitroUtf8Error (from_utf8 stdout))) (\<lambda>enclave_result_stdout.
      mbind (mlift (ok_or NitroSerdeJsonError (enclave_json Y enclave_result_stdout))) (\<lambda>(number, printed).
      case number of
        None \<Rightarrow> mthrow NitroSerdeError
      | Some None \<Rightarrow> mpanic
      | Some (Some cid) \<Rightarrow>
          mbind (merr NitroNixError (vsocket_connect Y cid VERACRUZ_PORT)) (\<lambda>fd.
          mreturn \<lparr>enclave_id = trim_matches CHR 0x22 printed, vsocksocket = fd, nitro_cli_path = path\<rparr>)))))"

text \<open>The tool is run until it can be started; then the socket is dropped.\<close>

partial_function (option) run_until_terminated ::
  "('w, unit, bool \<times> byte list \<times> byte list) sm \<Rightarrow> 'w \<Rightarrow> (('e, unit) result \<times> 'w) option" where
  "run_until_terminated cli w =
     (case cli w of
        (Err _, w') \<Rightarrow> run_until_terminated cli w'
      | (Ok (success, out, err), w') \<Rightarrow> Some (if \<not> success \<and> from_utf8 err = None then Panic else Ok (), w')
      | (Panic, w') \<Rightarrow> Some (Panic, w')
      | (Stuck, w') \<Rightarrow> Some (Stuck, w'))"

definition nitro_enclave_drop :: "'w nitro_crates \<Rightarrow> NitroEnclave \<Rightarrow> ('w, 'e, unit) sm" where
  "nitro_enclave_drop Y e =
     mbind (or_stuck (run_until_terminated (nitro_cli Y (nitro_cli_path e) [''terminate-enclave'', ''--enclave-id'', enclave_id e]))) (\<lambda>_.
     drop_vsocket Y (vsocksocket e))"

section \<open>Lemmas\<close>

text \<open>
  What the system promises about descriptors: opening gives one that is not in use, closing frees it even if it reports an
  error, and the other calls leave the descriptors alone.
\<close>

definition leaves :: "('w \<Rightarrow> 'd) \<Rightarrow> ('d \<Rightarrow> 'd) \<Rightarrow> ('w, 'e, 'a) sm \<Rightarrow> bool" where
  "leaves used f m \<longleftrightarrow> (\<forall>w. fst (m w) \<noteq> Panic \<and> fst (m w) \<noteq> Stuck \<and> used (snd (m w)) = f (used w))"

definition acquires :: "('w \<Rightarrow> i32 set) \<Rightarrow> i32 set \<Rightarrow> ('w, 'e, i32) sm \<Rightarrow> 'w \<Rightarrow> bool" where
  "acquires used d m w \<longleftrightarrow>
     (case m w of
        (Ok fd, w') \<Rightarrow> fd \<notin> d \<and> used w' = insert fd d
      | (Err _, w') \<Rightarrow> used w' = d
      | _ \<Rightarrow> False)"

definition descriptors_ok :: "'w nitro_crates \<Rightarrow> ('w \<Rightarrow> i32 set) \<Rightarrow> bool" where
  "descriptors_ok Y used \<longleftrightarrow>
     (\<forall>w. acquires used (used w) (sys_socket Y) w) \<and>
     (\<forall>fd opt. leaves used (\<lambda>d. d) (sys_setsockopt Y fd opt)) \<and>
     (\<forall>fd cid port. leaves used (\<lambda>d. d) (sys_connect Y fd cid port)) \<and>
     (\<forall>fd. leaves used (\<lambda>d. d) (sys_shutdown Y fd)) \<and>
     (\<forall>fd. leaves used (\<lambda>d. d - {fd}) (sys_close Y fd))"

lemma leavesE:
  assumes "leaves used f m"
  obtains (Ok) a w' where "m w = (Ok a, w')" "used w' = f (used w)" | (Err) e w' where "m w = (Err e, w')" "used w' = f (used w)"
  using assms unfolding leaves_def by (metis prod.collapse result.exhaust)

lemma ignored_run:
  assumes "leaves used f m"
  shows "\<exists>w'. ignored m w = (Ok () :: ('e, unit) result, w') \<and> used w' = f (used w)"
  using assms by (cases rule: leavesE [where w = w]) (simp_all add: ignored_def mcatch_def mreturn_def)

lemma drop_vsocket_run:
  assumes "descriptors_ok Y used"
  shows "\<exists>w'. drop_vsocket Y fd w = (Ok () :: ('e, unit) result, w') \<and> used w' = used w - {fd}"
proof -
  obtain w1 where "ignored (sys_shutdown Y fd) w = (Ok () :: ('e, unit) result, w1)" "used w1 = used w"
    using assms ignored_run [of used "\<lambda>d. d" "sys_shutdown Y fd" w, where ?'e = 'e] by (auto simp: descriptors_ok_def)
  moreover obtain w' where "ignored (sys_close Y fd) w1 = (Ok () :: ('e, unit) result, w')" "used w' = used w1 - {fd}"
    using assms ignored_run [of used "\<lambda>d. d - {fd}" "sys_close Y fd" w1, where ?'e = 'e] by (auto simp: descriptors_ok_def)
  ultimately show ?thesis by (simp add: drop_vsocket_def mbind_def)
qed

lemma or_drop_vsocket_run:
  assumes "descriptors_ok Y used" and "leaves used (\<lambda>d. d) m"
  shows "\<exists>w'. (\<exists>a. or_drop_vsocket Y fd m w = (Ok a, w')) \<and> used w' = used w \<or>
    (\<exists>e. or_drop_vsocket Y fd m w = (Err e, w')) \<and> used w' = used w - {fd}"
  using assms(2)
proof (cases rule: leavesE [where w = w])
  case (Ok a w')
  then show ?thesis by (auto simp: or_drop_vsocket_def mcatch_def mreturn_def)
next
  case (Err e w')
  then show ?thesis
    using drop_vsocket_run [OF assms(1), of fd w', where ?'e = nix_error]
    by (auto simp: or_drop_vsocket_def mcatch_def mbind_def mthrow_def)
qed

lemma acquires_setsockopt:
  assumes "descriptors_ok Y used" and "fd \<notin> d" and "used w = insert fd d"
    and "\<And>w'. used w' = insert fd d \<Longrightarrow> acquires used d k w'"
  shows "acquires used d (mbind (or_drop_vsocket Y fd (sys_setsockopt Y fd opt)) (\<lambda>_. k)) w"
proof -
  have "leaves used (\<lambda>d. d) (sys_setsockopt Y fd opt)" using assms(1) by (simp add: descriptors_ok_def)
  from or_drop_vsocket_run [OF assms(1) this, of fd w] obtain w' where
    "(\<exists>a. or_drop_vsocket Y fd (sys_setsockopt Y fd opt) w = (Ok a, w')) \<and> used w' = insert fd d \<or>
     (\<exists>e. or_drop_vsocket Y fd (sys_setsockopt Y fd opt) w = (Err e, w')) \<and> used w' = d"
    using assms(2,3) by auto
  then show ?thesis
  proof (elim disjE exE conjE)
    fix a assume run: "or_drop_vsocket Y fd (sys_setsockopt Y fd opt) w = (Ok a, w')" and "used w' = insert fd d"
    then have "acquires used d k w'" by (intro assms(4))
    then show ?thesis using run by (simp add: acquires_def mbind_def)
  qed (simp add: acquires_def mbind_def)
qed

lemma acquires_attempt:
  fixes h :: "nix_error \<Rightarrow> ('w, nix_error, i32) sm"
  assumes "descriptors_ok Y used" and "fd \<notin> d" and "used w = insert fd d"
    and "\<And>e w'. used w' = d \<Longrightarrow> acquires used d (h e) w'"
  shows "acquires used d (mcatch (sys_connect Y fd cid port) (\<lambda>_. mreturn fd) (\<lambda>e. mbind (drop_vsocket Y fd) (\<lambda>_. h e))) w"
proof -
  have "leaves used (\<lambda>d. d) (sys_connect Y fd cid port)" using assms(1) by (simp add: descriptors_ok_def)
  then show ?thesis
  proof (cases rule: leavesE [where w = w])
    case (Ok a w')
    then show ?thesis using assms(2,3) by (simp add: mcatch_def mreturn_def acquires_def)
  next
    case (Err e w')
    obtain w'' where drop: "drop_vsocket Y fd w' = (Ok () :: (nix_error, unit) result, w'')" "used w'' = used w' - {fd}"
      using drop_vsocket_run [OF assms(1)] by blast
    then have "used w'' = d" using Err(2) assms(2,3) by simp
    from assms(4) [OF this, of e] show ?thesis using Err(1) drop(1) by (simp add: mcatch_def mbind_def acquires_def)
  qed
qed

lemma acquires_connect:
  assumes "descriptors_ok Y used"
  shows "used w = d \<Longrightarrow> acquires used d (connect_attempts Y cid port n err) w"
proof (induction n arbitrary: err w)
  case 0
  then show ?case by (simp add: acquires_def mthrow_def)
next
  case (Suc n)
  have sock: "acquires used d (sys_socket Y) w" using assms Suc.prems by (auto simp: descriptors_ok_def)
  obtain r w1 where w1: "sys_socket Y w = (r, w1)" by (rule prod.exhaust)
  show ?case
  proof (cases r)
    case (Ok fd)
    then have fd: "fd \<notin> d" "used w1 = insert fd d" using sock w1 by (simp_all add: acquires_def)
    note steps = acquires_setsockopt [OF assms fd(1)] acquires_attempt [OF assms fd(1) _ Suc.IH]
    have "acquires used d
        (mbind (or_drop_vsocket Y fd (sys_setsockopt Y fd ReuseAddr)) (\<lambda>_.
         mbind (or_drop_vsocket Y fd (sys_setsockopt Y fd ReusePort)) (\<lambda>_.
         mcatch (sys_connect Y fd cid port) (\<lambda>_. mreturn fd)
           (\<lambda>e. mbind (drop_vsocket Y fd) (\<lambda>_. connect_attempts Y cid port n e))))) w1"
      using fd(2) by (intro steps)
    then show ?thesis using w1 Ok by (simp add: mbind_def acquires_def)
  qed (use sock w1 in \<open>auto simp: acquires_def mbind_def\<close>)
qed

section \<open>Properties\<close>

text \<open>
  C28. Connecting to an enclave leaks no descriptor. Whatever fails in the attempts, after an error the descriptors in use are those before
  the call; after success there is one more, the one returned.
\<close>

theorem vsocket_connect_closes:
  assumes "descriptors_ok Y used"
  shows "case vsocket_connect Y cid port w of
      (Ok fd, w') \<Rightarrow> fd \<notin> used w \<and> used w' = insert fd (used w)
    | (Err _, w') \<Rightarrow> used w' = used w
    | _ \<Rightarrow> False"
  using acquires_connect [OF assms refl, of w cid port] by (simp add: vsocket_connect_def acquires_def)

text \<open>A system with one descriptor number per attempt, on which the third attempt succeeds.\<close>

definition demo_sockets :: "(i32 \<times> i32 set) nitro_crates" where
  "demo_sockets =
     \<lparr>sys_socket = (\<lambda>(n, u). if n \<in> u then (Err NixSys, (n, u)) else (Ok n, (n + 1, insert n u))),
      sys_setsockopt = (\<lambda>_ _ w. (Ok (), w)), sys_connect = (\<lambda>fd _ _ w. (if fd = 2 then Ok () else Err NixSys, w)),
      sys_shutdown = (\<lambda>_ w. (Err NixSys, w)), sys_close = (\<lambda>fd (n, u). (Ok (), (n, u - {fd}))),
      nitro_cli = (\<lambda>_ _. mthrow ()), enclave_json = (\<lambda>_. None)\<rparr>"

theorem vsocket_connect_closes_witness:
  "\<exists>w'. vsocket_connect demo_sockets 7 5005 (0, {9}) = (Ok 2, w') \<and> snd w' = insert 2 {9}"
proof -
  have ok: "descriptors_ok demo_sockets snd"
    by (auto simp: descriptors_ok_def demo_sockets_def leaves_def acquires_def split: prod.split)
  have attempts: "MAX_CONNECTION_ATTEMPTS = Suc (Suc (Suc (Suc (Suc 0))))" by (simp add: MAX_CONNECTION_ATTEMPTS_def)
  obtain w' where run: "vsocket_connect demo_sockets 7 5005 (0, {9}) = (Ok 2, w')"
    by (simp add: vsocket_connect_def attempts demo_sockets_def mbind_def mcatch_def mreturn_def
        or_drop_vsocket_def drop_vsocket_def ignored_def)
  from vsocket_connect_closes [OF ok, of "(0, {9})" 7 5005] show ?thesis using run by simp
qed

text \<open>
  The tool is run again and again as long as it fails: if it always does, the start of an enclave does not return.
\<close>

lemma start_spins:
  assumes "\<And>w. \<exists>out w'. cli w = (Ok (False, out, []), w')"
  shows "run_until_started cli w = None"
proof -
  have "c = cli \<longrightarrow> False" if "run_until_started c w = Some r" for c r
    using that
  proof (induction rule: run_until_started.raw_induct [rotated, consumes 1, case_names step])
    case (step f c w r)
    obtain out w' where "cli w = (Ok (False, out, []), w')" using assms by blast
    then show ?case using step by (cases r) (fastforce simp: from_utf8_def utf8_valid.simps)
  qed
  then show ?thesis by (cases "run_until_started cli w") auto
qed

end
