(* ===== verification/Server.thy ===== *)
theory Server
  imports Backends Enclaves
begin

text \<open>
  The untrusted server (\<^verbatim>\<open>veracruz-server/src/\<close>): it starts the isolate and has it attested, and passes the data of the
  clients to it (\<^verbatim>\<open>veracruz_server_linux.rs\<close>, \<^verbatim>\<open>veracruz_server_nitro.rs\<close>, \<^verbatim>\<open>veracruz_server_icecap.rs\<close>), behind two HTTP requests
  (\<^verbatim>\<open>server.rs\<close>).

  The world \<open>'w\<close> holds the isolate, the sockets and the network; the operations of the system and the packages on it are the
  fields of \<open>server_crates\<close>. Requests are handled one at a time.
\<close>

section \<open>Packages and errors\<close>

datatype VeracruzServerError =
    ServerSocketError SocketError
  | ServerHttpError HttpError
  | ServerTransportError TransportProtocolError
  | ServerBase64Error
  | ServerPolicyError PolicyError
  | ServerStatus Status
  | InvalidRuntimeManagerResponse RmResponse
  | ServerIOError
  | ServerBincodeError
  | ServerNitroError NitroError
  | ServerTransportProtocol TransportProtocolError
  | ServerBase64Decode
  | InvalidProtoBufMessage
  | ChannelError
  | IceCapSerializationError
  | UnexpectedRuntimeManagerResponse RmResponse
  | UninitializedEnclaveError
  | InvalidRequestFormatError
  | ParseIntError
  | MpscSendEmptyError
  | UnimplementedError

text \<open>
  \<open>srv_socket\<close> is the TCP connection of the Linux build or the Unix socket of the IceCap build, \<open>srv_vsock\<close> the
  socket of the Nitro build. \<open>spawn_runtime\<close> writes and spawns the binary with its measurement and \<open>connect_runtime\<close> connects to it
  (Linux), \<open>srv_nitro\<close> and \<open>eif_path\<close> are for the enclave (Nitro), \<open>spawn_realm\<close> starts the emulator and connects to it
  (IceCap). \<open>shutdown_socket\<close> and \<open>kill_process\<close> end them.
\<close>

record 'w server_crates =
  srv_socket :: "'w stream_ops"
  srv_vsock :: "'w raw_ops"
  srv_request :: "RmRequest bincode"
  srv_response :: "RmResponse bincode"
  srv_http :: "'w http_crates"
  srv_proto :: proto_crates
  srv_policy :: policy_crates
  srv_image :: "byte list"
  spawn_runtime :: "string \<Rightarrow> ('w, unit, unit) sm"
  connect_runtime :: "('w, unit, unit) sm"
  srv_nitro :: "'w nitro_crates"
  eif_path :: "string option"
  spawn_realm :: "('w, unit, unit) sm"
  shutdown_socket :: "('w, unit, unit) sm"
  kill_process :: "('w, unit, unit) sm"

type_synonym ('w, 'a) server_op = "('w, VeracruzServerError, 'a) sm"

section \<open>The exchange of a message with the isolate\<close>

definition linux_call :: "'w server_crates \<Rightarrow> RmRequest \<Rightarrow> ('w, RmResponse) server_op" where
  "linux_call X request =
     mbind (merr ServerSocketError (send_message (srv_socket X) (srv_request X) request)) (\<lambda>_.
     merr ServerSocketError (receive_message (srv_socket X) (srv_response X)))"

definition nitro_call :: "'w server_crates \<Rightarrow> RmRequest \<Rightarrow> ('w, RmResponse) server_op" where
  "nitro_call X request =
     mbind (mlift (ok_or ServerBincodeError (bincode_serialize (srv_request X) request))) (\<lambda>buffer.
     mbind (merr (\<lambda>e. ServerNitroError (NitroVeracruzSocketError e)) (raw_send_buffer (srv_vsock X) buffer)) (\<lambda>_.
     mbind (merr (\<lambda>e. ServerNitroError (NitroVeracruzSocketError e)) (raw_receive_buffer (srv_vsock X))) (\<lambda>received_buffer.
     mlift (ok_or ServerBincodeError (bincode_deserialize (srv_response X) received_buffer)))))"

text \<open>
  \<^verbatim>\<open>write_all\<close> and \<^verbatim>\<open>read_exact\<close> of the Rust library, which fail when a call makes no progress. An interrupted call counts as one that
  fails here.
\<close>

partial_function (option) std_write_all ::
  "(byte list \<Rightarrow> ('f, unit, nat) sm) \<Rightarrow> byte list \<Rightarrow> 'f \<Rightarrow> ((unit, unit) result \<times> 'f) option" where
  "std_write_all w buf f =
     (if buf = [] then Some (Ok (), f)
      else case w buf f of
             (Ok n, f') \<Rightarrow> if n = 0 then Some (Err (), f') else std_write_all w (drop n buf) f'
           | (Err e, f') \<Rightarrow> Some (Err e, f')
           | (Panic, f') \<Rightarrow> Some (Panic, f')
           | (Stuck, f') \<Rightarrow> Some (Stuck, f'))"

partial_function (option) std_read_exact ::
  "(nat \<Rightarrow> ('f, unit, byte list) sm) \<Rightarrow> nat \<Rightarrow> byte list \<Rightarrow> 'f \<Rightarrow> ((unit, byte list) result \<times> 'f) option" where
  "std_read_exact r len acc f =
     (if len \<le> length acc then Some (Ok acc, f)
      else case r (len - length acc) f of
             (Ok b, f') \<Rightarrow> if b = [] then Some (Err (), f') else std_read_exact r len (acc @ b) f'
           | (Err e, f') \<Rightarrow> Some (Err e, f')
           | (Panic, f') \<Rightarrow> Some (Panic, f')
           | (Stuck, f') \<Rightarrow> Some (Stuck, f'))"

definition on_channel :: "('w \<Rightarrow> ((unit, 'a) result \<times> 'w) option) \<Rightarrow> ('w, 'a) server_op" where
  "on_channel m = merr (\<lambda>_. ChannelError) (or_stuck m)"

definition realm_communicate :: "'w server_crates \<Rightarrow> RmRequest \<Rightarrow> ('w, RmResponse) server_op" where
  "realm_communicate X request =
     mbind (mlift (ok_or IceCapSerializationError (bincode_serialize (srv_request X) request))) (\<lambda>raw_request.
     if 2 ^ 32 \<le> length raw_request then mpanic
     else
     mbind (on_channel (std_write_all (stream_write (srv_socket X)) (le_bytes 4 (length raw_request)))) (\<lambda>_.
     mbind (on_channel (std_write_all (stream_write (srv_socket X)) raw_request)) (\<lambda>_.
     mbind (on_channel (std_read_exact (stream_read (srv_socket X)) 4 [])) (\<lambda>raw_header.
     mbind (on_channel (std_read_exact (stream_read (srv_socket X)) (from_le raw_header) [])) (\<lambda>raw_response.
     mlift (ok_or IceCapSerializationError (bincode_deserialize (srv_response X) raw_response)))))))"

text \<open>The server for IceCap holds its realm until it is shut down.\<close>

definition icecap_call :: "'w server_crates \<Rightarrow> RmRequest \<Rightarrow> ('w option, RmResponse) server_op" where
  "icecap_call X request s =
     (case s of
        None \<Rightarrow> (Err UninitializedEnclaveError, None)
      | Some w \<Rightarrow> (case realm_communicate X request w of (r, w') \<Rightarrow> (r, Some w')))"

section \<open>Sessions and their data\<close>

definition linux_tls_data_needed :: "'w server_crates \<Rightarrow> u32 \<Rightarrow> ('w, bool) server_op" where
  "linux_tls_data_needed X session_id =
     mbind (linux_call X (GetTlsDataNeeded session_id)) (\<lambda>received.
     case received of TlsDataNeeded response \<Rightarrow> mreturn response | otherwise \<Rightarrow> mthrow (InvalidRuntimeManagerResponse otherwise))"

definition linux_read_tls_data :: "'w server_crates \<Rightarrow> u32 \<Rightarrow> ('w, bool \<times> byte list) server_op" where
  "linux_read_tls_data X session_id =
     mbind (linux_call X (GetTlsData session_id)) (\<lambda>received.
     case received of TlsData buffer alive \<Rightarrow> mreturn (alive, buffer) | otherwise \<Rightarrow> mthrow (InvalidRuntimeManagerResponse otherwise))"

definition linux_new_tls_session :: "'w server_crates \<Rightarrow> ('w, u32) server_op" where
  "linux_new_tls_session X =
     mbind (linux_call X NewTlsSession) (\<lambda>message.
     case message of TlsSession session_id \<Rightarrow> mreturn session_id | otherwise \<Rightarrow> mthrow (InvalidRuntimeManagerResponse otherwise))"

definition linux_close_tls_session :: "'w server_crates \<Rightarrow> u32 \<Rightarrow> ('w, unit) server_op" where
  "linux_close_tls_session X session_id =
     mbind (linux_call X (CloseTlsSession session_id)) (\<lambda>message.
     case message of
       StatusResponse status \<Rightarrow> if status = Success then mreturn () else mthrow (ServerStatus status)
     | otherwise \<Rightarrow> mthrow (InvalidRuntimeManagerResponse otherwise))"

text \<open>
  \<^verbatim>\<open>while tls_data_needed()? { let (alive, data) = read()?; active = alive; buffer.push(data); }\<close>, the loop of the builds for
  Linux and Nitro. A loop that does not end is \<open>None\<close>.
\<close>

partial_function (option) collect_tls_data ::
  "('w, 'e, bool) sm \<Rightarrow> ('w, 'e, bool \<times> byte list) sm \<Rightarrow> bool \<Rightarrow> byte list list \<Rightarrow> 'w \<Rightarrow>
   (('e, bool \<times> byte list list) result \<times> 'w) option" where
  "collect_tls_data needed read active buffer w =
     (case needed w of
        (Ok n, w') \<Rightarrow>
          if \<not> n then Some (Ok (active, buffer), w')
          else (case read w' of
                  (Ok (alive, received), w'') \<Rightarrow> collect_tls_data needed read alive (buffer @ [received]) w''
                | (Err e, w'') \<Rightarrow> Some (Err e, w'')
                | (Panic, w'') \<Rightarrow> Some (Panic, w'')
                | (Stuck, w'') \<Rightarrow> Some (Stuck, w''))
      | (Err e, w') \<Rightarrow> Some (Err e, w')
      | (Panic, w') \<Rightarrow> Some (Panic, w')
      | (Stuck, w') \<Rightarrow> Some (Stuck, w'))"

definition linux_tls_data ::
  "'w server_crates \<Rightarrow> u32 \<Rightarrow> byte list \<Rightarrow> ('w, bool \<times> byte list list option) server_op" where
  "linux_tls_data X session_id input =
     mbind (linux_call X (SendTlsData session_id input)) (\<lambda>message.
     mbind (case message of
              StatusResponse status \<Rightarrow> if status = Success then mreturn () else mthrow (ServerStatus status)
            | otherwise \<Rightarrow> mthrow (InvalidRuntimeManagerResponse otherwise)) (\<lambda>_.
     mbind (or_stuck (collect_tls_data (linux_tls_data_needed X session_id) (linux_read_tls_data X session_id) True []))
       (\<lambda>(active, buffer). mreturn (active, if buffer = [] then None else Some buffer))))"

definition nitro_tls_data_needed :: "'w server_crates \<Rightarrow> u32 \<Rightarrow> ('w, bool) server_op" where
  "nitro_tls_data_needed X session_id =
     mbind (nitro_call X (GetTlsDataNeeded session_id)) (\<lambda>received.
     case received of TlsDataNeeded needed \<Rightarrow> mreturn needed | _ \<Rightarrow> mthrow (ServerStatus Fail))"

definition nitro_new_tls_session :: "'w server_crates \<Rightarrow> ('w, u32) server_op" where
  "nitro_new_tls_session X =
     mbind (nitro_call X NewTlsSession) (\<lambda>message.
     case message of TlsSession sid \<Rightarrow> mreturn sid | _ \<Rightarrow> mthrow (InvalidRuntimeManagerResponse message))"

definition nitro_close_tls_session :: "'w server_crates \<Rightarrow> u32 \<Rightarrow> ('w, unit) server_op" where
  "nitro_close_tls_session X session_id =
     mbind (nitro_call X (CloseTlsSession session_id)) (\<lambda>message.
     case message of StatusResponse _ \<Rightarrow> mreturn () | _ \<Rightarrow> mthrow (ServerStatus Fail))"

definition nitro_tls_data ::
  "'w server_crates \<Rightarrow> u32 \<Rightarrow> byte list \<Rightarrow> ('w, bool \<times> byte list list option) server_op" where
  "nitro_tls_data X session_id input =
     mbind (nitro_call X (SendTlsData session_id input)) (\<lambda>message.
     mbind (case message of
              StatusResponse status \<Rightarrow> if status = Success then mreturn () else mthrow (ServerStatus status)
            | _ \<Rightarrow> mthrow (InvalidRuntimeManagerResponse message)) (\<lambda>_.
     mbind (or_stuck (collect_tls_data (nitro_tls_data_needed X session_id)
         (mbind (nitro_call X (GetTlsData session_id)) (\<lambda>received.
          case received of TlsData data alive \<Rightarrow> mreturn (alive, data) | _ \<Rightarrow> mthrow (ServerStatus Fail))) True []))
       (\<lambda>(active_flag, ret_array). mreturn (active_flag, if ret_array = [] then None else Some ret_array))))"

definition icecap_tls_data_needed :: "'w server_crates \<Rightarrow> u32 \<Rightarrow> ('w option, bool) server_op" where
  "icecap_tls_data_needed X session_id =
     mbind (icecap_call X (GetTlsDataNeeded session_id)) (\<lambda>resp.
     case resp of TlsDataNeeded needed \<Rightarrow> mreturn needed | _ \<Rightarrow> mthrow (UnexpectedRuntimeManagerResponse resp))"

definition icecap_new_tls_session :: "'w server_crates \<Rightarrow> ('w option, u32) server_op" where
  "icecap_new_tls_session X =
     mbind (icecap_call X NewTlsSession) (\<lambda>resp.
     case resp of TlsSession session_id \<Rightarrow> mreturn session_id | _ \<Rightarrow> mthrow (UnexpectedRuntimeManagerResponse resp))"

definition icecap_close_tls_session :: "'w server_crates \<Rightarrow> u32 \<Rightarrow> ('w option, unit) server_op" where
  "icecap_close_tls_session X session_id =
     mbind (icecap_call X (CloseTlsSession session_id)) (\<lambda>resp.
     if resp = StatusResponse Success then mreturn () else mthrow (UnexpectedRuntimeManagerResponse resp))"

text \<open>The loop of the build for IceCap, which also ends when the runtime is no longer active.\<close>

partial_function (option) icecap_collect ::
  "('w, 'e, bool) sm \<Rightarrow> ('w, 'e, bool \<times> byte list) sm \<Rightarrow> byte list list \<Rightarrow> 'w \<Rightarrow>
   (('e, bool \<times> byte list list) result \<times> 'w) option" where
  "icecap_collect needed read acc w =
     (case needed w of
        (Ok n, w') \<Rightarrow>
          if \<not> n then Some (Ok (True, acc), w')
          else (case read w' of
                  (Ok (active, data), w'') \<Rightarrow>
                    if \<not> active then Some (Ok (False, acc @ [data]), w'') else icecap_collect needed read (acc @ [data]) w''
                | (Err e, w'') \<Rightarrow> Some (Err e, w'')
                | (Panic, w'') \<Rightarrow> Some (Panic, w'')
                | (Stuck, w'') \<Rightarrow> Some (Stuck, w''))
      | (Err e, w') \<Rightarrow> Some (Err e, w')
      | (Panic, w') \<Rightarrow> Some (Panic, w')
      | (Stuck, w') \<Rightarrow> Some (Stuck, w'))"

definition icecap_tls_data ::
  "'w server_crates \<Rightarrow> u32 \<Rightarrow> byte list \<Rightarrow> ('w option, bool \<times> byte list list option) server_op" where
  "icecap_tls_data X session_id input =
     mbind (icecap_call X (SendTlsData session_id input)) (\<lambda>resp.
     mbind (if resp = StatusResponse Success then mreturn () else mthrow (UnexpectedRuntimeManagerResponse resp)) (\<lambda>_.
     mbind (or_stuck (icecap_collect (icecap_tls_data_needed X session_id)
         (mbind (icecap_call X (GetTlsData session_id)) (\<lambda>resp.
          case resp of TlsData data active \<Rightarrow> mreturn (active, data) | _ \<Rightarrow> mthrow (UnexpectedRuntimeManagerResponse resp))) []))
       (\<lambda>(active, acc). mreturn (active, if length acc = 0 then None else Some acc))))"

section \<open>Start and end of the isolate\<close>

text \<open>While the isolate is started, the static table of the transport protocol is part of the state.\<close>

definition on_world :: "('w, 'e, 'a) sm \<Rightarrow> ('w \<times> buffers, 'e, 'a) sm" where
  "on_world = mzoom fst (\<lambda>w s. (w, snd s))"

text \<open>Posting a document to the attestation server, and parsing the answer.\<close>

definition post_to_attestation ::
  "'w server_crates \<Rightarrow> (TransportProtocolError \<Rightarrow> VeracruzServerError) \<Rightarrow> VeracruzServerError \<Rightarrow> string \<Rightarrow>
   (TransportProtocolError, byte list) result \<Rightarrow> ('w \<times> buffers, ProxyAttestationServerResponse) server_op" where
  "post_to_attestation X transport base64 url msg =
     mbind (mlift (map_err transport msg)) (\<lambda>req.
     mbind (merr ServerHttpError (on_world (post_buffer (srv_http X) from_utf8 url (http_base64_encode (srv_http X) req)))) (\<lambda>resp.
     mbind (mlift (ok_or base64 (http_base64_decode (srv_http X) resp))) (\<lambda>body.
     merr transport (mzoom snd (\<lambda>h s. (fst s, h)) (parse_proxy_attestation_server_response (srv_proto X) None body)))))"

text \<open>The builds for Linux and IceCap take the fields of a missing chain to be empty.\<close>

definition psa_cert_chain ::
  "'w server_crates \<Rightarrow> string \<Rightarrow> byte list \<Rightarrow> byte list \<Rightarrow> i32 \<Rightarrow> ('w \<times> buffers, byte list list) server_op" where
  "psa_cert_chain X proxy_url token csr challenge_id =
     mbind (post_to_attestation X ServerTransportError ServerBase64Error (proxy_url @ ''/PSA/AttestationToken'')
       (serialize_native_psa_attestation_token (srv_proto X) token csr challenge_id)) (\<lambda>pasr.
     case proxy_response_oneof pasr of
       Some (CertChain c) \<Rightarrow> mreturn [enclave_cert c, root_cert c]
     | _ \<Rightarrow> mreturn [[], []])"

definition post_native_attestation_token ::
  "'w server_crates \<Rightarrow> string \<Rightarrow> byte list \<Rightarrow> i32 \<Rightarrow> ('w \<times> buffers, byte list list) server_op" where
  "post_native_attestation_token X proxy_url att_doc challenge_id =
     mbind (post_to_attestation X ServerTransportProtocol ServerBase64Decode (proxy_url @ ''/Nitro/AttestationToken'')
       (serialize_nitro_attestation_doc (srv_proto X) att_doc challenge_id)) (\<lambda>response.
     case proxy_response_oneof response of
       Some (CertChain c) \<Rightarrow> mreturn [enclave_cert c, root_cert c]
     | _ \<Rightarrow> mthrow InvalidProtoBufMessage)"

text \<open>
  The closure between the start of the process and the last response: it connects, obtains a challenge and a certificate chain from the
  attestation server, and hands the policy and the chain to the runtime. An error in it kills the process.
\<close>

definition linux_attest :: "'w server_crates \<Rightarrow> string \<Rightarrow> string \<Rightarrow> ('w \<times> buffers, RmResponse) server_op" where
  "linux_attest X policy url =
     mbind (merr (\<lambda>_. ServerIOError) (on_world (connect_runtime X))) (\<lambda>_.
     mbind (merr ServerHttpError (send_proxy_attestation_server_start (srv_proto X) (srv_http X) from_utf8 url ''psa'' ''0.0''))
       (\<lambda>(challenge_id, challenge).
     mbind (on_world (linux_call X (Attestation challenge challenge_id))) (\<lambda>received.
     case received of
       AttestationData token csr \<Rightarrow>
         mbind (psa_cert_chain X url token csr challenge_id) (\<lambda>chain.
         on_world (linux_call X (Initialize policy chain)))
     | otherwise \<Rightarrow> mthrow (InvalidRuntimeManagerResponse otherwise))))"

definition linux_new :: "'w server_crates \<Rightarrow> string \<Rightarrow> ('w \<times> buffers, unit) server_op" where
  "linux_new X policy =
     mbind (mlift (map_err ServerPolicyError (from_json (srv_policy X) policy))) (\<lambda>policy_json.
     let measurement = hex_encode (srv_policy X) (sha256 (srv_policy X) (srv_image X)) in
     mbind (merr (\<lambda>_. ServerIOError) (on_world (spawn_runtime X measurement))) (\<lambda>_.
     mbind (mcatch (linux_attest X policy (proxy_attestation_server_url policy_json))
       mreturn
       (\<lambda>e. mcatch (merr (\<lambda>_. ServerIOError) (on_world (kill_process X))) (\<lambda>_. mthrow e) (\<lambda>_. mthrow e))) (\<lambda>received.
     case received of
       StatusResponse status \<Rightarrow> if status = Success then mreturn () else mthrow (ServerStatus status)
     | otherwise \<Rightarrow> mthrow (InvalidRuntimeManagerResponse otherwise))))"

definition linux_shutdown_isolate :: "'w server_crates \<Rightarrow> ('w, unit) server_op" where
  "linux_shutdown_isolate X =
     mbind (merr (\<lambda>_. ServerIOError) (shutdown_socket X)) (\<lambda>_. merr (\<lambda>_. ServerIOError) (kill_process X))"

text \<open>An early return drops what has been started, which shuts the isolate down.\<close>

definition or_drop :: "('w, VeracruzServerError, unit) sm \<Rightarrow> ('w \<times> buffers, 'a) server_op \<Rightarrow> ('w \<times> buffers, 'a) server_op" where
  "or_drop d m = mcatch m mreturn (\<lambda>e. mbind (on_world d) (\<lambda>_. mthrow e))"

definition RUNTIME_MANAGER_EIF_PATH :: string where
  "RUNTIME_MANAGER_EIF_PATH = ''../runtime-manager/runtime_manager.eif''"

text \<open>The release build. The enclave is the object that later calls and the drop use.\<close>

definition nitro_new :: "'w server_crates \<Rightarrow> string \<Rightarrow> ('w \<times> buffers, NitroEnclave) server_op" where
  "nitro_new X policy_json =
     mbind (mlift (map_err ServerPolicyError (from_json (srv_policy X) policy_json))) (\<lambda>policy.
     let url = proxy_attestation_server_url policy;
         path = (case eif_path X of None \<Rightarrow> RUNTIME_MANAGER_EIF_PATH | Some p \<Rightarrow> p) in
     mbind (merr ServerHttpError (send_proxy_attestation_server_start (srv_proto X) (srv_http X) from_utf8 url ''nitro'' ''0.0''))
       (\<lambda>(challenge_id, challenge).
     mbind (merr ServerNitroError (on_world (nitro_enclave_new (srv_nitro X) False path False (max_memory_mib policy)))) (\<lambda>enclave.
     or_drop (nitro_enclave_drop (srv_nitro X) enclave)
       (mbind (on_world (nitro_call X (Attestation challenge challenge_id))) (\<lambda>response.
        case response of
          NitroAttestationData doc \<Rightarrow>
            mbind (post_native_attestation_token X url doc challenge_id) (\<lambda>cert_chain.
            mbind (on_world (nitro_call X (Initialize policy_json cert_chain))) (\<lambda>message.
            case message of
              StatusResponse status \<Rightarrow> if status = Success then mreturn enclave else mthrow (ServerStatus status)
            | _ \<Rightarrow> mthrow (InvalidRuntimeManagerResponse message)))
        | _ \<Rightarrow> mthrow (InvalidRuntimeManagerResponse response))))))"

definition icecap_shutdown_isolate :: "'w server_crates \<Rightarrow> ('w option, unit) server_op" where
  "icecap_shutdown_isolate X s =
     (case s of
        None \<Rightarrow> (Ok (), None)
      | Some w \<Rightarrow> (fst (merr (\<lambda>_. ServerIOError) (kill_process X) w), None))"

text \<open>Dropping the object of the IceCap build is a panic if the shutdown fails.\<close>

definition icecap_drop :: "'w server_crates \<Rightarrow> ('w, VeracruzServerError, unit) sm" where
  "icecap_drop X = mcatch (kill_process X) mreturn (\<lambda>_. mpanic)"

definition icecap_new :: "'w server_crates \<Rightarrow> string \<Rightarrow> ('w \<times> buffers, unit) server_op" where
  "icecap_new X policy_json =
     mbind (mlift (map_err ServerPolicyError (from_json (srv_policy X) policy_json))) (\<lambda>policy.
     let url = proxy_attestation_server_url policy in
     mbind (merr (\<lambda>_. ChannelError) (on_world (spawn_realm X))) (\<lambda>_.
     or_drop (icecap_drop X)
       (mbind (merr ServerHttpError (send_proxy_attestation_server_start (srv_proto X) (srv_http X) from_utf8 url ''psa'' ''0.3.0''))
          (\<lambda>(device_id, challenge).
        mbind (on_world (realm_communicate X (Attestation challenge device_id))) (\<lambda>resp.
        case resp of
          AttestationData token csr \<Rightarrow>
            mbind (psa_cert_chain X url token csr device_id) (\<lambda>chain.
            mbind (on_world (realm_communicate X (Initialize policy_json chain))) (\<lambda>resp.
            if resp = StatusResponse Success then mreturn () else mthrow (UnexpectedRuntimeManagerResponse resp)))
        | _ \<Rightarrow> mthrow (UnexpectedRuntimeManagerResponse resp))))))"

section \<open>The HTTP requests\<close>

text \<open>The interface the handlers use. Dropping the server object shuts the isolate down.\<close>

record 'v VeracruzServer =
  vs_plaintext_data :: "byte list \<Rightarrow> ('v, byte list option) server_op"
  vs_new_tls_session :: "('v, u32) server_op"
  vs_tls_data :: "u32 \<Rightarrow> byte list \<Rightarrow> ('v, bool \<times> byte list list option) server_op"
  vs_drop :: "'v \<Rightarrow> (VeracruzServerError, unit) result"

text \<open>In the build for Linux an error of the shutdown is only logged; in that for IceCap it is a panic.\<close>

definition linux_server :: "'w server_crates \<Rightarrow> 'w VeracruzServer" where
  "linux_server X =
     \<lparr>vs_plaintext_data = (\<lambda>_. mthrow UnimplementedError), vs_new_tls_session = linux_new_tls_session X,
      vs_tls_data = linux_tls_data X,
      vs_drop = (\<lambda>w. case fst (linux_shutdown_isolate X w) of Err _ \<Rightarrow> Ok () | r \<Rightarrow> r)\<rparr>"

definition nitro_server :: "'w server_crates \<Rightarrow> NitroEnclave \<Rightarrow> 'w VeracruzServer" where
  "nitro_server X enclave =
     \<lparr>vs_plaintext_data = (\<lambda>_. mthrow UnimplementedError), vs_new_tls_session = nitro_new_tls_session X,
      vs_tls_data = nitro_tls_data X,
      vs_drop = (\<lambda>w. fst (nitro_enclave_drop (srv_nitro X) enclave w))\<rparr>"

definition icecap_server :: "'w server_crates \<Rightarrow> 'w option VeracruzServer" where
  "icecap_server X =
     \<lparr>vs_plaintext_data = (\<lambda>_. mpanic), vs_new_tls_session = icecap_new_tls_session X,
      vs_tls_data = icecap_tls_data X,
      vs_drop = (\<lambda>s. case s of None \<Rightarrow> Ok () | Some w \<Rightarrow> fst (icecap_drop X w))\<rparr>"

record 'v HandlerState =
  enclave_handler :: "'v option"
  stop_sent :: bool

definition on_enclave :: "('v, 'a) server_op \<Rightarrow> ('v HandlerState, 'a) server_op" where
  "on_enclave m =
     mbind mget (\<lambda>s.
     case enclave_handler s of
       None \<Rightarrow> mthrow UninitializedEnclaveError
     | Some _ \<Rightarrow> mzoom (\<lambda>s. the (enclave_handler s)) (\<lambda>v s. s\<lparr>enclave_handler := Some v\<rparr>) m)"

definition veracruz_server_request ::
  "'v VeracruzServer \<Rightarrow> (byte list \<Rightarrow> string) \<Rightarrow> (string \<Rightarrow> byte list option) \<Rightarrow> string \<Rightarrow> ('v HandlerState, string) server_op" where
  "veracruz_server_request V encode decode input_data =
     mbind (mlift (ok_or ServerBase64Error (decode input_data))) (\<lambda>input_data_decoded.
     mbind (on_enclave (vs_plaintext_data V input_data_decoded)) (\<lambda>result.
     mreturn (case result of Some returned \<Rightarrow> encode returned | None \<Rightarrow> [])))"

text \<open>The thread that waits for the signal to stop takes one signal.\<close>

definition shutdown_enclave :: "'v VeracruzServer \<Rightarrow> ('v HandlerState, unit) server_op" where
  "shutdown_enclave V =
     mbind mget (\<lambda>s.
     mbind (mmodify (\<lambda>s. s\<lparr>enclave_handler := None\<rparr>)) (\<lambda>_.
     mbind (mlift (case enclave_handler s of None \<Rightarrow> Ok () | Some v \<Rightarrow> vs_drop V v)) (\<lambda>_.
     if stop_sent s then mthrow MpscSendEmptyError else mmodify (\<lambda>s. s\<lparr>stop_sent := True\<rparr>))))"

definition runtime_manager_request ::
  "'v VeracruzServer \<Rightarrow> (byte list \<Rightarrow> string) \<Rightarrow> (string \<Rightarrow> byte list option) \<Rightarrow> string \<Rightarrow> ('v HandlerState, string) server_op" where
  "runtime_manager_request V encode decode input_data =
     (case split_whitespace input_data of
        number # received_data # _ \<Rightarrow>
          mbind (mlift (ok_or ParseIntError (parse_u32 number))) (\<lambda>n.
          mbind (if n = 0 then on_enclave (vs_new_tls_session V) else mreturn n) (\<lambda>session_id.
          mbind (mlift (ok_or ServerBase64Error (decode received_data))) (\<lambda>received_data_decoded.
          mbind (on_enclave (vs_tls_data V session_id received_data_decoded)) (\<lambda>(active_flag, output_data_option).
          mbind (if \<not> active_flag then shutdown_enclave V else mreturn ()) (\<lambda>_.
          mreturn (case output_data_option of
                     None \<Rightarrow> []
                   | Some output_data \<Rightarrow>
                       show_nat (unat session_id) @ '' '' @ join_with CHR '' '' (map encode output_data)))))))
      | _ \<Rightarrow> mthrow InvalidRequestFormatError)"

end
