(* ===== verification/Relay.thy ===== *)
theory Relay
  imports Server Client RuntimeProps
begin

text \<open>
  The path of the data of a client: from its connection (theory \<open>Client\<close>) through the HTTP handlers and the platform-specific
  server (theory \<open>Server\<close>) to the message loop of the runtime (theory \<open>Backends\<close>), and back. The locale \<open>enclave_channel\<close> is what
  the server relies on: a message exchanged with the isolate is a step of the runtime. It is interpreted for each build, with the
  two ends of the channel joined.
\<close>

section \<open>The text of requests and responses\<close>

lemma is_digit_char_of: "d < 10 \<Longrightarrow> is_digit (char_of (48 + d :: nat))"
  by (simp add: is_digit_def)

lemma show_nat_spec:
  "show_nat n \<noteq> [] \<and> list_all is_digit (show_nat n) \<and> foldl (\<lambda>n c. 10 * n + (of_char c - 48)) 0 (show_nat n) = n"
proof (induction n rule: show_nat.induct)
  case (1 n)
  show ?case
  proof (cases "n < 10")
    case True
    then show ?thesis by (subst (1 2 3) show_nat.simps) (simp add: is_digit_def)
  next
    case False
    then show ?thesis
      using 1 is_digit_char_of [of "n mod 10"] by (subst (1 2 3) show_nat.simps) simp
  qed
qed

lemma parse_show_u32 [simp]: "parse_u32 (show_nat (unat x)) = Some x"
proof -
  obtain c cs where s: "show_nat (unat x) = c # cs" using show_nat_spec by (cases "show_nat (unat x)") auto
  have "is_digit c" using show_nat_spec [of "unat x"] s by simp
  then have "c \<noteq> CHR ''+''" by (auto simp: is_digit_def)
  moreover have "unat x < 2 ^ 32" using unsigned_less [of x, where ?'a = nat] by simp
  ultimately show ?thesis using show_nat_spec [of "unat x"] s by (simp add: parse_u32_def)
qed

definition no_whitespace :: "string \<Rightarrow> bool" where
  "no_whitespace s \<longleftrightarrow> (\<forall>c \<in> set s. \<not> is_whitespace c)"

lemma no_whitespace_show_nat: "no_whitespace (show_nat n)"
  using show_nat_spec [of n] by (auto simp: no_whitespace_def is_whitespace_def is_digit_def list_all_iff)

lemma words_append: "no_whitespace xs \<Longrightarrow> words acc (xs @ ys) = words (rev xs @ acc) ys"
  by (induction xs arbitrary: acc) (auto simp: no_whitespace_def)

lemma is_whitespace_space [simp]: "is_whitespace CHR '' ''"
  by (simp add: is_whitespace_def)

lemma words_join:
  "(\<And>y. y \<in> set ys \<Longrightarrow> no_whitespace y) \<Longrightarrow> words [] (join_with CHR '' '' ys) = filter (\<lambda>y. y \<noteq> []) ys"
proof (induction "CHR '' ''" ys rule: join_with.induct)
  case (2 x)
  then show ?case using words_append [of x "[]" "[]"] by simp
next
  case (3 x y ys)
  then show ?case using words_append [of x "[]" "CHR '' '' # join_with CHR '' '' (y # ys)"] by simp
qed simp

lemma split_whitespace_join:
  assumes "x \<noteq> []" and "no_whitespace x" and "\<And>y. y \<in> set ys \<Longrightarrow> no_whitespace y"
  shows "split_whitespace (x @ '' '' @ join_with CHR '' '' ys) = x # filter (\<lambda>y. y \<noteq> []) ys"
  using assms words_append [of x "[]" "CHR '' '' # join_with CHR '' '' ys"] words_join [of ys]
  by (simp add: split_whitespace_def)

section \<open>The HTTP requests\<close>

text \<open>What base64 promises: it can be undone, and its alphabet has no white space.\<close>

definition base64_ok :: "(byte list \<Rightarrow> string) \<Rightarrow> (string \<Rightarrow> byte list option) \<Rightarrow> bool" where
  "base64_ok encode decode \<longleftrightarrow>
     (\<forall>b. decode (encode b) = Some b \<and> no_whitespace (encode b) \<and> (encode b = [] \<longleftrightarrow> b = []))"

text \<open>A network on which the posts of the client reach the handler of the server.\<close>

definition posts_to ::
  "('t, 'v HandlerState, 'c, 'k) client_crates \<Rightarrow> 'v VeracruzServer \<Rightarrow> bool" where
  "posts_to C V \<longleftrightarrow>
     (\<forall>url body s. http_post C (''http://'' @ url @ ''/runtime_manager'') body s =
        (case runtime_manager_request V (client_base64_encode C) (client_base64_decode C) body s of
           (Ok text, s') \<Rightarrow> (Some text, s')
         | (_, s') \<Rightarrow> (None, s')))"

text \<open>The connection of the client after an answer.\<close>

definition receive_answer :: "u32 \<Rightarrow> byte list list option \<Rightarrow> InsecureConnection \<Rightarrow> InsecureConnection" where
  "receive_answer session answer conn =
     (case answer of
        None \<Rightarrow> conn
      | Some bufs \<Rightarrow> conn\<lparr>conn_session_id := Some session, conn_read_buffer := conn_read_buffer conn @ concat bufs\<rparr>)"

lemma append_items_run:
  assumes "\<And>b. client_base64_decode C (client_base64_encode C b) = Some b"
  shows "append_items C (map (client_base64_encode C) bufs) conn =
    (Ok (), conn\<lparr>conn_read_buffer := conn_read_buffer conn @ concat bufs\<rparr>)"
proof (induction bufs arbitrary: conn)
  case (Cons b bufs)
  have "append_items C (map (client_base64_encode C) (b # bufs)) conn =
      append_items C (map (client_base64_encode C) bufs) (conn\<lparr>conn_read_buffer := conn_read_buffer conn @ b\<rparr>)"
    using assms by (simp add: append_items_def mbind_def monad_defs ok_or_def)
  then show ?case by (simp add: Cons.IH)
qed (simp add: append_items_def monad_defs)

text \<open>Empty buffers leave no trace in the text.\<close>

lemma filter_encoded:
  assumes "\<And>b. encode b = [] \<longleftrightarrow> b = []"
  shows "filter (\<lambda>y. y \<noteq> []) (map encode bufs) = map encode (filter (\<lambda>b. b \<noteq> []) bufs)"
  using assms by (induction bufs) auto

lemma concat_filter_nonempty: "concat (filter (\<lambda>b. b \<noteq> []) bufs) = concat bufs"
  by (induction bufs) auto

definition open_session :: "'v VeracruzServer \<Rightarrow> u32 \<Rightarrow> ('v, u32) server_op" where
  "open_session V n = (if n = 0 then vs_new_tls_session V else mreturn n)"

lemma on_enclave_Some:
  "enclave_handler s = Some v \<Longrightarrow> m v = (r, v') \<Longrightarrow> on_enclave m s = (r, s\<lparr>enclave_handler := Some v'\<rparr>)"
  by (simp add: on_enclave_def mbind_def mget_def mzoom_def)

text \<open>A response that says the runtime is no longer active makes the handler drop the server object and signal the end.\<close>

definition after_answer :: "bool \<Rightarrow> 'v \<Rightarrow> 'v HandlerState \<Rightarrow> 'v HandlerState" where
  "after_answer active v s =
     (if active then s\<lparr>enclave_handler := Some v\<rparr> else s\<lparr>enclave_handler := None, stop_sent := True\<rparr>)"

definition can_stop :: "'v VeracruzServer \<Rightarrow> 'v \<Rightarrow> 'v HandlerState \<Rightarrow> bool" where
  "can_stop V v s \<longleftrightarrow> vs_drop V v = Ok () \<and> \<not> stop_sent s"

lemma handler_run:
  assumes "base64_ok encode decode" and "data \<noteq> []" and "enclave_handler s = Some v"
    and "open_session V n v = (Ok session, v1)" and "vs_tls_data V session data v1 = (Ok (active, answer), v2)"
    and "active \<or> can_stop V v2 s"
  shows "runtime_manager_request V encode decode (show_nat (unat n) @ '' '' @ encode data) s =
    (Ok (case answer of None \<Rightarrow> [] | Some bufs \<Rightarrow> show_nat (unat session) @ '' '' @ join_with CHR '' '' (map encode bufs)),
     after_answer active v2 s)"
proof -
  have split: "split_whitespace (show_nat (unat n) @ '' '' @ encode data) = [show_nat (unat n), encode data]"
    using split_whitespace_join [of "show_nat (unat n)" "[encode data]"] show_nat_spec no_whitespace_show_nat assms(1,2)
    by (auto simp: base64_ok_def)
  have v1: "(if n = 0 then on_enclave (vs_new_tls_session V) else mreturn n) s = (Ok session, s\<lparr>enclave_handler := Some v1\<rparr>)"
    using assms(3,4) on_enclave_Some [OF assms(3), of "vs_new_tls_session V"]
    by (auto simp: open_session_def monad_defs split: if_splits)
  have v2: "on_enclave (vs_tls_data V session data) (s\<lparr>enclave_handler := Some v1\<rparr>) =
      (Ok (active, answer), s\<lparr>enclave_handler := Some v2\<rparr>)"
    using on_enclave_Some [of "s\<lparr>enclave_handler := Some v1\<rparr>" v1 "vs_tls_data V session data"] assms(5) by simp
  have "decode (encode data) = Some data" using assms(1) by (simp add: base64_ok_def)
  then show ?thesis
    using v1 v2 assms(6) unfolding runtime_manager_request_def split
    by (auto simp: mbind_def monad_defs ok_or_def after_answer_def can_stop_def shutdown_enclave_def)
qed

lemma write_run:
  assumes "base64_ok (client_base64_encode C) (client_base64_decode C)" and "posts_to C V"
    and "data \<noteq> []" and "enclave_handler s = Some v"
    and "open_session V (case conn_session_id conn of None \<Rightarrow> 0 | Some n \<Rightarrow> n) v = (Ok session, v1)"
    and "vs_tls_data V session data v1 = (Ok (active, answer), v2)" and "active \<or> can_stop V v2 s"
  shows "connection_write C data (conn, s) = (Ok (length data), receive_answer session answer conn, after_answer active v2 s)"
proof -
  let ?n = "case conn_session_id conn of None \<Rightarrow> 0 | Some n \<Rightarrow> n"
  let ?text = "case answer of None \<Rightarrow> [] | Some bufs \<Rightarrow>
    show_nat (unat session) @ '' '' @ join_with CHR '' '' (map (client_base64_encode C) bufs)"
  have post: "http_post C (''http://'' @ conn_server_url conn @ ''/runtime_manager'')
      (show_nat (unat ?n) @ '' '' @ client_base64_encode C data) s = (Some ?text, after_answer active v2 s)"
    using assms(2) handler_run [OF assms(1,3,4,5,6,7)] by (simp add: posts_to_def)
  show ?thesis
  proof (cases answer)
    case None
    then show ?thesis
      using post [simplified] by (simp add: connection_write_def mbind_def monad_defs ok_or_def split_whitespace_def receive_answer_def Let_def)
  next
    case (Some bufs)
    have "split_whitespace ?text = show_nat (unat session) # map (client_base64_encode C) (filter (\<lambda>b. b \<noteq> []) bufs)"
      using Some split_whitespace_join [of "show_nat (unat session)" "map (client_base64_encode C) bufs"] show_nat_spec
        no_whitespace_show_nat assms(1) filter_encoded [of "client_base64_encode C" bufs]
      by (auto simp: base64_ok_def)
    moreover have "client_base64_decode C (client_base64_encode C b) = Some b" for b using assms(1) by (simp add: base64_ok_def)
    ultimately show ?thesis
      using post [simplified] Some append_items_run [of C "filter (\<lambda>b. b \<noteq> []) bufs"] concat_filter_nonempty [of bufs]
      by (simp add: connection_write_def mbind_def monad_defs ok_or_def receive_answer_def Let_def mzoom_def)
  qed
qed

section \<open>The isolate at the other end of a channel\<close>

text \<open>The end of the channel in the isolate: the bytes from the host that are still unread, and those for the host.\<close>

definition isolate_end :: "(byte list \<times> byte list) stream_ops" where
  "isolate_end = \<lparr>stream_write = (\<lambda>b (i, out). (Ok (length b), (i, out @ b))),
     stream_read = (\<lambda>n (i, out). (Ok (take n i), (drop n i, out)))\<rparr>"

definition isolate_raw_end :: "(byte list \<times> byte list) raw_ops" where
  "isolate_raw_end = \<lparr>raw_send = (\<lambda>b (i, out). (Ok (length b), (i, out @ b))),
     raw_recv = (\<lambda>n (i, out). (Ok (take n i), (drop n i, out)))\<rparr>"

text \<open>
  The channel with the isolate: whenever a whole message has arrived, the isolate takes a turn of its loop, until a turn fails.
\<close>

record 'g wire =
  wire_in :: "byte list"
  wire_out :: "byte list"
  wire_isolate :: 'g
  wire_up :: bool

type_synonym 'g turn = "('g \<times> (byte list \<times> byte list), RuntimeManagerError, unit) sm"

definition has_frame :: "byte list \<Rightarrow> bool" where
  "has_frame b \<longleftrightarrow> 9 \<le> length b \<and> 9 + from_le (take 8 b) \<le> length b"

definition settle :: "'g turn \<Rightarrow> 'g wire \<Rightarrow> 'g wire" where
  "settle turn w =
     (if wire_up w \<and> has_frame (wire_in w)
      then (case turn (wire_isolate w, (wire_in w, wire_out w)) of
              (r, (g, (i, out))) \<Rightarrow> \<lparr>wire_in = i, wire_out = out, wire_isolate = g, wire_up = is_ok r\<rparr>)
      else w)"

definition deliver :: "'g turn \<Rightarrow> byte list \<Rightarrow> 'g wire \<Rightarrow> 'g wire" where
  "deliver turn b w = settle turn (w\<lparr>wire_in := wire_in w @ b\<rparr>)"

definition wire_write :: "'g turn \<Rightarrow> byte list \<Rightarrow> ('g wire, 'e, nat) sm" where
  "wire_write turn b w = (Ok (length b), deliver turn b w)"

definition wire_read :: "nat \<Rightarrow> ('g wire, 'e, byte list) sm" where
  "wire_read n w = (Ok (take n (wire_out w)), w\<lparr>wire_out := drop n (wire_out w)\<rparr>)"

definition idle :: "'g wire \<Rightarrow> 'g \<Rightarrow> bool" where
  "idle w g \<longleftrightarrow> w = \<lparr>wire_in = [], wire_out = [], wire_isolate = g, wire_up = True\<rparr>"

definition frame :: "byte list \<Rightarrow> byte list" where
  "frame b = le_bytes 8 (length b) @ [0] @ b"

text \<open>A message that the codec can carry over a channel with buffers of limited length.\<close>

definition carries :: "'m bincode \<Rightarrow> nat \<Rightarrow> 'm \<Rightarrow> bool" where
  "carries c limit m \<longleftrightarrow> (\<exists>b. bincode_serialize c m = Some b \<and> bincode_deserialize c b = Some m \<and> length b \<le> limit)"

subsection \<open>Buffers over a stream that passes everything at once\<close>

lemma send_loop_once:
  "w buffer f = (Ok (length buffer), f') \<Longrightarrow> buffer \<noteq> [] \<Longrightarrow> send_loop w buffer 0 f = Some (Ok (), f')"
  "send_loop w [] 0 f = Some (Ok (), f)"
  by (subst send_loop.simps, simp add: send_loop.simps)+

lemma receive_loop_once:
  "r n f = (Ok b, f') \<Longrightarrow> length b = n \<Longrightarrow> 0 < n \<Longrightarrow> receive_loop r n [] f = Some (Ok b, f')"
  "receive_loop r 0 [] f = Some (Ok [], f)"
  by (subst receive_loop.simps, simp add: receive_loop.simps)+

lemma frame_head:
  assumes "length b \<le> isize_max"
  shows "take 9 (frame b @ rest) = le_bytes 8 (length b) @ [0]" and "drop 9 (frame b @ rest) = b @ rest"
    and "from_le (take 8 (le_bytes 8 (length b) @ [0])) = length b" and "from_le (take 8 (frame b @ rest)) = length b"
  using assms by (simp_all add: frame_def isize_max_def)

lemma isolate_send:
  "send_buffer isolate_end b (i, out) = (Ok (), (i, out @ frame b))"
  "raw_send_buffer isolate_raw_end b (i, out) = (Ok (), (i, out @ frame b))"
proof -
  let ?head = "le_bytes 8 (length b) @ [0]"
  have "?head \<noteq> []" by simp
  then show "send_buffer isolate_end b (i, out) = (Ok (), (i, out @ frame b))"
    using send_loop_once(1) [of "stream_write isolate_end" ?head "(i, out)" "(i, out @ ?head)"]
      send_loop_once(1) [of "stream_write isolate_end" b "(i, out @ ?head)" "(i, out @ ?head @ b)"]
    by (cases "b = []") (simp_all add: send_buffer_def or_stuck_def mbind_def isolate_end_def frame_def send_loop_once(2))
  let ?w = "\<lambda>b. mcatch (raw_send isolate_raw_end b) mreturn (\<lambda>e. if e = NixOther then mthrow e else mreturn 0)"
  show "raw_send_buffer isolate_raw_end b (i, out) = (Ok (), (i, out @ frame b))"
    using \<open>?head \<noteq> []\<close> send_loop_once(1) [of "raw_send isolate_raw_end" ?head "(i, out)" "(i, out @ ?head)"]
      send_loop_once(1) [of ?w b "(i, out @ ?head)" "(i, out @ ?head @ b)"]
    by (cases "b = []")
      (simp_all add: raw_send_buffer_def or_stuck_def mbind_def isolate_raw_end_def frame_def send_loop_once(2) mcatch_def mreturn_def)
qed

lemma isolate_receive:
  assumes "length b \<le> isize_max"
  shows "receive_buffer isolate_end (frame b @ i, out) = (Ok b, (i, out))"
    and "raw_receive_buffer isolate_raw_end (frame b @ i, out) = (Ok b, (i, out))"
proof -
  let ?head = "le_bytes 8 (length b) @ [0]"
  show "receive_buffer isolate_end (frame b @ i, out) = (Ok b, (i, out))"
    using receive_loop_once(1) [of "stream_read isolate_end" 9 "(frame b @ i, out)" ?head "(b @ i, out)"]
      receive_loop_once(1) [of "stream_read isolate_end" "length b" "(b @ i, out)" b "(i, out)"] assms frame_head [OF assms]
    by (cases "b = []") (simp_all add: receive_buffer_def or_stuck_def mbind_def isolate_end_def receive_loop_once(2))
  let ?r = "\<lambda>n. mcatch (raw_recv isolate_raw_end n) mreturn (\<lambda>e. if e = NixEINTR then mreturn [] else mthrow e)"
  have r: "?r n (x, out) = (Ok (take n x), (drop n x, out))" for n x
    by (simp add: mcatch_def mreturn_def isolate_raw_end_def)
  show "raw_receive_buffer isolate_raw_end (frame b @ i, out) = (Ok b, (i, out))"
    using receive_loop_once(1) [of ?r 9 "(frame b @ i, out)" ?head "(b @ i, out)"]
      receive_loop_once(1) [of ?r "length b" "(b @ i, out)" b "(i, out)"] assms frame_head [OF assms] r
    by (cases "b = []") (simp_all add: raw_receive_buffer_def or_stuck_def mbind_def receive_loop_once(2) Let_def)
qed

subsection \<open>The host end\<close>

definition wire_ops :: "'g turn \<Rightarrow> 'g wire stream_ops" where
  "wire_ops turn = \<lparr>stream_write = wire_write turn, stream_read = wire_read\<rparr>"

definition wire_raw_ops :: "'g turn \<Rightarrow> 'g wire raw_ops" where
  "wire_raw_ops turn = \<lparr>raw_send = wire_write turn, raw_recv = wire_read\<rparr>"

text \<open>A turn that answers one framed message with another.\<close>

definition answers :: "'g turn \<Rightarrow> byte list \<Rightarrow> byte list \<Rightarrow> 'g \<Rightarrow> 'g \<Rightarrow> bool" where
  "answers turn b b' g g' \<longleftrightarrow> turn (g, (frame b, [])) = (Ok (), (g', ([], frame b')))"

lemma has_frame_frame:
  assumes "length b \<le> isize_max"
  shows "has_frame (frame b)" and "has_frame (le_bytes 8 (length b) @ [0]) \<longleftrightarrow> b = []"
  using assms by (simp_all add: has_frame_def frame_def isize_max_def)

lemma wire_sent:
  assumes "length b \<le> isize_max" and "answers turn b b' g g'" and "idle w g"
  shows "let w1 = deliver turn (le_bytes 8 (length b) @ [0]) w in
    (if b = [] then w1 else deliver turn b w1) =
      \<lparr>wire_in = [], wire_out = frame b', wire_isolate = g', wire_up = True\<rparr>"
proof -
  have turn: "turn (g, (frame b, [])) = (Ok (), (g', ([], frame b')))" using assms(2) by (simp add: answers_def)
  show ?thesis
  proof (cases "b = []")
    case True
    then have "frame b = le_bytes 8 (length b) @ [0]" by (simp add: frame_def)
    then show ?thesis
      using True turn assms(3) has_frame_frame(1) [OF assms(1)] by (simp add: deliver_def settle_def idle_def)
  next
    case False
    then show ?thesis
      using turn assms(3) has_frame_frame [OF assms(1)] by (simp add: deliver_def settle_def idle_def frame_def)
  qed
qed

lemma wire_send_loop: "b \<noteq> [] \<Longrightarrow> send_loop (wire_write turn) b 0 w = Some (Ok (), deliver turn b w)"
  by (rule send_loop_once(1)) (simp_all add: wire_write_def)

definition catch_eintr :: "('f, nix_error, byte list) sm \<Rightarrow> ('f, nix_error, byte list) sm" where
  "catch_eintr m = mcatch m mreturn (\<lambda>e. if e = NixEINTR then mreturn [] else mthrow e)"

lemma wire_receive_loop:
  assumes "wire_out w = x @ y"
  shows "receive_loop wire_read (length x) [] w = Some (Ok x, w\<lparr>wire_out := y\<rparr>)"
    and "receive_loop (\<lambda>n. catch_eintr (wire_read n)) (length x) [] w = Some (Ok x, w\<lparr>wire_out := y\<rparr>)"
proof -
  have "wire_read (length x) w = (Ok x, w\<lparr>wire_out := y\<rparr>)" using assms by (simp add: wire_read_def)
  moreover have "catch_eintr (wire_read (length x)) w = (Ok x, w\<lparr>wire_out := y\<rparr>)"
    using assms by (simp add: wire_read_def catch_eintr_def mcatch_def mreturn_def)
  moreover have "w\<lparr>wire_out := y\<rparr> = w" if "x = []" using assms that by (metis append_Nil wire.surjective wire.update_convs(2))
  ultimately show "receive_loop wire_read (length x) [] w = Some (Ok x, w\<lparr>wire_out := y\<rparr>)"
    "receive_loop (\<lambda>n. catch_eintr (wire_read n)) (length x) [] w = Some (Ok x, w\<lparr>wire_out := y\<rparr>)"
    using receive_loop_once by (cases "x = []"; fastforce)+
qed

lemma wire_receive:
  assumes "length b \<le> isize_max" and "wire_out w = frame b @ y"
  shows "receive_buffer \<lparr>stream_write = wr, stream_read = wire_read\<rparr> w = (Ok b, w\<lparr>wire_out := y\<rparr>)"
    and "raw_receive_buffer \<lparr>raw_send = wr', raw_recv = wire_read\<rparr> w = (Ok b, w\<lparr>wire_out := y\<rparr>)"
proof -
  let ?head = "le_bytes 8 (length b) @ [0]"
  have head: "wire_out w = ?head @ b @ y" using assms(2) by (simp add: frame_def)
  have nine: "length ?head = 9" by simp
  have len: "from_le (take 8 ?head) = length b" using frame_head(3) [OF assms(1)] .
  have body: "wire_out (w\<lparr>wire_out := b @ y\<rparr>) = b @ y" by simp
  show "receive_buffer \<lparr>stream_write = wr, stream_read = wire_read\<rparr> w = (Ok b, w\<lparr>wire_out := y\<rparr>)"
    using len assms(1)
    by (simp add: receive_buffer_def or_stuck_def mbind_def Let_def wire_receive_loop(1) [OF head, unfolded nine]
        wire_receive_loop(1) [OF body])
  show "raw_receive_buffer \<lparr>raw_send = wr', raw_recv = wire_read\<rparr> w = (Ok b, w\<lparr>wire_out := y\<rparr>)"
    using wire_receive_loop(2) [OF head, unfolded nine] wire_receive_loop(2) [OF body] len assms(1)
    by (simp add: raw_receive_buffer_def or_stuck_def mbind_def Let_def catch_eintr_def [symmetric])
qed

lemma wire_exchange:
  assumes "length b \<le> isize_max" and "length b' \<le> isize_max" and "answers turn b b' g g'" and "idle w g"
  shows "\<exists>w1 w2. idle w2 g' \<and>
    send_buffer (wire_ops turn) b w = (Ok (), w1) \<and> receive_buffer (wire_ops turn) w1 = (Ok b', w2) \<and>
    raw_send_buffer (wire_raw_ops turn) b w = (Ok (), w1) \<and> raw_receive_buffer (wire_raw_ops turn) w1 = (Ok b', w2)"
proof -
  let ?head = "le_bytes 8 (length b) @ [0]"
  let ?h = "deliver turn ?head w"
  let ?w1 = "\<lparr>wire_in = [], wire_out = frame b', wire_isolate = g', wire_up = True\<rparr>"
  let ?w2 = "\<lparr>wire_in = [], wire_out = [], wire_isolate = g', wire_up = True\<rparr>"
  let ?c = "\<lambda>b. mcatch (wire_write turn b) mreturn (\<lambda>e. if e = NixOther then mthrow e else mreturn 0)"
  have w1: "(if b = [] then ?h else deliver turn b ?h) = ?w1"
    using wire_sent [OF assms(1,3,4)] by (simp add: Let_def)
  have c: "?c x f = (Ok (length x), deliver turn x f)" for x f
    by (simp add: mcatch_def mreturn_def wire_write_def)
  have send: "send_buffer (wire_ops turn) b w = (Ok (), ?w1)" "raw_send_buffer (wire_raw_ops turn) b w = (Ok (), ?w1)"
    using w1 send_loop_once(1) [of ?c b ?h, OF c]
    by (cases "b = []"; simp add: send_buffer_def raw_send_buffer_def or_stuck_def mbind_def wire_ops_def wire_raw_ops_def
        send_loop_once(2) wire_send_loop)+
  have receive: "receive_buffer (wire_ops turn) ?w1 = (Ok b', ?w2)" "raw_receive_buffer (wire_raw_ops turn) ?w1 = (Ok b', ?w2)"
    using wire_receive [OF assms(2), of ?w1 "[]"] by (simp_all add: wire_ops_def wire_raw_ops_def)
  show ?thesis using send receive by (intro exI [of _ ?w1] exI [of _ ?w2]) (simp add: idle_def)
qed

subsection \<open>The turns of the loops\<close>

lemma linux_turn_answers:
  assumes "bincode_deserialize Q b = Some q" and "handle_message E m k q g = (Ok r, g')" and "bincode_serialize R r = Some b'"
    and "length b \<le> isize_max"
  shows "answers (linux_turn E m k Q R isolate_end) b b' g g'"
  using assms isolate_receive(1) [OF assms(4), of "[]" "[]"] isolate_send(1) [of b' "[]" "[]"]
  by (simp add: answers_def linux_turn_def mbind_def monad_defs merr_def mzoom_def ok_or_def)

lemma nitro_turn_answers:
  assumes "bincode_deserialize Q b = Some q" and "nitro_handle E N k q g = (Ok r, g')" and "bincode_serialize R r = Some b'"
    and "length b \<le> isize_max"
  shows "answers (nitro_turn E N k Q R isolate_raw_end) b b' g g'"
  using assms isolate_receive(2) [OF assms(4), of "[]" "[]"] isolate_send(2) [of b' "[]" "[]"]
  by (simp add: answers_def nitro_turn_def mbind_def monad_defs merr_def mzoom_def ok_or_def)

section \<open>What the server relies on\<close>

text \<open>
  A message exchanged with the isolate is a step of the runtime, for the messages and responses the channel can carry. The runtime then
  answers a question whether there is data, and gives the data of a session, until there is no more.
\<close>

locale enclave_channel =
  fixes call :: "RmRequest \<Rightarrow> ('w, 'e, RmResponse) sm"
    and runtime :: "RmRequest \<Rightarrow> ('s, 'f, RmResponse) sm"
    and rel :: "'w \<Rightarrow> 's \<Rightarrow> bool"
    and fits :: "RmRequest \<Rightarrow> RmResponse \<Rightarrow> bool"
  assumes call_step: "rel w s \<Longrightarrow> runtime q s = (Ok r, s') \<Longrightarrow> fits q r \<Longrightarrow> \<exists>w'. call q w = (Ok r, w') \<and> rel w' s'"

text \<open>The chunks the runtime gives for a session, each with the flag whether it is still active.\<close>

inductive drains ::
  "(RmRequest \<Rightarrow> ('s, 'f, RmResponse) sm) \<Rightarrow> (RmRequest \<Rightarrow> RmResponse \<Rightarrow> bool) \<Rightarrow> u32 \<Rightarrow> 's \<Rightarrow> (byte list \<times> bool) list \<Rightarrow> 's \<Rightarrow> bool"
  for runtime fits session where
  no_more: "runtime (GetTlsDataNeeded session) s = (Ok (TlsDataNeeded False), s') \<Longrightarrow>
     fits (GetTlsDataNeeded session) (TlsDataNeeded False) \<Longrightarrow> drains runtime fits session s [] s'"
| more: "runtime (GetTlsDataNeeded session) s = (Ok (TlsDataNeeded True), s1) \<Longrightarrow>
     fits (GetTlsDataNeeded session) (TlsDataNeeded True) \<Longrightarrow>
     runtime (GetTlsData session) s1 = (Ok (TlsData b active), s2) \<Longrightarrow> fits (GetTlsData session) (TlsData b active) \<Longrightarrow>
     drains runtime fits session s2 xs s' \<Longrightarrow> drains runtime fits session s ((b, active) # xs) s'"

text \<open>The two requests of a server, with its error for another response.\<close>

definition ask_needed :: "(RmRequest \<Rightarrow> ('w, 'e, RmResponse) sm) \<Rightarrow> (RmResponse \<Rightarrow> 'e) \<Rightarrow> u32 \<Rightarrow> ('w, 'e, bool) sm" where
  "ask_needed call other session =
     mbind (call (GetTlsDataNeeded session)) (\<lambda>r. case r of TlsDataNeeded n \<Rightarrow> mreturn n | _ \<Rightarrow> mthrow (other r))"

definition ask_data :: "(RmRequest \<Rightarrow> ('w, 'e, RmResponse) sm) \<Rightarrow> (RmResponse \<Rightarrow> 'e) \<Rightarrow> u32 \<Rightarrow> ('w, 'e, bool \<times> byte list) sm" where
  "ask_data call other session =
     mbind (call (GetTlsData session)) (\<lambda>r. case r of TlsData b active \<Rightarrow> mreturn (active, b) | _ \<Rightarrow> mthrow (other r))"

context enclave_channel
begin

lemma ask_needed_step:
  assumes "rel w s" and "runtime (GetTlsDataNeeded session) s = (Ok (TlsDataNeeded n), s')"
    and "fits (GetTlsDataNeeded session) (TlsDataNeeded n)"
  obtains w' where "ask_needed call other session w = (Ok n, w')" and "rel w' s'"
  using call_step [OF assms] by (auto simp: ask_needed_def mbind_def mreturn_def)

lemma ask_data_step:
  assumes "rel w s" and "runtime (GetTlsData session) s = (Ok (TlsData b active), s')" and "fits (GetTlsData session) (TlsData b active)"
  obtains w' where "ask_data call other session w = (Ok (active, b), w')" and "rel w' s'"
  using call_step [OF assms] by (auto simp: ask_data_def mbind_def mreturn_def)

lemma collect_drains:
  assumes "drains runtime fits session s xs s'" and "rel w s"
  shows "\<exists>w'. collect_tls_data (ask_needed call other session) (ask_data call other' session) active buffer w =
    Some (Ok (last (active # map snd xs), buffer @ map fst xs), w') \<and> rel w' s'"
  using assms
proof (induction arbitrary: w active buffer rule: drains.induct)
  case (no_more s s')
  obtain w' where "ask_needed call other session w = (Ok False, w')" "rel w' s'"
    using ask_needed_step [OF no_more(3,1,2)] .
  then show ?case by (subst collect_tls_data.simps) simp
next
  case (more s s1 b a s2 xs s')
  obtain w1 where w1: "ask_needed call other session w = (Ok True, w1)" "rel w1 s1"
    using ask_needed_step [OF more.prems more.hyps(1,2)] .
  obtain w2 where w2: "ask_data call other' session w1 = (Ok (a, b), w2)" "rel w2 s2"
    using ask_data_step [OF w1(2) more.hyps(3,4)] .
  show ?case using w1(1) w2(1) more.IH [OF w2(2), of a "buffer @ [b]"] by (subst collect_tls_data.simps) simp
qed

lemma icecap_collect_drains:
  assumes "drains runtime fits session s xs s'" and "rel w s" and "list_all snd xs"
  shows "\<exists>w'. icecap_collect (ask_needed call other session) (ask_data call other' session) buffer w =
    Some (Ok (True, buffer @ map fst xs), w') \<and> rel w' s'"
  using assms
proof (induction arbitrary: w buffer rule: drains.induct)
  case (no_more s s')
  obtain w' where "ask_needed call other session w = (Ok False, w')" "rel w' s'"
    using ask_needed_step [OF no_more(3,1,2)] .
  then show ?case by (subst icecap_collect.simps) simp
next
  case (more s s1 b a s2 xs s')
  obtain w1 where w1: "ask_needed call other session w = (Ok True, w1)" "rel w1 s1"
    using ask_needed_step [OF more.prems(1) more.hyps(1,2)] .
  obtain w2 where w2: "ask_data call other' session w1 = (Ok (a, b), w2)" "rel w2 s2"
    using ask_data_step [OF w1(2) more.hyps(3,4)] .
  show ?case using w1(1) w2(1) more.prems(2) more.IH [OF w2(2), of "buffer @ [b]"] by (subst icecap_collect.simps) simp
qed

end

section \<open>The channels of the builds\<close>

subsection \<open>Linux and Nitro\<close>

definition linux_wire ::
  "('b, 'g, 'c, 'm) runtime_env \<Rightarrow> byte list \<Rightarrow> (byte list \<times> byte list) option \<Rightarrow> ('b, 'g, 'c) Globals wire server_crates \<Rightarrow>
   ('b, 'g, 'c) Globals wire server_crates" where
  "linux_wire E m k X = X\<lparr>srv_socket := wire_ops (linux_turn E m k (srv_request X) (srv_response X) isolate_end)\<rparr>"

definition nitro_wire ::
  "('b, 'g, 'c, 'm) runtime_env \<Rightarrow> nsm_crates \<Rightarrow> (byte list \<times> byte list) option \<Rightarrow> ('b, 'g, 'c) Globals wire server_crates \<Rightarrow>
   ('b, 'g, 'c) Globals wire server_crates" where
  "nitro_wire E N k X = X\<lparr>srv_vsock := wire_raw_ops (nitro_turn E N k (srv_request X) (srv_response X) isolate_raw_end)\<rparr>"

definition fits_frame :: "'w server_crates \<Rightarrow> nat \<Rightarrow> RmRequest \<Rightarrow> RmResponse \<Rightarrow> bool" where
  "fits_frame X limit q r \<longleftrightarrow> carries (srv_request X) limit q \<and> carries (srv_response X) limit r"

interpretation linux_channel: enclave_channel "linux_call (linux_wire E m k X)" "handle_message E m k" idle "fits_frame X isize_max"
  for E m k X
proof
  fix w g q r g'
  assume w: "idle w g" and run: "handle_message E m k q g = (Ok r, g')" and fits: "fits_frame X isize_max q r"
  obtain b b' where b: "bincode_serialize (srv_request X) q = Some b" "bincode_deserialize (srv_request X) b = Some q"
      "length b \<le> isize_max"
    and b': "bincode_serialize (srv_response X) r = Some b'" "bincode_deserialize (srv_response X) b' = Some r"
      "length b' \<le> isize_max"
    using fits by (auto simp: fits_frame_def carries_def)
  show "\<exists>w'. linux_call (linux_wire E m k X) q w = (Ok r, w') \<and> idle w' g'"
    using wire_exchange [OF b(3) b'(3) linux_turn_answers [OF b(2) run b'(1) b(3)] w] b(1) b'(2)
    by (auto simp: linux_call_def linux_wire_def send_message_def receive_message_def mbind_def monad_defs merr_def ok_or_def)
qed

interpretation nitro_channel: enclave_channel "nitro_call (nitro_wire E N k X)" "nitro_handle E N k" idle "fits_frame X isize_max"
  for E N k X
proof
  fix w g q r g'
  assume w: "idle w g" and run: "nitro_handle E N k q g = (Ok r, g')" and fits: "fits_frame X isize_max q r"
  obtain b b' where b: "bincode_serialize (srv_request X) q = Some b" "bincode_deserialize (srv_request X) b = Some q"
      "length b \<le> isize_max"
    and b': "bincode_serialize (srv_response X) r = Some b'" "bincode_deserialize (srv_response X) b' = Some r"
      "length b' \<le> isize_max"
    using fits by (auto simp: fits_frame_def carries_def)
  show "\<exists>w'. nitro_call (nitro_wire E N k X) q w = (Ok r, w') \<and> idle w' g'"
    using wire_exchange [OF b(3) b'(3) nitro_turn_answers [OF b(2) run b'(1) b(3)] w] b(1) b'(2)
    by (auto simp: nitro_call_def nitro_wire_def mbind_def monad_defs merr_def ok_or_def)
qed

subsection \<open>IceCap\<close>

text \<open>The manager handles what has arrived at each event; once it is not active it is gone.\<close>

definition ice_ops ::
  "('b, 'g, 'c, 'm) runtime_env \<Rightarrow> (byte list \<times> byte list) option \<Rightarrow> RmRequest bincode \<Rightarrow> RmResponse bincode \<Rightarrow>
   ('b, 'g, 'c) IceCapManager stream_ops" where
  "ice_ops E k Q R =
     \<lparr>stream_write = (\<lambda>b s. (Ok (length b),
        if ice_active s then snd (icecap_process E k Q R (s\<lparr>ice_input := ice_input s @ b\<rparr>)) else s)),
      stream_read = (\<lambda>n s. (Ok (take n (ice_output s)), s\<lparr>ice_output := drop n (ice_output s)\<rparr>))\<rparr>"

definition icecap_wire ::
  "('b, 'g, 'c, 'm) runtime_env \<Rightarrow> (byte list \<times> byte list) option \<Rightarrow> ('b, 'g, 'c) IceCapManager server_crates \<Rightarrow>
   ('b, 'g, 'c) IceCapManager server_crates" where
  "icecap_wire E k X = X\<lparr>srv_socket := ice_ops E k (srv_request X) (srv_response X)\<rparr>"

definition icecap_serve ::
  "('b, 'g, 'c, 'm) runtime_env \<Rightarrow> (byte list \<times> byte list) option \<Rightarrow> RmRequest \<Rightarrow>
   (('b, 'g, 'c) IceCapManager, RuntimeManagerError, RmResponse) sm" where
  "icecap_serve E k q s = (if ice_active s then icecap_handle E k q s else (Stuck, s))"

definition ice_idle :: "('b, 'g, 'c) IceCapManager option \<Rightarrow> ('b, 'g, 'c) IceCapManager \<Rightarrow> bool" where
  "ice_idle w s \<longleftrightarrow> w = Some s \<and> ice_input s = [] \<and> ice_output s = []"

lemma std_write_all_once:
  "w buffer f = (Ok (length buffer), f') \<Longrightarrow> buffer \<noteq> [] \<Longrightarrow> std_write_all w buffer f = Some (Ok (), f')"
  "std_write_all w [] f = Some (Ok (), f)"
  by (subst std_write_all.simps, simp add: std_write_all.simps)+

lemma read_exact_once:
  "r n f = (Ok b, f') \<Longrightarrow> length b = n \<Longrightarrow> 0 < n \<Longrightarrow> std_read_exact r n [] f = Some (Ok b, f')"
  "std_read_exact r 0 [] f = Some (Ok [], f)"
  by (subst std_read_exact.simps, auto simp: std_read_exact.simps)+

text \<open>Handling a request leaves the ring buffers alone.\<close>

definition ring_kept :: "(('b, 'g, 'c) IceCapManager, 'e, 'a) sm \<Rightarrow> bool" where
  "ring_kept m \<longleftrightarrow> (\<forall>s. ice_input (snd (m s)) = ice_input s \<and> ice_output (snd (m s)) = ice_output s)"

lemma ring_kept_mreturn: "ring_kept (mreturn a)"
  by (simp add: ring_kept_def mreturn_def)

lemma ring_kept_globals: "ring_kept (on_ice_globals m)"
  by (simp add: ring_kept_def on_ice_globals_def mzoom_def split: prod.split)

lemma ring_kept_active: "ring_kept (mmodify (\<lambda>s. s\<lparr>ice_active := a\<rparr>))"
  by (simp add: ring_kept_def mmodify_def)

lemma ring_kept_mbind: "ring_kept m \<Longrightarrow> (\<And>a. ring_kept (f a)) \<Longrightarrow> ring_kept (mbind m f)"
  by (auto simp: ring_kept_def mbind_def split: result.split)

lemmas ring_kept_intros = ring_kept_mreturn ring_kept_globals ring_kept_active ring_kept_mbind

lemma ring_kept_or_fail: "ring_kept m \<Longrightarrow> ring_kept (or_fail m)"
  unfolding ring_kept_def or_fail_def by (auto split: result.split prod.split) (metis snd_conv)+

lemma icecap_handle_ring: "ring_kept (icecap_handle E k q)"
  unfolding icecap_handle_def
  by (cases q) (auto intro!: ring_kept_or_fail ring_kept_intros split: prod.split)

lemma ice_wait:
  "ice_active s \<Longrightarrow> length (ice_input s @ b) < 4 + from_le (take 4 (ice_input s @ b)) \<Longrightarrow>
     stream_write (ice_ops E k Q R) b s = (Ok (length b), s\<lparr>ice_input := ice_input s @ b\<rparr>)"
  by (auto simp: ice_ops_def icecap_process_def mbind_def monad_defs Let_def)

lemma ice_answer:
  assumes "ice_active s" and "ice_input s @ b = le_bytes 4 (length raw) @ raw" and "length raw < 2 ^ 32"
    and "bincode_deserialize Q raw = Some q" and "icecap_handle E k q (s\<lparr>ice_input := []\<rparr>) = (Ok r, s')"
    and "bincode_serialize R r = Some b'" and "length b' < 2 ^ 32"
  shows "stream_write (ice_ops E k Q R) b s =
    (Ok (length b), s'\<lparr>ice_output := ice_output s' @ le_bytes 4 (length b') @ b'\<rparr>)"
proof -
  have "from_le (take 4 (ice_input s @ b)) = length raw" using assms(2,3) by simp
  then show ?thesis
    using assms by (simp add: ice_ops_def icecap_process_def mbind_def monad_defs Let_def ok_or_def)
qed

lemma ice_read_exact:
  assumes "ice_output s = x @ y"
  shows "std_read_exact (stream_read (ice_ops E k Q R)) (length x) [] s = Some (Ok x, s\<lparr>ice_output := y\<rparr>)"
proof (cases "x = []")
  case True
  then have "s\<lparr>ice_output := y\<rparr> = s" using assms by simp
  then show ?thesis using True by (simp add: read_exact_once(2))
next
  case False
  then show ?thesis using assms read_exact_once(1) [of "stream_read (ice_ops E k Q R)" "length x" s x "s\<lparr>ice_output := y\<rparr>"]
    by (simp add: ice_ops_def)
qed

lemma ice_exchange:
  assumes "ice_active s" and "ice_input s = []" and "ice_output s = []"
    and "icecap_handle E k q s = (Ok r, s')"
    and "bincode_serialize (srv_request X) q = Some raw" and "bincode_deserialize (srv_request X) raw = Some q" and "length raw < 2 ^ 32"
    and "bincode_serialize (srv_response X) r = Some b'" and "bincode_deserialize (srv_response X) b' = Some r" and "length b' < 2 ^ 32"
  shows "realm_communicate (icecap_wire E k X) q s = (Ok r, s')"
proof -
  let ?S = "ice_ops E k (srv_request X) (srv_response X)"
  let ?head = "le_bytes 4 (length raw)"
  let ?h = "s\<lparr>ice_input := ?head\<rparr>"
  let ?out = "s'\<lparr>ice_output := le_bytes 4 (length b') @ b'\<rparr>"
  have s': "ice_output s' = []" using icecap_handle_ring [of E k q] assms(3,4) by (metis ring_kept_def snd_conv)
  have same: "s\<lparr>ice_input := []\<rparr> = s" "s'\<lparr>ice_output := []\<rparr> = s'" using assms(2) s' by simp_all
  have head: "?head \<noteq> []" using length_le_bytes [of 4 "length raw"] by fastforce
  have sent: "\<exists>f. std_write_all (stream_write ?S) ?head s = Some (Ok (), f) \<and> std_write_all (stream_write ?S) raw f = Some (Ok (), ?out)"
  proof (cases "raw = []")
    case True
    then have "stream_write ?S ?head s = (Ok (length ?head), ?out)"
      using ice_answer [OF assms(1), of ?head raw "srv_request X" q E k r s' "srv_response X" b'] assms same s' by simp
    then have "std_write_all (stream_write ?S) ?head s = Some (Ok (), ?out)" using head by (rule std_write_all_once(1))
    moreover have "std_write_all (stream_write ?S) raw ?out = Some (Ok (), ?out)" using True by (simp add: std_write_all_once(2))
    ultimately show ?thesis by blast
  next
    case False
    have "stream_write ?S ?head s = (Ok (length ?head), ?h)"
      using ice_wait [OF assms(1), of ?head E k] assms(2,7) False by simp
    then have "std_write_all (stream_write ?S) ?head s = Some (Ok (), ?h)" using head by (rule std_write_all_once(1))
    moreover have "stream_write ?S raw ?h = (Ok (length raw), ?out)"
      using ice_answer [of ?h raw raw "srv_request X" q E k r s' "srv_response X" b'] assms same s' by simp
    then have "std_write_all (stream_write ?S) raw ?h = Some (Ok (), ?out)" using False by (rule std_write_all_once(1))
    ultimately show ?thesis by blast
  qed
  have received: "std_read_exact (stream_read ?S) 4 [] ?out = Some (Ok (le_bytes 4 (length b')), s'\<lparr>ice_output := b'\<rparr>)"
    "std_read_exact (stream_read ?S) (length b') [] (s'\<lparr>ice_output := b'\<rparr>) = Some (Ok b', s')"
    using ice_read_exact [of ?out "le_bytes 4 (length b')" b'] ice_read_exact [of "s'\<lparr>ice_output := b'\<rparr>" b' "[]"] same(2)
    by simp_all
  show ?thesis
    using sent received assms(5,7,9,10)
    by (auto simp: realm_communicate_def icecap_wire_def on_channel_def or_stuck_def mbind_def monad_defs merr_def ok_or_def)
qed

interpretation icecap_channel: enclave_channel "icecap_call (icecap_wire E k X)" "icecap_serve E k" ice_idle "fits_frame X (2 ^ 32 - 1)"
  for E k X
proof
  fix w s q r s'
  assume w: "ice_idle w s" and run: "icecap_serve E k q s = (Ok r, s')" and fits: "fits_frame X (2 ^ 32 - 1) q r"
  obtain b b' where b: "bincode_serialize (srv_request X) q = Some b" "bincode_deserialize (srv_request X) b = Some q"
      "length b < 2 ^ 32"
    and b': "bincode_serialize (srv_response X) r = Some b'" "bincode_deserialize (srv_response X) b' = Some r"
      "length b' < 2 ^ 32"
    using fits by (fastforce simp: fits_frame_def carries_def)
  have handle: "ice_active s" "icecap_handle E k q s = (Ok r, s')" using run by (simp_all add: icecap_serve_def split: if_splits)
  have "ice_input s' = []" "ice_output s' = []"
    using icecap_handle_ring [of E k q] handle(2) w by (metis ring_kept_def ice_idle_def snd_conv)+
  then show "\<exists>w'. icecap_call (icecap_wire E k X) q w = (Ok r, w') \<and> ice_idle w' s'"
    using ice_exchange [OF handle(1) _ _ handle(2) b b'] w by (simp add: icecap_call_def ice_idle_def)
qed

section \<open>Relaying\<close>

definition relay_answer :: "(byte list \<times> bool) list \<Rightarrow> byte list list option" where
  "relay_answer xs = (if xs = [] then None else Some (map fst xs))"

text \<open>
  The runtime opens a session if there is none yet (number 0), takes the data of the client and then gives the chunks \<open>xs\<close>.
\<close>

definition serves ::
  "(RmRequest \<Rightarrow> ('s, 'f, RmResponse) sm) \<Rightarrow> (RmRequest \<Rightarrow> RmResponse \<Rightarrow> bool) \<Rightarrow> u32 \<Rightarrow> byte list \<Rightarrow> 's \<Rightarrow>
   u32 \<Rightarrow> (byte list \<times> bool) list \<Rightarrow> 's \<Rightarrow> bool" where
  "serves runtime fits n data s session xs s' \<longleftrightarrow>
     (\<exists>s0 s1.
        (if n = 0 then runtime NewTlsSession s = (Ok (TlsSession session), s0) \<and> fits NewTlsSession (TlsSession session)
         else session = n \<and> s0 = s) \<and>
        runtime (SendTlsData session data) s0 = (Ok (StatusResponse Success), s1) \<and>
        fits (SendTlsData session data) (StatusResponse Success) \<and>
        drains runtime fits session s1 xs s')"

text \<open>
  What a server promises its handlers: it opens the same session, and returns the chunks and whether the runtime is still active.
\<close>

definition relays ::
  "((byte list \<times> bool) list \<Rightarrow> bool) \<Rightarrow> 'v VeracruzServer \<Rightarrow> (RmRequest \<Rightarrow> ('s, 'f, RmResponse) sm) \<Rightarrow> ('v \<Rightarrow> 's \<Rightarrow> bool) \<Rightarrow>
   (RmRequest \<Rightarrow> RmResponse \<Rightarrow> bool) \<Rightarrow> bool" where
  "relays P V runtime rel fits \<longleftrightarrow>
     (\<forall>v s n data session xs s'.
        rel v s \<longrightarrow> serves runtime fits n data s session xs s' \<longrightarrow> P xs \<longrightarrow>
        (\<exists>v1 v'. open_session V n v = (Ok session, v1) \<and>
           vs_tls_data V session data v1 = (Ok (last (True # map snd xs), relay_answer xs), v') \<and> rel v' s'))"

text \<open>It is enough that the server passes on the request for a session, and the data.\<close>

lemma relaysI:
  assumes "\<And>v s session s'. rel v s \<Longrightarrow> runtime NewTlsSession s = (Ok (TlsSession session), s') \<Longrightarrow>
      fits NewTlsSession (TlsSession session) \<Longrightarrow> \<exists>v'. vs_new_tls_session V v = (Ok session, v') \<and> rel v' s'"
    and "\<And>v s session data s1 xs s'. rel v s \<Longrightarrow> runtime (SendTlsData session data) s = (Ok (StatusResponse Success), s1) \<Longrightarrow>
      fits (SendTlsData session data) (StatusResponse Success) \<Longrightarrow> drains runtime fits session s1 xs s' \<Longrightarrow> P xs \<Longrightarrow>
      \<exists>v'. vs_tls_data V session data v = (Ok (last (True # map snd xs), relay_answer xs), v') \<and> rel v' s'"
  shows "relays P V runtime rel fits"
  unfolding relays_def
proof (intro allI impI)
  fix v s n data session xs s'
  assume v: "rel v s" and serves: "serves runtime fits n data s session xs s'" and "P xs"
  obtain s0 s1 where s0: "if n = 0 then runtime NewTlsSession s = (Ok (TlsSession session), s0) \<and> fits NewTlsSession (TlsSession session)
         else session = n \<and> s0 = s" and s1: "runtime (SendTlsData session data) s0 = (Ok (StatusResponse Success), s1)"
      "fits (SendTlsData session data) (StatusResponse Success)" "drains runtime fits session s1 xs s'"
    using serves unfolding serves_def by blast
  obtain v1 where v1: "open_session V n v = (Ok session, v1)" "rel v1 s0"
    using s0 v assms(1) [OF v] by (cases "n = 0") (auto simp: open_session_def mreturn_def)
  then show "\<exists>v1 v'. open_session V n v = (Ok session, v1) \<and>
      vs_tls_data V session data v1 = (Ok (last (True # map snd xs), relay_answer xs), v') \<and> rel v' s'"
    using assms(2) [OF v1(2) s1 \<open>P xs\<close>] by blast
qed

lemma needed_asks:
  "linux_tls_data_needed X session = ask_needed (linux_call X) InvalidRuntimeManagerResponse session"
  "nitro_tls_data_needed X session = ask_needed (nitro_call X) (\<lambda>_. ServerStatus Fail) session"
  "icecap_tls_data_needed X session = ask_needed (icecap_call X) UnexpectedRuntimeManagerResponse session"
  "linux_read_tls_data X session = ask_data (linux_call X) InvalidRuntimeManagerResponse session"
  by (auto simp: linux_tls_data_needed_def nitro_tls_data_needed_def icecap_tls_data_needed_def ask_needed_def
      linux_read_tls_data_def ask_data_def intro!: arg_cong [where f = "mbind _"] split: RmResponse.split)

lemma linux_relays: "relays (\<lambda>_. True) (linux_server (linux_wire E m k X)) (handle_message E m k) idle (fits_frame X isize_max)"
proof (rule relaysI)
  fix w g session g'
  assume "idle w g" and "handle_message E m k NewTlsSession g = (Ok (TlsSession session), g')"
    and "fits_frame X isize_max NewTlsSession (TlsSession session)"
  then show "\<exists>w'. vs_new_tls_session (linux_server (linux_wire E m k X)) w = (Ok session, w') \<and> idle w' g'"
    using linux_channel.call_step by (fastforce simp: linux_server_def linux_new_tls_session_def mbind_def mreturn_def)
next
  fix w g session data g1 xs g'
  assume w: "idle w g" and send: "handle_message E m k (SendTlsData session data) g = (Ok (StatusResponse Success), g1)"
    and fits: "fits_frame X isize_max (SendTlsData session data) (StatusResponse Success)"
    and drains: "drains (handle_message E m k) (fits_frame X isize_max) session g1 xs g'"
  let ?X = "linux_wire E m k X"
  obtain w1 where w1: "linux_call ?X (SendTlsData session data) w = (Ok (StatusResponse Success), w1)" "idle w1 g1"
    using linux_channel.call_step [OF w send fits] by blast
  show "\<exists>w'. vs_tls_data (linux_server ?X) session data w = (Ok (last (True # map snd xs), relay_answer xs), w') \<and> idle w' g'"
    using w1(1) linux_channel.collect_drains [OF drains w1(2), where active = True and buffer = "[]"
        and other = InvalidRuntimeManagerResponse and other' = InvalidRuntimeManagerResponse]
    by (fastforce simp: linux_server_def linux_tls_data_def mbind_def monad_defs or_stuck_def relay_answer_def needed_asks)
qed

lemma nitro_relays: "relays (\<lambda>_. True) (nitro_server (nitro_wire E N k X) e) (nitro_handle E N k) idle (fits_frame X isize_max)"
proof (rule relaysI)
  fix w g session g'
  assume "idle w g" and "nitro_handle E N k NewTlsSession g = (Ok (TlsSession session), g')"
    and "fits_frame X isize_max NewTlsSession (TlsSession session)"
  then show "\<exists>w'. vs_new_tls_session (nitro_server (nitro_wire E N k X) e) w = (Ok session, w') \<and> idle w' g'"
    using nitro_channel.call_step by (fastforce simp: nitro_server_def nitro_new_tls_session_def mbind_def mreturn_def)
next
  fix w g session data g1 xs g'
  assume w: "idle w g" and send: "nitro_handle E N k (SendTlsData session data) g = (Ok (StatusResponse Success), g1)"
    and fits: "fits_frame X isize_max (SendTlsData session data) (StatusResponse Success)"
    and drains: "drains (nitro_handle E N k) (fits_frame X isize_max) session g1 xs g'"
  let ?X = "nitro_wire E N k X"
  obtain w1 where w1: "nitro_call ?X (SendTlsData session data) w = (Ok (StatusResponse Success), w1)" "idle w1 g1"
    using nitro_channel.call_step [OF w send fits] by blast
  show "\<exists>w'. vs_tls_data (nitro_server ?X e) session data w = (Ok (last (True # map snd xs), relay_answer xs), w') \<and> idle w' g'"
    using w1(1) nitro_channel.collect_drains [OF drains w1(2), where active = True and buffer = "[]"
        and other = "\<lambda>_. ServerStatus Fail" and other' = "\<lambda>_. ServerStatus Fail", unfolded ask_data_def]
    by (fastforce simp: nitro_server_def nitro_tls_data_def mbind_def monad_defs or_stuck_def relay_answer_def needed_asks)
qed

text \<open>The server for IceCap stops asking once the runtime is not active; it returns all the chunks of a runtime that stays active.\<close>

lemma last_active: "list_all snd xs \<Longrightarrow> last (True # map snd xs)"
  by (induction xs) auto

lemma icecap_relays: "relays (list_all snd) (icecap_server (icecap_wire E k X)) (icecap_serve E k) ice_idle (fits_frame X (2 ^ 32 - 1))"
proof (rule relaysI)
  fix w s session s'
  assume "ice_idle w s" and "icecap_serve E k NewTlsSession s = (Ok (TlsSession session), s')"
    and "fits_frame X (2 ^ 32 - 1) NewTlsSession (TlsSession session)"
  then show "\<exists>w'. vs_new_tls_session (icecap_server (icecap_wire E k X)) w = (Ok session, w') \<and> ice_idle w' s'"
    using icecap_channel.call_step by (fastforce simp: icecap_server_def icecap_new_tls_session_def mbind_def mreturn_def)
next
  fix w s session data s1 xs s'
  assume w: "ice_idle w s" and send: "icecap_serve E k (SendTlsData session data) s = (Ok (StatusResponse Success), s1)"
    and fits: "fits_frame X (2 ^ 32 - 1) (SendTlsData session data) (StatusResponse Success)"
    and drains: "drains (icecap_serve E k) (fits_frame X (2 ^ 32 - 1)) session s1 xs s'" and "list_all snd xs"
  let ?X = "icecap_wire E k X"
  obtain w1 where w1: "icecap_call ?X (SendTlsData session data) w = (Ok (StatusResponse Success), w1)" "ice_idle w1 s1"
    using icecap_channel.call_step [OF w send fits] by blast
  show "\<exists>w'. vs_tls_data (icecap_server ?X) session data w = (Ok (last (True # map snd xs), relay_answer xs), w') \<and> ice_idle w' s'"
    using w1(1) last_active [OF \<open>list_all snd xs\<close>] icecap_channel.icecap_collect_drains [OF drains w1(2) \<open>list_all snd xs\<close>,
        where buffer = "[]" and other = UnexpectedRuntimeManagerResponse and other' = UnexpectedRuntimeManagerResponse, unfolded ask_data_def]
    by (fastforce simp: icecap_server_def icecap_tls_data_def mbind_def monad_defs or_stuck_def relay_answer_def needed_asks)
qed

section \<open>Properties\<close>

text \<open>
  C20. The HTTP layer between a client and the server is transparent. Writing on the connection of a client passes exactly the data
  written to the server object, in the session of the connection or in a new one, and appends the buffers of the answer,
  decoded and in order, to what the client reads, together with the number of the session. Without an answer the
  connection is left as it was, so that the number of a new session is not learnt. If the runtime is no longer
  active, the server object is dropped and the end of the server signalled.
\<close>

theorem http_transparent:
  assumes "base64_ok (client_base64_encode C) (client_base64_decode C)" and "posts_to C V"
    and "data \<noteq> []" and "enclave_handler s = Some v"
    and "(if conn_session_id conn \<in> {None, Some 0} then vs_new_tls_session V v else (Ok (the (conn_session_id conn)), v)) = (Ok session, v1)"
    and "vs_tls_data V session data v1 = (Ok (active, answer), v2)"
    and "active \<or> vs_drop V v2 = Ok () \<and> \<not> stop_sent s"
  shows "connection_write C data (conn, s) =
    (Ok (length data),
     case answer of
       None \<Rightarrow> conn
     | Some bufs \<Rightarrow> conn\<lparr>conn_session_id := Some session, conn_read_buffer := conn_read_buffer conn @ concat bufs\<rparr>,
     if active then s\<lparr>enclave_handler := Some v2\<rparr> else s\<lparr>enclave_handler := None, stop_sent := True\<rparr>)"
proof -
  have "open_session V (case conn_session_id conn of None \<Rightarrow> 0 | Some n \<Rightarrow> n) v = (Ok session, v1)"
    using assms(5) by (auto simp: open_session_def mreturn_def split: option.splits if_splits)
  from write_run [OF assms(1-4) this assms(6)] show ?thesis
    using assms(7) by (simp add: can_stop_def receive_answer_def after_answer_def)
qed

text \<open>An encoding of bytes as pairs of letters, and a client that posts to a given server.\<close>

definition pair_encode :: "byte list \<Rightarrow> string" where
  "pair_encode b = concat (map (\<lambda>x. [char_of (97 + unat x div 16), char_of (97 + unat x mod 16)]) b)"

fun pair_decode :: "string \<Rightarrow> byte list option" where
  "pair_decode (c # d # cs) = map_option (Cons (of_nat (16 * (of_char c - 97) + (of_char d - 97)))) (pair_decode cs)"
| "pair_decode [] = Some []"
| "pair_decode _ = None"

lemma pair_letters:
  fixes x :: byte
  shows "of_char (char_of (97 + unat x div 16)) = 97 + unat x div 16" and "of_char (char_of (97 + unat x mod 16)) = 97 + unat x mod 16"
    and "(97 + unat x div 16) mod 256 = 97 + unat x div 16"
proof -
  have "unat x < 256" using unsigned_less [of x, where ?'a = nat] by simp
  then have "unat x div 16 < 16" by simp
  then show "of_char (char_of (97 + unat x div 16)) = 97 + unat x div 16"
    and "of_char (char_of (97 + unat x mod 16)) = 97 + unat x mod 16" and "(97 + unat x div 16) mod 256 = 97 + unat x div 16"
    by simp_all
qed

lemma pair_step:
  "pair_decode (char_of (97 + unat x div 16) # char_of (97 + unat x mod 16) # cs) = map_option (Cons x) (pair_decode cs)"
  by (simp only: pair_decode.simps pair_letters add_diff_cancel_left' mult_div_mod_eq) simp

lemma pair_ok: "base64_ok pair_encode pair_decode"
proof -
  have "pair_decode (pair_encode b) = Some b" for b
    by (induction b) (simp_all add: pair_encode_def pair_step del: pair_decode.simps(1))
  moreover have "no_whitespace (pair_encode b)" for b
    by (auto simp: no_whitespace_def pair_encode_def is_whitespace_def dest!: arg_cong [where f = of_char] simp: pair_letters)
  moreover have "pair_encode b = [] \<longleftrightarrow> b = []" for b by (cases b) (simp_all add: pair_encode_def)
  ultimately show ?thesis by (simp add: base64_ok_def)
qed

definition posting :: "'v VeracruzServer \<Rightarrow> (nat, 'v HandlerState, unit, unit) client_crates" where
  "posting V =
     \<lparr>client_policy_crates = client_policy_crates demo_client_crates, client_proto = client_proto demo_client_crates,
      client_base64_encode = pair_encode, client_base64_decode = pair_decode,
      http_post = (\<lambda>url body s. case runtime_manager_request V pair_encode pair_decode body s of
        (Ok text, s') \<Rightarrow> (Some text, s') | (_, s') \<Rightarrow> (None, s')),
      from_pem_multiple = from_pem_multiple demo_client_crates, pk_from_private_key = pk_from_private_key demo_client_crates,
      pk_from_public_key = pk_from_public_key demo_client_crates, write_public_der = write_public_der demo_client_crates,
      pem_read = pem_read demo_client_crates, parse_x509 = parse_x509 demo_client_crates,
      mbedtls_ciphersuite = mbedtls_ciphersuite demo_client_crates, tls_new = tls_new demo_client_crates,
      tls_begin = tls_begin demo_client_crates, tls_advance = tls_advance demo_client_crates,
      peer_cert = peer_cert demo_client_crates, ee_extensions = ee_extensions demo_client_crates\<rparr>"

lemma posting_ok: "base64_ok (client_base64_encode (posting V)) (client_base64_decode (posting V))" "posts_to (posting V) V"
  by (simp_all add: posting_def pair_ok posts_to_def)

definition demo_connection :: InsecureConnection where
  "demo_connection = \<lparr>conn_read_buffer = [9], conn_server_url = ''host'', conn_session_id = None\<rparr>"

definition echo_server :: "unit VeracruzServer" where
  "echo_server =
     \<lparr>vs_plaintext_data = (\<lambda>b. mreturn (Some b)), vs_new_tls_session = mreturn 5,
      vs_tls_data = (\<lambda>n b. mreturn (True, Some [b, [], b])), vs_drop = (\<lambda>_. Ok ())\<rparr>"

theorem http_transparent_witness:
  "connection_write (posting echo_server) [32, 200] (demo_connection, \<lparr>enclave_handler = Some (), stop_sent = False\<rparr>) =
    (Ok 2, \<lparr>conn_read_buffer = [9, 32, 200, 32, 200], conn_server_url = ''host'', conn_session_id = Some 5\<rparr>,
     \<lparr>enclave_handler = Some (), stop_sent = False\<rparr>)"
  using http_transparent [OF posting_ok, of "[32, 200]" "\<lparr>enclave_handler = Some (), stop_sent = False\<rparr>" "()" demo_connection echo_server 5 "()"
      True "Some [[32, 200], [], [32, 200]]" "()"]
  by (simp add: echo_server_def demo_connection_def mreturn_def)


text \<open>
  C9. From the client to the runtime and back, in the Linux build. What a client writes on its connection is handed by the HTTP handler, the
  server, the socket and the loop of the runtime to the session of the client, and the chunks the runtime has for this session reach the read
  buffer of the connection, in order and unchanged. If a chunk says that the runtime is no longer active, the server stops.
\<close>

theorem client_reaches_runtime:
  assumes "base64_ok (client_base64_encode C) (client_base64_decode C)" and "posts_to C (linux_server (linux_wire E m k X))"
    and "data \<noteq> []" and "enclave_handler s = Some w" and "idle w g"
    and "serves (handle_message E m k) (fits_frame X isize_max) (case conn_session_id conn of None \<Rightarrow> 0 | Some n \<Rightarrow> n) data g session xs g'"
    and "list_all snd xs \<or> (\<forall>w. vs_drop (linux_server (linux_wire E m k X)) w = Ok ()) \<and> \<not> stop_sent s"
  shows "\<exists>w'. idle w' g' \<and> connection_write C data (conn, s) =
    (Ok (length data),
     if xs = [] then conn
     else conn\<lparr>conn_session_id := Some session, conn_read_buffer := conn_read_buffer conn @ concat (map fst xs)\<rparr>,
     if last (True # map snd xs) then s\<lparr>enclave_handler := Some w'\<rparr> else s\<lparr>enclave_handler := None, stop_sent := True\<rparr>)"
proof -
  let ?V = "linux_server (linux_wire E m k X)"
  let ?n = "case conn_session_id conn of None \<Rightarrow> 0 | Some n \<Rightarrow> n"
  obtain w1 w' where w': "open_session ?V ?n w = (Ok session, w1)"
      "vs_tls_data ?V session data w1 = (Ok (last (True # map snd xs), relay_answer xs), w')" "idle w' g'"
    using linux_relays [of E m k X] assms(5,6) unfolding relays_def by blast
  have "last (True # map snd xs) \<or> can_stop ?V w' s" using assms(7) last_active [of xs] by (auto simp: can_stop_def)
  from write_run [OF assms(1-4) w'(1,2) this] show ?thesis
    using w'(3) by (intro exI [of _ w']) (simp add: receive_answer_def after_answer_def relay_answer_def)
qed

text \<open>A session that answers with what it is sent, and codecs for the messages of a session.\<close>

definition echo_env :: "(unit, unit, byte list, nat) runtime_env" where
  "echo_env = demo_env\<lparr>env_tls := demo_tls\<lparr>read_to_end := (\<lambda>c. (([], WouldBlock), c)), wants_write := (\<lambda>c. c \<noteq> []),
     write_tls := (\<lambda>c. (Ok c, []))\<rparr>\<rparr>"

definition echo_globals :: "byte list \<Rightarrow> (unit, unit, byte list) Globals" where
  "echo_globals pending = globals_init\<lparr>sessions := [4 \<mapsto> \<lparr>tls_connection = pending, session_principals = []\<rparr>],
     protocol_state := Some demo_state\<rparr>"

definition session_request_codec :: "RmRequest bincode" where
  "session_request_codec =
     \<lparr>bincode_serialize = (\<lambda>q. case q of
        GetTlsData n \<Rightarrow> Some [0, ucast n] | GetTlsDataNeeded n \<Rightarrow> Some [1, ucast n] | SendTlsData n b \<Rightarrow> Some (2 # ucast n # b)
      | _ \<Rightarrow> None),
      bincode_deserialize = (\<lambda>b. case b of
        x # n # b \<Rightarrow> Some (if x = 0 then GetTlsData (ucast n) else if x = 1 then GetTlsDataNeeded (ucast n) else SendTlsData (ucast n) b)
      | _ \<Rightarrow> None)\<rparr>"

definition session_response_codec :: "RmResponse bincode" where
  "session_response_codec =
     \<lparr>bincode_serialize = (\<lambda>r. case r of
        TlsData b active \<Rightarrow> Some (0 # (if active then 1 else 0) # b) | TlsDataNeeded needed \<Rightarrow> Some [1, if needed then 1 else 0]
      | StatusResponse _ \<Rightarrow> Some [2, 0] | _ \<Rightarrow> None),
      bincode_deserialize = (\<lambda>b. case b of
        x # y # b \<Rightarrow> Some (if x = 0 then TlsData b (y = 1) else if x = 1 then TlsDataNeeded (y = 1) else StatusResponse Success)
      | _ \<Rightarrow> None)\<rparr>"

definition echo_crates :: "(unit, unit, byte list) Globals wire server_crates" where
  "echo_crates =
     \<lparr>srv_socket = wire_ops (\<lambda>s. (Ok (), s)), srv_vsock = wire_raw_ops (\<lambda>s. (Ok (), s)),
      srv_request = session_request_codec, srv_response = session_response_codec,
      srv_http = \<lparr>curl_post = (\<lambda>_ _. mthrow ()), http_base64_encode = pair_encode, http_base64_decode = pair_decode\<rparr>,
      srv_proto = client_proto demo_client_crates, srv_policy = client_policy_crates demo_client_crates, srv_image = [],
      spawn_runtime = (\<lambda>_. mreturn ()), connect_runtime = mreturn (),
      srv_nitro = \<lparr>sys_socket = mthrow NixSys, sys_setsockopt = (\<lambda>_ _. mreturn ()), sys_connect = (\<lambda>_ _ _. mreturn ()),
        sys_shutdown = (\<lambda>_. mreturn ()), sys_close = (\<lambda>_. mreturn ()), nitro_cli = (\<lambda>_ _. mthrow ()), enclave_json = (\<lambda>_. None)\<rparr>,
      eif_path = None, spawn_realm = mreturn (),
      shutdown_socket = mreturn (), kill_process = mreturn ()\<rparr>"

lemma echo_fits:
  "fits_frame echo_crates isize_max (SendTlsData 4 [7, 8]) (StatusResponse Success)"
  "fits_frame echo_crates isize_max (GetTlsDataNeeded 4) (TlsDataNeeded b)"
  "fits_frame echo_crates isize_max (GetTlsData 4) (TlsData [7, 8] True)"
  by (simp_all add: fits_frame_def carries_def echo_crates_def session_request_codec_def session_response_codec_def isize_max_def)

lemma echo_send:
  "handle_message echo_env [] None (SendTlsData 4 [7, 8]) (echo_globals []) = (Ok (StatusResponse Success), echo_globals [7, 8])"
proof -
  let ?T = "env_tls echo_env"
  have "send_tls_loop ?T [7, 8] [] = Some (Ok (), [7, 8])"
    by (simp add: send_tls_loop.simps echo_env_def demo_tls_def)
  then have "send_tls_data ?T [7, 8] \<lparr>tls_connection = [], session_principals = []\<rparr> = (Ok (), \<lparr>tls_connection = [7, 8], session_principals = []\<rparr>)"
    by (simp add: send_tls_data_def on_connection_def mzoom_def)
  moreover have "read_plaintext_data ?T \<lparr>tls_connection = [7, 8], session_principals = []\<rparr> =
      (Ok None, \<lparr>tls_connection = [7, 8], session_principals = []\<rparr>)"
    by (simp add: read_plaintext_data_def on_connection_def mzoom_def mbind_def monad_defs merr_def echo_env_def demo_tls_def)
  ultimately show ?thesis
    by (simp add: handle_message_def send_data_def on_session_def mbind_def monad_defs or_fail_def echo_globals_def)
qed

lemma echo_drains:
  "drains (handle_message echo_env [] None) (fits_frame echo_crates isize_max) 4 (echo_globals [7, 8]) [([7, 8], True)] (echo_globals [])"
proof (rule drains.more)
  show "handle_message echo_env [] None (GetTlsDataNeeded 4) (echo_globals [7, 8]) = (Ok (TlsDataNeeded True), echo_globals [7, 8])"
    by (simp add: handle_message_def get_data_needed_def on_session_def mbind_def monad_defs or_fail_def echo_globals_def
        read_tls_needed_def echo_env_def)
  show "handle_message echo_env [] None (GetTlsData 4) (echo_globals [7, 8]) = (Ok (TlsData [7, 8] True), echo_globals [])"
    by (simp add: handle_message_def get_data_def on_session_def mbind_def monad_defs or_fail_def echo_globals_def
        read_tls_data_def on_connection_def mzoom_def merr_def echo_env_def)
  show "drains (handle_message echo_env [] None) (fits_frame echo_crates isize_max) 4 (echo_globals []) [] (echo_globals [])"
    by (rule drains.no_more)
      (simp_all add: handle_message_def get_data_needed_def on_session_def mbind_def monad_defs or_fail_def echo_globals_def
        read_tls_needed_def echo_env_def echo_fits)
qed (rule echo_fits)+

theorem client_reaches_runtime_witness:
  "\<exists>w'. idle w' (echo_globals []) \<and>
     connection_write (posting (linux_server (linux_wire echo_env [] None echo_crates))) [7, 8]
       (demo_connection\<lparr>conn_session_id := Some 4\<rparr>,
        \<lparr>enclave_handler = Some \<lparr>wire_in = [], wire_out = [], wire_isolate = echo_globals [], wire_up = True\<rparr>, stop_sent = False\<rparr>) =
     (Ok 2, \<lparr>conn_read_buffer = [9, 7, 8], conn_server_url = ''host'', conn_session_id = Some 4\<rparr>,
      \<lparr>enclave_handler = Some w', stop_sent = False\<rparr>)"
proof -
  have "serves (handle_message echo_env [] None) (fits_frame echo_crates isize_max) 4 [7, 8] (echo_globals []) 4 [([7, 8], True)]
      (echo_globals [])"
    using echo_send echo_fits(1) echo_drains by (auto simp: serves_def)
  then show ?thesis
    using client_reaches_runtime [OF posting_ok, where data = "[7, 8]" and conn = "demo_connection\<lparr>conn_session_id := Some 4\<rparr>"
        and session = 4 and xs = "[([7, 8], True)]" and g = "echo_globals []" and g' = "echo_globals []"
        and w = "\<lparr>wire_in = [], wire_out = [], wire_isolate = echo_globals [], wire_up = True\<rparr>" and E = echo_env and m = "[]" and k = None
        and X = echo_crates
        and s = "\<lparr>enclave_handler = Some \<lparr>wire_in = [], wire_out = [], wire_isolate = echo_globals [], wire_up = True\<rparr>, stop_sent = False\<rparr>"]
    by (simp add: idle_def demo_connection_def)
qed

end
