(* ===== verification/Spec2Isabelle.thy ===== *)
theory Spec2Isabelle
  imports RuntimeProps BackendProps AttestProps Relay
begin

text \<open>
  A model of Veracruz, from the filesystem of its trusted runtime to its clients, with the theorems that make it correct.

  Veracruz runs a WASM program in an isolate, on files that mutually distrusting clients provision, under a
  global policy all of them have seen. The policy gives every client and every program rights on paths and
  fixes the hashes of some files. The host outside the isolate is not trusted: its server starts the isolate and routes TLS
  records between the clients and the isolate. An attestation server, which all trust, checks what runs in the isolate and
  certifies its key together with the measurement of its code; the clients compare the measurement with the policy. The parts
  of the system and the theories that model them:

  \<^item> \<^bold>\<open>Filesystem\<close> (\<^verbatim>\<open>src/execution-engine/src/fs.rs\<close>). A table of inodes, shared between handles; a handle is a table
    of descriptors with rights. The runtime spawns a handle for a principal with the rights of the policy.
    \<^verbatim>\<open>Paths\<close> models the paths of the Rust library, \<^verbatim>\<open>WasiTypes\<close> the types of the WASI interface, \<^verbatim>\<open>Inodes\<close> the contents of
    inodes, the entries and the inode table, \<^verbatim>\<open>Lookup\<close> the walk along a path, \<^verbatim>\<open>Filesystem\<close> the record \<^verbatim>\<open>FileSystem\<close> and its
    methods in the order of the source. The mutex around the table is the identity, because the runtime has one
    thread per filesystem and a poisoned lock needs a panic.
  \<^item> \<^bold>\<open>Native modules\<close> (\<^verbatim>\<open>src/execution-engine/src/native_modules\<close>). Special files that compute when they are written;
    they work on a clone of the handle of the writer. Theory \<^verbatim>\<open>Services\<close>, with \<^verbatim>\<open>fd_pwrite\<close> and the operations that
    depend on it.
  \<^item> \<^bold>\<open>WASI wrapper\<close> (\<^verbatim>\<open>src/execution-engine/src/wasi/common.rs\<close>, \<^verbatim>\<open>strace.rs\<close>, \<^verbatim>\<open>src/platform-services/src\<close>). The host calls a
    WebAssembly program can make: they decode numbers and addresses, call the filesystem and write the results into the
    memory of the program. \<^verbatim>\<open>Memory\<close> models the access to the memory, \<^verbatim>\<open>Strace\<close> the tracing, \<^verbatim>\<open>WasiWrapper\<close> the record \<^verbatim>\<open>WasiWrapper\<close> with
    every host call.
  \<^item> \<^bold>\<open>Engines\<close> (\<^verbatim>\<open>src/execution-engine/src/wasi/wasmi.rs\<close>, \<^verbatim>\<open>wasmtime.rs\<close>, \<^verbatim>\<open>src/execution-engine/src/lib.rs\<close>). The glue between the two
    WebAssembly packages and the wrapper: types, linking, one function per host call, loading and invocation. \<^verbatim>\<open>EngineTypes\<close> has the
    names of the host calls and the interface of the packages, \<^verbatim>\<open>Wasmi\<close> the interpreter, \<^verbatim>\<open>Wasmtime\<close> the compiling engine, \<^verbatim>\<open>Engines\<close>
    the function \<^verbatim>\<open>execute\<close> that runs a program with one of them.
  \<^item> \<^bold>\<open>Policy\<close> (\<^verbatim>\<open>src/policy-utils/src\<close>). Theory \<^verbatim>\<open>PolicyUtils\<close>: the policy, its validation, its tables of rights and of digests,
    the parsers for command lines.
  \<^item> \<^bold>\<open>Transport protocol\<close> (\<^verbatim>\<open>src/transport-protocol\<close>). Theory \<^verbatim>\<open>Transport\<close>: framing, reassembly of chunks, the serialisers and
    parsers of all messages.
  \<^item> \<^bold>\<open>Session manager\<close> (\<^verbatim>\<open>src/session-manager/src\<close>). Theory \<^verbatim>\<open>Sessions\<close>: the TLS sessions of the clients and their context.
  \<^item> \<^bold>\<open>Runtime manager\<close> (\<^verbatim>\<open>src/runtime-manager/src\<close>). Theory \<^verbatim>\<open>RuntimeManager\<close>: the protocol state, the dispatch of client
    requests, the global variables as the record \<^verbatim>\<open>Globals\<close> and the messages of the Linux build. Theory \<^verbatim>\<open>Backends\<close>: the loops of the builds
    for Linux, Nitro and IceCap on their channels, and what the builds for Nitro and IceCap do differently.
  \<^item> \<^bold>\<open>Attestation token\<close> (\<^verbatim>\<open>src/psa-attestation/c_src\<close>). Theory \<^verbatim>\<open>PsaToken\<close>: the C functions that put the challenge, the measurement and the
    digest of the certificate request into a signed token.
  \<^item> \<^bold>\<open>Attestation server\<close> (\<^verbatim>\<open>src/proxy-attestation-server/src\<close>). Theory \<^verbatim>\<open>Attestation\<close>: challenges, the check of PSA tokens and Nitro documents, the
    certificates it issues, its routes, and requests in several threads as the step relation \<^verbatim>\<open>pas_step\<close>.
  \<^item> \<^bold>\<open>Input and output\<close> (\<^verbatim>\<open>src/io-utils/src\<close>). Theory \<^verbatim>\<open>IoUtils\<close>: buffers and messages over byte streams, requests over HTTP. Theory \<^verbatim>\<open>Enclaves\<close>:
    virtual sockets and the start and end of a Nitro enclave.
  \<^item> \<^bold>\<open>Server\<close> (\<^verbatim>\<open>src/veracruz-server/src\<close>). Theory \<^verbatim>\<open>Server\<close>: for each build, the exchange of messages with the isolate, the start with
    attestation, sessions and their data; the interface \<^verbatim>\<open>VeracruzServer\<close> and the two HTTP requests on top of it.
  \<^item> \<^bold>\<open>Client\<close> (\<^verbatim>\<open>src/veracruz-client/src\<close>). Theory \<^verbatim>\<open>Client\<close>: the connection over HTTP, the construction with its checks, the checks of the policy
    hash and of the measurement, and the operations. A TLS operation is what the library does between sends and receives.

  \<^bold>\<open>Conventions.\<close> Theory \<^verbatim>\<open>Prelude\<close> has the result type, with \<^verbatim>\<open>Ok\<close> and \<^verbatim>\<open>Err\<close> as in the source, \<^verbatim>\<open>Panic\<close> for a panic and \<^verbatim>\<open>Stuck\<close> for a
  loop that does not end, and a state monad over it: an operation is a function from the state to a result and
  the new state, which is kept when the operation fails, as the source keeps what it has written. Integers have their
  width. A hash map is an association list where its order can be observed (\<^verbatim>\<open>hm_get\<close>, \<^verbatim>\<open>hm_put\<close>), else a map. Packages
  outside the repository are records of functions: \<^verbatim>\<open>rights_codec\<close> (the bits of WASI rights), \<^verbatim>\<open>crates\<close> (cipher and codecs of the
  native modules), \<^verbatim>\<open>policy_crates\<close> (JSON, hex, SHA-256), \<^verbatim>\<open>proto_crates\<close> (protobuf), \<^verbatim>\<open>tls_crates\<close> (rustls, webpki), \<^verbatim>\<open>wasi_crate\<close> (numbers and
  layouts of the WASI types), \<^verbatim>\<open>engine_crates\<close> (conversion of WebAssembly values), \<^verbatim>\<open>wasm_machine\<close> (the parser and the instructions of
  WebAssembly: what a module imports, and a function that advances a program to its next host call, its end or a trap), \<^verbatim>\<open>platform\<close> (the
  answers of clocks and the random generator to each host call), \<^verbatim>\<open>psa_crates\<close> (QCBOR, t_cose and the PSA cryptography), \<^verbatim>\<open>nsm_crates\<close> (the
  security module of Nitro), \<^verbatim>\<open>pas_crates\<close> (signatures, X.509 and base64 of the attestation server), \<^verbatim>\<open>client_crates\<close>, \<^verbatim>\<open>server_crates\<close>,
  \<^verbatim>\<open>nitro_crates\<close>, \<^verbatim>\<open>http_crates\<close> and \<^verbatim>\<open>stream_ops\<close> (sockets, processes, HTTP and TLS outside the isolate, on a world of their own).
  \<^verbatim>\<open>runtime_env\<close> joins those of the runtime. What a
  theorem needs of them is a hypothesis: \<^verbatim>\<open>codec_ok\<close> (the rights codec keeps sets of rights), \<^verbatim>\<open>codec_faithful\<close> (protobuf parses what it has
  written), \<^verbatim>\<open>values_ok\<close> (a value of the right type, in range, is converted to the number it is), \<^verbatim>\<open>base64_ok\<close>, \<^verbatim>\<open>posts_to\<close> (the posts of the client
  reach the handler), \<^verbatim>\<open>carries\<close> (a message fits the channel), \<^verbatim>\<open>writes_stream\<close> and \<^verbatim>\<open>reads_stream\<close> (a stream makes progress), \<^verbatim>\<open>cose_agrees\<close> (the
  verifier accepts what the signer signed), \<^verbatim>\<open>extension_readable\<close> (the client reads the extension the authority wrote), \<^verbatim>\<open>descriptors_ok\<close>. The
  demo records show that the hypotheses can hold. No theorem assumes anything of the machine: a program may do whatever it likes to its memory.

  \<^bold>\<open>The lemmas.\<close> \<^verbatim>\<open>Authority\<close> states the abstract specification of the filesystem, a relation \<^verbatim>\<open>change\<close> with one rule per
  elementary effect and the right that guards it, and proves that every operation is a sequence of changes;
  \<^verbatim>\<open>Confinement\<close> defines the calls a process can make; \<^verbatim>\<open>Handles\<close> proves the consequences of the specification once, in locales,
  for well-formedness, confinement and integrity, and interprets them on the operations. \<^verbatim>\<open>FileSpec\<close> gives the functional
  behaviour of the operations on files; \<^verbatim>\<open>FsProps\<close> collects the properties of the filesystem. \<^verbatim>\<open>Effects\<close> proves in the locales
  \<^verbatim>\<open>host_effects\<close> and \<^verbatim>\<open>program_effects\<close> that a relation kept by the elementary steps is kept by every host call and every run of a
  program, and interprets them for the size of the memory, the calls on the filesystem and the log; \<^verbatim>\<open>Returns\<close> shows which calls
  return; \<^verbatim>\<open>Agreement\<close> relates the host calls of both engines to one specification, \<^verbatim>\<open>wrapper_call\<close>; \<^verbatim>\<open>Tracing\<close> shows that tracing only
  adds to the log; \<^verbatim>\<open>EngineProps\<close> collects the properties. The properties of the policy, the transport protocol and the sessions
  are at the end of their theories. \<^verbatim>\<open>RuntimeProps\<close> lifts the results to the runtime: the invariant of the message loop, integrity of
  requests, digests, execution, shutdown and policy loading. \<^verbatim>\<open>BackendProps\<close> shows that the builds for Nitro and IceCap serve sessions as the Linux
  build does and keep the same invariant. \<^verbatim>\<open>AttestProps\<close> follows a challenge from the runtime to the attestation server and to the
  client. \<^verbatim>\<open>Relay\<close> states what a server relies on as the locale \<^verbatim>\<open>enclave_channel\<close>, a message exchanged with the isolate is a step of the
  runtime, interprets it for the three builds with the two ends of the channel joined, and follows the data of a client through
  HTTP, server, socket and runtime and back. This theory has the path of a request through the layers of the runtime.

  \<^bold>\<open>Termination.\<close> Loops that may not end are \<^verbatim>\<open>partial_function\<close>s whose missing result becomes \<^verbatim>\<open>Stuck\<close>: the loop that feeds TLS data to the
  library, which is proved to end when the library makes progress; the run of a WebAssembly program, which need not end,
  while the host calls in between are proved to return; the loops that send and receive a buffer, which are proved to end when the
  stream makes progress, and not to end when it is closed; the loops of the servers that collect the data of a session, which are
  proved to return all of it when the runtime runs out of data; a TLS operation of the client; and the loops around the
  command-line tool for Nitro enclaves. All other functions are total. No definition uses fuel.

  \<^bold>\<open>Not modelled.\<close> Command lines, logging and the start of the HTTP services; the client for microcontrollers, which sits on
  generated headers; the functions of the attestation core for boot data, which the build leaves out; the drivers of
  the IceCap workspace; example programs, data generators and test programs, which are inputs of the system. Requests of
  the HTTP server of the host are handled one at a time, those of the attestation server in any interleaving of their steps.
\<close>

section \<open>The path of a request\<close>

lemma on_session_Ok:
  "sessions G k = Some s \<Longrightarrow> m s = (Ok a, s') \<Longrightarrow>
     on_session k m G = (Ok a, G\<lparr>sessions := (sessions G)(k \<mapsto> s')\<rparr>)"
  by (simp add: on_session_def monad_defs mbind_def)

lemma parse_incoming_framed:
  assumes "codec_faithful (request_codec (env_proto E))" and "serialize (request_codec (env_proto E)) m = Ok f"
    and "length f \<le> isize_max" and "incoming_buffers G k = None"
  shows "parse_incoming_buffer E k f G = (Ok (Some m), G)"
  using parse_framed [of "request_codec (env_proto E)" m f "incoming_buffers G" k] assms
  by (cases G) (simp add: parse_incoming_buffer_def on_buffers_def merr_def mzoom_def parse_runtime_manager_request_def)

text \<open>
  C32. End to end. When a client request arrives as one framed message, the effect of \<^verbatim>\<open>send_data\<close> is exactly the effect of
  the dispatch on this request for the client of the session, and then the response is returned through the
  same session; nothing else of the state changes but the session's connection.
\<close>

theorem send_data_request:
  assumes "codec_faithful (request_codec (env_proto E))"
    and "serialize (request_codec (env_proto E)) (new_request request) = Ok f" and "length f \<le> isize_max"
    and "sessions G k = Some s" and "incoming_buffers G k = None"
    and "send_tls_data (env_tls E) input s = (Ok (), s1)"
    and "read_plaintext_data (env_tls E) s1 = (Ok (Some (client, f)), s2)"
  shows "send_data E k input G =
    mbind (dispatch_on_request E (ucast client) request) (\<lambda>response.
      case response of
        None \<Rightarrow> mreturn ()
      | Some data \<Rightarrow> on_session k (return_data (env_tls E) data))
      (G\<lparr>sessions := (sessions G)(k \<mapsto> s2)\<rparr>)"
proof -
  let ?G1 = "G\<lparr>sessions := (sessions G)(k \<mapsto> s1)\<rparr>"
  let ?G2 = "G\<lparr>sessions := (sessions G)(k \<mapsto> s2)\<rparr>"
  have one: "on_session k (send_tls_data (env_tls E) input) G = (Ok (), ?G1)"
    using assms(4,6) by (rule on_session_Ok)
  have two: "on_session k (read_plaintext_data (env_tls E)) ?G1 = (Ok (Some (client, f)), ?G2)"
    using on_session_Ok [of ?G1 k s1 "read_plaintext_data (env_tls E)", OF _ assms(7)] by simp
  have three: "parse_incoming_buffer E k f ?G2 = (Ok (Some (new_request request)), ?G2)"
    using assms(1-3,5) by (intro parse_incoming_framed) simp_all
  show ?thesis
    by (simp add: send_data_def dispatch_on_incoming_data_def one two three mbind_assoc) (simp add: new_request_def)
qed

theorem send_data_request_witness:
  "\<exists>G'. send_data demo_env 1 (set_length_prefix [7, 7, 7]) demo_globals = (Err UninitializedProtocolState, G')"
proof -
  let ?s = "\<lparr>tls_connection = [], session_principals = []\<rparr> :: byte list Session"
  have env: "env_proto demo_env = demo_proto" by (simp add: demo_env_def)
  have "codec_faithful (request_codec (env_proto demo_env))"
    by (simp add: env demo_proto_def one_message_faithful)
  moreover have "serialize (request_codec (env_proto demo_env))
      (new_request (WriteFile \<lparr>data_file_name = ''/a'', data_data = [1]\<rparr>)) = Ok (set_length_prefix [7, 7, 7])"
    by (simp add: env serialize_def demo_proto_def one_message_def demo_request_def)
  moreover have "sessions demo_globals 1 = Some ?s" "incoming_buffers demo_globals 1 = None"
    by (simp_all add: demo_globals_def globals_init_def)
  moreover have "send_tls_data (env_tls demo_env) (set_length_prefix [7, 7, 7]) ?s =
      (Ok (), ?s\<lparr>tls_connection := set_length_prefix [7, 7, 7]\<rparr>)"
    by (simp add: demo_env_simps send_tls_data_def on_connection_def mzoom_def send_tls_loop.simps demo_tls_def
        set_length_prefix_def)
  moreover have "read_plaintext_data (env_tls demo_env) (?s\<lparr>tls_connection := set_length_prefix [7, 7, 7]\<rparr>) =
      (Ok (Some (0, set_length_prefix [7, 7, 7])), ?s)"
    by (simp add: demo_env_simps read_plaintext_data_def on_connection_def mzoom_def merr_def ok_or_def monad_defs
        mbind_def demo_tls_def peer_id_def set_length_prefix_def)
  ultimately have "send_data demo_env 1 (set_length_prefix [7, 7, 7]) demo_globals =
      mbind (dispatch_on_request demo_env (ucast (0 :: u32)) (WriteFile \<lparr>data_file_name = ''/a'', data_data = [1]\<rparr>))
        (\<lambda>response. case response of None \<Rightarrow> mreturn ()
          | Some data \<Rightarrow> on_session 1 (return_data (env_tls demo_env) data))
        (demo_globals\<lparr>sessions := (sessions demo_globals)(1 \<mapsto> ?s)\<rparr>)"
    by (intro send_data_request) (simp_all add: isize_max_def)
  then show ?thesis
    by (simp add: dispatch_on_request_def on_protocol_None demo_globals_def globals_init_def mbind_def)
qed

end
